(* ===== verification/Dig_Prelude.thy ===== *)
theory Dig_Prelude
  imports Main "HOL-Library.Word"
begin

text \<open>
  What every component of the development shares.

  \<^item> Bytes, byte strings and Rust strings. A Rust \<open>String\<close> is a sequence of UTF-8 bytes; it is
    modelled as an Isabelle \<open>string\<close> (one \<open>char\<close> per byte), so that \<open>length\<close> is Rust's \<open>len\<close>,
    with \<open>as_bytes\<close> and \<open>from_utf8\<close> between the two.
  \<^item> The outcome of a computation: a value, an error (the \<open>Err\<close> of a Rust \<open>Result\<close>), a panic, or
    a crash of the whole machine (used by the persistence components only).
  \<^item> State-passing computations and their sequencing, which is what the \<open>?\<close> operator does: an
    early exit keeps the state reached so far.
  \<^item> Triples over such computations, with one postcondition for normal return and one for
    every early exit, and the collections \<open>triple_rules\<close> and \<open>outcome_simps\<close>.
  \<^item> The interface of an encoder and a decoder, as a pair of locales.
\<close>

section \<open>Bytes and strings\<close>

type_synonym byte = "8 word"
type_synonym bytes = "byte list"
type_synonym u32 = "32 word"

definition byte_of_char :: "char \<Rightarrow> byte" where
  "byte_of_char c = word_of_nat (of_char c)"

definition char_of_byte :: "byte \<Rightarrow> char" where
  "char_of_byte b = char_of (unat b)"

lemma char_of_byte_of_char [simp]: "char_of_byte (byte_of_char c) = c"
proof -
  have "(of_char c :: nat) < 256" by (rule nat_of_char_less_256)
  then show ?thesis
    by (simp add: char_of_byte_def byte_of_char_def unat_of_nat)
qed

lemma byte_of_char_of_byte [simp]: "byte_of_char (char_of_byte b) = b"
proof -
  have "unat b < 256" using unsigned_less [of b, where ?'a = nat] by simp
  then show ?thesis
    by (simp add: char_of_byte_def byte_of_char_def)
qed

text \<open>\<open>str::as_bytes\<close>.\<close>

definition as_bytes :: "string \<Rightarrow> bytes" where
  "as_bytes s = map byte_of_char s"

lemma as_bytes_simps [simp]:
  "as_bytes [] = []"
  "as_bytes (c # s) = byte_of_char c # as_bytes s"
  "as_bytes (s @ t) = as_bytes s @ as_bytes t"
  by (simp_all add: as_bytes_def)

lemma length_as_bytes [simp]: "length (as_bytes s) = length s"
  by (simp add: as_bytes_def)

lemma map_char_of_as_bytes [simp]: "map char_of_byte (as_bytes s) = s"
  by (simp add: as_bytes_def comp_def)

lemma as_bytes_map_char_of [simp]: "as_bytes (map char_of_byte bs) = bs"
  by (simp add: as_bytes_def comp_def)

lemma as_bytes_inject [simp]: "as_bytes s = as_bytes t \<longleftrightarrow> s = t"
  by (metis map_char_of_as_bytes)

text \<open>Well-formed UTF-8, by the byte ranges of the Unicode standard that Rust's checker uses.\<close>

definition utf8_cont :: "byte \<Rightarrow> bool" where
  "utf8_cont b \<longleftrightarrow> 0x80 \<le> b \<and> b \<le> 0xBF"

fun valid_utf8 :: "bytes \<Rightarrow> bool" where
  "valid_utf8 [] = True"
| "valid_utf8 (a # bs) =
     (if a < 0x80 then valid_utf8 bs
      else if 0xC2 \<le> a \<and> a \<le> 0xDF then
        (case bs of b # r \<Rightarrow> utf8_cont b \<and> valid_utf8 r | _ \<Rightarrow> False)
      else if 0xE0 \<le> a \<and> a \<le> 0xEF then
        (case bs of b # c # r \<Rightarrow>
            (if a = 0xE0 then 0xA0 \<le> b \<and> b \<le> 0xBF
             else if a = 0xED then 0x80 \<le> b \<and> b \<le> 0x9F
             else utf8_cont b) \<and> utf8_cont c \<and> valid_utf8 r
         | _ \<Rightarrow> False)
      else if 0xF0 \<le> a \<and> a \<le> 0xF4 then
        (case bs of b # c # d # r \<Rightarrow>
            (if a = 0xF0 then 0x90 \<le> b \<and> b \<le> 0xBF
             else if a = 0xF4 then 0x80 \<le> b \<and> b \<le> 0x8F
             else utf8_cont b) \<and> utf8_cont c \<and> utf8_cont d \<and> valid_utf8 r
         | _ \<Rightarrow> False)
      else False)"

text \<open>\<open>String::from_utf8\<close>: the string of these bytes, or nothing when they are not UTF-8.\<close>

definition from_utf8 :: "bytes \<Rightarrow> string option" where
  "from_utf8 bs = (if valid_utf8 bs then Some (map char_of_byte bs) else None)"

lemma from_utf8_as_bytes [simp]:
  "valid_utf8 (as_bytes s) \<Longrightarrow> from_utf8 (as_bytes s) = Some s"
  by (simp add: from_utf8_def)

lemma from_utf8_SomeD: "from_utf8 bs = Some s \<Longrightarrow> as_bytes s = bs \<and> valid_utf8 (as_bytes s)"
  by (auto simp: from_utf8_def split: if_splits)

section \<open>Outcomes\<close>

datatype ('e, 'a) outcome =
    Ok 'a
  | Err 'e
  | Panicked
  | Crashed

named_theorems outcome_simps "sequencing of outcomes and of state-passing computations"

fun bind :: "('e, 'a) outcome \<Rightarrow> ('a \<Rightarrow> ('e, 'b) outcome) \<Rightarrow> ('e, 'b) outcome" where
  "bind (Ok a) f = f a"
| "bind (Err e) f = Err e"
| "bind Panicked f = Panicked"
| "bind Crashed f = Crashed"

lemma bind_eq_Ok: "bind m f = Ok b \<longleftrightarrow> (\<exists>a. m = Ok a \<and> f a = Ok b)"
  by (cases m) auto

lemma bind_Ok_right [simp]: "bind m Ok = m"
  by (cases m) simp_all

text \<open>\<open>Result::map_err\<close> on the result of a call into another crate.\<close>

fun map_err :: "('x \<Rightarrow> 'e) \<Rightarrow> 'x + 'a \<Rightarrow> ('e, 'a) outcome" where
  "map_err f (Inl x) = Err (f x)"
| "map_err f (Inr a) = Ok a"

lemma map_err_eq_Ok [simp]: "map_err f r = Ok a \<longleftrightarrow> r = Inr a"
  by (cases r) auto

lemma map_err_neq [simp]: "map_err f r \<noteq> Panicked" "map_err f r \<noteq> Crashed"
  by (cases r; simp)+

section \<open>State-passing computations\<close>

type_synonym ('s, 'e, 'a) action = "'s \<Rightarrow> ('e, 'a) outcome \<times> 's"

definition ret :: "'a \<Rightarrow> ('s, 'e, 'a) action" where
  "ret a = (\<lambda>s. (Ok a, s))"

definition throw :: "'e \<Rightarrow> ('s, 'e, 'a) action" where
  "throw e = (\<lambda>s. (Err e, s))"

text \<open>A computation that does not touch the state.\<close>

definition pure_act :: "('e, 'a) outcome \<Rightarrow> ('s, 'e, 'a) action" where
  "pure_act r = (\<lambda>s. (r, s))"

text \<open>Sequencing: an error, a panic or a crash ends the sequence in the state reached so far.\<close>

definition seq :: "('s, 'e, 'a) action \<Rightarrow> ('a \<Rightarrow> ('s, 'e, 'b) action) \<Rightarrow> ('s, 'e, 'b) action" where
  "seq m f = (\<lambda>s. case m s of
       (Ok a, s') \<Rightarrow> f a s'
     | (Err e, s') \<Rightarrow> (Err e, s')
     | (Panicked, s') \<Rightarrow> (Panicked, s')
     | (Crashed, s') \<Rightarrow> (Crashed, s'))"

lemma ret_apply [simp, outcome_simps]: "ret a s = (Ok a, s)"
  by (simp add: ret_def)

lemma throw_apply [simp, outcome_simps]: "throw e s = (Err e, s)"
  by (simp add: throw_def)

lemma pure_act_apply [simp, outcome_simps]: "pure_act r s = (r, s)"
  by (simp add: pure_act_def)

lemma seq_step [outcome_simps]:
  "m s = (Ok a, s') \<Longrightarrow> seq m f s = f a s'"
  "m s = (Err e, s') \<Longrightarrow> seq m f s = (Err e, s')"
  "m s = (Panicked, s') \<Longrightarrow> seq m f s = (Panicked, s')"
  "m s = (Crashed, s') \<Longrightarrow> seq m f s = (Crashed, s')"
  by (simp_all add: seq_def)

lemma seq_ret [simp, outcome_simps]: "seq (ret a) f = f a"
  by (simp add: seq_def fun_eq_iff)

lemma seq_throw [simp, outcome_simps]: "seq (throw e) f = throw e"
  by (simp add: seq_def fun_eq_iff)

lemma seq_assoc: "seq (seq m f) g = seq m (\<lambda>a. seq (f a) g)"
  by (auto simp: seq_def fun_eq_iff split: prod.splits outcome.splits)

lemma seq_eq_Ok:
  "seq m f s = (Ok b, t) \<longleftrightarrow> (\<exists>a s'. m s = (Ok a, s') \<and> f a s' = (Ok b, t))"
  by (auto simp: seq_def split: prod.splits outcome.splits)

section \<open>Triples\<close>

text \<open>
  \<open>triple P m Q E\<close>: from a state with \<open>P\<close>, the computation \<open>m\<close> either returns a value and a state
  related by \<open>Q\<close>, or exits early (an error, a panic, a crash) in a state with \<open>E\<close>.
\<close>

definition triple ::
  "('s \<Rightarrow> bool) \<Rightarrow> ('s, 'e, 'a) action \<Rightarrow> ('a \<Rightarrow> 's \<Rightarrow> bool) \<Rightarrow> ('s \<Rightarrow> bool) \<Rightarrow> bool" where
  "triple P m Q E \<longleftrightarrow>
     (\<forall>s. P s \<longrightarrow> (case m s of (Ok a, s') \<Rightarrow> Q a s' | (_, s') \<Rightarrow> E s'))"

abbreviation keeps :: "('s \<Rightarrow> bool) \<Rightarrow> ('s, 'e, 'a) action \<Rightarrow> bool" where
  "keeps I m \<equiv> triple I m (\<lambda>_. I) I"

named_theorems triple_rules "triples of the sequencing operators and of the operations"

lemma triple_Ok: "triple P m Q E \<Longrightarrow> P s \<Longrightarrow> m s = (Ok a, s') \<Longrightarrow> Q a s'"
  by (auto simp: triple_def split: prod.splits dest!: spec [of _ s])

lemma triple_exit: "triple P m Q E \<Longrightarrow> P s \<Longrightarrow> m s = (r, s') \<Longrightarrow> (\<And>a. r \<noteq> Ok a) \<Longrightarrow> E s'"
  by (cases r) (auto simp: triple_def dest!: spec [of _ s])

lemma triple_any:
  assumes "triple P m Q E" and "P s" and "\<And>a t. Q a t \<Longrightarrow> E t"
  shows "E (snd (m s))"
proof (cases "m s")
  case (Pair r t)
  then show ?thesis
    using assms by (cases r) (auto simp: triple_def dest!: spec [of _ s])
qed

lemma triple_ret [triple_rules]: "triple (Q a) (ret a) Q E"
  by (simp add: triple_def)

lemma triple_throw [triple_rules]: "triple E (throw e) Q E"
  by (simp add: triple_def)

lemma triple_pure:
  "(\<And>s. P s \<Longrightarrow> E s) \<Longrightarrow> (\<And>s a. P s \<Longrightarrow> r = Ok a \<Longrightarrow> Q a s) \<Longrightarrow> triple P (pure_act r) Q E"
  by (cases r) (auto simp: triple_def)

lemma triple_seq:
  assumes "triple P m Q E" and "\<And>a. triple (Q a) (f a) R E"
  shows "triple P (seq m f) R E"
  unfolding triple_def
proof (intro allI impI)
  fix s assume "P s"
  show "case seq m f s of (Ok a, s') \<Rightarrow> R a s' | (_, s') \<Rightarrow> E s'"
  proof (cases "m s")
    case (Pair r t)
    show ?thesis
    proof (cases r)
      case (Ok a)
      with Pair assms(1) \<open>P s\<close> have "Q a t" by (auto simp: triple_Ok)
      with assms(2) [of a] Pair Ok show ?thesis by (simp add: triple_def seq_def)
    qed (use Pair assms(1) \<open>P s\<close> in \<open>auto simp: triple_def seq_def dest!: spec [of _ s]\<close>)
  qed
qed

lemma triple_weaken:
  assumes "triple P m Q E"
    and "\<And>s. P' s \<Longrightarrow> P s" and "\<And>a s. Q a s \<Longrightarrow> Q' a s" and "\<And>s. E s \<Longrightarrow> E' s"
  shows "triple P' m Q' E'"
  unfolding triple_def
proof (intro allI impI)
  fix s assume "P' s"
  with assms(1,2) have "case m s of (Ok a, s') \<Rightarrow> Q a s' | (_, s') \<Rightarrow> E s'"
    by (simp add: triple_def)
  then show "case m s of (Ok a, s') \<Rightarrow> Q' a s' | (_, s') \<Rightarrow> E' s'"
    using assms(3,4) by (auto split: prod.splits outcome.splits)
qed

lemma triple_if [triple_rules]:
  "(b \<Longrightarrow> triple P m Q E) \<Longrightarrow> (\<not> b \<Longrightarrow> triple P m' Q E) \<Longrightarrow> triple P (if b then m else m') Q E"
  by simp

lemma triple_conj:
  assumes "triple P m Q E" and "triple P' m Q' E'"
  shows "triple (\<lambda>s. P s \<and> P' s) m (\<lambda>a s. Q a s \<and> Q' a s) (\<lambda>s. E s \<and> E' s)"
  unfolding triple_def
proof (intro allI impI)
  fix s assume "P s \<and> P' s"
  with assms have "case m s of (Ok a, s') \<Rightarrow> Q a s' | (_, s') \<Rightarrow> E s'"
    and "case m s of (Ok a, s') \<Rightarrow> Q' a s' | (_, s') \<Rightarrow> E' s'"
    by (simp_all add: triple_def)
  then show "case m s of (Ok a, s') \<Rightarrow> Q a s' \<and> Q' a s' | (_, s') \<Rightarrow> E s' \<and> E' s'"
    by (auto split: prod.splits outcome.splits)
qed

lemma keeps_seq [triple_rules]: "keeps I m \<Longrightarrow> (\<And>a. keeps I (f a)) \<Longrightarrow> keeps I (seq m f)"
  by (rule triple_seq)

lemma keeps_pure_act [triple_rules]: "keeps I (pure_act r)"
  by (cases r) (auto simp: triple_def)

section \<open>Encoders and decoders\<close>

text \<open>
  The contract of a printer and a parser: what a well-formed value prints to parses back to it.
  A strict codec accepts nothing but what it prints.
\<close>

locale codec =
  fixes wf :: "'a \<Rightarrow> bool"
    and enc :: "'a \<Rightarrow> 'b"
    and dec :: "'b \<Rightarrow> 'a option"
  assumes dec_enc: "wf x \<Longrightarrow> dec (enc x) = Some x"
begin

lemma enc_inject: "wf x \<Longrightarrow> wf y \<Longrightarrow> enc x = enc y \<Longrightarrow> x = y"
  by (metis dec_enc option.inject)

end

locale strict_codec = codec +
  assumes dec_strict: "dec e = Some x \<Longrightarrow> wf x \<and> e = enc x"
begin

lemma dec_iff: "dec e = Some x \<longleftrightarrow> wf x \<and> e = enc x"
  using dec_enc dec_strict by blast

end

end
