(* ===== verification/Dig_Crates.thy ===== *)
theory Dig_Crates
  imports Dig_Prelude
begin

text \<open>
  The code dig-tls calls but does not contain: \<open>sha2\<close>, \<open>chia-bls\<close>, \<open>blst\<close>, \<open>x509-parser\<close>,
  \<open>rustls-pemfile\<close>, \<open>rcgen\<close>, \<open>webpki\<close>, \<open>rustls\<close> and \<open>rustls-pki-types\<close>. Nothing is defined for
  it: it is one record of functions, \<open>crates\<close>, an argument \<open>X\<close> of every definition that uses it.
  What a theorem needs to know of these functions is a named predicate on \<open>X\<close>, stated at the end
  of this theory, and appears as a hypothesis of that theorem.

  The values of these crates that dig-tls only passes around (BLS keys, key pairs, certificates,
  trust anchors) are represented by byte strings, any serialisation of them; no definition of the
  development looks inside one. The data dig-tls does fill in itself, the certificate parameters,
  is spelled out as records and datatypes with the source's names.
\<close>

section \<open>Data the code builds for other crates\<close>

type_synonym opaque = bytes

text \<open>\<open>rcgen::DnType\<close>, \<open>KeyUsagePurpose\<close>, \<open>ExtendedKeyUsagePurpose\<close>, \<open>SanType\<close>, \<open>IsCa\<close>: the
  constructors the source uses.\<close>

datatype dn_type = CommonName | OrganizationName
datatype key_usage_purpose = DigitalSignature | KeyCertSign | CrlSign
datatype ext_key_usage_purpose = ServerAuth | ClientAuth
datatype san_type = DnsName string
datatype basic_constraints = Unconstrained | Constrained nat
datatype is_ca = NoCa | ExplicitNoCa | IsCaCa basic_constraints
datatype sig_alg = PKCS_ECDSA_P256_SHA256
datatype custom_extension = OidContent "nat list" bytes

text \<open>\<open>rcgen::CertificateParams\<close>. Times are seconds since the Unix epoch.\<close>

record cert_params =
  not_before :: int
  not_after :: int
  distinguished_name :: "(dn_type \<times> string) list"
  subject_alt_names :: "san_type list"
  key_usages :: "key_usage_purpose list"
  extended_key_usages :: "ext_key_usage_purpose list"
  params_is_ca :: is_ca
  use_authority_key_identifier_extension :: bool
  custom_extensions :: "custom_extension list"

text \<open>
  What the code reads of a parsed certificate: the raw DER of the \<open>SubjectPublicKeyInfo\<close>, and the
  extensions in order, each with its OID as \<open>to_id_string\<close> gives it (dotted decimal) and its value.
\<close>

record x509 =
  subject_pki_raw :: bytes
  x509_extensions :: "(string \<times> bytes) list"

text \<open>A \<open>time::Duration\<close> is represented by its whole seconds, an \<open>OffsetDateTime\<close> by the seconds
  since the epoch.\<close>

definition duration_hours :: "int \<Rightarrow> int" where
  "duration_hours n = n * 3600"

definition duration_days :: "int \<Rightarrow> int" where
  "duration_days n = n * 86400"

text \<open>\<open>webpki::KeyUsage\<close> and the chain signature algorithms of \<open>verify.rs\<close>.\<close>

datatype key_usage = UsageServerAuth | UsageClientAuth
datatype chain_sig_alg = ECDSA_P256_SHA256 | ECDSA_P256_SHA384 | ECDSA_P384_SHA256 | ECDSA_P384_SHA384

text \<open>\<open>rustls::DigitallySignedStruct\<close>: the scheme and the signature.\<close>

record digitally_signed_struct =
  dss_scheme :: nat
  dss_sig :: bytes

section \<open>The functions of the other crates\<close>

record crates =
  sha256_digest :: "bytes \<Rightarrow> bytes"
  \<comment> \<open>chia-bls\<close>
  sk_public_key :: "opaque \<Rightarrow> opaque"
  pk_to_bytes :: "opaque \<Rightarrow> bytes"
  pk_from_bytes :: "bytes \<Rightarrow> opaque option"
  aug_sign :: "opaque \<Rightarrow> bytes \<Rightarrow> opaque"
  sig_to_bytes :: "opaque \<Rightarrow> bytes"
  sig_from_bytes :: "bytes \<Rightarrow> opaque option"
  aug_verify :: "opaque \<Rightarrow> opaque \<Rightarrow> bytes \<Rightarrow> bool"
  \<comment> \<open>blst\<close>
  blst_p1_uncompress :: "bytes \<Rightarrow> opaque option"
  blst_p1_affine_is_inf :: "opaque \<Rightarrow> bool"
  blst_p1_affine_in_g1 :: "opaque \<Rightarrow> bool"
  \<comment> \<open>x509-parser and rustls-pemfile (the items the lazy iterator yields, in order)\<close>
  parse_x509_certificate :: "bytes \<Rightarrow> string + x509"
  pemfile_certs :: "bytes \<Rightarrow> (string + bytes) list"
  \<comment> \<open>rcgen: key pairs (the first argument of generate is the randomness it draws)\<close>
  keypair_generate_for :: "bytes \<Rightarrow> sig_alg \<Rightarrow> string + opaque"
  keypair_from_pem :: "string \<Rightarrow> string + opaque"
  keypair_serialize_pem :: "opaque \<Rightarrow> string"
  keypair_serialize_der :: "opaque \<Rightarrow> bytes"
  keypair_public_key_der :: "opaque \<Rightarrow> bytes"
  \<comment> \<open>rcgen: certificates\<close>
  ia5string_try_from :: "string \<Rightarrow> string + string"
  params_new :: "string list \<Rightarrow> string + cert_params"
  params_from_ca_cert_pem :: "string \<Rightarrow> string + cert_params"
  params_self_signed :: "cert_params \<Rightarrow> opaque \<Rightarrow> string + opaque"
  params_signed_by :: "cert_params \<Rightarrow> opaque \<Rightarrow> opaque \<Rightarrow> opaque \<Rightarrow> string + opaque"
  certificate_pem :: "opaque \<Rightarrow> string"
  \<comment> \<open>time: adding a duration to, or subtracting it from, an OffsetDateTime (None: it panics)\<close>
  offset_date_time_add :: "int \<Rightarrow> int \<Rightarrow> int option"
  offset_date_time_sub :: "int \<Rightarrow> int \<Rightarrow> int option"
  \<comment> \<open>webpki\<close>
  anchor_from_trusted_cert :: "bytes \<Rightarrow> string + opaque"
  end_entity_try_from :: "bytes \<Rightarrow> string + opaque"
  verify_for_usage ::
    "opaque \<Rightarrow> chain_sig_alg list \<Rightarrow> opaque list \<Rightarrow> bytes list \<Rightarrow> int \<Rightarrow> key_usage \<Rightarrow> string + unit"
  \<comment> \<open>rustls and rustls-pki-types\<close>
  ring_supported_schemes :: "nat list"
  rustls_verify_tls12 :: "bytes \<Rightarrow> bytes \<Rightarrow> digitally_signed_struct \<Rightarrow> nat list \<Rightarrow> string + unit"
  rustls_verify_tls13 :: "bytes \<Rightarrow> bytes \<Rightarrow> digitally_signed_struct \<Rightarrow> nat list \<Rightarrow> string + unit"
  private_key_der_try_from :: "bytes \<Rightarrow> string + bytes"
  safe_default_protocol_versions :: "string + unit"
  server_single_cert :: "bytes list \<Rightarrow> bytes \<Rightarrow> string + unit"
  client_auth_cert :: "bytes list \<Rightarrow> bytes \<Rightarrow> string + unit"

section \<open>What theorems assume of them\<close>

text \<open>SHA-256 digests are 32 bytes long.\<close>

definition sha256_length :: "crates \<Rightarrow> bool" where
  "sha256_length X \<longleftrightarrow> (\<forall>m. length (sha256_digest X m) = 32)"

text \<open>Compressed G1 keys are 48 bytes and G2 signatures 96 bytes long.\<close>

definition bls_lengths :: "crates \<Rightarrow> bool" where
  "bls_lengths X \<longleftrightarrow>
     (\<forall>pk. length (pk_to_bytes X pk) = 48) \<and> (\<forall>s. length (sig_to_bytes X s) = 96)"

text \<open>
  A secret key whose public key is a G1 point of the prime-order subgroup other than the identity,
  as \<open>blst\<close> sees it: every secret key but zero, which chia-bls admits too.
\<close>

definition bls_key_ok :: "crates \<Rightarrow> opaque \<Rightarrow> bool" where
  "bls_key_ok X sk \<longleftrightarrow>
     pk_to_bytes X (sk_public_key X sk) \<noteq> replicate 48 0 \<and>
     (\<exists>a. blst_p1_uncompress X (pk_to_bytes X (sk_public_key X sk)) = Some a \<and>
          \<not> blst_p1_affine_is_inf X a \<and> blst_p1_affine_in_g1 X a)"

text \<open>
  The AugScheme is correct: the key and the signature survive serialisation, and a signature made
  with a secret key other than zero verifies under its public key.
\<close>

definition bls_correct :: "crates \<Rightarrow> bool" where
  "bls_correct X \<longleftrightarrow>
     (\<forall>sk. pk_from_bytes X (pk_to_bytes X (sk_public_key X sk)) = Some (sk_public_key X sk)) \<and>
     (\<forall>sk m. sig_from_bytes X (sig_to_bytes X (aug_sign X sk m)) = Some (aug_sign X sk m)) \<and>
     (\<forall>sk m. bls_key_ok X sk \<longrightarrow> aug_verify X (aug_sign X sk m) (sk_public_key X sk) m)"

text \<open>
  A certificate that rcgen signs is read back by rustls-pemfile and x509-parser as what was signed:
  its PEM text is UTF-8 and starts with one certificate, that certificate certifies the subject's
  key, and a custom extension of the parameters under a private-enterprise OID, when it is the only
  one, is found under that OID in dotted decimal, with its content.
\<close>

fun digits_of :: "nat \<Rightarrow> string" where
  "digits_of n =
     (if n < 10 then [''0123456789'' ! n]
      else digits_of (n div 10) @ [''0123456789'' ! (n mod 10)])"

declare digits_of.simps [simp del]

lemma digits_of_eqs:
  "n < 10 \<Longrightarrow> digits_of n = [''0123456789'' ! n]"
  "\<not> n < 10 \<Longrightarrow> digits_of n = digits_of (n div 10) @ [''0123456789'' ! (n mod 10)]"
  by (subst digits_of.simps, simp)+

fun dotted :: "nat list \<Rightarrow> string" where
  "dotted [] = []"
| "dotted [n] = digits_of n"
| "dotted (n # m # ns) = digits_of n @ ''.'' @ dotted (m # ns)"

fun first_extension :: "string \<Rightarrow> (string \<times> bytes) list \<Rightarrow> bytes option" where
  "first_extension oid [] = None"
| "first_extension oid ((i, v) # es) = (if i = oid then Some v else first_extension oid es)"

definition private_oid :: "nat list \<Rightarrow> bool" where
  "private_oid oid \<longleftrightarrow> take 6 oid = [1, 3, 6, 1, 4, 1] \<and> list_all (\<lambda>a. a < 2 ^ 64) oid"

definition reads_back_as :: "crates \<Rightarrow> opaque \<Rightarrow> cert_params \<Rightarrow> opaque \<Rightarrow> bool" where
  "reads_back_as X c p k \<longleftrightarrow>
     valid_utf8 (as_bytes (certificate_pem X c)) \<and>
     (\<exists>der rest x. pemfile_certs X (as_bytes (certificate_pem X c)) = Inr der # rest \<and>
        parse_x509_certificate X der = Inr x \<and>
        subject_pki_raw x = keypair_public_key_der X k \<and>
        (\<forall>oid v. custom_extensions p = [OidContent oid v] \<longrightarrow> private_oid oid \<longrightarrow>
           first_extension (dotted oid) (x509_extensions x) = Some v))"

definition rcgen_reads_back :: "crates \<Rightarrow> bool" where
  "rcgen_reads_back X \<longleftrightarrow>
     (\<forall>p k ic ik c. params_signed_by X p k ic ik = Inr c \<longrightarrow> reads_back_as X c p k)"

text \<open>Default parameters (\<open>CertificateParams::new\<close> of no names) are those of an end entity, without
  names or custom extensions.\<close>

definition rcgen_defaults :: "crates \<Rightarrow> bool" where
  "rcgen_defaults X \<longleftrightarrow> (\<forall>p. params_new X [] = Inr p \<longrightarrow>
     custom_extensions p = [] \<and> params_is_ca p = NoCa \<and> subject_alt_names p = [])"

text \<open>Date arithmetic, where it does not panic, is exact.\<close>

definition time_exact :: "crates \<Rightarrow> bool" where
  "time_exact X \<longleftrightarrow>
     (\<forall>t d r. offset_date_time_add X t d = Some r \<longrightarrow> r = t + d) \<and>
     (\<forall>t d r. offset_date_time_sub X t d = Some r \<longrightarrow> r = t - d)"

text \<open>A key pair survives \<open>serialize_pem\<close> and \<open>from_pem\<close>, and its PEM text is UTF-8.\<close>

definition keypair_round_trip :: "crates \<Rightarrow> bool" where
  "keypair_round_trip X \<longleftrightarrow>
     (\<forall>k. keypair_from_pem X (keypair_serialize_pem X k) = Inr k \<and>
        valid_utf8 (as_bytes (keypair_serialize_pem X k)))"

end
