(* ===== verification/Dig_Error.thy ===== *)
theory Dig_Error
  imports Dig_Prelude
begin

text \<open>
  \<open>error.rs\<close>: the crate's error type, with the text each variant carries, and how it is displayed.
  \<open>std::io::Error\<close> is represented by its kind; the kinds the model itself produces are named and
  \<open>OtherIo\<close> stands for any other failure the operating system may report.
\<close>

datatype io_error =
    NotFound
  | InvalidData
  | IsADirectory
  | OtherIo string

datatype dig_tls_error =
    Ca string
  | CertGen string
  | Parse string
  | RustlsConfig string
  | Io io_error

text \<open>The display texts of the \<open>#[error(...)]\<close> attributes; the text of an I/O error is the standard
  library's, an argument.\<close>

fun display_error :: "(io_error \<Rightarrow> string) \<Rightarrow> dig_tls_error \<Rightarrow> string" where
  "display_error io (Ca m) = ''DigNetwork CA material is invalid: '' @ m"
| "display_error io (CertGen m) = ''node certificate generation failed: '' @ m"
| "display_error io (Parse m) = ''certificate material could not be parsed: '' @ m"
| "display_error io (RustlsConfig m) = ''rustls configuration failed: '' @ m"
| "display_error io (Io e) = ''certificate persistence I/O failed: '' @ io e"

end
