(* ===== verification/Dig_Identity.thy ===== *)
theory Dig_Identity
  imports Dig_Crates
begin

unbundle bit_operations_syntax

text \<open>
  \<open>identity.rs\<close>: the peer id, \<open>SHA-256\<close> of the leaf's \<open>SubjectPublicKeyInfo\<close>, and its hex form.
  The hex loops keep the code's word arithmetic (\<open>u8\<close> shifts, \<open>u32\<close> digits, the truncating
  cast) and its panics: an \<open>unwrap\<close> of \<open>None\<close> and an index out of range are \<open>Panicked\<close>.

  The lemmas: printing never panics; it is the two digits of each byte; parsing never panics,
  accepts exactly the strings of 64 hex digits of either case, and what it accepts prints back in
  lower case. Printing and parsing are an interpretation of the \<open>codec\<close> locale.
\<close>

section \<open>Digits: \<open>char::from_digit\<close> and \<open>char::to_digit\<close> of the standard library\<close>

definition from_digit :: "u32 \<Rightarrow> u32 \<Rightarrow> char option" where
  "from_digit num radix =
     (if num < radix
      then Some (if num < 10 then char_of (unat num + 48) else char_of (unat num - 10 + 97))
      else None)"

definition to_digit :: "char \<Rightarrow> u32 \<Rightarrow> u32 option" where
  "to_digit c radix =
     (let n = (of_char c :: nat);
          d = (if 48 \<le> n \<and> n \<le> 57 then Some (n - 48)
               else if 97 \<le> n \<and> n \<le> 122 then Some (n - 97 + 10)
               else if 65 \<le> n \<and> n \<le> 90 then Some (n - 65 + 10)
               else None)
      in case d of None \<Rightarrow> None
         | Some v \<Rightarrow> if v < unat radix then Some (word_of_nat v) else None)"

section \<open>\<open>PeerId\<close>\<close>

datatype peer_id = PeerId (peer_bytes: bytes)

definition from_bytes :: "bytes \<Rightarrow> peer_id" where
  "from_bytes b = PeerId b"

definition peer_id_as_bytes :: "peer_id \<Rightarrow> bytes" where
  "peer_id_as_bytes p = peer_bytes p"

text \<open>A \<open>PeerId\<close> holds a \<open>[u8; 32]\<close>.\<close>

definition peer_id_wf :: "peer_id \<Rightarrow> bool" where
  "peer_id_wf p \<longleftrightarrow> length (peer_bytes p) = 32"

fun to_hex_loop :: "string \<Rightarrow> bytes \<Rightarrow> ('e, string) outcome" where
  "to_hex_loop s [] = Ok s"
| "to_hex_loop s (b # bs) =
     (case from_digit (ucast (drop_bit 4 b)) 16 of
        None \<Rightarrow> Panicked
      | Some hi \<Rightarrow>
          (case from_digit (ucast (b AND 0x0F)) 16 of
             None \<Rightarrow> Panicked
           | Some lo \<Rightarrow> to_hex_loop ((s @ [hi]) @ [lo]) bs))"

definition to_hex :: "peer_id \<Rightarrow> ('e, string) outcome" where
  "to_hex p = to_hex_loop [] (peer_bytes p)"

text \<open>
  The loop over \<open>hex.as_bytes().chunks(2).enumerate()\<close>. A last chunk of one byte would make
  \<open>chunk[1]\<close> panic, and an index past the end of \<open>out\<close> would panic; the result is otherwise
  \<open>None\<close> at the first character that is no hex digit.
\<close>

fun from_hex_loop :: "nat \<Rightarrow> bytes \<Rightarrow> bytes \<Rightarrow> ('e, bytes option) outcome" where
  "from_hex_loop i out [] = Ok (Some out)"
| "from_hex_loop i out [c] =
     (case to_digit (char_of_byte c) 16 of None \<Rightarrow> Ok None | Some hi \<Rightarrow> Panicked)"
| "from_hex_loop i out (c # d # cs) =
     (case to_digit (char_of_byte c) 16 of
        None \<Rightarrow> Ok None
      | Some hi \<Rightarrow>
          (case to_digit (char_of_byte d) 16 of
             None \<Rightarrow> Ok None
           | Some lo \<Rightarrow>
               if i < length out
               then from_hex_loop (Suc i) (out[i := ucast ((push_bit 4 hi) OR lo)]) cs
               else Panicked))"

definition from_hex :: "string \<Rightarrow> ('e, peer_id option) outcome" where
  "from_hex hex =
     (if length hex \<noteq> 64 then Ok None
      else bind (from_hex_loop 0 (replicate 32 0) (as_bytes hex))
             (\<lambda>out. Ok (map_option PeerId out)))"

text \<open>\<open>Debug\<close> and \<open>Display\<close>.\<close>

definition fmt_debug :: "peer_id \<Rightarrow> ('e, string) outcome" where
  "fmt_debug p = bind (to_hex p) (\<lambda>s. Ok (''PeerId('' @ s @ '')''))"

definition fmt_display :: "peer_id \<Rightarrow> ('e, string) outcome" where
  "fmt_display p = to_hex p"

definition peer_id_from_tls_spki_der :: "crates \<Rightarrow> bytes \<Rightarrow> peer_id" where
  "peer_id_from_tls_spki_der X spki_der = PeerId (sha256_digest X spki_der)"

definition peer_id_from_leaf_cert_der :: "crates \<Rightarrow> bytes \<Rightarrow> peer_id option" where
  "peer_id_from_leaf_cert_der X cert_der =
     (case parse_x509_certificate X cert_der of
        Inl e \<Rightarrow> None
      | Inr x \<Rightarrow> Some (peer_id_from_tls_spki_der X (subject_pki_raw x)))"


section \<open>Digits and bytes\<close>

text \<open>The reference for the digit tables: the sixteen lower-case digits, and ASCII lower case.\<close>

definition hex_char :: "nat \<Rightarrow> char" where
  "hex_char n = ''0123456789abcdef'' ! n"

definition lower :: "char \<Rightarrow> char" where
  "lower c = (if 65 \<le> (of_char c :: nat) \<and> (of_char c :: nat) \<le> 90
              then char_of ((of_char c :: nat) + 32) else c)"

definition is_hex_digit :: "char \<Rightarrow> bool" where
  "is_hex_digit c \<longleftrightarrow> c \<in> set ''0123456789abcdefABCDEF''"

definition hex_string :: "bytes \<Rightarrow> string" where
  "hex_string bs = concat (map (\<lambda>b. [hex_char (unat b div 16), hex_char (unat b mod 16)]) bs)"


text \<open>A digit is one of sixteen, so the digit tables are checked by evaluation over all of them.\<close>

lemma all_digits: "list_all P [0..<16] \<Longrightarrow> n < 16 \<Longrightarrow> P n" for n :: nat
  by (simp add: list_all_iff)

lemma from_digit_table:
  "list_all (\<lambda>n. from_digit (word_of_nat n) 16 = Some (hex_char n)) [0..<16]"
  by code_simp

lemma digit_of_hex_char_table:
  "list_all (\<lambda>n. to_digit (hex_char n) 16 = Some (word_of_nat n)) [0..<16]"
  by code_simp

lemma join_table:
  "list_all (\<lambda>h. list_all (\<lambda>l. (ucast ((push_bit 4 (word_of_nat h :: u32)) OR word_of_nat l) :: byte)
       = word_of_nat (16 * h + l)) [0..<16]) [0..<16]"
  by code_simp

lemma from_digit_16: "unat num < 16 \<Longrightarrow> from_digit num 16 = Some (hex_char (unat num))"
  using all_digits [OF from_digit_table, of "unat num"] by simp

lemma to_digit_hex_char: "n < 16 \<Longrightarrow> to_digit (hex_char n) 16 = Some (word_of_nat n)"
  by (rule all_digits [OF digit_of_hex_char_table])

lemma to_digit_hex_digit:
  "list_all (\<lambda>c. case to_digit c 16 of None \<Rightarrow> False
     | Some v \<Rightarrow> unat v < 16 \<and> hex_char (unat v) = lower c) ''0123456789abcdefABCDEF''"
  by code_simp

lemma hex_digit_ranges:
  "list_all (\<lambda>n. is_hex_digit (char_of n)) ([48..<58] @ [97..<103] @ [65..<71 :: nat])"
  by code_simp

lemma to_digit_Some_is_hex:
  assumes "to_digit c 16 = Some v"
  shows "is_hex_digit c"
proof -
  define n where "n = (of_char c :: nat)"
  have c: "c = char_of n" by (simp add: n_def)
  from assms have "48 \<le> n \<and> n \<le> 57 \<or> 97 \<le> n \<and> n \<le> 102 \<or> 65 \<le> n \<and> n \<le> 70"
    by (auto simp: to_digit_def Let_def n_def [symmetric] split: if_splits)
  then have "n \<in> set ([48..<58] @ [97..<103] @ [65..<71])"
    by (simp only: set_append set_upt Un_iff atLeastLessThan_iff) arith
  then show ?thesis
    unfolding c using hex_digit_ranges [unfolded list_all_iff] by blast
qed

lemma to_digit_SomeD:
  assumes "to_digit c 16 = Some v"
  shows "unat v < 16" and "hex_char (unat v) = lower c"
proof -
  have "c \<in> set ''0123456789abcdefABCDEF''"
    using to_digit_Some_is_hex [OF assms] by (simp only: is_hex_digit_def)
  with to_digit_hex_digit assms show "unat v < 16" and "hex_char (unat v) = lower c"
    by (fastforce simp only: list_all_iff option.case)+
qed

lemma to_digit_None_iff: "to_digit c 16 = None \<longleftrightarrow> \<not> is_hex_digit c"
proof
  assume none: "to_digit c 16 = None"
  show "\<not> is_hex_digit c"
  proof
    assume "is_hex_digit c"
    with to_digit_hex_digit have "case to_digit c 16 of None \<Rightarrow> False
      | Some v \<Rightarrow> unat v < 16 \<and> hex_char (unat v) = lower c"
      unfolding list_all_iff is_hex_digit_def by (rule bspec)
    with none show False by simp
  qed
qed (use to_digit_Some_is_hex in fastforce)

text \<open>The two nibbles of a byte, and the byte of two nibbles.\<close>

lemma unat_byte_less [simp]: "unat (b :: byte) < 256"
  using unsigned_less [of b, where ?'a = nat] by simp

lemma unat_byte_to_u32: "unat (ucast (b :: byte) :: u32) = unat b"
proof -
  have "unat b < 2 ^ 32" by (rule less_le_trans [OF unat_byte_less]) simp
  then show ?thesis by (simp add: unsigned_ucast_eq take_bit_nat_eq_self)
qed

lemma unat_high_nibble: "unat (ucast (drop_bit 4 b) :: u32) = unat (b :: byte) div 16"
proof -
  have "take_bit 8 (unat b) = unat b" by (simp add: take_bit_nat_eq_self)
  then show ?thesis
    unfolding unat_byte_to_u32 by (simp only: unsigned_drop_bit_eq) (simp add: drop_bit_eq_div)
qed

lemma unat_low_nibble: "unat (ucast (b AND 0x0F) :: u32) = unat (b :: byte) mod 16"
proof -
  have "b AND 0x0F = take_bit 4 b" by (simp add: take_bit_eq_mask mask_eq_exp_minus_1)
  then show ?thesis
    unfolding unat_byte_to_u32 by (simp only: unsigned_take_bit_eq) (simp add: take_bit_eq_mod)
qed

lemma unat_join:
  "h < 16 \<Longrightarrow> l < 16 \<Longrightarrow> unat (word_of_nat (16 * h + l) :: byte) = 16 * h + l"
  by (simp add: unat_of_nat del: of_nat_add of_nat_mult)

lemma join_nibbles:
  fixes hi lo :: u32
  assumes "unat hi < 16" and "unat lo < 16"
  shows "(ucast ((push_bit 4 hi) OR lo) :: byte) = word_of_nat (16 * unat hi + unat lo)"
  using all_digits [OF all_digits [OF join_table assms(1)] assms(2)] by simp


section \<open>Printing and parsing\<close>

lemma to_hex_loop_eq: "to_hex_loop s bs = Ok (s @ hex_string bs)"
proof (induction bs arbitrary: s)
  case Nil
  show ?case by (simp add: hex_string_def)
next
  case (Cons b bs)
  have "unat b div 16 < 16" using unat_byte_less [of b] by linarith
  then show ?case
    using Cons by (simp add: from_digit_16 unat_high_nibble unat_low_nibble hex_string_def)
qed

lemma to_hex_eq: "to_hex p = Ok (hex_string (peer_bytes p))"
  by (simp add: to_hex_def to_hex_loop_eq)

lemma length_hex_string: "length (hex_string bs) = 2 * length bs"
  by (induction bs) (simp_all add: hex_string_def)

text \<open>The reference for parsing: the bytes of a string of hex digits.\<close>

fun unhex :: "string \<Rightarrow> bytes option" where
  "unhex [] = Some []"
| "unhex [c] = None"
| "unhex (c # d # cs) =
     (case (to_digit c 16, to_digit d 16, unhex cs) of
        (Some hi, Some lo, Some bs) \<Rightarrow> Some (word_of_nat (16 * unat hi + unat lo) # bs)
      | _ \<Rightarrow> None)"

lemma from_hex_loop_eq:
  assumes "even (length s)" and "i + length s div 2 \<le> length out"
  shows "(from_hex_loop i out (as_bytes s) :: ('e, bytes option) outcome) =
    Ok (map_option (\<lambda>bs. take i out @ bs @ drop (i + length bs) out) (unhex s))"
  using assms
proof (induction s arbitrary: i out rule: unhex.induct)
  case 1
  then show ?case by simp
next
  case (2 c)
  then show ?case by simp
next
  case (3 c d cs)
  show ?case
  proof (cases "\<exists>hi lo. to_digit c 16 = Some hi \<and> to_digit d 16 = Some lo")
    case False
    then show ?thesis by (auto split: option.splits)
  next
    case True
    then obtain hi lo where d: "to_digit c 16 = Some hi" "to_digit d 16 = Some lo" by blast
    define b :: byte where "b = word_of_nat (16 * unat hi + unat lo)"
    have i: "i < length out" using 3(3) by simp
    have j: "ucast ((push_bit 4 hi) OR lo) = b"
      using d by (simp add: b_def join_nibbles to_digit_SomeD)
    have "(from_hex_loop (Suc i) (out[i := b]) (as_bytes cs) :: ('e, bytes option) outcome) =
      Ok (map_option (\<lambda>bs. take (Suc i) (out[i := b]) @ bs @ drop (Suc i + length bs) (out[i := b]))
        (unhex cs))"
      using 3(1) [of "Suc i" "out[i := b]"] 3(2,3) by simp
    moreover have "take (Suc i) (out[i := b]) = take i out @ [b]"
      using i by (simp add: take_Suc_conv_app_nth)
    ultimately show ?thesis
      using d i by (simp add: j b_def option.map_comp comp_def cong: option.map_cong
          split: option.splits)
  qed
qed

lemma length_unhex: "unhex s = Some bs \<Longrightarrow> length s = 2 * length bs"
  by (induction s arbitrary: bs rule: unhex.induct) (auto split: option.splits)

lemma from_hex_eq:
  "(from_hex s :: ('e, peer_id option) outcome) = Ok (if length s = 64 then map_option PeerId (unhex s) else None)"
proof (cases "length s = 64")
  case True
  have "from_hex_loop 0 (replicate 32 0) (as_bytes s) =
      (Ok (map_option (\<lambda>bs. bs @ drop (length bs) (replicate 32 0)) (unhex s)) :: ('e, bytes option) outcome)"
    using from_hex_loop_eq [of s 0 "replicate 32 0"] True by simp
  also have "map_option (\<lambda>bs. bs @ drop (length bs) (replicate 32 0)) (unhex s) = unhex s"
    using True length_unhex [of s] by (cases "unhex s") auto
  finally show ?thesis using True by (simp add: from_hex_def)
next
  case False
  then show ?thesis by (simp add: from_hex_def)
qed

lemma unhex_hex_string: "unhex (hex_string bs) = Some bs"
proof (induction bs)
  case Nil
  show ?case by (simp add: hex_string_def)
next
  case (Cons b bs)
  have "unat b div 16 < 16" and "unat b mod 16 < 16" using unat_byte_less [of b] by linarith+
  then show ?case
    using Cons by (simp add: hex_string_def to_digit_hex_char unat_of_nat)
qed

lemma unhex_None_iff: "unhex s = None \<longleftrightarrow> odd (length s) \<or> (\<exists>c \<in> set s. \<not> is_hex_digit c)"
proof (induction s rule: unhex.induct)
  case (3 c d cs)
  then show ?case
    by (auto split: option.splits simp: to_digit_None_iff [symmetric])
qed simp_all

lemma hex_string_unhex: "unhex s = Some bs \<Longrightarrow> hex_string bs = map lower s"
proof (induction s arbitrary: bs rule: unhex.induct)
  case (3 c d cs)
  then obtain hi lo cs' where d: "to_digit c 16 = Some hi" "to_digit d 16 = Some lo"
    and u: "unhex cs = Some cs'" and bs: "bs = word_of_nat (16 * unat hi + unat lo) # cs'"
    by (auto split: option.splits)
  have n: "unat hi < 16" "unat lo < 16" using d by (auto dest: to_digit_SomeD)
  then show ?case
    using 3(1) [OF u] unat_join [OF n] d
    by (simp add: bs hex_string_def to_digit_SomeD del: of_nat_add of_nat_mult)
qed (simp_all add: hex_string_def)

text \<open>Printing and parsing as functions on peer ids and strings; the panics are gone.\<close>

definition print_id :: "peer_id \<Rightarrow> string" where
  "print_id p = hex_string (peer_bytes p)"

definition parse_id :: "string \<Rightarrow> peer_id option" where
  "parse_id s = (if length s = 64 then map_option PeerId (unhex s) else None)"

lemmas hex_eqs = to_hex_eq [folded print_id_def] from_hex_eq [folded parse_id_def]

interpretation hex: codec peer_id_wf print_id parse_id
proof unfold_locales
  fix p assume "peer_id_wf p"
  then show "parse_id (print_id p) = Some p"
    by (simp add: peer_id_wf_def print_id_def parse_id_def length_hex_string unhex_hex_string)
qed


section \<open>Properties\<close>

lemma parse_id_iff:
  "parse_id s = Some p \<longleftrightarrow>
     length s = 64 \<and> list_all is_hex_digit s \<and> peer_id_wf p \<and> print_id p = map lower s"
proof
  assume p: "parse_id s = Some p"
  then obtain bs where s: "length s = 64" "unhex s = Some bs" and "p = PeerId bs"
    by (auto simp: parse_id_def split: if_splits)
  moreover from s have "list_all is_hex_digit s"
    using unhex_None_iff [of s] by (auto simp: list_all_iff)
  ultimately show "length s = 64 \<and> list_all is_hex_digit s \<and> peer_id_wf p \<and> print_id p = map lower s"
    using length_unhex [of s bs] by (simp add: peer_id_wf_def print_id_def hex_string_unhex)
next
  assume s: "length s = 64 \<and> list_all is_hex_digit s \<and> peer_id_wf p \<and> print_id p = map lower s"
  then obtain bs where u: "unhex s = Some bs"
    using unhex_None_iff [of s] by (cases "unhex s") (auto simp: list_all_iff)
  then have q: "parse_id s = Some (PeerId bs)" using s by (simp add: parse_id_def)
  have "peer_id_wf (PeerId bs)" and "print_id (PeerId bs) = print_id p"
    using s u length_unhex [OF u] by (simp_all add: peer_id_wf_def print_id_def hex_string_unhex)
  then have "PeerId bs = p" using s by (simp add: hex.enc_inject)
  with q show "parse_id s = Some p" by simp
qed

text \<open>
  C36. What \<open>from_hex\<close> accepts: exactly the strings of 64 hex digits, of either case. The id it
  returns is 32 bytes long and prints back as the lower-case form of the input; every other string
  gives \<open>None\<close>, and no input panics (neither \<open>chunk[1]\<close> nor \<open>out[i]\<close> is ever out of range).
  Printing a 32-byte id and parsing the text gives the id back.
\<close>

theorem from_hex_accepts:
  "(from_hex s = Ok (Some p) \<longleftrightarrow>
      length s = 64 \<and> list_all is_hex_digit s \<and> peer_id_wf p \<and> to_hex p = Ok (map lower s)) \<and>
   (from_hex s = Ok None \<longleftrightarrow> length s \<noteq> 64 \<or> \<not> list_all is_hex_digit s) \<and>
   (peer_id_wf q \<longrightarrow> bind (to_hex q) from_hex = Ok (Some q))"
proof -
  have "parse_id s = None \<longleftrightarrow> length s \<noteq> 64 \<or> \<not> list_all is_hex_digit s"
    using unhex_None_iff [of s] by (auto simp: parse_id_def list_all_iff)
  then show ?thesis by (simp add: hex_eqs parse_id_iff hex.dec_enc)
qed

theorem from_hex_accepts_witness:
  "bind (to_hex (PeerId (replicate 32 0xAB))) from_hex = (Ok (Some (PeerId (replicate 32 0xAB))) :: (unit, _) outcome) \<and>
   from_hex [] = (Ok None :: (unit, _) outcome)"
proof -
  have "peer_id_wf (PeerId (replicate 32 0xAB))" by (simp add: peer_id_wf_def)
  then show ?thesis
    by (simp add: from_hex_accepts [THEN conjunct2, THEN conjunct2, rule_format]
        from_hex_accepts [THEN conjunct2, THEN conjunct1])
qed

end
