(* ===== verification/Dig_Demo.thy ===== *)
theory Dig_Demo
  imports Dig_Identity
begin

text \<open>
  A concrete instance of \<open>crates\<close>, on which the witnesses of the properties run: small functions
  that satisfy the laws of \<open>Dig_Crates\<close>, so that the laws are seen to be consistent. It models no
  code. Keys and signatures are padded byte strings, a certificate is the list of its subject
  key, its issuer key and its extension in an escaped form, PEM text is hex, and text that starts
  with a dash stands for the shipped CA.
\<close>

definition demo_pad :: "nat \<Rightarrow> bytes \<Rightarrow> bytes" where
  "demo_pad n b = take n (b @ replicate n 0)"

fun demo_esc :: "bytes \<Rightarrow> bytes" where
  "demo_esc [] = [0]"
| "demo_esc (b # bs) = 1 # b # demo_esc bs"

fun demo_unesc :: "bytes \<Rightarrow> (bytes \<times> bytes) option" where
  "demo_unesc (t # r) =
     (if t = 0 then Some ([], r)
      else case r of [] \<Rightarrow> None
         | b # r' \<Rightarrow> map_option (\<lambda>(bs, q). (b # bs, q)) (demo_unesc r'))"
| "demo_unesc [] = None"

text \<open>The fields of a certificate: key, issuer, OID text and extension value (or neither).\<close>

fun demo_fields :: "nat \<Rightarrow> bytes \<Rightarrow> bytes list" where
  "demo_fields 0 r = []"
| "demo_fields (Suc n) r =
     (case demo_unesc r of None \<Rightarrow> [] | Some (f, q) \<Rightarrow> f # demo_fields n q)"

definition demo_cert :: "cert_params \<Rightarrow> bytes \<Rightarrow> bytes \<Rightarrow> bytes" where
  "demo_cert p k ik = demo_esc k @ demo_esc ik @
     (case custom_extensions p of
        [OidContent oid v] \<Rightarrow> demo_esc (as_bytes (dotted oid)) @ demo_esc v
      | _ \<Rightarrow> [])"

definition demo_parse :: "bytes \<Rightarrow> string + x509" where
  "demo_parse der =
     (case demo_fields 4 der of
        [k, ik] \<Rightarrow> Inr \<lparr>subject_pki_raw = k, x509_extensions = []\<rparr>
      | [k, ik, oid, v] \<Rightarrow>
          Inr \<lparr>subject_pki_raw = k, x509_extensions = [(map char_of_byte oid, v)]\<rparr>
      | _ \<Rightarrow> Inl ''malformed'')"

definition demo_pem :: "string \<Rightarrow> bytes option" where
  "demo_pem s =
     (case s of
        [] \<Rightarrow> Some []
      | c # _ \<Rightarrow> if c = CHR ''-'' then Some [99] else unhex s)"

definition demo_params :: cert_params where
  "demo_params = \<lparr>not_before = 0, not_after = 0, distinguished_name = [], subject_alt_names = [],
     key_usages = [], extended_key_usages = [], params_is_ca = NoCa,
     use_authority_key_identifier_extension = False, custom_extensions = []\<rparr>"

definition demo :: crates where
  "demo = \<lparr>
     sha256_digest = demo_pad 32,
     sk_public_key = (\<lambda>sk. demo_pad 48 (2 # sk)),
     pk_to_bytes = demo_pad 48,
     pk_from_bytes = (\<lambda>b. if length b = 48 then Some b else None),
     aug_sign = (\<lambda>sk m. demo_pad 96 (demo_pad 48 (2 # sk) @ m)),
     sig_to_bytes = demo_pad 96,
     sig_from_bytes = (\<lambda>b. if length b = 96 then Some b else None),
     aug_verify = (\<lambda>s pk m. s = demo_pad 96 (pk @ m)),
     blst_p1_uncompress = (\<lambda>b. if hd b = 2 then Some b else None),
     blst_p1_affine_is_inf = (\<lambda>a. a = []),
     blst_p1_affine_in_g1 = (\<lambda>a. length a = 48),
     parse_x509_certificate = demo_parse,
     pemfile_certs = (\<lambda>b. case demo_pem (map char_of_byte b) of None \<Rightarrow> [] | Some d \<Rightarrow> [Inr d]),
     keypair_generate_for = (\<lambda>r alg. Inr r),
     keypair_from_pem = (\<lambda>s. case demo_pem s of None \<Rightarrow> Inl ''bad key'' | Some k \<Rightarrow> Inr k),
     keypair_serialize_pem = hex_string,
     keypair_serialize_der = (\<lambda>k. k),
     keypair_public_key_der = (\<lambda>k. k),
     ia5string_try_from = Inr,
     params_new = (\<lambda>_. Inr demo_params),
     params_from_ca_cert_pem = (\<lambda>_. Inr demo_params),
     params_self_signed = (\<lambda>p k. Inr (demo_cert p k k)),
     params_signed_by = (\<lambda>p k ic ik. Inr (demo_cert p k ik)),
     certificate_pem = hex_string,
     offset_date_time_add = (\<lambda>t d. if - 377705116800 \<le> t + d \<and> t + d \<le> 253402300799 then Some (t + d) else None),
     offset_date_time_sub = (\<lambda>t d. if - 377705116800 \<le> t - d \<and> t - d \<le> 253402300799 then Some (t - d) else None),
     anchor_from_trusted_cert = Inr,
     end_entity_try_from = (\<lambda>der. case demo_parse der of Inl e \<Rightarrow> Inl e | Inr _ \<Rightarrow> Inr der),
     verify_for_usage = (\<lambda>ee algs anchors inter now usage.
        case demo_fields 2 ee of
          [k, ik] \<Rightarrow> if ik = [99] then Inr () else Inl ''UnknownIssuer''
        | _ \<Rightarrow> Inl ''malformed''),
     ring_supported_schemes = [0x0403, 0x0503],
     rustls_verify_tls12 = (\<lambda>m c dss algs. if dss_sig dss = m then Inr () else Inl ''bad signature''),
     rustls_verify_tls13 = (\<lambda>m c dss algs. if dss_sig dss = m then Inr () else Inl ''bad signature''),
     private_key_der_try_from = Inr,
     safe_default_protocol_versions = Inr (),
     server_single_cert = (\<lambda>chain key. Inr ()),
     client_auth_cert = (\<lambda>chain key. Inr ())\<rparr>"

lemma length_demo_pad [simp]: "length (demo_pad n b) = n"
  by (simp add: demo_pad_def)

lemma demo_pad_id [simp]: "length b = n \<Longrightarrow> demo_pad n b = b"
  by (simp add: demo_pad_def)

lemma demo_pad_pad [simp]: "demo_pad n (demo_pad n b) = demo_pad n b"
  by simp

lemma hd_demo_pad: "0 < n \<Longrightarrow> hd (demo_pad n (b # bs)) = b"
  by (cases n) (simp_all add: demo_pad_def)

lemma demo_unesc_esc [simp]: "demo_unesc (demo_esc b @ r) = Some (b, r)"
  by (induction b) simp_all

lemma demo_unesc_esc_end [simp]: "demo_unesc (demo_esc b) = Some (b, [])"
  using demo_unesc_esc [of b "[]"] by simp

lemma demo_parse_cert:
  "\<exists>x. demo_parse (demo_cert p k ik) = Inr x \<and> subject_pki_raw x = k \<and>
     (\<forall>oid v. custom_extensions p = [OidContent oid v] \<longrightarrow>
        x509_extensions x = [(dotted oid, v)]) \<and>
     (custom_extensions p = [] \<longrightarrow> x509_extensions x = [])"
proof -
  have four: "(4::nat) = Suc (Suc (Suc (Suc 0)))" by simp
  show ?thesis
    by (simp add: demo_parse_def demo_cert_def four
        split: list.split custom_extension.split)
qed

text \<open>Hex text is ASCII, hence UTF-8.\<close>

lemma hex_char_ascii: "n < 16 \<Longrightarrow> byte_of_char (hex_char n) < 0x80"
  by (rule all_digits [where P = "\<lambda>n. byte_of_char (hex_char n) < 0x80"]) code_simp

lemma valid_utf8_ascii: "list_all (\<lambda>b. b < 0x80) bs \<Longrightarrow> valid_utf8 bs"
  by (induction bs) simp_all

lemma valid_utf8_hex [simp]: "valid_utf8 (as_bytes (hex_string bs))"
proof (rule valid_utf8_ascii)
  show "list_all (\<lambda>b. b < 0x80) (as_bytes (hex_string bs))"
  proof (induction bs)
    case (Cons b bs)
    have "unat b div 16 < 16" using unat_byte_less [of b] by linarith
    with Cons show ?case by (simp add: hex_string_def hex_char_ascii)
  qed (simp add: hex_string_def)
qed

lemma demo_pem_hex [simp]: "demo_pem (hex_string b) = Some b"
proof (cases b)
  case (Cons x xs)
  have "unat x div 16 < 16" using unat_byte_less [of x] by linarith
  then have "hex_char (unat x div 16) \<noteq> CHR ''-''"
    by (rule all_digits [where P = "\<lambda>n. hex_char n \<noteq> CHR ''-''", rotated]) code_simp
  moreover have "hd (hex_string b) = hex_char (unat x div 16)" and "hex_string b \<noteq> []"
    using Cons by (simp_all add: hex_string_def)
  ultimately show ?thesis
    by (auto simp: demo_pem_def unhex_hex_string split: list.split)
qed (simp add: demo_pem_def hex_string_def)

text \<open>The laws hold of the instance.\<close>

lemma demo_sha256_length: "sha256_length demo"
  by (simp add: sha256_length_def demo_def)

lemma demo_bls_lengths: "bls_lengths demo"
  by (simp add: bls_lengths_def demo_def)

lemma demo_bls_correct: "bls_correct demo"
  by (simp add: bls_correct_def demo_def)

lemma demo_bls_key_ok: "bls_key_ok demo sk"
proof -
  have "demo_pad 48 (2 # sk) \<noteq> replicate 48 0" for sk
  proof
    assume "demo_pad 48 (2 # sk) = replicate 48 0"
    then have "hd (demo_pad 48 (2 # sk)) = 0" by simp
    then show False by (simp add: hd_demo_pad)
  qed
  moreover have "demo_pad 48 b \<noteq> []" for b
    using length_demo_pad [of 48 b] by (metis length_0_conv zero_neq_numeral)
  ultimately show ?thesis
    by (simp add: bls_key_ok_def demo_def hd_demo_pad)
qed

lemma demo_rcgen_reads_back: "rcgen_reads_back demo"
proof -
  have "reads_back_as demo (demo_cert p k ik) p k" for p k ik
    using demo_parse_cert [of p k ik] by (force simp: reads_back_as_def demo_def)
  then show ?thesis by (simp add: rcgen_reads_back_def demo_def)
qed

lemma demo_rcgen_defaults: "rcgen_defaults demo"
  by (simp add: rcgen_defaults_def demo_def demo_params_def)

lemma demo_time_exact: "time_exact demo"
  by (simp add: time_exact_def demo_def)

lemma demo_keypair_round_trip: "keypair_round_trip demo"
  by (simp add: keypair_round_trip_def demo_def)

lemmas demo_laws =
  demo_sha256_length demo_bls_lengths demo_bls_correct demo_bls_key_ok
  demo_rcgen_reads_back demo_rcgen_defaults demo_time_exact demo_keypair_round_trip

end
