(* ===== verification/Dig_Bls.thy ===== *)
theory Dig_Bls
  imports Dig_Crates
begin

text \<open>
  \<open>bls.rs\<close>: the BLS12-381 primitives on raw bytes. Every function fails closed: malformed bytes
  give \<open>False\<close>, never an error or a panic. The lemmas give the exact condition under which each
  check accepts, and that what \<open>sign_message\<close> produces \<open>verify_signature\<close> accepts.
\<close>

definition G1_ZERO :: bytes where
  "G1_ZERO = replicate 48 0"

definition public_key_bytes :: "crates \<Rightarrow> opaque \<Rightarrow> bytes" where
  "public_key_bytes X sk = pk_to_bytes X (sk_public_key X sk)"

definition g1_subgroup_check :: "crates \<Rightarrow> bytes \<Rightarrow> bool" where
  "g1_subgroup_check X pk =
     (if pk = G1_ZERO then False
      else case blst_p1_uncompress X pk of
          None \<Rightarrow> False
        | Some affine \<Rightarrow>
            if blst_p1_affine_is_inf X affine then False
            else blst_p1_affine_in_g1 X affine)"

definition sign_message :: "crates \<Rightarrow> opaque \<Rightarrow> bytes \<Rightarrow> bytes" where
  "sign_message X sk msg = sig_to_bytes X (aug_sign X sk msg)"

definition verify_signature :: "crates \<Rightarrow> bytes \<Rightarrow> bytes \<Rightarrow> bytes \<Rightarrow> bool" where
  "verify_signature X pk msg sig =
     (case (pk_from_bytes X pk, sig_from_bytes X sig) of
        (Some pk', Some sig') \<Rightarrow> aug_verify X sig' pk' msg
      | _ \<Rightarrow> False)"

lemma g1_subgroup_check_iff:
  "g1_subgroup_check X pk \<longleftrightarrow>
     pk \<noteq> G1_ZERO \<and>
     (\<exists>a. blst_p1_uncompress X pk = Some a \<and> \<not> blst_p1_affine_is_inf X a \<and> blst_p1_affine_in_g1 X a)"
  by (auto simp: g1_subgroup_check_def split: option.splits)

lemma verify_signature_iff:
  "verify_signature X pk msg sig \<longleftrightarrow>
     (\<exists>k s. pk_from_bytes X pk = Some k \<and> sig_from_bytes X sig = Some s \<and> aug_verify X s k msg)"
  by (auto simp: verify_signature_def split: option.splits)

lemma verify_sign_message:
  assumes "bls_correct X" and "bls_key_ok X sk"
  shows "verify_signature X (public_key_bytes X sk) msg (sign_message X sk msg)"
  using assms
  by (simp add: verify_signature_def public_key_bytes_def sign_message_def bls_correct_def)

lemma g1_subgroup_check_public_key:
  assumes "bls_key_ok X sk"
  shows "g1_subgroup_check X (public_key_bytes X sk)"
  using assms
  by (auto simp: g1_subgroup_check_iff public_key_bytes_def bls_key_ok_def G1_ZERO_def)

lemma bls_lengths_bytes [simp]:
  assumes "bls_lengths X"
  shows "length (public_key_bytes X sk) = 48" and "length (sign_message X sk msg) = 96"
  using assms by (simp_all add: bls_lengths_def public_key_bytes_def sign_message_def)

end
