(* ===== verification/Dig_Binding.thy ===== *)
theory Dig_Binding
  imports Dig_Bls Dig_Identity Dig_Demo
begin

text \<open>
  \<open>binding.rs\<close>: the BLS binding of a leaf certificate. The version-1 extension value and its
  parser (an interpretation of \<open>strict_codec\<close>), the signed message, the verification of a leaf's
  binding with its early returns in the code's order, the policy, and the attachment of a binding
  to certificate parameters.

  The lemmas give the exact condition of every outcome, the order of the policies by strictness,
  and the anti-substitution property: a binding proves that the holder of the BLS key signed this
  leaf's SPKI.
\<close>

section \<open>Constants\<close>

definition DIG_BLS_BINDING_OID :: "nat list" where
  "DIG_BLS_BINDING_OID = [1, 3, 6, 1, 4, 1, 58968, 1, 1]"

definition DIG_BLS_BINDING_OID_STR :: string where
  "DIG_BLS_BINDING_OID_STR = ''1.3.6.1.4.1.58968.1.1''"

definition BINDING_VERSION_V1 :: byte where
  "BINDING_VERSION_V1 = 1"

definition BINDING_V1_LEN :: nat where
  "BINDING_V1_LEN = 1 + 48 + 96"

definition BINDING_SIG_CONTEXT :: bytes where
  "BINDING_SIG_CONTEXT = as_bytes ''dig-nat/cert-bls-binding/v1''"

section \<open>The extension value\<close>

definition binding_message :: "bytes \<Rightarrow> bytes" where
  "binding_message spki_der = BINDING_SIG_CONTEXT @ spki_der"

definition encode_binding_extension_value :: "bytes \<Rightarrow> bytes \<Rightarrow> bytes" where
  "encode_binding_extension_value pub sig = [BINDING_VERSION_V1] @ pub @ sig"

record cert_bls_binding =
  bls_pub :: bytes
  bls_sig :: bytes

definition parse_binding_extension_value :: "bytes \<Rightarrow> cert_bls_binding option" where
  "parse_binding_extension_value value =
     (case value of
        [] \<Rightarrow> None
      | v # _ \<Rightarrow>
          if v \<noteq> BINDING_VERSION_V1 \<or> length value \<noteq> BINDING_V1_LEN then None
          else Some \<lparr>bls_pub = take 48 (drop 1 value), bls_sig = take 96 (drop 49 value)\<rparr>)"

text \<open>The fields are a \<open>[u8; 48]\<close> and a \<open>[u8; 96]\<close>.\<close>

definition binding_wf :: "cert_bls_binding \<Rightarrow> bool" where
  "binding_wf b \<longleftrightarrow> length (bls_pub b) = 48 \<and> length (bls_sig b) = 96"

section \<open>Outcome and policy\<close>

datatype binding_outcome =
    Bound bytes
  | Absent
  | Invalid string

datatype binding_policy =
    Off
  | Opportunistic
  | Required

definition default_policy :: binding_policy where
  "default_policy = Opportunistic"

fun evaluate :: "binding_outcome \<Rightarrow> binding_policy \<Rightarrow> (string, bytes option) outcome" where
  "evaluate _ Off = Ok None"
| "evaluate (Bound pub) _ = Ok (Some pub)"
| "evaluate Absent Opportunistic = Ok None"
| "evaluate (Invalid reason) Opportunistic = Err reason"
| "evaluate Absent Required = Err ''cert BLS binding required but absent (possible downgrade)''"
| "evaluate (Invalid reason) Required = Err reason"

section \<open>Verification\<close>

text \<open>The loop over the extensions: the value of the first one with the binding's OID.\<close>

fun find_binding_value :: "(string \<times> bytes) list \<Rightarrow> bytes option" where
  "find_binding_value [] = None"
| "find_binding_value ((oid, v) # es) =
     (if oid = DIG_BLS_BINDING_OID_STR then Some v else find_binding_value es)"

definition verify_binding_from_leaf_cert :: "crates \<Rightarrow> bytes \<Rightarrow> binding_outcome" where
  "verify_binding_from_leaf_cert X cert_der =
     (case parse_x509_certificate X cert_der of
        Inl _ \<Rightarrow> Invalid ''leaf certificate could not be parsed as X.509''
      | Inr x509 \<Rightarrow>
         (let spki_der = subject_pki_raw x509 in
          case find_binding_value (x509_extensions x509) of
             None \<Rightarrow> Absent
           | Some value \<Rightarrow>
              (case parse_binding_extension_value value of
                 None \<Rightarrow> Invalid ''binding extension malformed or unknown version''
               | Some binding \<Rightarrow>
                  if \<not> g1_subgroup_check X (bls_pub binding)
                  then Invalid ''binding BLS pubkey failed the G1 subgroup check''
                  else if \<not> verify_signature X (bls_pub binding) (binding_message spki_der) (bls_sig binding)
                  then Invalid ''binding BLS self-attestation did not verify over the SPKI''
                  else Bound (bls_pub binding))))"

section \<open>Attachment\<close>

definition attach_binding :: "crates \<Rightarrow> cert_params \<Rightarrow> opaque \<Rightarrow> opaque \<Rightarrow> cert_params" where
  "attach_binding X params key_pair bls_sk =
     (let spki_der = keypair_public_key_der X key_pair;
          pub = public_key_bytes X bls_sk;
          sig = sign_message X bls_sk (binding_message spki_der);
          ext_value = encode_binding_extension_value pub sig
      in params\<lparr>custom_extensions :=
           custom_extensions params @ [OidContent DIG_BLS_BINDING_OID ext_value]\<rparr>)"

section \<open>The codec of the extension value\<close>

definition encode_binding :: "cert_bls_binding \<Rightarrow> bytes" where
  "encode_binding b = encode_binding_extension_value (bls_pub b) (bls_sig b)"

lemmas v1_defs = BINDING_VERSION_V1_def BINDING_V1_LEN_def

lemma parse_encode_binding:
  "binding_wf b \<Longrightarrow> parse_binding_extension_value (encode_binding b) = Some b"
  by (simp add: parse_binding_extension_value_def encode_binding_def binding_wf_def
      encode_binding_extension_value_def v1_defs)

lemma parse_binding_SomeD:
  assumes "parse_binding_extension_value v = Some b"
  shows "binding_wf b \<and> v = encode_binding b"
proof -
  obtain r where v: "v = BINDING_VERSION_V1 # r" "length r = 144"
    and b: "b = \<lparr>bls_pub = take 48 r, bls_sig = take 96 (drop 48 r)\<rparr>"
    using assms
    by (auto simp: parse_binding_extension_value_def v1_defs split: list.splits if_splits)
  have "take 96 (drop 48 r) = drop 48 r" using v(2) by simp
  with v b show ?thesis
    by (simp add: binding_wf_def encode_binding_def encode_binding_extension_value_def)
qed

interpretation v1: strict_codec binding_wf encode_binding parse_binding_extension_value
  by unfold_locales (auto dest: parse_encode_binding parse_binding_SomeD)

lemma parse_binding_None_iff:
  "parse_binding_extension_value v = None \<longleftrightarrow>
     length v \<noteq> 145 \<or> hd v \<noteq> BINDING_VERSION_V1"
  by (auto simp: parse_binding_extension_value_def v1_defs split: list.splits)

lemma binding_message_inject [simp]: "binding_message s = binding_message t \<longleftrightarrow> s = t"
  by (simp add: binding_message_def)

section \<open>Outcomes of verification\<close>

lemma find_binding_value_eq:
  "find_binding_value es = first_extension DIG_BLS_BINDING_OID_STR es"
  by (induction es rule: find_binding_value.induct) simp_all

text \<open>What a valid binding is: the abstract statement the verifier implements.\<close>

definition binds :: "crates \<Rightarrow> x509 \<Rightarrow> bytes \<Rightarrow> bool" where
  "binds X x pub \<longleftrightarrow>
     (\<exists>sig. first_extension DIG_BLS_BINDING_OID_STR (x509_extensions x)
              = Some (encode_binding_extension_value pub sig) \<and>
            length pub = 48 \<and> length sig = 96 \<and> g1_subgroup_check X pub \<and>
            verify_signature X pub (binding_message (subject_pki_raw x)) sig)"

lemma verify_binding_Bound_iff:
  "verify_binding_from_leaf_cert X der = Bound pub \<longleftrightarrow>
     (\<exists>x. parse_x509_certificate X der = Inr x \<and> binds X x pub)"
proof (cases "parse_x509_certificate X der")
  case (Inl e)
  then show ?thesis by (simp add: verify_binding_from_leaf_cert_def)
next
  case (Inr x)
  let ?v = "first_extension DIG_BLS_BINDING_OID_STR (x509_extensions x)"
  have "verify_binding_from_leaf_cert X der = Bound pub \<longleftrightarrow>
      (\<exists>b. (\<exists>v. ?v = Some v \<and> parse_binding_extension_value v = Some b) \<and> bls_pub b = pub \<and>
        g1_subgroup_check X pub \<and>
        verify_signature X pub (binding_message (subject_pki_raw x)) (bls_sig b))"
    using Inr by (auto simp: verify_binding_from_leaf_cert_def find_binding_value_eq Let_def
        split: option.splits if_splits)
  also have "\<dots> \<longleftrightarrow> binds X x pub"
    unfolding v1.dec_iff binds_def
    by (auto simp: encode_binding_def binding_wf_def)
      (metis cert_bls_binding.select_convs)
  finally show ?thesis using Inr by simp
qed

lemma verify_binding_Absent_iff:
  "verify_binding_from_leaf_cert X der = Absent \<longleftrightarrow>
     (\<exists>x. parse_x509_certificate X der = Inr x \<and>
          first_extension DIG_BLS_BINDING_OID_STR (x509_extensions x) = None)"
  by (auto simp: verify_binding_from_leaf_cert_def find_binding_value_eq Let_def
      split: sum.splits option.splits if_splits)

section \<open>Policies by strictness\<close>

definition strictness :: "binding_policy \<Rightarrow> nat" where
  "strictness p = (case p of Off \<Rightarrow> 0 | Opportunistic \<Rightarrow> 1 | Required \<Rightarrow> 2)"

instantiation binding_policy :: linorder
begin

definition less_eq_binding_policy :: "binding_policy \<Rightarrow> binding_policy \<Rightarrow> bool" where
  "less_eq_binding_policy p q \<longleftrightarrow> strictness p \<le> strictness q"

definition less_binding_policy :: "binding_policy \<Rightarrow> binding_policy \<Rightarrow> bool" where
  "less_binding_policy p q \<longleftrightarrow> strictness p < strictness q"

instance
  by standard
    (auto simp: less_eq_binding_policy_def less_binding_policy_def strictness_def
      split: binding_policy.splits)

end

lemma evaluate_cases:
  "evaluate b p =
     (case b of
        Bound k \<Rightarrow> Ok (if p = Off then None else Some k)
      | Absent \<Rightarrow> if p = Required then Err ''cert BLS binding required but absent (possible downgrade)'' else Ok None
      | Invalid r \<Rightarrow> if p = Off then Ok None else Err r)"
  by (cases b; cases p) simp_all

lemma evaluate_no_panic [simp]: "evaluate b p \<noteq> Panicked" "evaluate b p \<noteq> Crashed"
  by (simp_all add: evaluate_cases split: binding_outcome.splits)

lemma binding_oid_private: "private_oid DIG_BLS_BINDING_OID"
  by (simp add: private_oid_def DIG_BLS_BINDING_OID_def)

lemma first_extension_attach:
  assumes "reads_back_as X c (attach_binding X p k sk) k" and "custom_extensions p = []"
  shows "\<exists>der rest x. pemfile_certs X (as_bytes (certificate_pem X c)) = Inr der # rest \<and>
     parse_x509_certificate X der = Inr x \<and> subject_pki_raw x = keypair_public_key_der X k \<and>
     first_extension (dotted DIG_BLS_BINDING_OID) (x509_extensions x) =
       Some (encode_binding_extension_value (public_key_bytes X sk)
         (sign_message X sk (binding_message (keypair_public_key_der X k))))"
  using assms by (auto simp: reads_back_as_def attach_binding_def Let_def binding_oid_private)

text \<open>
  The OID the writer puts into a certificate (arcs) and the string the verifier searches for are
  the same OID.
\<close>

lemma oid_forms_agree: "dotted DIG_BLS_BINDING_OID = DIG_BLS_BINDING_OID_STR"
  by (simp add: DIG_BLS_BINDING_OID_def DIG_BLS_BINDING_OID_STR_def digits_of_eqs)

text \<open>A certificate signed over parameters with an attached binding verifies as bound.\<close>

lemma attached_binding_bound:
  assumes laws: "bls_correct X" "bls_lengths X" "bls_key_ok X sk"
    and c: "reads_back_as X c (attach_binding X p k sk) k" "custom_extensions p = []"
    and der: "pemfile_certs X (as_bytes (certificate_pem X c)) = Inr der # rest"
  shows "verify_binding_from_leaf_cert X der = Bound (public_key_bytes X sk)"
proof -
  from first_extension_attach [OF c] der obtain x where
    x: "parse_x509_certificate X der = Inr x" "subject_pki_raw x = keypair_public_key_der X k"
    and e: "first_extension DIG_BLS_BINDING_OID_STR (x509_extensions x) =
       Some (encode_binding_extension_value (public_key_bytes X sk)
         (sign_message X sk (binding_message (keypair_public_key_der X k))))"
    by (auto simp: oid_forms_agree)
  have "binds X x (public_key_bytes X sk)"
    unfolding binds_def using e laws x(2)
    by (auto simp: g1_subgroup_check_public_key verify_sign_message)
  then show ?thesis using x(1) by (auto simp: verify_binding_Bound_iff)
qed

section \<open>Properties\<close>

text \<open>
  C22. The version-1 extension value is an exact codec: \<open>parse_binding_extension_value\<close> returns a
  binding precisely on the 145-byte value that \<open>encode_binding_extension_value\<close> produces for a
  48-byte key and a 96-byte signature, so every other byte string is refused and no binding has
  two encodings.
\<close>

theorem binding_value_codec:
  "parse_binding_extension_value v = Some b \<longleftrightarrow>
     length (bls_pub b) = 48 \<and> length (bls_sig b) = 96 \<and>
     v = encode_binding_extension_value (bls_pub b) (bls_sig b)"
  by (auto simp: v1.dec_iff binding_wf_def encode_binding_def)

text \<open>
  C8. A leaf verifies as \<open>Bound pub\<close> exactly when it parses and its first binding extension is the
  version-1 value of \<open>pub\<close> and a signature that verifies under \<open>pub\<close> over this leaf's own SPKI,
  with \<open>pub\<close> a non-identity point of the subgroup: the chain of early returns checks all of the
  abstract binding and nothing else.
\<close>

theorem verified_binding_iff:
  "verify_binding_from_leaf_cert X der = Bound pub \<longleftrightarrow>
     (\<exists>x sig. parse_x509_certificate X der = Inr x \<and>
        first_extension DIG_BLS_BINDING_OID_STR (x509_extensions x) =
          Some (encode_binding_extension_value pub sig) \<and>
        length pub = 48 \<and> length sig = 96 \<and> g1_subgroup_check X pub \<and>
        verify_signature X pub (BINDING_SIG_CONTEXT @ subject_pki_raw x) sig)"
  by (auto simp: verify_binding_Bound_iff binds_def binding_message_def)

text \<open>
  The signature a leaf carries in its binding extension. \<open>S\<close> is unforged for \<open>pub\<close> when a signature
  of \<open>S\<close> verifies under \<open>pub\<close> only over messages the key's holder has signed, the set \<open>M\<close>: of the
  signatures that exist, as opposed to all byte strings, this is what a signature scheme promises.
\<close>

definition carries_signature :: "crates \<Rightarrow> bytes \<Rightarrow> bytes \<Rightarrow> bool" where
  "carries_signature X der s \<longleftrightarrow>
     (\<exists>x v b. parse_x509_certificate X der = Inr x \<and>
        first_extension DIG_BLS_BINDING_OID_STR (x509_extensions x) = Some v \<and>
        parse_binding_extension_value v = Some b \<and> bls_sig b = s)"

definition unforged :: "crates \<Rightarrow> bytes \<Rightarrow> bytes set \<Rightarrow> bytes set \<Rightarrow> bool" where
  "unforged X pub S M \<longleftrightarrow> (\<forall>s \<in> S. \<forall>m. verify_signature X pub m s \<longrightarrow> m \<in> M)"

text \<open>
  C9. Anti-substitution. Let \<open>S\<close> be the signatures in circulation, from which anyone may take one for
  the leaf it presents, and suppose that none is a forgery for the key \<open>pub\<close>, whose holder signed
  the messages \<open>M\<close>: among them the binding messages of its own certificates' SPKIs \<open>own\<close> and of no
  others, beside anything not of the form of a binding message. Then a presented leaf that
  verifies as bound to \<open>pub\<close> certifies one of the keys \<open>own\<close>, and has its peer id: a binding
  replayed on another certificate, or a key swapped in for the signer's, does not verify.
\<close>

theorem anti_substitution:
  assumes "unforged X pub S M" and "\<And>spki. binding_message spki \<in> M \<Longrightarrow> spki \<in> own"
    and "carries_signature X der s" and "s \<in> S"
    and "verify_binding_from_leaf_cert X der = Bound pub"
  shows "\<exists>x. parse_x509_certificate X der = Inr x \<and> subject_pki_raw x \<in> own \<and>
    peer_id_from_leaf_cert_der X der = Some (peer_id_from_tls_spki_der X (subject_pki_raw x))"
proof -
  obtain x sig where x: "parse_x509_certificate X der = Inr x"
    "first_extension DIG_BLS_BINDING_OID_STR (x509_extensions x) = Some (encode_binding_extension_value pub sig)"
    "length pub = 48" "length sig = 96"
    "verify_signature X pub (binding_message (subject_pki_raw x)) sig"
    using assms(5) by (auto simp: verify_binding_Bound_iff binds_def)
  have "sig = s"
    using assms(3) x(1-4) v1.dec_enc [of "\<lparr>bls_pub = pub, bls_sig = sig\<rparr>"]
    by (auto simp: carries_signature_def binding_wf_def encode_binding_def)
  with assms(1,4) x(5) have "binding_message (subject_pki_raw x) \<in> M" by (auto simp: unforged_def)
  with assms(2) x(1) show ?thesis by (auto simp: peer_id_from_leaf_cert_der_def)
qed

text \<open>
  The policy decisions. \<open>evaluate\<close> hands back a key only for a verified binding and never under
  \<open>Off\<close>; it admits a peer without a key only under \<open>Off\<close>, or under \<open>Opportunistic\<close> when the
  binding is absent; and a stricter policy only ever refuses more: what \<open>q\<close> accepts, every
  laxer \<open>p\<close> accepts, with the same key unless \<open>p\<close> is \<open>Off\<close>.
\<close>

lemma policy_decisions:
  assumes "p \<le> q" and "evaluate b q = Ok r"
  shows "(evaluate b p = Ok r \<or> p = Off \<and> evaluate b p = Ok None) \<and>
    (\<forall>k. r = Some k \<longleftrightarrow> q \<noteq> Off \<and> b = Bound k)"
  using assms
  by (cases b; cases p; cases q)
    (auto simp: less_eq_binding_policy_def strictness_def)

lemma policy_decisions_example:
  "(evaluate (Bound [7]) Opportunistic = Ok (Some [7]) \<or>
      Opportunistic = Off \<and> evaluate (Bound [7]) Opportunistic = Ok None) \<and>
   (\<forall>k. Some [7] = Some k \<longleftrightarrow> Required \<noteq> Off \<and> Bound [7] = Bound k)"
  by (rule policy_decisions) (simp_all add: less_eq_binding_policy_def strictness_def)

text \<open>
  C37. A binding extension of an unknown version, or of the wrong length, makes the leaf invalid, so
  both \<open>Opportunistic\<close> and \<open>Required\<close> refuse the peer. (The comment on the parser and SPEC section
  4 say that such a value counts as no binding at all, which \<open>Opportunistic\<close> would accept.)
\<close>

theorem unknown_version_is_refused:
  assumes "parse_x509_certificate X der = Inr x"
    and "first_extension DIG_BLS_BINDING_OID_STR (x509_extensions x) = Some v"
    and "length v \<noteq> 145 \<or> hd v \<noteq> BINDING_VERSION_V1" and "p \<noteq> Off"
  shows "evaluate (verify_binding_from_leaf_cert X der) p =
    Err ''binding extension malformed or unknown version''"
proof -
  have "parse_binding_extension_value v = None" using assms(3) by (simp add: parse_binding_None_iff)
  then have "verify_binding_from_leaf_cert X der =
      Invalid ''binding extension malformed or unknown version''"
    using assms(1,2) by (simp add: verify_binding_from_leaf_cert_def find_binding_value_eq)
  then show ?thesis using assms(4) by (simp add: evaluate_cases)
qed

text \<open>A leaf of the concrete instance, with key 5 and an extension value of version 2.\<close>

definition demo_leaf :: "bytes \<Rightarrow> bytes \<Rightarrow> bytes" where
  "demo_leaf k v = demo_cert (demo_params\<lparr>custom_extensions := [OidContent DIG_BLS_BINDING_OID v]\<rparr>) k [99]"

lemma demo_leaf_parses:
  "parse_x509_certificate demo (demo_leaf k v) =
     Inr \<lparr>subject_pki_raw = k, x509_extensions = [(DIG_BLS_BINDING_OID_STR, v)]\<rparr>"
proof -
  obtain x where "demo_parse (demo_leaf k v) = Inr x" "subject_pki_raw x = k"
    "x509_extensions x = [(DIG_BLS_BINDING_OID_STR, v)]"
    using demo_parse_cert
      [of "demo_params\<lparr>custom_extensions := [OidContent DIG_BLS_BINDING_OID v]\<rparr>" k "[99]"]
    by (auto simp: demo_leaf_def oid_forms_agree)
  then show ?thesis by (simp add: demo_def)
qed

theorem unknown_version_is_refused_witness:
  "evaluate (verify_binding_from_leaf_cert demo (demo_leaf [5] [2, 0, 0])) Opportunistic =
    Err ''binding extension malformed or unknown version''"
  by (rule unknown_version_is_refused [OF demo_leaf_parses, where v = "[2, 0, 0]"]) simp_all

text \<open>
  For anti-substitution: the holder of the secret key \<open>[7]\<close> has bound the SPKI \<open>[5]\<close>; its signature,
  with its key, is replayed on a leaf for the SPKI \<open>[6]\<close>. (A signature of the concrete instance
  verifies over the messages with the same 48 first bytes.)
\<close>

definition demo_replay :: bytes where
  "demo_replay = demo_leaf [6] (encode_binding_extension_value (public_key_bytes demo [7])
     (sign_message demo [7] (binding_message [5])))"

theorem anti_substitution_witness:
  "carries_signature demo demo_replay (sign_message demo [7] (binding_message [5])) \<and>
   verify_binding_from_leaf_cert demo demo_replay \<noteq> Bound (public_key_bytes demo [7])"
proof -
  let ?pub = "public_key_bytes demo [7]" and ?sig = "sign_message demo [7] (binding_message [5])"
  let ?M = "{m. demo_pad 48 m = demo_pad 48 (binding_message [5])}"
  have halves: "demo_pad 96 (a @ n) = a @ demo_pad 48 n" if "length a = 48" for a n
    using that by (simp add: demo_pad_def replicate_add [of 48 48, simplified])
  have "unforged demo ?pub {?sig} ?M"
    by (auto simp: unforged_def verify_signature_iff public_key_bytes_def sign_message_def demo_def halves)
  moreover have c: "carries_signature demo demo_replay ?sig"
    using v1.dec_enc [of "\<lparr>bls_pub = ?pub, bls_sig = ?sig\<rparr>"] bls_lengths_bytes [OF demo_bls_lengths]
    unfolding carries_signature_def demo_replay_def demo_leaf_parses
    by (auto simp: binding_wf_def encode_binding_def)
  moreover have "\<not> binding_message [6] \<in> ?M" by code_simp
  ultimately show ?thesis
    using anti_substitution [of demo ?pub "{?sig}" ?M "{spki. binding_message spki \<in> ?M}" demo_replay ?sig]
    by (auto simp: demo_replay_def demo_leaf_parses)
qed

end
