(* ===== verification/Dig_NodeCert.thy ===== *)
theory Dig_NodeCert
  imports Dig_Ca Dig_Binding
begin

text \<open>
  The part of \<open>node_cert.rs\<close> that touches no disk: the node certificate, minting one, and loading
  one from PEM with the check that the certificate certifies the key. The invariant
  \<open>node_cert_wf\<close> holds of every node certificate the code can produce, and a well-formed one is
  exactly what its PEM pair loads as, so \<open>(cert_pem, key_pem)\<close> and \<open>from_pem\<close> are a strict codec.
\<close>

definition LEAF_LIFETIME :: int where
  "LEAF_LIFETIME = duration_days (365 * 10)"

definition LEAF_SAN :: string where
  "LEAF_SAN = ''peer.dig''"

record node_cert =
  cert_pem :: string
  key_pem :: string
  cert_der :: bytes
  key_der :: bytes
  spki_der :: bytes
  node_peer_id :: peer_id

record rotated_node_cert =
  previous :: node_cert
  current :: node_cert

definition into_current :: "rotated_node_cert \<Rightarrow> node_cert" where
  "into_current r = current r"

text \<open>\<open>Debug\<close>: the peer id and a placeholder for the key.\<close>

definition fmt_node_cert :: "node_cert \<Rightarrow> ('e, string) outcome" where
  "fmt_node_cert n =
     bind (fmt_debug (node_peer_id n)) (\<lambda>p.
     Ok (''NodeCert { peer_id: '' @ p @ '', key_pem: '' @ [CHR 0x22] @ ''<redacted>'' @ [CHR 0x22] @ '' }''))"

definition from_parts :: "crates \<Rightarrow> string \<Rightarrow> string \<Rightarrow> opaque \<Rightarrow> (dig_tls_error, node_cert) outcome" where
  "from_parts X cpem kpem key =
     bind (case first_pem_cert X cpem of
             None \<Rightarrow> Err (Parse ''leaf PEM has no certificate'')
           | Some der \<Rightarrow> Ok der) (\<lambda>der.
     (let kder = keypair_serialize_der X key;
          spki = keypair_public_key_der X key
      in bind (map_err (\<lambda>e. Parse (''leaf certificate is not valid X.509: '' @ e))
                (parse_x509_certificate X der)) (\<lambda>x509.
         if subject_pki_raw x509 \<noteq> spki
         then Err (Parse ''cert/key mismatch: the certificate does not certify the supplied private key'')
         else Ok \<lparr>cert_pem = cpem, key_pem = kpem, cert_der = der, key_der = kder, spki_der = spki,
                  node_peer_id = peer_id_from_tls_spki_der X spki\<rparr>)))"

definition from_pem :: "crates \<Rightarrow> string \<Rightarrow> string \<Rightarrow> (dig_tls_error, node_cert) outcome" where
  "from_pem X cpem kpem =
     bind (map_err (\<lambda>e. Parse (''parse leaf key: '' @ e)) (keypair_from_pem X kpem)) (\<lambda>key.
     from_parts X cpem kpem key)"

definition leaf_params :: "cert_params \<Rightarrow> int \<Rightarrow> int \<Rightarrow> string \<Rightarrow> cert_params" where
  "leaf_params params nb na san = params\<lparr>
     not_before := nb,
     not_after := na,
     distinguished_name := [(CommonName, LEAF_SAN)],
     subject_alt_names := [DnsName san],
     key_usages := [DigitalSignature],
     extended_key_usages := [ServerAuth, ClientAuth]\<rparr>"

definition generate_signed_by ::
  "crates \<Rightarrow> dig_ca \<Rightarrow> opaque \<Rightarrow> bytes \<Rightarrow> int \<Rightarrow> (dig_tls_error, node_cert) outcome" where
  "generate_signed_by X ca bls_sk rnd now =
     bind (map_err (\<lambda>e. CertGen (''generate leaf key: '' @ e))
            (keypair_generate_for X rnd PKCS_ECDSA_P256_SHA256)) (\<lambda>leaf_key.
     bind (map_err (\<lambda>e. CertGen (''leaf params: '' @ e)) (params_new X [])) (\<lambda>params.
     bind (or_panic (offset_date_time_sub X now CLOCK_SKEW_BACKDATE)) (\<lambda>nb.
     bind (or_panic (offset_date_time_add X now LEAF_LIFETIME)) (\<lambda>na.
     bind (map_err (\<lambda>e. CertGen (''leaf SAN: '' @ e)) (ia5string_try_from X LEAF_SAN)) (\<lambda>san.
     bind (map_err (\<lambda>e. CertGen (''sign leaf: '' @ e))
            (params_signed_by X (attach_binding X (leaf_params params nb na san) leaf_key bls_sk)
               leaf_key (ca_cert ca) (ca_key ca))) (\<lambda>cert.
     from_parts X (certificate_pem X cert) (keypair_serialize_pem X leaf_key) leaf_key))))))"

definition generate_signed ::
  "crates \<Rightarrow> opaque \<Rightarrow> bytes \<Rightarrow> int \<Rightarrow> (dig_tls_error, node_cert) outcome" where
  "generate_signed X bls_sk rnd now =
     bind (embedded X) (\<lambda>ca. generate_signed_by X ca bls_sk rnd now)"

text \<open>What a handshake is given.\<close>

definition rustls_cert_chain :: "node_cert \<Rightarrow> bytes list" where
  "rustls_cert_chain n = [cert_der n]"

definition rustls_private_key :: "crates \<Rightarrow> node_cert \<Rightarrow> ('e, bytes) outcome" where
  "rustls_private_key X n =
     (case private_key_der_try_from X (key_der n) of Inl _ \<Rightarrow> Panicked | Inr k \<Rightarrow> Ok k)"

section \<open>The invariant, and loading as a strict codec\<close>

definition node_cert_wf :: "crates \<Rightarrow> node_cert \<Rightarrow> bool" where
  "node_cert_wf X n \<longleftrightarrow>
     node_peer_id n = peer_id_from_tls_spki_der X (spki_der n) \<and>
     first_pem_cert X (cert_pem n) = Some (cert_der n) \<and>
     (case parse_x509_certificate X (cert_der n) of
        Inl _ \<Rightarrow> False | Inr x \<Rightarrow> subject_pki_raw x = spki_der n) \<and>
     (case keypair_from_pem X (key_pem n) of
        Inl _ \<Rightarrow> False
      | Inr key \<Rightarrow> key_der n = keypair_serialize_der X key \<and> spki_der n = keypair_public_key_der X key)"

lemma from_parts_Ok:
  "from_parts X cpem kpem key = Ok n \<longleftrightarrow>
     (\<exists>der x. first_pem_cert X cpem = Some der \<and> parse_x509_certificate X der = Inr x \<and>
        subject_pki_raw x = keypair_public_key_der X key \<and>
        n = \<lparr>cert_pem = cpem, key_pem = kpem, cert_der = der, key_der = keypair_serialize_der X key,
             spki_der = keypair_public_key_der X key,
             node_peer_id = peer_id_from_tls_spki_der X (keypair_public_key_der X key)\<rparr>)"
  by (auto simp: from_parts_def bind_eq_Ok Let_def split: option.splits)

lemma from_parts_no_panic [simp]:
  "from_parts X cpem kpem key \<noteq> Panicked" "from_parts X cpem kpem key \<noteq> Crashed"
  by (cases "first_pem_cert X cpem"; cases "parse_x509_certificate X (the (first_pem_cert X cpem))";
      simp add: from_parts_def Let_def)+

definition persisted :: "node_cert \<Rightarrow> string \<times> string" where
  "persisted n = (cert_pem n, key_pem n)"

definition reload :: "crates \<Rightarrow> string \<times> string \<Rightarrow> node_cert option" where
  "reload X p = (case from_pem X (fst p) (snd p) of Ok n \<Rightarrow> Some n | _ \<Rightarrow> None)"

lemma from_pem_Ok_iff:
  "from_pem X cpem kpem = Ok n \<longleftrightarrow> node_cert_wf X n \<and> cert_pem n = cpem \<and> key_pem n = kpem"
proof
  assume "from_pem X cpem kpem = Ok n"
  then obtain key where "keypair_from_pem X kpem = Inr key" and "from_parts X cpem kpem key = Ok n"
    by (auto simp: from_pem_def bind_eq_Ok)
  then show "node_cert_wf X n \<and> cert_pem n = cpem \<and> key_pem n = kpem"
    by (auto simp: from_parts_Ok node_cert_wf_def)
next
  assume n: "node_cert_wf X n \<and> cert_pem n = cpem \<and> key_pem n = kpem"
  then obtain key x where "keypair_from_pem X kpem = Inr key"
    "parse_x509_certificate X (cert_der n) = Inr x"
    "key_der n = keypair_serialize_der X key" "spki_der n = keypair_public_key_der X key"
    "subject_pki_raw x = spki_der n"
    by (auto simp: node_cert_wf_def split: sum.splits)
  with n show "from_pem X cpem kpem = Ok n"
    by (cases n) (auto simp: from_pem_def from_parts_Ok node_cert_wf_def)
qed

interpretation pem: strict_codec "node_cert_wf X" persisted "reload X" for X
proof unfold_locales
  fix n assume "node_cert_wf X n"
  then have "from_pem X (cert_pem n) (key_pem n) = Ok n" by (simp add: from_pem_Ok_iff)
  then show "reload X (persisted n) = Some n" by (simp add: reload_def persisted_def)
next
  fix e n assume "reload X e = Some n"
  then have "from_pem X (fst e) (snd e) = Ok n" by (simp add: reload_def split: outcome.splits)
  then show "node_cert_wf X n \<and> e = persisted n"
    by (cases e) (simp add: from_pem_Ok_iff persisted_def)
qed


lemma mismatched_pair_Err:
  assumes "node_cert_wf X a" and "node_cert_wf X b" and "spki_der a \<noteq> spki_der b"
  shows "from_pem X (cert_pem a) (key_pem b) =
    Err (Parse ''cert/key mismatch: the certificate does not certify the supplied private key'')"
proof -
  obtain x where "parse_x509_certificate X (cert_der a) = Inr x" "subject_pki_raw x = spki_der a"
    using assms(1) by (auto simp: node_cert_wf_def split: sum.splits)
  moreover obtain key where "keypair_from_pem X (key_pem b) = Inr key"
    "spki_der b = keypair_public_key_der X key"
    using assms(2) by (auto simp: node_cert_wf_def split: sum.splits)
  ultimately show ?thesis
    using assms by (auto simp: from_pem_def from_parts_def node_cert_wf_def)
qed

section \<open>Minting\<close>

lemma generate_signed_by_Ok:
  "generate_signed_by X ca sk rnd now = Ok n \<longleftrightarrow>
     (\<exists>key params nb na san cert. keypair_generate_for X rnd PKCS_ECDSA_P256_SHA256 = Inr key \<and>
        params_new X [] = Inr params \<and>
        offset_date_time_sub X now CLOCK_SKEW_BACKDATE = Some nb \<and>
        offset_date_time_add X now LEAF_LIFETIME = Some na \<and>
        ia5string_try_from X LEAF_SAN = Inr san \<and>
        params_signed_by X (attach_binding X (leaf_params params nb na san) key sk)
          key (ca_cert ca) (ca_key ca) = Inr cert \<and>
        from_parts X (certificate_pem X cert) (keypair_serialize_pem X key) key = Ok n)"
  by (auto simp: generate_signed_by_def bind_eq_Ok)

lemma generate_signed_Ok:
  "generate_signed X sk rnd now = Ok n \<longleftrightarrow>
     (\<exists>ca. embedded X = Ok ca \<and> generate_signed_by X ca sk rnd now = Ok n)"
  by (auto simp: generate_signed_def bind_eq_Ok)

lemma custom_extensions_leaf_params [simp]:
  "custom_extensions (leaf_params p nb na san) = custom_extensions p"
  by (simp add: leaf_params_def)

text \<open>A minted certificate loads back from its own PEM pair.\<close>

lemma generate_signed_by_wf:
  assumes "keypair_round_trip X" and "generate_signed_by X ca sk rnd now = Ok n"
  shows "node_cert_wf X n"
proof -
  obtain key cert where
    "from_parts X (certificate_pem X cert) (keypair_serialize_pem X key) key = Ok n"
    using assms(2) by (auto simp: generate_signed_by_Ok)
  moreover have "keypair_from_pem X (keypair_serialize_pem X key) = Inr key"
    using assms(1) by (simp add: keypair_round_trip_def)
  ultimately have "from_pem X (certificate_pem X cert) (keypair_serialize_pem X key) = Ok n"
    by (simp add: from_pem_def)
  then show ?thesis by (simp add: from_pem_Ok_iff)
qed

lemma generate_signed_wf:
  "keypair_round_trip X \<Longrightarrow> generate_signed X sk rnd now = Ok n \<Longrightarrow> node_cert_wf X n"
  by (auto simp: generate_signed_Ok intro: generate_signed_by_wf)

text \<open>The texts a minted certificate is persisted as are UTF-8.\<close>

lemma generate_signed_by_utf8:
  assumes "rcgen_reads_back X" "keypair_round_trip X" "generate_signed_by X ca sk rnd now = Ok n"
  shows "valid_utf8 (as_bytes (cert_pem n)) \<and> valid_utf8 (as_bytes (key_pem n))"
  using assms
  by (fastforce simp: generate_signed_by_Ok from_parts_Ok rcgen_reads_back_def reads_back_as_def
      keypair_round_trip_def)

lemma generate_signed_by_bound:
  assumes laws: "rcgen_reads_back X" "rcgen_defaults X" "bls_correct X" "bls_lengths X" "bls_key_ok X sk"
    and gen: "generate_signed_by X ca sk rnd now = Ok n"
  shows "verify_binding_from_leaf_cert X (cert_der n) = Bound (public_key_bytes X sk)"
proof -
  obtain key params nb na san cert where p: "params_new X [] = Inr params"
    and c: "params_signed_by X (attach_binding X (leaf_params params nb na san) key sk)
          key (ca_cert ca) (ca_key ca) = Inr cert"
    and n: "from_parts X (certificate_pem X cert) (keypair_serialize_pem X key) key = Ok n"
    using gen by (auto simp: generate_signed_by_Ok)
  have d: "custom_extensions (leaf_params params nb na san) = []"
    using laws(2) p by (simp add: rcgen_defaults_def)
  have r: "reads_back_as X cert (attach_binding X (leaf_params params nb na san) key sk) key"
    using laws(1) c by (simp add: rcgen_reads_back_def)
  have "first_pem_cert X (certificate_pem X cert) = Some (cert_der n)"
    using n by (auto simp: from_parts_Ok)
  then obtain rest where
    "pemfile_certs X (as_bytes (certificate_pem X cert)) = Inr (cert_der n) # rest"
    by (auto simp: first_pem_cert_def split: list.splits sum.splits)
  then show ?thesis by (rule attached_binding_bound [OF laws(3-5) r d])
qed

text \<open>On the concrete instance every mint succeeds within the range of dates.\<close>

lemma demo_embedded: "\<exists>ca. embedded demo = Ok ca \<and> ca_key ca = [99]"
proof -
  obtain cs where "DIG_CA_KEY_PEM = CHR ''-'' # cs"
    by (simp add: DIG_CA_KEY_PEM_def pem_text_def)
  then have "demo_pem DIG_CA_KEY_PEM = demo_pem (CHR ''-'' # cs)" by (rule arg_cong)
  then have "demo_pem DIG_CA_KEY_PEM = Some [99]" by (simp add: demo_pem_def)
  then show ?thesis
    by (simp add: embedded_def ca_from_pem_def demo_def)
qed

lemma demo_generate_signed_by:
  assumes "0 \<le> now" and "now \<le> 1000000"
  shows "\<exists>n. generate_signed_by demo ca sk rnd now = Ok n \<and> spki_der n = rnd \<and>
    cert_der n = demo_cert (attach_binding demo (leaf_params demo_params (now - 3600)
      (now + 315360000) LEAF_SAN) rnd sk) rnd (ca_key ca)"
proof -
  let ?p = "attach_binding demo (leaf_params demo_params (now - 3600) (now + 315360000) LEAF_SAN) rnd sk"
  obtain x where x: "demo_parse (demo_cert ?p rnd (ca_key ca)) = Inr x" "subject_pki_raw x = rnd"
    using demo_parse_cert [of ?p rnd "ca_key ca"] by blast
  have "params_signed_by demo ?p rnd (ca_cert ca) (ca_key ca) = Inr (demo_cert ?p rnd (ca_key ca))"
    by (simp add: demo_def)
  then show ?thesis
    using assms x
    by (simp add: generate_signed_by_def from_parts_def first_pem_cert_def demo_def Let_def
        CLOCK_SKEW_BACKDATE_def LEAF_LIFETIME_def duration_hours_def duration_days_def
        del: as_bytes_simps)
qed

lemma demo_generate_signed:
  assumes "0 \<le> now" and "now \<le> 1000000"
  shows "\<exists>n. generate_signed demo sk rnd now = Ok n \<and> spki_der n = rnd"
  using demo_embedded demo_generate_signed_by [OF assms]
  by (force simp: generate_signed_Ok)

section \<open>Properties\<close>

text \<open>
  C21. What \<open>from_pem\<close> accepts. It returns a node certificate exactly when that certificate carries
  the two texts it was given and is well formed: its DER is the first certificate of the PEM, its
  SPKI is both the one the certificate certifies and the one of the private key, and its peer id
  is the digest of that SPKI. A pair that agrees with no such certificate is refused, and nothing
  else is.
\<close>

theorem from_pem_iff_wf:
  "from_pem X cpem kpem = Ok n \<longleftrightarrow> node_cert_wf X n \<and> cert_pem n = cpem \<and> key_pem n = kpem"
  by (rule from_pem_Ok_iff)

text \<open>
  C19. A minted certificate. Whatever CA signs it, the certificate \<open>generate_signed_by\<close> returns is
  well formed (so it reloads from its PEM pair), its binding verifies as bound to the caller's BLS
  key (any secret key but zero), and what was signed is an end-entity certificate for both
  directions of the handshake, valid from one hour before \<open>now\<close> to 3650 days after it.
\<close>

theorem minted_leaf:
  assumes "rcgen_reads_back X" "rcgen_defaults X" "keypair_round_trip X" "time_exact X"
    and "bls_correct X" "bls_lengths X" "bls_key_ok X sk"
    and gen: "generate_signed_by X ca sk rnd now = Ok n"
  shows "from_pem X (cert_pem n) (key_pem n) = Ok n \<and>
     verify_binding_from_leaf_cert X (cert_der n) = Bound (public_key_bytes X sk) \<and>
     (\<exists>p key c. params_signed_by X p key (ca_cert ca) (ca_key ca) = Inr c \<and>
        cert_pem n = certificate_pem X c \<and> spki_der n = keypair_public_key_der X key \<and>
        extended_key_usages p = [ServerAuth, ClientAuth] \<and> key_usages p = [DigitalSignature] \<and>
        params_is_ca p = NoCa \<and> not_before p = now - 3600 \<and> not_after p = now + 3650 * 86400)"
proof (intro conjI)
  show "from_pem X (cert_pem n) (key_pem n) = Ok n"
    using generate_signed_by_wf [OF assms(3) gen] by (simp add: from_pem_Ok_iff)
  show "verify_binding_from_leaf_cert X (cert_der n) = Bound (public_key_bytes X sk)"
    by (rule generate_signed_by_bound [OF assms(1,2,5,6,7) gen])
  show "\<exists>p key c. params_signed_by X p key (ca_cert ca) (ca_key ca) = Inr c \<and>
        cert_pem n = certificate_pem X c \<and> spki_der n = keypair_public_key_der X key \<and>
        extended_key_usages p = [ServerAuth, ClientAuth] \<and> key_usages p = [DigitalSignature] \<and>
        params_is_ca p = NoCa \<and> not_before p = now - 3600 \<and> not_after p = now + 3650 * 86400"
    using gen assms(2,4)
    by (fastforce simp: rcgen_defaults_def generate_signed_by_Ok from_parts_Ok attach_binding_def leaf_params_def Let_def
        time_exact_def CLOCK_SKEW_BACKDATE_def LEAF_LIFETIME_def duration_hours_def duration_days_def)
qed

theorem minted_leaf_witness:
  "\<exists>n. generate_signed_by demo \<lparr>ca_cert = [], ca_key = [99]\<rparr> [7] [5] 5000 = Ok n \<and>
     from_pem demo (cert_pem n) (key_pem n) = Ok n \<and>
     verify_binding_from_leaf_cert demo (cert_der n) = Bound (public_key_bytes demo [7])"
proof -
  obtain n where "generate_signed_by demo \<lparr>ca_cert = [], ca_key = [99]\<rparr> [7] [5] 5000 = Ok n"
    using demo_generate_signed_by [of 5000 "\<lparr>ca_cert = [], ca_key = [99]\<rparr>" "[7]" "[5]"] by auto
  with minted_leaf [OF demo_rcgen_reads_back demo_rcgen_defaults demo_keypair_round_trip
      demo_time_exact demo_bls_correct demo_bls_lengths demo_bls_key_ok this]
  show ?thesis by blast
qed

end
