(* ===== verification/Dig_Fs.thy ===== *)
theory Dig_Fs
  imports Dig_Error "HOL-Library.Sublist"
begin

unbundle bit_operations_syntax

text \<open>
  The part of \<open>std::fs\<close> the crate uses, on an explicit file system. A path is absolute and is the
  list of its components. A file has its bytes, its permission bits, and whether its bytes have
  been flushed; besides the files as processes see them, the world keeps the directory entries as
  they are on stable storage, which a flush of the directory brings up to date.

  Every call consults a plan, which says of each call in turn whether it proceeds, fails with an
  error, or is where the machine stops; a write that fails or stops may have transferred part of
  its bytes. A theorem for every plan is a theorem about every I/O failure and every crash point.

  After a crash (\<open>recover\<close>), each path holds what the stable entry or the last entry of the
  directory names, and a file that was not flushed holds arbitrary bytes. Entries are taken one
  by one, so every order in which the operating system may have written them is covered.
  Hard links and symbolic links, other processes and the durability of new directories are not
  modelled; an open file is named by its path, which no call renames while it is open.
\<close>

section \<open>The world\<close>

type_synonym path = "string list"
type_synonym mode = u32

text \<open>Permission bits, in octal: \<open>0600\<close>, \<open>0700\<close>, \<open>0666\<close>, \<open>0777\<close>, and those of group and others.\<close>

definition mode_0600 :: mode where "mode_0600 = 0x180"
definition mode_0700 :: mode where "mode_0700 = 0x1C0"
definition mode_0666 :: mode where "mode_0666 = 0x1B6"
definition mode_0777 :: mode where "mode_0777 = 0x1FF"
definition group_other_bits :: mode where "group_other_bits = 0x3F"

lemmas mode_defs = mode_0600_def mode_0700_def mode_0666_def mode_0777_def group_other_bits_def

datatype platform = Unix | Windows

datatype fault =
    Proceed
  | Fail nat io_error
  | Stop nat

record inode =
  fdata :: bytes
  fmode :: mode
  fsynced :: bool

record world =
  wfiles :: "path \<Rightarrow> inode option"
  wdisk :: "path \<Rightarrow> inode option"
  wdirs :: "path \<Rightarrow> mode option"
  wumask :: mode
  wplatform :: platform
  wplan :: "fault list"

type_synonym 'a io = "(world, io_error, 'a) action"

text \<open>\<open>Path::parent\<close>.\<close>

definition parent :: "path \<Rightarrow> path option" where
  "parent p = (if p = [] then None else Some (butlast p))"

lemma parent_snoc [simp]: "parent (d @ [n]) = Some d"
  by (simp add: parent_def)

section \<open>Calls\<close>

definition syscall ::
  "(nat \<Rightarrow> world \<Rightarrow> world) \<Rightarrow> (world \<Rightarrow> (io_error, 'a) outcome \<times> world) \<Rightarrow> 'a io" where
  "syscall part act w =
     (case wplan w of
        [] \<Rightarrow> act w
      | Proceed # fs \<Rightarrow> act (w\<lparr>wplan := fs\<rparr>)
      | Fail k e # fs \<Rightarrow> (Err e, part k (w\<lparr>wplan := fs\<rparr>))
      | Stop k # fs \<Rightarrow> (Crashed, part k (w\<lparr>wplan := fs\<rparr>)))"

abbreviation no_part :: "nat \<Rightarrow> world \<Rightarrow> world" where
  "no_part \<equiv> \<lambda>_ w. w"

text \<open>Changing the bytes of a file in place leaves what is on stable storage under its name
  indeterminate until a flush.\<close>

definition taint :: "path \<Rightarrow> world \<Rightarrow> world" where
  "taint p w = w\<lparr>wdisk := (wdisk w)(p := map_option (fsynced_update (\<lambda>_. False)) (wdisk w p))\<rparr>"

definition set_file :: "path \<Rightarrow> inode \<Rightarrow> world \<Rightarrow> world" where
  "set_file p f w = w\<lparr>wfiles := (wfiles w)(p \<mapsto> f)\<rparr>"

text \<open>\<open>open\<close> for writing, creating with the given mode (less the umask) or truncating.\<close>

definition open_create :: "mode \<Rightarrow> path \<Rightarrow> unit io" where
  "open_create m p = syscall no_part (\<lambda>w.
     if wdirs w p \<noteq> None then (Err IsADirectory, w)
     else if (case parent p of None \<Rightarrow> True | Some d \<Rightarrow> wdirs w d = None) then (Err NotFound, w)
     else (Ok (), case wfiles w p of
         None \<Rightarrow> set_file p \<lparr>fdata = [], fmode = m AND NOT (wumask w), fsynced = False\<rparr> w
       | Some f \<Rightarrow> taint p (set_file p (f\<lparr>fdata := [], fsynced := False\<rparr>) w)))"

definition append_data :: "path \<Rightarrow> bytes \<Rightarrow> world \<Rightarrow> world" where
  "append_data p bs w =
     (case wfiles w p of
        None \<Rightarrow> w
      | Some f \<Rightarrow> taint p (set_file p (f\<lparr>fdata := fdata f @ bs, fsynced := False\<rparr>) w))"

definition write_all :: "path \<Rightarrow> bytes \<Rightarrow> unit io" where
  "write_all p bs = syscall (\<lambda>k. append_data p (take k bs)) (\<lambda>w. (Ok (), append_data p bs w))"

text \<open>\<open>fs::write\<close>.\<close>

definition fs_write :: "path \<Rightarrow> bytes \<Rightarrow> unit io" where
  "fs_write p bs = seq (open_create mode_0666 p) (\<lambda>_. write_all p bs)"

text \<open>\<open>OpenOptions::new().write(true).open\<close>.\<close>

definition open_write :: "path \<Rightarrow> unit io" where
  "open_write p = syscall no_part (\<lambda>w.
     if wdirs w p \<noteq> None then (Err IsADirectory, w)
     else if wfiles w p = None then (Err NotFound, w) else (Ok (), w))"

definition sync_all :: "path \<Rightarrow> unit io" where
  "sync_all p = syscall no_part (\<lambda>w.
     (Ok (), case wfiles w p of None \<Rightarrow> w | Some f \<Rightarrow> set_file p (f\<lparr>fsynced := True\<rparr>) w))"

definition set_permissions :: "path \<Rightarrow> mode \<Rightarrow> unit io" where
  "set_permissions p m = syscall no_part (\<lambda>w.
     case wfiles w p of
       Some f \<Rightarrow> (Ok (), set_file p (f\<lparr>fmode := m\<rparr>) w)
     | None \<Rightarrow>
         if wdirs w p = None then (Err NotFound, w)
         else (Ok (), w\<lparr>wdirs := (wdirs w)(p \<mapsto> m)\<rparr>))"

definition fs_rename :: "path \<Rightarrow> path \<Rightarrow> unit io" where
  "fs_rename from to = syscall no_part (\<lambda>w.
     case wfiles w from of
       None \<Rightarrow> (Err NotFound, w)
     | Some f \<Rightarrow>
         if wdirs w to \<noteq> None then (Err IsADirectory, w)
         else (Ok (), w\<lparr>wfiles := (wfiles w)(from := None, to \<mapsto> f)\<rparr>))"

definition open_dir :: "path \<Rightarrow> unit io" where
  "open_dir d = syscall no_part (\<lambda>w. if wdirs w d = None then (Err NotFound, w) else (Ok (), w))"

text \<open>Flushing a directory makes its current entries the stable ones.\<close>

definition flush_dir :: "path \<Rightarrow> world \<Rightarrow> world" where
  "flush_dir d w = w\<lparr>wdisk := (\<lambda>p. if parent p = Some d then wfiles w p else wdisk w p)\<rparr>"

definition sync_dir :: "path \<Rightarrow> unit io" where
  "sync_dir d = syscall no_part (\<lambda>w. (Ok (), flush_dir d w))"

text \<open>\<open>fs::read\<close> and \<open>fs::read_to_string\<close>.\<close>

definition fs_read :: "path \<Rightarrow> bytes io" where
  "fs_read p = syscall no_part (\<lambda>w.
     case wfiles w p of
       Some f \<Rightarrow> (Ok (fdata f), w)
     | None \<Rightarrow> (Err (if wdirs w p = None then NotFound else IsADirectory), w))"

definition read_to_string :: "path \<Rightarrow> string io" where
  "read_to_string p = seq (fs_read p) (\<lambda>bs.
     case from_utf8 bs of None \<Rightarrow> throw InvalidData | Some s \<Rightarrow> ret s)"

definition remove_file :: "path \<Rightarrow> unit io" where
  "remove_file p = syscall no_part (\<lambda>w.
     if wfiles w p = None then (Err (if wdirs w p = None then NotFound else IsADirectory), w)
     else (Ok (), w\<lparr>wfiles := (wfiles w)(p := None)\<rparr>))"

text \<open>\<open>Path::exists\<close>: an error of the underlying call counts as absence.\<close>

definition path_exists :: "path \<Rightarrow> (world, 'e, bool) action" where
  "path_exists p w =
     (case syscall no_part (\<lambda>w. (Ok (wfiles w p \<noteq> None \<or> wdirs w p \<noteq> None), w)) w of
        (Ok b, w') \<Rightarrow> (Ok b, w')
      | (Err _, w') \<Rightarrow> (Ok False, w')
      | (Panicked, w') \<Rightarrow> (Panicked, w')
      | (Crashed, w') \<Rightarrow> (Crashed, w'))"

definition create_dir_all :: "path \<Rightarrow> unit io" where
  "create_dir_all d = syscall no_part (\<lambda>w.
     if \<exists>q \<in> set (prefixes d). wfiles w q \<noteq> None then (Err (OtherIo ''not a directory''), w)
     else (Ok (), w\<lparr>wdirs := (\<lambda>q. if wdirs w q = None \<and> q \<in> set (prefixes d)
                              then Some (mode_0777 AND NOT (wumask w)) else wdirs w q)\<rparr>))"

text \<open>The conversion of an I/O error by \<open>?\<close>, and matching on the error.\<close>

definition io :: "'a io \<Rightarrow> (world, dig_tls_error, 'a) action" where
  "io m w = (case m w of
       (Ok a, w') \<Rightarrow> (Ok a, w')
     | (Err e, w') \<Rightarrow> (Err (Io e), w')
     | (Panicked, w') \<Rightarrow> (Panicked, w')
     | (Crashed, w') \<Rightarrow> (Crashed, w'))"

definition on_err ::
  "('s, 'e, 'a) action \<Rightarrow> ('e \<Rightarrow> ('s, 'f, 'a) action) \<Rightarrow> ('s, 'f, 'a) action" where
  "on_err m h s = (case m s of
       (Ok a, s') \<Rightarrow> (Ok a, s')
     | (Err e, s') \<Rightarrow> h e s'
     | (Panicked, s') \<Rightarrow> (Panicked, s')
     | (Crashed, s') \<Rightarrow> (Crashed, s'))"

section \<open>Crash and recovery\<close>

text \<open>
  The choices of the environment for each path: whether the last or the stable entry survives, and
  the bytes of a file that was not flushed.
\<close>

definition recover :: "(path \<Rightarrow> bool \<times> bytes) \<Rightarrow> world \<Rightarrow> world" where
  "recover c w =
     (let F = (\<lambda>p. map_option
         (\<lambda>f. if fsynced f then f else f\<lparr>fdata := snd (c p), fsynced := True\<rparr>)
         (if fst (c p) then wfiles w p else wdisk w p))
      in w\<lparr>wfiles := F, wdisk := F, wplan := []\<rparr>)"

definition content :: "world \<Rightarrow> path \<Rightarrow> bytes option" where
  "content w p = map_option fdata (wfiles w p)"

text \<open>What may be found at a path if the machine stopped now.\<close>

definition may_hold :: "world \<Rightarrow> path \<Rightarrow> bytes option \<Rightarrow> bool" where
  "may_hold w p v \<longleftrightarrow>
     (\<exists>e \<in> {wfiles w p, wdisk w p}.
        case e of None \<Rightarrow> v = None
        | Some f \<Rightarrow> if fsynced f then v = Some (fdata f) else v \<noteq> None)"

lemma recover_may_hold: "may_hold w p (content (recover c w) p)"
  by (cases "fst (c p)"; cases "wfiles w p"; cases "wdisk w p")
    (auto simp: may_hold_def recover_def content_def Let_def)

lemma may_hold_recover:
  assumes "may_hold w p v"
  shows "\<exists>c. content (recover c w) p = v"
proof -
  from assms obtain e where "e = wfiles w p \<or> e = wdisk w p"
    and e: "case e of None \<Rightarrow> v = None
      | Some f \<Rightarrow> if fsynced f then v = Some (fdata f) else v \<noteq> None"
    by (auto simp: may_hold_def)
  then obtain b where "e = (if b then wfiles w p else wdisk w p)" by (metis (full_types))
  with e have b: "case (if b then wfiles w p else wdisk w p) of None \<Rightarrow> v = None
      | Some f \<Rightarrow> if fsynced f then v = Some (fdata f) else v \<noteq> None"
    by simp
  have "content (recover (\<lambda>_. (b, the v)) w) p = v"
    using b by (auto simp: recover_def content_def Let_def split: option.splits if_splits)
  then show ?thesis by blast
qed

text \<open>A path with nothing pending holds its content.\<close>

definition settled :: "world \<Rightarrow> path \<Rightarrow> bool" where
  "settled w p \<longleftrightarrow> wdisk w p = wfiles w p \<and> (case wfiles w p of None \<Rightarrow> True | Some f \<Rightarrow> fsynced f)"

lemma settled_may_hold: "settled w p \<Longrightarrow> may_hold w p v \<longleftrightarrow> v = content w p"
  by (auto simp: settled_def may_hold_def content_def split: option.splits)

lemma settled_recover: "settled (recover c w) p"
  by (auto simp: settled_def recover_def Let_def split: option.splits)

section \<open>Rules for calls\<close>

lemma triple_syscall:
  assumes plan: "\<And>w fs. P w \<Longrightarrow> P (w\<lparr>wplan := fs\<rparr>)"
    and part: "\<And>k w. P w \<Longrightarrow> E (part k w)"
    and act: "\<And>w. P w \<Longrightarrow> (case act w of (Ok a, w') \<Rightarrow> Q a w' | (_, w') \<Rightarrow> E w')"
  shows "triple P (syscall part act) Q E"
  unfolding triple_def
proof (intro allI impI)
  fix w assume "P w"
  show "case syscall part act w of (Ok a, w') \<Rightarrow> Q a w' | (_, w') \<Rightarrow> E w'"
  proof (cases "wplan w")
    case Nil
    then show ?thesis using act [OF \<open>P w\<close>] by (simp add: syscall_def)
  next
    case (Cons f fs)
    have "P (w\<lparr>wplan := fs\<rparr>)" by (rule plan [OF \<open>P w\<close>])
    then show ?thesis using Cons act part by (cases f) (simp_all add: syscall_def)
  qed
qed

lemma triple_io [triple_rules]: "triple P m Q E \<Longrightarrow> triple P (io m) Q E"
  by (auto simp: triple_def io_def split: prod.splits outcome.splits)

lemma triple_path_exists:
  assumes "\<And>w fs. P w \<Longrightarrow> P (w\<lparr>wplan := fs\<rparr>)" and "\<And>w. P w \<Longrightarrow> E w"
  shows "triple P (path_exists p) (\<lambda>_. P) E"
  using assms
  by (auto simp: triple_def path_exists_def syscall_def split: list.splits fault.splits)

lemma triple_fs_read:
  assumes "\<And>w fs. P w \<Longrightarrow> P (w\<lparr>wplan := fs\<rparr>)" and "\<And>w. P w \<Longrightarrow> E w"
  shows "triple P (fs_read p) (\<lambda>bs w. P w \<and> content w p = Some bs) E"
  unfolding fs_read_def
  by (rule triple_syscall) (use assms in \<open>auto simp: content_def split: option.splits\<close>)

lemma triple_read_to_string:
  assumes "\<And>w fs. P w \<Longrightarrow> P (w\<lparr>wplan := fs\<rparr>)" and "\<And>w. P w \<Longrightarrow> E w"
  shows "triple P (read_to_string p) (\<lambda>s w. P w \<and> content w p = Some (as_bytes s)) E"
  unfolding read_to_string_def
proof (rule triple_seq [OF triple_fs_read [of P E p, OF assms]])
  fix bs
  show "triple (\<lambda>w. P w \<and> content w p = Some bs)
      (case from_utf8 bs of None \<Rightarrow> throw InvalidData | Some s \<Rightarrow> ret s)
      (\<lambda>s w. P w \<and> content w p = Some (as_bytes s)) E"
    using assms(2) by (auto simp: triple_def dest: from_utf8_SomeD split: option.splits)
qed

text \<open>With nothing planned, a call does what it does.\<close>

lemma syscall_quiet [simp]: "wplan w = [] \<Longrightarrow> syscall part act w = act w"
  by (simp add: syscall_def)

lemma path_exists_quiet [simp]:
  "wplan w = [] \<Longrightarrow> path_exists p w = (Ok (wfiles w p \<noteq> None \<or> wdirs w p \<noteq> None), w)"
  by (simp add: path_exists_def)

lemma fs_read_quiet: "wplan w = [] \<Longrightarrow> content w p = Some bs \<Longrightarrow> fs_read p w = (Ok bs, w)"
  by (auto simp: fs_read_def content_def)

lemma read_to_string_quiet:
  "wplan w = [] \<Longrightarrow> content w p = Some (as_bytes s) \<Longrightarrow> valid_utf8 (as_bytes s) \<Longrightarrow>
   read_to_string p w = (Ok s, w)"
  by (simp add: read_to_string_def seq_def fs_read_quiet)

lemma io_quiet:
  "m w = (Ok a, w') \<Longrightarrow> io m w = (Ok a, w')"
  "m w = (Err e, w') \<Longrightarrow> io m w = (Err (Io e), w')"
  "m w = (Crashed, w') \<Longrightarrow> io m w = (Crashed, w')"
  by (simp_all add: io_def)

end
