(* ===== verification/Dig_Persist.thy ===== *)
theory Dig_Persist
  imports Dig_Fs
begin

unbundle bit_operations_syntax

text \<open>
  The file primitives of \<open>node_cert.rs\<close>: the staged atomic write, in its Unix and its Windows
  variant (\<open>cfg\<close> picks one; here the world's platform does), the owner-only key file, the
  directory permissions. The locale \<open>slot_store\<close> is the contract the node certificate store relies
  on: what a write to one slot may leave behind at that slot and at every other one, at any point
  where it fails or the machine stops. The Windows variant does not satisfy it; what it does satisfy is
  shown apart. The contract's lemmas about sequences of writes are proved once from
  the contract, and \<open>atomic_write\<close> is shown to satisfy it.
\<close>

datatype secret = Yes | No

definition tmp_path :: "path \<Rightarrow> path" where
  "tmp_path dest = (if dest = [] then [''.tmp''] else butlast dest @ [last dest @ ''.tmp''])"

definition on_platform ::
  "(world, 'e, 'a) action \<Rightarrow> (world, 'e, 'a) action \<Rightarrow> (world, 'e, 'a) action" where
  "on_platform unix windows w = (case wplatform w of Unix \<Rightarrow> unix w | Windows \<Rightarrow> windows w)"

text \<open>\<open>write_key_file\<close>. The Windows variant also runs \<open>icacls\<close>, whose result it ignores and which
  changes nothing the world keeps.\<close>

definition write_key_file_unix :: "path \<Rightarrow> bytes \<Rightarrow> (world, dig_tls_error, unit) action" where
  "write_key_file_unix p key =
     seq (io (open_create mode_0600 p)) (\<lambda>_.
     seq (io (write_all p key)) (\<lambda>_.
     seq (io (set_permissions p mode_0600)) (\<lambda>_.
     ret ())))"

definition write_key_file_windows :: "path \<Rightarrow> bytes \<Rightarrow> (world, dig_tls_error, unit) action" where
  "write_key_file_windows p key = seq (io (fs_write p key)) (\<lambda>_. ret ())"

definition write_key_file :: "path \<Rightarrow> bytes \<Rightarrow> (world, dig_tls_error, unit) action" where
  "write_key_file p key = on_platform (write_key_file_unix p key) (write_key_file_windows p key)"

definition atomic_rename_unix :: "path \<Rightarrow> path \<Rightarrow> (world, dig_tls_error, unit) action" where
  "atomic_rename_unix from to = seq (io (fs_rename from to)) (\<lambda>_. ret ())"

definition atomic_rename_windows :: "path \<Rightarrow> path \<Rightarrow> (world, dig_tls_error, unit) action" where
  "atomic_rename_windows from to =
     on_err (fs_rename from to) (\<lambda>e.
       seq (path_exists to) (\<lambda>there.
       if there
       then seq (io (remove_file to)) (\<lambda>_. seq (io (fs_rename from to)) (\<lambda>_. ret ()))
       else throw (Io e)))"

definition atomic_rename :: "path \<Rightarrow> path \<Rightarrow> (world, dig_tls_error, unit) action" where
  "atomic_rename from to = on_platform (atomic_rename_unix from to) (atomic_rename_windows from to)"

definition fsync_dir_unix :: "path \<Rightarrow> (world, dig_tls_error, unit) action" where
  "fsync_dir_unix d = seq (io (open_dir d)) (\<lambda>_. seq (io (sync_dir d)) (\<lambda>_. ret ()))"

definition fsync_dir_windows :: "path \<Rightarrow> (world, dig_tls_error, unit) action" where
  "fsync_dir_windows d = ret ()"

definition fsync_dir :: "path \<Rightarrow> (world, dig_tls_error, unit) action" where
  "fsync_dir d = on_platform (fsync_dir_unix d) (fsync_dir_windows d)"

definition harden_dir_permissions_unix :: "path \<Rightarrow> (world, dig_tls_error, unit) action" where
  "harden_dir_permissions_unix d = seq (io (set_permissions d mode_0700)) (\<lambda>_. ret ())"

definition harden_dir_permissions_windows :: "path \<Rightarrow> (world, dig_tls_error, unit) action" where
  "harden_dir_permissions_windows d = ret ()"

definition harden_dir_permissions :: "path \<Rightarrow> (world, dig_tls_error, unit) action" where
  "harden_dir_permissions d =
     on_platform (harden_dir_permissions_unix d) (harden_dir_permissions_windows d)"

definition atomic_write :: "path \<Rightarrow> bytes \<Rightarrow> secret \<Rightarrow> (world, dig_tls_error, unit) action" where
  "atomic_write dest contents secret =
     (let tmp = tmp_path dest in
      seq (case secret of
             Yes \<Rightarrow> write_key_file tmp contents
           | No \<Rightarrow> io (fs_write tmp contents)) (\<lambda>_.
      seq (io (open_write tmp)) (\<lambda>_.
      seq (io (sync_all tmp)) (\<lambda>_.
      seq (atomic_rename tmp dest) (\<lambda>_.
      case parent dest of
        Some d \<Rightarrow> fsync_dir d
      | None \<Rightarrow> ret ())))))"

definition read_key_to_zeroizing :: "path \<Rightarrow> (world, dig_tls_error, string) action" where
  "read_key_to_zeroizing p = io (read_to_string p)"

section \<open>The contract of a store of slots\<close>

text \<open>
  A slot is a path that is written by \<open>put\<close> only. \<open>may w p v\<close>: the content \<open>v\<close> may be found at \<open>p\<close> if
  the machine stopped in \<open>w\<close>.
\<close>

locale slot_store =
  fixes put :: "'p \<Rightarrow> 'b \<Rightarrow> 'k \<Rightarrow> ('w, 'e, unit) action"
    and may :: "'w \<Rightarrow> 'p \<Rightarrow> 'b option \<Rightarrow> bool"
    and inv :: "'w \<Rightarrow> bool"
    and slot :: "'p \<Rightarrow> bool"
  assumes put_inv: "keeps inv (put p b k)"
    and put_frame: "slot p \<Longrightarrow> slot q \<Longrightarrow> q \<noteq> p \<Longrightarrow>
      keeps (\<lambda>w. inv w \<and> (\<forall>v. may w q v \<longrightarrow> v \<in> V)) (put p b k)"
    and put_target: "slot p \<Longrightarrow>
      triple (\<lambda>w. inv w \<and> (\<forall>v. may w p v \<longrightarrow> v \<in> V)) (put p b k)
        (\<lambda>_ w. inv w \<and> (\<forall>v. may w p v \<longrightarrow> v \<in> {Some b}))
        (\<lambda>w. inv w \<and> (\<forall>v. may w p v \<longrightarrow> v \<in> insert (Some b) V))"
begin

definition only :: "'w \<Rightarrow> 'p \<Rightarrow> 'b option set \<Rightarrow> bool" where
  "only w p V \<longleftrightarrow> (\<forall>v. may w p v \<longrightarrow> v \<in> V)"

lemma only_mono: "only w p V \<Longrightarrow> V \<subseteq> V' \<Longrightarrow> only w p V'"
  by (auto simp: only_def)

text \<open>A write replaces the content of its slot or leaves it, and keeps another one as it is.\<close>

lemma put_only:
  assumes "slot p" and "slot q" and "q \<noteq> p"
  shows "triple (\<lambda>w. inv w \<and> only w p V \<and> only w q U) (put p b k)
    (\<lambda>_ w. inv w \<and> only w p {Some b} \<and> only w q U)
    (\<lambda>w. inv w \<and> only w p (insert (Some b) V) \<and> only w q U)"
  by (rule triple_weaken [OF triple_conj [OF put_target [OF assms(1), of V b k]
        put_frame [OF assms, of U b k]]])
    (auto simp: only_def)

text \<open>Two writes in a row, with two more slots kept as they are.\<close>

lemma put_two:
  assumes s: "slot p" "slot q" "slot r" "slot t" and d: "distinct [p, q, r, t]"
  shows "triple (\<lambda>w. inv w \<and> only w p V \<and> only w q U \<and> only w r R \<and> only w t T)
    (seq (put p b k) (\<lambda>_. put q c l))
    (\<lambda>_ w. inv w \<and> only w p {Some b} \<and> only w q {Some c} \<and> only w r R \<and> only w t T)
    (\<lambda>w. inv w \<and> only w p (insert (Some b) V) \<and> only w q (insert (Some c) U) \<and> only w r R \<and> only w t T)"
proof (rule triple_seq)
  note keep = put_frame [unfolded only_def [symmetric]]
  show "triple (\<lambda>w. inv w \<and> only w p V \<and> only w q U \<and> only w r R \<and> only w t T) (put p b k)
    (\<lambda>_ w. inv w \<and> only w p {Some b} \<and> only w q U \<and> only w r R \<and> only w t T)
    (\<lambda>w. inv w \<and> only w p (insert (Some b) V) \<and> only w q (insert (Some c) U) \<and> only w r R \<and> only w t T)"
    by (rule triple_weaken [OF triple_conj [OF put_only [of p q V U b k]
          triple_conj [OF keep [of p r R b k] keep [of p t T b k]]]])
      (use s d in \<open>auto elim: only_mono\<close>)
  show "triple (\<lambda>w. inv w \<and> only w p {Some b} \<and> only w q U \<and> only w r R \<and> only w t T) (put q c l)
    (\<lambda>_ w. inv w \<and> only w p {Some b} \<and> only w q {Some c} \<and> only w r R \<and> only w t T)
    (\<lambda>w. inv w \<and> only w p (insert (Some b) V) \<and> only w q (insert (Some c) U) \<and> only w r R \<and> only w t T)"
    for u
    by (rule triple_weaken [OF triple_conj [OF put_only [of q p U "{Some b}" c l]
          triple_conj [OF keep [of q r R c l] keep [of q t T c l]]]])
      (use s d in \<open>auto elim: only_mono\<close>)
qed

text \<open>
  The sequence of a rotation: the old pair into the spare slots, then the new pair into the
  current ones. Wherever it stops, the old pair is whole in the current slots or whole in the spare
  ones, and each current slot holds its old or its new content.
\<close>

lemma demote_then_replace:
  assumes s: "slot p" "slot q" "slot r" "slot t" and d: "distinct [p, q, r, t]"
  shows "triple
    (\<lambda>w. inv w \<and> only w p P \<and> only w q Q \<and> only w r {Some b} \<and> only w t {Some c})
    (seq (seq (put p b k) (\<lambda>_. put q c l)) (\<lambda>_. seq (put r b' k') (\<lambda>_. put t c' l')))
    (\<lambda>_ w. inv w \<and> only w r {Some b'} \<and> only w t {Some c'} \<and> only w p {Some b} \<and> only w q {Some c})
    (\<lambda>w. inv w \<and> only w r {Some b, Some b'} \<and> only w t {Some c, Some c'} \<and>
       (only w r {Some b} \<and> only w t {Some c} \<or> only w p {Some b} \<and> only w q {Some c}))"
proof (rule triple_seq)
  show "triple (\<lambda>w. inv w \<and> only w p P \<and> only w q Q \<and> only w r {Some b} \<and> only w t {Some c})
    (seq (put p b k) (\<lambda>_. put q c l))
    (\<lambda>_ w. inv w \<and> only w p {Some b} \<and> only w q {Some c} \<and> only w r {Some b} \<and> only w t {Some c})
    (\<lambda>w. inv w \<and> only w r {Some b, Some b'} \<and> only w t {Some c, Some c'} \<and>
       (only w r {Some b} \<and> only w t {Some c} \<or> only w p {Some b} \<and> only w q {Some c}))"
    by (rule triple_weaken [OF put_two [OF s d]]) (auto elim: only_mono)
  show "triple (\<lambda>w. inv w \<and> only w p {Some b} \<and> only w q {Some c} \<and> only w r {Some b} \<and> only w t {Some c})
    (seq (put r b' k') (\<lambda>_. put t c' l'))
    (\<lambda>_ w. inv w \<and> only w r {Some b'} \<and> only w t {Some c'} \<and> only w p {Some b} \<and> only w q {Some c})
    (\<lambda>w. inv w \<and> only w r {Some b, Some b'} \<and> only w t {Some c, Some c'} \<and>
       (only w r {Some b} \<and> only w t {Some c} \<or> only w p {Some b} \<and> only w q {Some c}))" for u
    by (rule triple_weaken [OF put_two [of r t p q "{Some b}" "{Some c}" "{Some b}" "{Some c}"]])
      (use s d in \<open>auto elim: only_mono\<close>)
qed

end


section \<open>The atomic write satisfies the contract\<close>

definition on_unix :: "world \<Rightarrow> bool" where
  "on_unix w \<longleftrightarrow> wplatform w = Unix"

definition is_slot :: "path \<Rightarrow> bool" where
  "is_slot p \<longleftrightarrow> p \<noteq> [] \<and> \<not> suffix ''.tmp'' (last p)"

lemma tmp_path_neq [simp]: "tmp_path p \<noteq> p" "p \<noteq> tmp_path p"
proof -
  have "tmp_path p \<noteq> p"
  proof
    assume "tmp_path p = p"
    moreover have "p \<noteq> []" using \<open>tmp_path p = p\<close> by (auto simp: tmp_path_def)
    ultimately have "last (tmp_path p) = last p" and "p \<noteq> []" by simp_all
    then show False by (simp add: tmp_path_def)
  qed
  then show "tmp_path p \<noteq> p" "p \<noteq> tmp_path p" by auto
qed

lemma slot_not_tmp: "is_slot q \<Longrightarrow> q \<noteq> tmp_path p"
  by (auto simp: is_slot_def tmp_path_def suffix_def)

lemma parent_slot: "is_slot p \<Longrightarrow> parent p = Some (butlast p)"
  by (simp add: is_slot_def parent_def)

text \<open>What the world holds at one path; each call at other paths keeps it.\<close>

definition holds_at :: "platform \<Rightarrow> path \<Rightarrow> bytes option set \<Rightarrow> world \<Rightarrow> bool" where
  "holds_at pl q V w \<longleftrightarrow> wplatform w = pl \<and> (\<forall>v. may_hold w q v \<longrightarrow> v \<in> V)"

abbreviation holds_only :: "path \<Rightarrow> bytes option set \<Rightarrow> world \<Rightarrow> bool" where
  "holds_only \<equiv> holds_at Unix"

lemma holds_only_def: "holds_only q V w \<longleftrightarrow> on_unix w \<and> (\<forall>v. may_hold w q v \<longrightarrow> v \<in> V)"
  by (simp add: holds_at_def on_unix_def)

lemma holds_at_plan: "holds_at pl q V w \<Longrightarrow> holds_at pl q V (w\<lparr>wplan := fs\<rparr>)"
  by (simp add: holds_at_def may_hold_def)

lemmas holds_only_plan = holds_at_plan [of Unix]

lemma holds_at_cong:
  "holds_at pl q V w \<Longrightarrow> wfiles w' q = wfiles w q \<Longrightarrow> wdisk w' q \<in> {wdisk w q, wfiles w q} \<Longrightarrow>
   wplatform w' = wplatform w \<Longrightarrow> holds_at pl q V w'"
  by (auto simp: holds_at_def may_hold_def)

lemmas world_defs = set_file_def taint_def append_data_def flush_dir_def

lemma append_data_other:
  "q \<noteq> p \<Longrightarrow> holds_at pl q V w \<Longrightarrow> holds_at pl q V (append_data p bs w)"
  by (erule holds_at_cong) (auto simp: world_defs split: option.split)

lemma holds_only_calls [triple_rules]:
  "q \<noteq> p \<Longrightarrow> keeps (holds_at pl q V) (open_create m p)"
  "q \<noteq> p \<Longrightarrow> keeps (holds_at pl q V) (write_all p bs)"
  "keeps (holds_at pl q V) (open_write p)"
  "q \<noteq> p \<Longrightarrow> keeps (holds_at pl q V) (sync_all p)"
  "q \<noteq> p \<Longrightarrow> keeps (holds_at pl q V) (set_permissions p m)"
  "q \<noteq> p \<Longrightarrow> q \<noteq> p' \<Longrightarrow> keeps (holds_at pl q V) (fs_rename p p')"
  "keeps (holds_at pl q V) (open_dir d)"
  "keeps (holds_at pl q V) (sync_dir d)"
  "q \<noteq> p \<Longrightarrow> keeps (holds_at pl q V) (remove_file p)"
  "keeps (holds_at pl q V) (create_dir_all d)"
  unfolding open_create_def write_all_def open_write_def sync_all_def set_permissions_def
    fs_rename_def open_dir_def sync_dir_def remove_file_def create_dir_all_def
  by (rule triple_syscall;
      auto simp: holds_at_plan append_data_other world_defs split: option.split
        elim!: holds_at_cong)+


lemma triple_on_platform:
  assumes "\<And>w. P w \<Longrightarrow> on_unix w" and "triple P unix Q E"
  shows "triple P (on_platform unix windows) Q E"
  using assms by (auto simp: triple_def on_platform_def on_unix_def)

lemma holds_only_on_unix: "holds_only q V w \<Longrightarrow> on_unix w"
  by (simp add: holds_only_def)

lemma triple_ret_keeps [triple_rules]: "triple P (ret a) (\<lambda>_. P) E"
  by (simp add: triple_def)

lemma keeps_frame [triple_rules]:
  assumes "q \<noteq> p"
  shows "keeps (holds_only q V) (fs_write p bs)"
    and "keeps (holds_only q V) (write_key_file p bs)"
    and "q \<noteq> p' \<Longrightarrow> keeps (holds_only q V) (atomic_rename p p')"
  using assms unfolding fs_write_def write_key_file_def write_key_file_unix_def
    atomic_rename_def atomic_rename_unix_def
  by (auto intro!: triple_rules triple_on_platform holds_only_on_unix)

lemma keeps_dir [triple_rules]:
  "keeps (holds_only q V) (fsync_dir d)"
  "q \<noteq> d \<Longrightarrow> keeps (holds_only q V) (harden_dir_permissions d)"
  unfolding fsync_dir_def fsync_dir_unix_def harden_dir_permissions_def harden_dir_permissions_unix_def
  by (auto intro!: triple_rules triple_on_platform holds_only_on_unix)

lemma atomic_write_frame:
  assumes "q \<noteq> dest" and "q \<noteq> tmp_path dest"
  shows "keeps (holds_only q V) (atomic_write dest b k)"
proof (cases k)
  case Yes
  then show ?thesis using assms unfolding atomic_write_def Let_def
    by (auto intro!: triple_rules split: option.split)
next
  case No
  then show ?thesis using assms unfolding atomic_write_def Let_def
    by (auto intro!: triple_rules split: option.split)
qed

text \<open>The staged file, step by step, while the target waits.\<close>

definition staged :: "path \<Rightarrow> (inode \<Rightarrow> bool) \<Rightarrow> world \<Rightarrow> bool" where
  "staged p S w \<longleftrightarrow> (case wfiles w p of None \<Rightarrow> False | Some f \<Rightarrow> S f)"

lemma staged_plan: "staged p S (w\<lparr>wplan := fs\<rparr>) = staged p S w"
  by (simp add: staged_def)

lemma staged_calls:
  "triple (\<lambda>w. True) (open_create m p) (\<lambda>_. staged p (\<lambda>f. fdata f = [])) (\<lambda>_. True)"
  "triple (staged p (\<lambda>f. fdata f = [])) (write_all p bs) (\<lambda>_. staged p (\<lambda>f. fdata f = bs)) (\<lambda>_. True)"
  "triple (staged p (\<lambda>f. fdata f = bs)) (set_permissions p m) (\<lambda>_. staged p (\<lambda>f. fdata f = bs)) (\<lambda>_. True)"
  "triple (staged p (\<lambda>f. fdata f = bs)) (open_write p) (\<lambda>_. staged p (\<lambda>f. fdata f = bs)) (\<lambda>_. True)"
  "triple (staged p (\<lambda>f. fdata f = bs)) (sync_all p) (\<lambda>_. staged p (\<lambda>f. fdata f = bs \<and> fsynced f)) (\<lambda>_. True)"
  "p \<noteq> q \<Longrightarrow> triple (staged p (\<lambda>f. fdata f = bs \<and> fsynced f)) (fs_rename p q)
      (\<lambda>_. staged q (\<lambda>f. fdata f = bs \<and> fsynced f)) (\<lambda>_. True)"
  "triple (staged p (\<lambda>f. fdata f = bs \<and> fsynced f)) (open_dir d)
      (\<lambda>_. staged p (\<lambda>f. fdata f = bs \<and> fsynced f)) (\<lambda>_. True)"
  "parent p = Some d \<Longrightarrow> triple (staged p (\<lambda>f. fdata f = bs \<and> fsynced f)) (sync_dir d)
      (\<lambda>_ w. \<forall>v. may_hold w p v \<longrightarrow> v = Some bs) (\<lambda>_. True)"
  unfolding open_create_def write_all_def open_write_def sync_all_def set_permissions_def
    fs_rename_def open_dir_def sync_dir_def
  by (rule triple_syscall;
      auto simp: staged_plan staged_def may_hold_def world_defs split: option.splits)+

lemma staged_write:
  "triple (\<lambda>w. True) (fs_write p bs) (\<lambda>_. staged p (\<lambda>f. fdata f = bs)) (\<lambda>_. True)"
  "triple on_unix (write_key_file p bs) (\<lambda>_. staged p (\<lambda>f. fdata f = bs)) (\<lambda>_. True)"
proof -
  show "triple (\<lambda>w. True) (fs_write p bs) (\<lambda>_. staged p (\<lambda>f. fdata f = bs)) (\<lambda>_. True)"
    unfolding fs_write_def by (rule triple_seq [OF staged_calls(1) staged_calls(2)])
  show "triple on_unix (write_key_file p bs) (\<lambda>_. staged p (\<lambda>f. fdata f = bs)) (\<lambda>_. True)"
    unfolding write_key_file_def write_key_file_unix_def
    by (rule triple_on_platform)
      (auto intro!: triple_seq [OF triple_io [OF triple_weaken [OF staged_calls(1)]]]
        triple_seq [OF triple_io [OF staged_calls(2)]]
        triple_seq [OF triple_io [OF staged_calls(3)]] triple_ret_keeps)
qed


text \<open>The target, step by step: it waits until the rename, and the flush of the directory settles it.\<close>

abbreviation flushed :: "bytes \<Rightarrow> inode \<Rightarrow> bool" where
  "flushed bs f \<equiv> fdata f = bs \<and> fsynced f"

abbreviation written :: "path \<Rightarrow> bytes option set \<Rightarrow> bytes \<Rightarrow> world \<Rightarrow> bool" where
  "written p V b w \<equiv> holds_only p (insert (Some b) V) w \<and> staged p (flushed b) w"

lemma holds_only_mono: "holds_only p V w \<Longrightarrow> V \<subseteq> W \<Longrightarrow> holds_only p W w"
  by (auto simp: holds_only_def)

lemma holds_at_renamed:
  "holds_at pl p V w \<Longrightarrow> flushed b f \<Longrightarrow> wfiles w' p = Some f \<Longrightarrow> wdisk w' p = wdisk w p \<Longrightarrow>
   wplatform w' = wplatform w \<Longrightarrow> holds_at pl p (insert (Some b) V) w'"
  by (auto simp: holds_at_def may_hold_def)

text \<open>A rename that fails or stops leaves both files.\<close>

lemma rename_target:
  assumes "q \<noteq> p"
  shows "triple (\<lambda>w. holds_at pl p V w \<and> staged q (flushed b) w) (fs_rename q p)
    (\<lambda>_ w. holds_at pl p (insert (Some b) V) w \<and> staged p (flushed b) w)
    (\<lambda>w. holds_at pl p V w \<and> staged q (flushed b) w)"
  unfolding fs_rename_def
proof (rule triple_syscall, goal_cases)
  case (3 w)
  then obtain f where f: "wfiles w q = Some f" "flushed b f" by (auto simp: staged_def split: option.splits)
  let ?w = "w\<lparr>wfiles := (wfiles w)(q := None, p \<mapsto> f)\<rparr>"
  have "holds_at pl p (insert (Some b) V) ?w" using 3 f by (auto elim!: holds_at_renamed)
  with 3 f show ?case by (auto simp: staged_def)
qed (auto simp: holds_at_plan staged_plan)

lemma sync_dir_target:
  assumes "parent p = Some d"
  shows "triple (written p V b) (sync_dir d) (\<lambda>_. holds_only p {Some b})
    (holds_only p (insert (Some b) V))"
  unfolding sync_dir_def
  by (rule triple_syscall)
    (use assms in \<open>auto simp: holds_only_plan staged_plan staged_def holds_only_def on_unix_def
      may_hold_def flush_dir_def split: option.splits\<close>)

lemma open_dir_target:
  "triple (written p V b) (open_dir d) (\<lambda>_. written p V b) (holds_only p (insert (Some b) V))"
  unfolding open_dir_def
  by (rule triple_syscall) (auto simp: holds_only_plan staged_plan)

lemma fsync_dir_target:
  assumes "parent p = Some d"
  shows "triple (written p V b) (fsync_dir d) (\<lambda>_. holds_only p {Some b})
    (holds_only p (insert (Some b) V))"
  unfolding fsync_dir_def fsync_dir_unix_def
  by (rule triple_on_platform)
    (auto intro!: triple_ret_keeps triple_io sync_dir_target [OF assms] open_dir_target
      triple_seq [OF triple_io [OF open_dir_target]]
      triple_seq [OF triple_io [OF sync_dir_target [OF assms]]] dest: holds_only_on_unix)

lemma atomic_rename_target:
  assumes "q \<noteq> p"
  shows "triple (\<lambda>w. holds_only p V w \<and> staged q (flushed b) w) (atomic_rename q p)
    (\<lambda>_. written p V b) (holds_only p (insert (Some b) V))"
proof -
  have "triple (\<lambda>w. holds_only p V w \<and> staged q (flushed b) w) (fs_rename q p)
      (\<lambda>_. written p V b) (holds_only p (insert (Some b) V))"
    by (rule triple_weaken [OF rename_target [OF assms]]) (auto elim: holds_only_mono)
  then show ?thesis
    unfolding atomic_rename_def atomic_rename_unix_def
    by (intro triple_on_platform) (auto intro!: triple_seq [OF triple_io] triple_ret_keeps dest: holds_only_on_unix)
qed

text \<open>A step that stages leaves the target to what it may hold anyway.\<close>

lemma waiting:
  assumes "keeps (holds_only p V) m" and "triple P m (\<lambda>_. S) (\<lambda>_. True)"
  shows "triple (\<lambda>w. holds_only p V w \<and> P w) m (\<lambda>_ w. holds_only p V w \<and> S w)
    (holds_only p (insert (Some b) V))"
  by (rule triple_weaken [OF triple_conj [OF assms]]) (auto intro: holds_only_mono)

lemma atomic_write_target:
  assumes "is_slot dest"
  shows "triple (holds_only dest V) (atomic_write dest b k) (\<lambda>_. holds_only dest {Some b})
    (holds_only dest (insert (Some b) V))"
proof -
  let ?t = "tmp_path dest" and ?H = "holds_only dest V"
  have neq: "dest \<noteq> ?t" by simp
  have stage: "triple ?H
      (case k of Yes \<Rightarrow> write_key_file ?t b | No \<Rightarrow> io (fs_write ?t b))
      (\<lambda>_ w. ?H w \<and> staged ?t (\<lambda>f. fdata f = b) w) (holds_only dest (insert (Some b) V))"
    by (cases k)
      (auto intro!: triple_weaken [OF waiting [OF keeps_frame(2) [OF neq] staged_write(2)]]
        triple_io triple_weaken [OF waiting [OF keeps_frame(1) [OF neq] staged_write(1)]]
        dest: holds_only_on_unix)
  show ?thesis
    unfolding atomic_write_def Let_def parent_slot [OF assms] option.case
    by (rule triple_seq [OF stage], rule triple_seq [OF triple_io [OF waiting
            [OF holds_only_calls(3) staged_calls(4)]]],
        rule triple_seq [OF triple_io [OF waiting [OF holds_only_calls(4) [OF neq] staged_calls(5)]]],
        rule triple_seq [OF atomic_rename_target [OF neq [symmetric]]],
        rule fsync_dir_target [OF parent_slot [OF assms]])
qed

lemma atomic_write_on_unix: "keeps on_unix (atomic_write dest b k)"
proof -
  have "keeps (holds_only [] UNIV) (atomic_write dest b k) \<or> dest = []"
  proof (cases "dest = []")
    case False
    then have "[] \<noteq> tmp_path dest" by (simp add: tmp_path_def)
    with False show ?thesis using atomic_write_frame [of "[]" dest UNIV b k] by simp
  qed simp
  moreover have "keeps (holds_only [''x''] UNIV) (atomic_write [] b k)"
    by (rule atomic_write_frame) (simp_all add: tmp_path_def)
  moreover have "holds_only q UNIV = on_unix" for q by (auto simp: holds_only_def)
  ultimately show ?thesis by auto
qed

interpretation slots: slot_store atomic_write may_hold on_unix is_slot
proof unfold_locales
  fix p b k
  show "keeps on_unix (atomic_write p b k)" by (rule atomic_write_on_unix)
next
  fix p q :: path and b k V
  assume "is_slot p" "is_slot q" "q \<noteq> p"
  then have "keeps (holds_only q V) (atomic_write p b k)"
    by (intro atomic_write_frame slot_not_tmp)
  then show "keeps (\<lambda>w. on_unix w \<and> (\<forall>v. may_hold w q v \<longrightarrow> v \<in> V)) (atomic_write p b k)"
    by (simp add: holds_only_def [abs_def])
next
  fix p :: path and b k V
  assume "is_slot p"
  then show "triple (\<lambda>w. on_unix w \<and> (\<forall>v. may_hold w p v \<longrightarrow> v \<in> V)) (atomic_write p b k)
    (\<lambda>_ w. on_unix w \<and> (\<forall>v. may_hold w p v \<longrightarrow> v \<in> {Some b}))
    (\<lambda>w. on_unix w \<and> (\<forall>v. may_hold w p v \<longrightarrow> v \<in> insert (Some b) V))"
    using atomic_write_target [of p V b k] by (simp add: holds_only_def [abs_def])
qed


section \<open>Key files are for their owner only\<close>

text \<open>
  \<open>owner_only K\<close>: no file at a path of \<open>K\<close>, as seen now or as it may be found after a crash, has
  a permission bit of group or others set.
\<close>

definition private_entry :: "inode option \<Rightarrow> bool" where
  "private_entry e = (case e of None \<Rightarrow> True | Some f \<Rightarrow> fmode f AND group_other_bits = 0)"

definition owner_only :: "path set \<Rightarrow> world \<Rightarrow> bool" where
  "owner_only K w \<longleftrightarrow> on_unix w \<and> (\<forall>p \<in> K. private_entry (wfiles w p) \<and> private_entry (wdisk w p))"

lemma private_entry_simps [simp]:
  "private_entry None"
  "private_entry (Some f) \<longleftrightarrow> fmode f AND group_other_bits = 0"
  by (simp_all add: private_entry_def)

lemma private_modes [simp]:
  "mode_0600 AND group_other_bits = 0" "mode_0700 AND group_other_bits = 0"
  "(mode_0600 AND m) AND group_other_bits = 0"
proof -
  have "mode_0600 AND group_other_bits = (0 :: mode)" by (simp add: mode_defs)
  then show "mode_0600 AND group_other_bits = 0" .
  then have "(mode_0600 AND group_other_bits) AND m = 0" by simp
  then show "(mode_0600 AND m) AND group_other_bits = 0"
    by (simp add: and.assoc and.commute and.left_commute)
  show "mode_0700 AND group_other_bits = 0" by (simp add: mode_defs)
qed

lemma owner_only_plan [simp]: "owner_only K (w\<lparr>wplan := fs\<rparr>) = owner_only K w"
  by (simp add: owner_only_def on_unix_def)

lemma owner_only_cong:
  "owner_only K w \<Longrightarrow> wplatform w' = wplatform w \<Longrightarrow>
   (\<And>p. p \<in> K \<Longrightarrow> private_entry (wfiles w p) \<Longrightarrow> private_entry (wdisk w p) \<Longrightarrow>
     private_entry (wfiles w' p) \<and> private_entry (wdisk w' p)) \<Longrightarrow>
   owner_only K w'"
  by (auto simp: owner_only_def on_unix_def)

lemma private_unsync [simp]:
  "private_entry (map_option (fsynced_update g) e) = private_entry e"
  by (cases e) simp_all

lemma owner_only_file:
  "owner_only K w \<Longrightarrow> wfiles w p = Some f \<Longrightarrow> p \<in> K \<Longrightarrow> fmode f AND group_other_bits = 0"
  by (auto simp: owner_only_def dest!: bspec)

lemma owner_only_set_file [intro]:
  "owner_only K w \<Longrightarrow> (p \<in> K \<Longrightarrow> fmode f AND group_other_bits = 0) \<Longrightarrow> owner_only K (set_file p f w)"
  by (erule owner_only_cong) (auto simp: set_file_def)

lemma owner_only_update:
  "owner_only K w \<Longrightarrow> wfiles w p = Some f \<Longrightarrow> fmode g = fmode f \<Longrightarrow> owner_only K (set_file p g w)"
  by (rule owner_only_set_file) (auto dest: owner_only_file)

lemma owner_only_synced [intro]:
  "owner_only K w \<Longrightarrow> wfiles w p = Some f \<Longrightarrow> owner_only K (set_file p (f\<lparr>fsynced := b\<rparr>) w)"
  "owner_only K w \<Longrightarrow> wfiles w p = Some f \<Longrightarrow> owner_only K (set_file p (f\<lparr>fdata := bs, fsynced := b\<rparr>) w)"
  by (rule owner_only_update; simp)+

lemma owner_only_taint [intro]: "owner_only K w \<Longrightarrow> owner_only K (taint p w)"
  by (erule owner_only_cong) (auto simp: taint_def)

lemma owner_only_append [intro]: "owner_only K w \<Longrightarrow> owner_only K (append_data p bs w)"
  by (auto simp: append_data_def split: option.split intro!: owner_only_taint)

lemma owner_only_moves [intro]:
  "owner_only K w \<Longrightarrow> owner_only K (flush_dir d w)"
  "owner_only K w \<Longrightarrow> owner_only K (w\<lparr>wdirs := D\<rparr>)"
  "owner_only K w \<Longrightarrow> owner_only K (w\<lparr>wfiles := (wfiles w)(p := None)\<rparr>)"
  "owner_only K w \<Longrightarrow> wfiles w p = Some f \<Longrightarrow> (q \<in> K \<Longrightarrow> p \<in> K) \<Longrightarrow>
   owner_only K (w\<lparr>wfiles := (wfiles w)(p := None, q \<mapsto> f)\<rparr>)"
proof -
  assume w: "owner_only K w"
  show "owner_only K (flush_dir d w)" "owner_only K (w\<lparr>wdirs := D\<rparr>)"
    "owner_only K (w\<lparr>wfiles := (wfiles w)(p := None)\<rparr>)"
    by (rule owner_only_cong [OF w]; simp add: flush_dir_def)+
  assume f: "wfiles w p = Some f" "q \<in> K \<Longrightarrow> p \<in> K"
  show "owner_only K (w\<lparr>wfiles := (wfiles w)(p := None, q \<mapsto> f)\<rparr>)"
    by (rule owner_only_cong [OF w]) (use f in \<open>auto intro: owner_only_file [OF w]\<close>)
qed

lemma owner_only_calls [triple_rules]:
  "(p \<in> K \<Longrightarrow> m = mode_0600) \<Longrightarrow> keeps (owner_only K) (open_create m p)"
  "keeps (owner_only K) (write_all p bs)"
  "keeps (owner_only K) (open_write p)"
  "keeps (owner_only K) (sync_all p)"
  "(p \<in> K \<Longrightarrow> n AND group_other_bits = 0) \<Longrightarrow> keeps (owner_only K) (set_permissions p n)"
  "(q \<in> K \<Longrightarrow> p \<in> K) \<Longrightarrow> keeps (owner_only K) (fs_rename p q)"
  "keeps (owner_only K) (open_dir d)"
  "keeps (owner_only K) (sync_dir d)"
  "keeps (owner_only K) (remove_file p)"
  "keeps (owner_only K) (create_dir_all d)"
  unfolding open_create_def write_all_def open_write_def sync_all_def set_permissions_def
    fs_rename_def open_dir_def sync_dir_def remove_file_def create_dir_all_def
  by (rule triple_syscall; auto split: option.splits if_splits)+

lemma owner_only_on_unix: "owner_only K w \<Longrightarrow> on_unix w"
  by (simp add: owner_only_def)

lemma owner_only_writes [triple_rules]:
  "p \<notin> K \<Longrightarrow> keeps (owner_only K) (fs_write p bs)"
  "keeps (owner_only K) (write_key_file p bs)"
  "(q \<in> K \<Longrightarrow> p \<in> K) \<Longrightarrow> keeps (owner_only K) (atomic_rename p q)"
  "keeps (owner_only K) (fsync_dir d)"
  "keeps (owner_only K) (harden_dir_permissions d)"
  unfolding fs_write_def write_key_file_def write_key_file_unix_def fsync_dir_def fsync_dir_unix_def
    atomic_rename_def atomic_rename_unix_def harden_dir_permissions_def harden_dir_permissions_unix_def
  by (auto intro!: triple_rules triple_on_platform owner_only_on_unix)

lemma atomic_write_owner_only [triple_rules]:
  assumes "if k = Yes then dest \<in> K \<longrightarrow> tmp_path dest \<in> K else dest \<notin> K \<and> tmp_path dest \<notin> K"
  shows "keeps (owner_only K) (atomic_write dest b k)"
proof (cases k)
  case Yes
  then show ?thesis using assms unfolding atomic_write_def Let_def
    by (auto intro!: triple_rules split: option.split)
next
  case No
  then show ?thesis using assms unfolding atomic_write_def Let_def
    by (auto intro!: triple_rules split: option.split)
qed

section \<open>Without faults\<close>

text \<open>With nothing planned, a write to a slot of an existing directory succeeds, on both platforms.\<close>

definition quiet :: "world \<Rightarrow> bool" where
  "quiet w \<longleftrightarrow> wplan w = []"

lemma atomic_write_quiet:
  assumes "quiet w" and "is_slot dest" and d: "wdirs w (butlast dest) \<noteq> None"
    and "wdirs w dest = None" and "wdirs w (tmp_path dest) = None"
  shows "\<exists>w'. atomic_write dest b k w = (Ok (), w') \<and> quiet w' \<and> wplatform w' = wplatform w \<and>
    wdirs w' = wdirs w \<and> content w' = (content w)(tmp_path dest := None, dest := Some b)"
proof -
  have "parent (tmp_path dest) = Some (butlast dest)"
    using assms(2) by (simp add: tmp_path_def is_slot_def)
  note facts = assms parent_slot [OF assms(2)] this
  show ?thesis
    using facts
    by (cases "wplatform w"; cases k; cases "wfiles w (tmp_path dest)")
      (auto simp: atomic_write_def Let_def write_key_file_def write_key_file_unix_def
        write_key_file_windows_def fs_write_def open_create_def write_all_def set_permissions_def
        open_write_def sync_all_def atomic_rename_def atomic_rename_unix_def
        atomic_rename_windows_def on_err_def fs_rename_def fsync_dir_def fsync_dir_unix_def
        fsync_dir_windows_def open_dir_def sync_dir_def on_platform_def seq_def io_def quiet_def
        world_defs content_def fun_eq_iff)
qed

text \<open>On Unix a write makes seven calls for a certificate, eight for a key; with as many planned to
  proceed it succeeds and leaves the rest of the plan.\<close>

definition write_calls :: "secret \<Rightarrow> nat" where
  "write_calls k = (case k of Yes \<Rightarrow> 8 | No \<Rightarrow> 7)"

lemma atomic_write_proceeds:
  assumes "on_unix w" and "wplan w = replicate (write_calls k) Proceed @ fs" and "is_slot dest"
    and "wdirs w (butlast dest) \<noteq> None" and "wdirs w dest = None" and "wdirs w (tmp_path dest) = None"
  shows "\<exists>w'. atomic_write dest b k w = (Ok (), w') \<and> wplan w' = fs \<and> on_unix w' \<and> wdirs w' = wdirs w"
proof -
  have "parent (tmp_path dest) = Some (butlast dest)"
    using assms(3) by (simp add: tmp_path_def is_slot_def)
  note facts = assms parent_slot [OF assms(3)] this
  show ?thesis
    using facts
    by (cases k; cases "wfiles w (tmp_path dest)")
      (auto simp: atomic_write_def Let_def write_key_file_def write_key_file_unix_def fs_write_def
        open_create_def write_all_def set_permissions_def open_write_def sync_all_def
        atomic_rename_def atomic_rename_unix_def fs_rename_def fsync_dir_def fsync_dir_unix_def
        open_dir_def sync_dir_def on_platform_def on_unix_def seq_def io_def syscall_def
        write_calls_def numeral_eq_Suc world_defs)
qed

section \<open>The write on Windows\<close>

text \<open>
  On Windows the directory is not flushed, and the rename may fall back to removing the target
  first. The target may then be found as it was, absent, or with the whole new contents; no other
  file is touched.
\<close>

lemma triple_on_err:
  assumes "triple P m Q E'" and "\<And>e. triple E' (h e) Q E" and "\<And>s. E' s \<Longrightarrow> E s"
  shows "triple P (on_err m h) Q E"
  unfolding triple_def
proof (intro allI impI)
  fix s assume "P s"
  with assms(1) have "case m s of (Ok a, s') \<Rightarrow> Q a s' | (_, s') \<Rightarrow> E' s'" by (simp add: triple_def)
  moreover have "case h e s' of (Ok a, t) \<Rightarrow> Q a t | (_, t) \<Rightarrow> E t" if "E' s'" for e s'
    using assms(2) [of e] that by (simp add: triple_def)
  ultimately show "case on_err m h s of (Ok a, s') \<Rightarrow> Q a s' | (_, s') \<Rightarrow> E s'"
    using assms(3) by (cases "m s"; cases "fst (m s)") (auto simp: on_err_def)
qed

lemma triple_on_windows:
  assumes "\<And>w. P w \<Longrightarrow> wplatform w = Windows" and "triple P windows Q E"
  shows "triple P (on_platform unix windows) Q E"
  using assms by (auto simp: triple_def on_platform_def)

lemma holds_at_platform: "holds_at pl q V w \<Longrightarrow> wplatform w = pl"
  by (simp add: holds_at_def)

lemma holds_at_mono: "holds_at pl p V w \<Longrightarrow> V \<subseteq> W \<Longrightarrow> holds_at pl p W w"
  by (auto simp: holds_at_def)

lemma windows_writes_frame:
  assumes "q \<noteq> p"
  shows "keeps (holds_at Windows q V) (fs_write p bs)"
    and "keeps (holds_at Windows q V) (write_key_file p bs)"
    and "q \<noteq> p' \<Longrightarrow> keeps (holds_at Windows q V) (atomic_rename p p')"
    and "keeps (holds_at Windows q V) (fsync_dir d)"
proof -
  show w: "keeps (holds_at Windows q V) (fs_write p bs)"
    unfolding fs_write_def using assms by (intro triple_rules)
  show "keeps (holds_at Windows q V) (write_key_file p bs)"
    unfolding write_key_file_def write_key_file_windows_def
    by (rule triple_on_windows) (auto intro!: triple_rules w simp: holds_at_platform)
  show "keeps (holds_at Windows q V) (fsync_dir d)"
    unfolding fsync_dir_def fsync_dir_windows_def
    by (rule triple_on_windows) (auto intro!: triple_rules simp: holds_at_platform)
  show "keeps (holds_at Windows q V) (atomic_rename p p')" if "q \<noteq> p'"
    unfolding atomic_rename_def atomic_rename_windows_def
    by (rule triple_on_windows)
      (use assms that in \<open>auto intro!: triple_on_err triple_rules triple_path_exists holds_at_plan
        simp: holds_at_platform\<close>)
qed

lemma windows_write_frame:
  assumes "q \<noteq> dest" and "q \<noteq> tmp_path dest"
  shows "keeps (holds_at Windows q V) (atomic_write dest b k)"
  unfolding atomic_write_def Let_def
  using assms
  by (cases k; cases "parent dest") (auto intro!: triple_rules windows_writes_frame)

lemma windows_rename_target:
  assumes "q \<noteq> p"
  shows "triple (\<lambda>w. holds_at Windows p V w \<and> staged q (flushed b) w) (atomic_rename q p)
    (\<lambda>_ w. holds_at Windows p (insert None (insert (Some b) V)) w \<and> staged p (flushed b) w)
    (holds_at Windows p (insert None (insert (Some b) V)))"
    (is "triple ?pre _ (\<lambda>_. ?post) ?exit")
proof -
  let ?gone = "\<lambda>w. holds_at Windows p (insert None V) w \<and> staged q (flushed b) w"
  have exit: "?gone w \<Longrightarrow> ?exit w" for w by (auto elim: holds_at_mono)
  have rename: "triple ?gone (fs_rename q p) (\<lambda>_. ?post) ?gone"
    by (rule triple_weaken [OF rename_target [OF assms, of Windows "insert None V" b]])
      (auto elim: holds_at_mono)
  have there: "triple ?gone (path_exists p) (\<lambda>_. ?gone) ?exit"
    by (rule triple_path_exists) (auto simp: holds_at_plan staged_plan intro: exit)
  have remove: "triple ?gone (remove_file p) (\<lambda>_. ?gone) ?exit"
    unfolding remove_file_def
  proof (rule triple_syscall, goal_cases)
    case (3 w)
    then have "holds_at Windows p (insert None V) (w\<lparr>wfiles := (wfiles w)(p := None)\<rparr>)"
      by (auto simp: holds_at_def may_hold_def)
    moreover have "staged q (flushed b) (w\<lparr>wfiles := (wfiles w)(p := None)\<rparr>)"
      using 3 assms by (simp add: staged_def)
    ultimately show ?case using 3 exit [OF 3] by simp
  qed (auto simp: holds_at_plan staged_plan intro: exit)
  have again: "triple ?gone (seq (io (remove_file p)) (\<lambda>_. seq (io (fs_rename q p)) (\<lambda>_. ret ()))) (\<lambda>_. ?post) ?exit"
  proof (rule triple_seq [OF triple_io [OF remove]], rule triple_seq)
    show "triple ?gone (io (fs_rename q p)) (\<lambda>_. ?post) ?exit"
      by (rule triple_io, rule triple_weaken [OF rename]) (auto intro: exit)
  qed (rule triple_ret_keeps)
  have "triple ?gone (on_err (fs_rename q p) (\<lambda>e. seq (path_exists p) (\<lambda>there.
      if there then seq (io (remove_file p)) (\<lambda>_. seq (io (fs_rename q p)) (\<lambda>_. ret ()))
      else throw (Io e)))) (\<lambda>_. ?post) ?exit"
    by (rule triple_on_err [OF rename triple_seq [OF there]])
      (rule triple_if, rule again, auto simp: triple_def intro: exit)
  then have "triple ?pre (atomic_rename_windows q p) (\<lambda>_. ?post) ?exit"
    unfolding atomic_rename_windows_def by (rule triple_weaken) (auto elim: holds_at_mono)
  then show ?thesis
    unfolding atomic_rename_def by (rule triple_on_windows [rotated]) (auto dest: holds_at_platform)
qed

lemma windows_write_target:
  "triple (holds_at Windows dest V) (atomic_write dest b k)
    (\<lambda>_ w. holds_at Windows dest (insert None (insert (Some b) V)) w \<and> staged dest (flushed b) w)
    (holds_at Windows dest (insert None (insert (Some b) V)))"
    (is "triple ?H _ (\<lambda>_. ?post) ?exit")
proof -
  let ?t = "tmp_path dest"
  have neq: "dest \<noteq> ?t" by simp
  have wait: "triple (\<lambda>w. ?H w \<and> P w) m (\<lambda>_ w. ?H w \<and> S w) ?exit"
    if "keeps ?H m" "triple P m (\<lambda>_. S) (\<lambda>_. True)" for P m S
    by (rule triple_weaken [OF triple_conj [OF that]]) (auto elim: holds_at_mono)
  have key: "triple (\<lambda>w. wplatform w = Windows) (write_key_file ?t b) (\<lambda>_. staged ?t (\<lambda>f. fdata f = b)) (\<lambda>_. True)"
    unfolding write_key_file_def write_key_file_windows_def
    by (rule triple_on_windows)
      (auto intro!: triple_seq [OF triple_io [OF triple_weaken [OF staged_write(1)]]] triple_ret_keeps)
  have stage: "triple ?H (case k of Yes \<Rightarrow> write_key_file ?t b | No \<Rightarrow> io (fs_write ?t b))
      (\<lambda>_ w. ?H w \<and> staged ?t (\<lambda>f. fdata f = b) w) ?exit"
    by (cases k)
      (auto intro!: triple_weaken [OF wait [OF windows_writes_frame(2) [OF neq] key]]
        triple_io triple_weaken [OF wait [OF windows_writes_frame(1) [OF neq] staged_write(1)]]
        dest: holds_at_platform)
  have flush: "triple ?post (case parent dest of Some d \<Rightarrow> fsync_dir d | None \<Rightarrow> ret ()) (\<lambda>_. ?post) ?exit"
    unfolding fsync_dir_def fsync_dir_windows_def
    by (auto intro!: triple_on_windows triple_ret_keeps dest: holds_at_platform split: option.split)
  show ?thesis
    unfolding atomic_write_def Let_def
    by (rule triple_seq [OF stage], rule triple_seq [OF triple_io [OF wait
            [OF holds_only_calls(3) staged_calls(4)]]],
        rule triple_seq [OF triple_io [OF wait [OF holds_only_calls(4) [OF neq] staged_calls(5)]]],
        rule triple_seq [OF windows_rename_target [OF neq [symmetric]]], rule flush)
qed

section \<open>Properties\<close>

text \<open>
  C17. A write to a slot is atomic and durable. On Unix, whatever call of \<open>atomic_write\<close> fails or is
  where the machine stops: after recovery the target holds the new contents or what it could have
  held before, never a part of the new ones; when \<open>atomic_write\<close> returned, it holds the new contents.
  No path but the target and its staging file has changed what it may hold.
\<close>

theorem atomic_write_is_atomic:
  assumes "on_unix w" and "is_slot dest" and "atomic_write dest b k w = (r, w')"
  shows "(content (recover c w') dest = Some b \<or> may_hold w dest (content (recover c w') dest)) \<and>
    (r = Ok () \<longrightarrow> content (recover c w') dest = Some b) \<and>
    (\<forall>q. q \<noteq> dest \<longrightarrow> q \<noteq> tmp_path dest \<longrightarrow> may_hold w q (content (recover c w') q))"
proof (intro conjI allI impI)
  let ?V = "Collect (may_hold w dest)"
  note target = atomic_write_target [OF assms(2), of ?V b k]
  have w: "holds_only dest ?V w" using assms(1) by (simp add: holds_only_def)
  have "holds_only dest (insert (Some b) ?V) (snd (atomic_write dest b k w))"
    by (rule triple_any [OF target w]) (auto intro: holds_only_mono)
  then show "content (recover c w') dest = Some b \<or> may_hold w dest (content (recover c w') dest)"
    using recover_may_hold [of w' dest c] assms(3) by (auto simp: holds_only_def)
  show "content (recover c w') dest = Some b" if "r = Ok ()"
    using triple_Ok [OF target w, of "()" w'] recover_may_hold [of w' dest c] assms(3) that
    by (auto simp: holds_only_def)
  fix q assume q: "q \<noteq> dest" "q \<noteq> tmp_path dest"
  have "holds_only q (Collect (may_hold w q)) (snd (atomic_write dest b k w))"
    by (rule triple_any [OF atomic_write_frame [OF q]])
      (use assms(1) in \<open>simp_all add: holds_only_def\<close>)
  then show "may_hold w q (content (recover c w') q)"
    using recover_may_hold [of w' q c] assms(3) by (auto simp: holds_only_def)
qed

definition demo_world :: "platform \<Rightarrow> fault list \<Rightarrow> world" where
  "demo_world pl fs = \<lparr>wfiles = (\<lambda>_. None), wdisk = (\<lambda>_. None),
     wdirs = (\<lambda>p. if p = [] then Some mode_0777 else None), wumask = 0, wplatform = pl, wplan = fs\<rparr>"

theorem atomic_write_is_atomic_witness:
  "\<exists>r w'. atomic_write [''a''] [1, 2] Yes (demo_world Unix [Proceed, Stop 1]) = (r, w') \<and> r = Crashed \<and>
     (content (recover (\<lambda>_. (True, [])) w') [''a''] = Some [1, 2] \<or>
      may_hold (demo_world Unix [Proceed, Stop 1]) [''a''] (content (recover (\<lambda>_. (True, [])) w') [''a'']))"
proof -
  let ?w = "demo_world Unix [Proceed, Stop 1]"
  have "on_unix ?w" and "is_slot [''a'']"
    by (simp_all add: on_unix_def demo_world_def is_slot_def suffix_to_prefix)
  note atomic = atomic_write_is_atomic [OF this surjective_pairing [of "atomic_write [''a''] [1, 2] Yes ?w"]]
  have "fst (atomic_write [''a''] [1, 2] Yes ?w) = Crashed"
    by (simp add: atomic_write_def Let_def write_key_file_def write_key_file_unix_def on_platform_def
        demo_world_def seq_def io_def open_create_def write_all_def syscall_def tmp_path_def parent_def
        set_file_def)
  then have run: "atomic_write [''a''] [1, 2] Yes ?w = (Crashed, snd (atomic_write [''a''] [1, 2] Yes ?w))"
    by (metis surjective_pairing)
  show ?thesis
    using run atomic [of "\<lambda>_. (True, [])"] by blast
qed

text \<open>
  C29. On Windows a write to a slot never tears it. Whatever call of \<open>atomic_write\<close> fails or is where
  the machine stops, after recovery the target holds the whole new contents, or what it could have
  held before, or it is absent; when \<open>atomic_write\<close> returned, the target, as the running system sees
  it, holds the new contents. No path but the target and its staging file has changed what it may
  hold. That the target can be absent, which the Unix variant excludes, is the remove-then-rename
  fallback; that the old contents can be found after a return is the missing flush of the directory.
\<close>

theorem windows_write_never_tears:
  assumes "wplatform w = Windows" and "atomic_write dest b k w = (r, w')"
  shows "(content (recover c w') dest \<in> {None, Some b} \<or> may_hold w dest (content (recover c w') dest)) \<and>
    (r = Ok () \<longrightarrow> content w' dest = Some b) \<and>
    (\<forall>q. q \<noteq> dest \<longrightarrow> q \<noteq> tmp_path dest \<longrightarrow> may_hold w q (content (recover c w') q))"
proof (intro conjI allI impI)
  let ?V = "Collect (may_hold w dest)"
  note target = windows_write_target [of dest ?V b k]
  have w: "holds_at Windows dest ?V w" using assms(1) by (simp add: holds_at_def)
  have "holds_at Windows dest (insert None (insert (Some b) ?V)) (snd (atomic_write dest b k w))"
    by (rule triple_any [OF target w]) simp
  then show "content (recover c w') dest \<in> {None, Some b} \<or> may_hold w dest (content (recover c w') dest)"
    using recover_may_hold [of w' dest c] assms(2) by (auto simp: holds_at_def)
  show "content w' dest = Some b" if "r = Ok ()"
    using triple_Ok [OF target w, of "()" w'] assms(2) that
    by (auto simp: staged_def content_def split: option.splits)
  fix q assume q: "q \<noteq> dest" "q \<noteq> tmp_path dest"
  have "holds_at Windows q (Collect (may_hold w q)) (snd (atomic_write dest b k w))"
    by (rule triple_any [OF windows_write_frame [OF q]]) (use assms(1) in \<open>simp_all add: holds_at_def\<close>)
  then show "may_hold w q (content (recover c w') q)"
    using recover_may_hold [of w' q c] assms(2) by (auto simp: holds_at_def)
qed

theorem windows_write_never_tears_witness:
  "\<exists>r w'. atomic_write [''a''] [1, 2] No (demo_world Windows [Proceed, Stop 1]) = (r, w') \<and> r = Crashed \<and>
     (content (recover (\<lambda>_. (True, [])) w') [''a''] \<in> {None, Some [1, 2]} \<or>
      may_hold (demo_world Windows [Proceed, Stop 1]) [''a''] (content (recover (\<lambda>_. (True, [])) w') [''a'']))"
proof -
  let ?w = "demo_world Windows [Proceed, Stop 1]"
  have "wplatform ?w = Windows" by (simp add: demo_world_def)
  note whole = windows_write_never_tears [OF this surjective_pairing [of "atomic_write [''a''] [1, 2] No ?w"]]
  have "fst (atomic_write [''a''] [1, 2] No ?w) = Crashed"
    by (simp add: atomic_write_def Let_def fs_write_def demo_world_def seq_def io_def open_create_def
        write_all_def syscall_def tmp_path_def parent_def set_file_def)
  then have "atomic_write [''a''] [1, 2] No ?w = (Crashed, snd (atomic_write [''a''] [1, 2] No ?w))"
    by (metis surjective_pairing)
  with whole [of "\<lambda>_. (True, [])"] show ?thesis by blast
qed

text \<open>
  C38. A staging file left over with wide permissions exposes the key. The mode given to \<open>open\<close>
  applies to a file it creates; if \<open>node.key.tmp\<close> already exists and group and others may read it,
  \<open>write_key_file\<close> writes the whole key into it before it sets the permissions, and a stop between
  the two leaves the key readable. So the key files stay owner-only only if no such file is there.
\<close>

theorem stale_staging_file_exposes_key:
  assumes "on_unix w" and "wdirs w (tmp_path dest) = None" and "parent (tmp_path dest) = Some d"
    and "wdirs w d \<noteq> None" and "wfiles w (tmp_path dest) = Some f" and "fmode f = 0x1A4"
    and "wplan w = [Proceed, Proceed, Stop 0]"
  shows "\<exists>w' g. atomic_write dest key Yes w = (Crashed, w') \<and> wfiles w' (tmp_path dest) = Some g \<and>
    fdata g = key \<and> fmode g AND group_other_bits \<noteq> 0"
  using assms
  by (simp add: atomic_write_def Let_def write_key_file_def write_key_file_unix_def on_platform_def
      on_unix_def seq_def io_def open_create_def write_all_def syscall_def set_permissions_def
      world_defs group_other_bits_def)

theorem stale_staging_file_exposes_key_witness:
  "\<exists>w' g. atomic_write [''a''] [1] Yes
      ((demo_world Unix [Proceed, Proceed, Stop 0])\<lparr>wfiles :=
         [[''a.tmp''] \<mapsto> \<lparr>fdata = [], fmode = 0x1A4, fsynced = False\<rparr>]\<rparr>) = (Crashed, w') \<and>
     wfiles w' (tmp_path [''a'']) = Some g \<and> fdata g = [1] \<and> fmode g AND group_other_bits \<noteq> 0"
  by (rule stale_staging_file_exposes_key [where d = "[]"
        and f = "\<lparr>fdata = [], fmode = 0x1A4, fsynced = False\<rparr>"])
    (simp_all add: on_unix_def demo_world_def tmp_path_def parent_def)

end
