(* ===== verification/Dig_Store.thy ===== *)
theory Dig_Store
  imports Dig_NodeCert Dig_Persist
begin

text \<open>
  The node certificate on disk: \<open>load_or_generate\<close>, \<open>rotate\<close>, \<open>load_previous\<close> and
  \<open>retire_previous\<close> of \<open>node_cert.rs\<close>, over the file system of \<open>Dig_Fs\<close>, with the lemmas on what
  they read, what they write, and what is left after a failure or a crash.
  The randomness of the key generation and the current time are arguments of the operations that
  mint a certificate.
\<close>

definition CERT_FILE :: string where "CERT_FILE = ''node.crt''"
definition KEY_FILE :: string where "KEY_FILE = ''node.key''"
definition CERT_FILE_PREV :: string where "CERT_FILE_PREV = ''node.crt.prev''"
definition KEY_FILE_PREV :: string where "KEY_FILE_PREV = ''node.key.prev''"

type_synonym 'a store_op = "(world, dig_tls_error, 'a) action"

text \<open>\<open>a.exists() && b.exists()\<close> and \<open>a.exists() || b.exists()\<close>: the second call is made only if
  the first has not decided.\<close>

definition both_exist :: "path \<Rightarrow> path \<Rightarrow> bool store_op" where
  "both_exist p q = seq (path_exists p) (\<lambda>b. if b then path_exists q else ret False)"

definition either_exists :: "path \<Rightarrow> path \<Rightarrow> bool store_op" where
  "either_exists p q = seq (path_exists p) (\<lambda>b. if b then ret True else path_exists q)"

definition generate_and_persist :: "crates \<Rightarrow> path \<Rightarrow> opaque \<Rightarrow> bytes \<Rightarrow> int \<Rightarrow> node_cert store_op" where
  "generate_and_persist X dir bls_sk rnd now =
     seq (pure_act (generate_signed X bls_sk rnd now)) (\<lambda>node.
     seq (io (create_dir_all dir)) (\<lambda>_.
     seq (harden_dir_permissions dir) (\<lambda>_.
     seq (atomic_write (dir @ [CERT_FILE]) (as_bytes (cert_pem node)) No) (\<lambda>_.
     seq (atomic_write (dir @ [KEY_FILE]) (as_bytes (key_pem node)) Yes) (\<lambda>_.
     ret node)))))"

definition load_or_generate :: "crates \<Rightarrow> path \<Rightarrow> opaque \<Rightarrow> bytes \<Rightarrow> int \<Rightarrow> node_cert store_op" where
  "load_or_generate X dir bls_sk rnd now =
     (let cert_path = dir @ [CERT_FILE]; key_path = dir @ [KEY_FILE] in
      seq (both_exist cert_path key_path) (\<lambda>there.
      if there then
        seq (io (read_to_string cert_path)) (\<lambda>cpem.
        seq (read_key_to_zeroizing key_path) (\<lambda>kpem.
        pure_act (from_pem X cpem kpem)))
      else generate_and_persist X dir bls_sk rnd now))"

definition persist_rotation :: "path \<Rightarrow> node_cert \<Rightarrow> node_cert \<Rightarrow> rotated_node_cert store_op" where
  "persist_rotation dir old new =
     seq (harden_dir_permissions dir) (\<lambda>_.
     seq (atomic_write (dir @ [CERT_FILE_PREV]) (as_bytes (cert_pem old)) No) (\<lambda>_.
     seq (atomic_write (dir @ [KEY_FILE_PREV]) (as_bytes (key_pem old)) Yes) (\<lambda>_.
     seq (atomic_write (dir @ [CERT_FILE]) (as_bytes (cert_pem new)) No) (\<lambda>_.
     seq (atomic_write (dir @ [KEY_FILE]) (as_bytes (key_pem new)) Yes) (\<lambda>_.
     ret \<lparr>previous = old, current = new\<rparr>)))))"

definition rotate_nothing :: dig_tls_error where
  "rotate_nothing = CertGen
     ''rotate: no current node cert to rotate (call load_or_generate first)''"

definition rotate_unretired :: dig_tls_error where
  "rotate_unretired = CertGen
     ''rotate: a previous rotation is still un-retired (.prev slot present); call retire_previous before rotating again''"

definition rotate_cert :: "crates \<Rightarrow> path \<Rightarrow> opaque \<Rightarrow> bytes \<Rightarrow> int \<Rightarrow> rotated_node_cert store_op" where
  "rotate_cert X dir new_bls_sk rnd now =
     (let cert_path = dir @ [CERT_FILE]; key_path = dir @ [KEY_FILE];
          prev_cert_path = dir @ [CERT_FILE_PREV]; prev_key_path = dir @ [KEY_FILE_PREV] in
      seq (both_exist cert_path key_path) (\<lambda>there.
      if \<not> there then throw rotate_nothing
      else
        seq (either_exists prev_cert_path prev_key_path) (\<lambda>unretired.
        if unretired then throw rotate_unretired
        else
          seq (io (read_to_string cert_path)) (\<lambda>cpem.
          seq (read_key_to_zeroizing key_path) (\<lambda>kpem.
          seq (pure_act (from_pem X cpem kpem)) (\<lambda>old.
          seq (pure_act (generate_signed X new_bls_sk rnd now)) (\<lambda>new.
          persist_rotation dir old new)))))))"

definition load_previous :: "crates \<Rightarrow> path \<Rightarrow> node_cert option store_op" where
  "load_previous X dir =
     (let cert_path = dir @ [CERT_FILE_PREV]; key_path = dir @ [KEY_FILE_PREV] in
      seq (both_exist cert_path key_path) (\<lambda>there.
      if \<not> there then ret None
      else
        seq (io (read_to_string cert_path)) (\<lambda>cpem.
        seq (io (read_to_string key_path)) (\<lambda>kpem.
        seq (pure_act (from_pem X cpem kpem)) (\<lambda>n.
        ret (Some n))))))"

text \<open>\<open>drop(Zeroizing::new(fs::read(..)?))\<close> reads the key and scrubs the copy.\<close>

definition retire_previous :: "path \<Rightarrow> unit store_op" where
  "retire_previous dir =
     (let cert_path = dir @ [CERT_FILE_PREV]; key_path = dir @ [KEY_FILE_PREV] in
      seq (path_exists key_path) (\<lambda>k.
      seq (if k
           then seq (io (fs_read key_path)) (\<lambda>_. io (remove_file key_path))
           else ret ()) (\<lambda>_.
      seq (path_exists cert_path) (\<lambda>c.
      if c then io (remove_file cert_path) else ret ()))))"

section \<open>The four slots\<close>

abbreviation cert_at :: "path \<Rightarrow> path" where "cert_at dir \<equiv> dir @ [CERT_FILE]"
abbreviation key_at :: "path \<Rightarrow> path" where "key_at dir \<equiv> dir @ [KEY_FILE]"
abbreviation prev_cert_at :: "path \<Rightarrow> path" where "prev_cert_at dir \<equiv> dir @ [CERT_FILE_PREV]"
abbreviation prev_key_at :: "path \<Rightarrow> path" where "prev_key_at dir \<equiv> dir @ [KEY_FILE_PREV]"

lemmas name_defs = CERT_FILE_def KEY_FILE_def CERT_FILE_PREV_def KEY_FILE_PREV_def

lemma names_distinct [simp]:
  "CERT_FILE \<noteq> KEY_FILE" "CERT_FILE \<noteq> CERT_FILE_PREV" "CERT_FILE \<noteq> KEY_FILE_PREV"
  "KEY_FILE \<noteq> CERT_FILE" "KEY_FILE \<noteq> CERT_FILE_PREV" "KEY_FILE \<noteq> KEY_FILE_PREV"
  "CERT_FILE_PREV \<noteq> CERT_FILE" "CERT_FILE_PREV \<noteq> KEY_FILE" "CERT_FILE_PREV \<noteq> KEY_FILE_PREV"
  "KEY_FILE_PREV \<noteq> CERT_FILE" "KEY_FILE_PREV \<noteq> KEY_FILE" "KEY_FILE_PREV \<noteq> CERT_FILE_PREV"
  by (simp_all add: name_defs)

lemma slots_ok [simp]:
  "is_slot (cert_at dir)" "is_slot (key_at dir)" "is_slot (prev_cert_at dir)" "is_slot (prev_key_at dir)"
  by (simp_all add: is_slot_def suffix_to_prefix name_defs)

lemma dir_not_slot [simp]: "dir @ [n] \<noteq> dir" "dir \<noteq> dir @ [n]"
  by simp_all

lemma tmp_path_snoc [simp]: "tmp_path (dir @ [n]) = dir @ [n @ ''.tmp'']"
  by (simp add: tmp_path_def)

lemma tmp_names [simp]:
  "n @ ''.tmp'' = m @ ''.tmp'' \<longleftrightarrow> n = m"
  "CERT_FILE \<noteq> n @ ''.tmp''" "KEY_FILE \<noteq> n @ ''.tmp''"
  "CERT_FILE_PREV \<noteq> n @ ''.tmp''" "KEY_FILE_PREV \<noteq> n @ ''.tmp''"
  "n @ ''.tmp'' \<noteq> CERT_FILE" "n @ ''.tmp'' \<noteq> KEY_FILE"
  "n @ ''.tmp'' \<noteq> CERT_FILE_PREV" "n @ ''.tmp'' \<noteq> KEY_FILE_PREV"
proof -
  have "suffix ''.tmp'' (n @ ''.tmp'')" by (rule suffixI) simp
  moreover have "\<not> suffix ''.tmp'' CERT_FILE" "\<not> suffix ''.tmp'' KEY_FILE"
    "\<not> suffix ''.tmp'' CERT_FILE_PREV" "\<not> suffix ''.tmp'' KEY_FILE_PREV"
    by (simp_all add: suffix_to_prefix name_defs)
  ultimately show "CERT_FILE \<noteq> n @ ''.tmp''" "KEY_FILE \<noteq> n @ ''.tmp''"
    "CERT_FILE_PREV \<noteq> n @ ''.tmp''" "KEY_FILE_PREV \<noteq> n @ ''.tmp''"
    "n @ ''.tmp'' \<noteq> CERT_FILE" "n @ ''.tmp'' \<noteq> KEY_FILE"
    "n @ ''.tmp'' \<noteq> CERT_FILE_PREV" "n @ ''.tmp'' \<noteq> KEY_FILE_PREV"
    by metis+
qed simp


section \<open>Without faults\<close>

text \<open>A pair of texts at two paths, and a node certificate stored there.\<close>

definition texts_at :: "world \<Rightarrow> path \<Rightarrow> path \<Rightarrow> string \<Rightarrow> string \<Rightarrow> bool" where
  "texts_at w p q a b \<longleftrightarrow>
     content w p = Some (as_bytes a) \<and> content w q = Some (as_bytes b) \<and>
     valid_utf8 (as_bytes a) \<and> valid_utf8 (as_bytes b)"

definition stored :: "crates \<Rightarrow> world \<Rightarrow> path \<Rightarrow> path \<Rightarrow> node_cert \<Rightarrow> bool" where
  "stored X w p q n \<longleftrightarrow> node_cert_wf X n \<and> texts_at w p q (cert_pem n) (key_pem n)"

text \<open>A directory path with no file on the way to it and no directory in it.\<close>

definition plain_dir :: "world \<Rightarrow> path \<Rightarrow> bool" where
  "plain_dir w dir \<longleftrightarrow> (\<forall>n. wdirs w (dir @ [n]) = None) \<and> (\<forall>q \<in> set (prefixes dir). wfiles w q = None)"

lemma content_Some_file: "content w p = Some b \<Longrightarrow> wfiles w p \<noteq> None"
  by (auto simp: content_def)

lemma both_exist_texts [outcome_simps]:
  "quiet w \<Longrightarrow> texts_at w p q a b \<Longrightarrow> both_exist p q w = (Ok True, w)"
  by (simp add: both_exist_def seq_def quiet_def texts_at_def content_Some_file)

lemma both_exist_absent [outcome_simps]:
  assumes "quiet w" and "plain_dir w dir" and "content w (dir @ [m]) = None \<or> content w (dir @ [n]) = None"
  shows "both_exist (dir @ [m]) (dir @ [n]) w = (Ok False, w)"
  using assms by (auto simp: both_exist_def seq_def quiet_def plain_dir_def content_def)

lemma either_exists_quiet [outcome_simps]:
  assumes "quiet w" and "plain_dir w dir"
  shows "either_exists (dir @ [m]) (dir @ [n]) w =
    (Ok (content w (dir @ [m]) \<noteq> None \<or> content w (dir @ [n]) \<noteq> None), w)"
  using assms by (auto simp: either_exists_def seq_def quiet_def plain_dir_def content_def)

lemma read_texts [outcome_simps]:
  assumes "quiet w" and "texts_at w p q a b"
  shows "io (read_to_string p) w = (Ok a, w)" and "read_key_to_zeroizing q w = (Ok b, w)"
    and "io (read_to_string q) w = (Ok b, w)"
  using assms
  by (auto simp: quiet_def texts_at_def read_key_to_zeroizing_def intro!: io_quiet read_to_string_quiet)

lemma load_texts:
  "quiet w \<Longrightarrow> texts_at w (cert_at dir) (key_at dir) a b \<Longrightarrow>
   load_or_generate X dir sk rnd now w = (from_pem X a b, w)"
  by (simp add: load_or_generate_def outcome_simps Let_def)

lemma load_stored:
  "quiet w \<Longrightarrow> stored X w (cert_at dir) (key_at dir) n \<Longrightarrow>
   load_or_generate X dir sk rnd now w = (Ok n, w)"
  by (auto simp: stored_def load_texts from_pem_Ok_iff)

lemma load_previous_stored:
  "quiet w \<Longrightarrow> stored X w (prev_cert_at dir) (prev_key_at dir) n \<Longrightarrow>
   load_previous X dir w = (Ok (Some n), w)"
  by (auto simp: stored_def load_previous_def Let_def outcome_simps from_pem_Ok_iff)

lemma load_previous_absent:
  "quiet w \<Longrightarrow> plain_dir w dir \<Longrightarrow> content w (prev_cert_at dir) = None \<or> content w (prev_key_at dir) = None \<Longrightarrow>
   load_previous X dir w = (Ok None, w)"
  using both_exist_absent [of w dir CERT_FILE_PREV KEY_FILE_PREV]
  by (simp add: load_previous_def Let_def seq_def)

text \<open>The preparation of the directory.\<close>

definition ready_dir :: "world \<Rightarrow> path \<Rightarrow> bool" where
  "ready_dir w dir \<longleftrightarrow> plain_dir w dir \<and> wdirs w dir \<noteq> None"

lemma prefixes_snoc_notin [simp]: "dir @ [n] \<notin> set (prefixes dir)"
  by (auto simp: in_set_prefixes prefix_def)

lemma self_in_prefixes [simp]: "dir \<in> set (prefixes dir)"
  by (simp add: in_set_prefixes)

lemma create_dir_all_quiet:
  assumes "quiet w" and "plain_dir w dir"
  shows "\<exists>w'. io (create_dir_all dir) w = (Ok (), w') \<and> quiet w' \<and> wplatform w' = wplatform w \<and>
    ready_dir w' dir \<and> content w' = content w"
  using assms
  by (auto simp: create_dir_all_def quiet_def io_def plain_dir_def ready_dir_def content_def fun_eq_iff)

lemma harden_quiet:
  assumes "quiet w" and "ready_dir w dir"
  shows "\<exists>w'. harden_dir_permissions dir w = (Ok (), w') \<and> quiet w' \<and> wplatform w' = wplatform w \<and>
    ready_dir w' dir \<and> content w' = content w \<and> (on_unix w \<longrightarrow> wdirs w' dir = Some mode_0700)"
proof -
  have "wfiles w dir = None" using assms(2) by (simp add: ready_dir_def plain_dir_def)
  with assms show ?thesis
    by (cases "wplatform w")
      (auto simp: harden_dir_permissions_def harden_dir_permissions_unix_def
        harden_dir_permissions_windows_def on_platform_def set_permissions_def quiet_def io_def seq_def
        ready_dir_def plain_dir_def content_def on_unix_def fun_eq_iff)
qed

lemma plain_dir_files:
  "wdirs w' = wdirs w \<Longrightarrow> (\<And>q. q \<in> set (prefixes dir) \<Longrightarrow> content w' q = content w q) \<Longrightarrow>
   plain_dir w dir \<Longrightarrow> plain_dir w' dir"
  by (auto simp: plain_dir_def content_def)

lemma prefixes_not_snoc: "q \<in> set (prefixes dir) \<Longrightarrow> q \<noteq> dir @ [n]"
  by auto

lemma atomic_write_in_dir:
  assumes "quiet w" and "ready_dir w dir" and "is_slot (dir @ [n])"
  shows "\<exists>w'. atomic_write (dir @ [n]) b k w = (Ok (), w') \<and> quiet w' \<and> wplatform w' = wplatform w \<and>
    ready_dir w' dir \<and> wdirs w' = wdirs w \<and>
    content w' = (content w)(dir @ [n @ ''.tmp''] := None, dir @ [n] := Some b)"
proof -
  have free: "wdirs w (butlast (dir @ [n])) \<noteq> None" "wdirs w (dir @ [n]) = None"
    "wdirs w (tmp_path (dir @ [n])) = None"
    using assms(2) by (simp_all add: ready_dir_def plain_dir_def)
  obtain w' where w': "atomic_write (dir @ [n]) b k w = (Ok (), w')" "quiet w'"
    "wplatform w' = wplatform w" "wdirs w' = wdirs w"
    "content w' = (content w)(dir @ [n @ ''.tmp''] := None, dir @ [n] := Some b)"
    using atomic_write_quiet [OF assms(1,3) free, of b k] by auto
  moreover have "ready_dir w' dir"
    using assms(2) w' by (auto simp: ready_dir_def intro!: plain_dir_files [of w' w] dest: prefixes_not_snoc)
  ultimately show ?thesis by blast
qed


definition put_pair :: "path \<Rightarrow> string \<Rightarrow> string \<Rightarrow> node_cert \<Rightarrow> (path \<Rightarrow> bytes option) \<Rightarrow> path \<Rightarrow> bytes option" where
  "put_pair dir cf kf n m = m(dir @ [cf @ ''.tmp''] := None, dir @ [cf] := Some (as_bytes (cert_pem n)),
     dir @ [kf @ ''.tmp''] := None, dir @ [kf] := Some (as_bytes (key_pem n)))"

lemma generate_and_persist_quiet:
  assumes "quiet w" and "plain_dir w dir" and "generate_signed X sk rnd now = Ok n"
  shows "\<exists>w'. generate_and_persist X dir sk rnd now w = (Ok n, w') \<and> quiet w' \<and>
    wplatform w' = wplatform w \<and> ready_dir w' dir \<and> (on_unix w \<longrightarrow> wdirs w' dir = Some mode_0700) \<and>
    content w' = put_pair dir CERT_FILE KEY_FILE n (content w)"
proof -
  obtain w1 where w1: "io (create_dir_all dir) w = (Ok (), w1)" "quiet w1" "wplatform w1 = wplatform w"
    "ready_dir w1 dir" "content w1 = content w"
    using create_dir_all_quiet [OF assms(1,2)] by blast
  obtain w2 where w2: "harden_dir_permissions dir w1 = (Ok (), w2)" "quiet w2" "wplatform w2 = wplatform w1"
    "ready_dir w2 dir" "content w2 = content w1" "on_unix w1 \<longrightarrow> wdirs w2 dir = Some mode_0700"
    using harden_quiet [OF w1(2,4)] by blast
  obtain w3 where w3: "atomic_write (cert_at dir) (as_bytes (cert_pem n)) No w2 = (Ok (), w3)" "quiet w3"
    "wplatform w3 = wplatform w2" "ready_dir w3 dir" "wdirs w3 = wdirs w2"
    "content w3 = (content w2)(dir @ [CERT_FILE @ ''.tmp''] := None, cert_at dir := Some (as_bytes (cert_pem n)))"
    using atomic_write_in_dir [OF w2(2,4) slots_ok(1)] by blast
  obtain w4 where w4: "atomic_write (key_at dir) (as_bytes (key_pem n)) Yes w3 = (Ok (), w4)" "quiet w4"
    "wplatform w4 = wplatform w3" "ready_dir w4 dir" "wdirs w4 = wdirs w3"
    "content w4 = (content w3)(dir @ [KEY_FILE @ ''.tmp''] := None, key_at dir := Some (as_bytes (key_pem n)))"
    using atomic_write_in_dir [OF w3(2,4) slots_ok(2)] by blast
  have "generate_and_persist X dir sk rnd now w = (Ok n, w4)"
    using assms(3) w1(1) w2(1) w3(1) w4(1) by (simp add: generate_and_persist_def seq_def)
  moreover have "on_unix w \<longrightarrow> on_unix w1" using w1(3) by (simp add: on_unix_def)
  ultimately show ?thesis using w1 w2 w3 w4 by (auto simp: put_pair_def)
qed

lemma persist_rotation_quiet:
  assumes "quiet w" and "ready_dir w dir"
  shows "\<exists>w'. persist_rotation dir old new w = (Ok \<lparr>previous = old, current = new\<rparr>, w') \<and> quiet w' \<and>
    ready_dir w' dir \<and> content w' =
      put_pair dir CERT_FILE KEY_FILE new (put_pair dir CERT_FILE_PREV KEY_FILE_PREV old (content w))"
proof -
  obtain w1 where w1: "harden_dir_permissions dir w = (Ok (), w1)" "quiet w1"
    "ready_dir w1 dir" "content w1 = content w"
    using harden_quiet [OF assms] by blast
  note put = atomic_write_in_dir
  obtain w2 where w2: "atomic_write (prev_cert_at dir) (as_bytes (cert_pem old)) No w1 = (Ok (), w2)"
    "quiet w2" "ready_dir w2 dir" "content w2 = (content w1)(dir @ [CERT_FILE_PREV @ ''.tmp''] := None,
       prev_cert_at dir := Some (as_bytes (cert_pem old)))"
    using put [OF w1(2,3) slots_ok(3)] by blast
  obtain w3 where w3: "atomic_write (prev_key_at dir) (as_bytes (key_pem old)) Yes w2 = (Ok (), w3)"
    "quiet w3" "ready_dir w3 dir" "content w3 = (content w2)(dir @ [KEY_FILE_PREV @ ''.tmp''] := None,
       prev_key_at dir := Some (as_bytes (key_pem old)))"
    using put [OF w2(2,3) slots_ok(4)] by blast
  obtain w4 where w4: "atomic_write (cert_at dir) (as_bytes (cert_pem new)) No w3 = (Ok (), w4)"
    "quiet w4" "ready_dir w4 dir" "content w4 = (content w3)(dir @ [CERT_FILE @ ''.tmp''] := None,
       cert_at dir := Some (as_bytes (cert_pem new)))"
    using put [OF w3(2,3) slots_ok(1)] by blast
  obtain w5 where w5: "atomic_write (key_at dir) (as_bytes (key_pem new)) Yes w4 = (Ok (), w5)"
    "quiet w5" "ready_dir w5 dir" "content w5 = (content w4)(dir @ [KEY_FILE @ ''.tmp''] := None,
       key_at dir := Some (as_bytes (key_pem new)))"
    using put [OF w4(2,3) slots_ok(2)] by blast
  have "persist_rotation dir old new w = (Ok \<lparr>previous = old, current = new\<rparr>, w5)"
    using w1(1) w2(1) w3(1) w4(1) w5(1) by (simp add: persist_rotation_def seq_def)
  then show ?thesis using w1 w2 w3 w4 w5 by (auto simp: put_pair_def)
qed

text \<open>The steps of a rotation up to its first write.\<close>

lemma rotate_until_writes:
  assumes "quiet w" and "plain_dir w dir" and "stored X w (cert_at dir) (key_at dir) old"
    and "content w (prev_cert_at dir) = None" and "content w (prev_key_at dir) = None"
    and "generate_signed X sk rnd now = Ok new"
  shows "rotate_cert X dir sk rnd now w = persist_rotation dir old new w"
proof -
  have texts: "texts_at w (cert_at dir) (key_at dir) (cert_pem old) (key_pem old)"
    and "from_pem X (cert_pem old) (key_pem old) = Ok old"
    using assms(3) by (simp_all add: stored_def from_pem_Ok_iff)
  moreover have "either_exists (prev_cert_at dir) (prev_key_at dir) w = (Ok False, w)"
    using either_exists_quiet [OF assms(1,2)] assms(4,5) by simp
  ultimately show ?thesis
    using assms(6) read_texts [OF assms(1) texts] both_exist_texts [OF assms(1) texts]
    by (simp add: rotate_cert_def Let_def seq_def)
qed

lemma retire_quiet:
  assumes "quiet w" and "plain_dir w dir"
  shows "\<exists>w'. retire_previous dir w = (Ok (), w') \<and> quiet w' \<and> plain_dir w' dir \<and> wdisk w' = wdisk w \<and> wdirs w' = wdirs w \<and>
    content w' = (content w)(prev_key_at dir := None, prev_cert_at dir := None)"
proof -
  note d = assms [unfolded quiet_def plain_dir_def]
  show ?thesis
    using d
    by (cases "wfiles w (prev_key_at dir)"; cases "wfiles w (prev_cert_at dir)")
      (auto simp: retire_previous_def Let_def seq_def fs_read_def remove_file_def io_def quiet_def
        plain_dir_def content_def fun_eq_iff dest: prefixes_not_snoc)
qed

lemma retire_nothing:
  assumes "quiet w" and "plain_dir w dir"
    and "content w (prev_cert_at dir) = None" and "content w (prev_key_at dir) = None"
  shows "retire_previous dir w = (Ok (), w)"
  using assms by (simp add: retire_previous_def Let_def seq_def quiet_def plain_dir_def content_def)

section \<open>With faults\<close>

text \<open>What the four slots may hold; each other call leaves it.\<close>

definition slots_hold ::
  "path \<Rightarrow> bytes option set \<Rightarrow> bytes option set \<Rightarrow> bytes option set \<Rightarrow> bytes option set \<Rightarrow> world \<Rightarrow> bool" where
  "slots_hold dir P Q R T w \<longleftrightarrow> on_unix w \<and> slots.only w (prev_cert_at dir) P \<and>
     slots.only w (prev_key_at dir) Q \<and> slots.only w (cert_at dir) R \<and> slots.only w (key_at dir) T"

lemma slots_hold_iff:
  "slots_hold dir P Q R T w \<longleftrightarrow> (holds_only (prev_cert_at dir) P w \<and> holds_only (prev_key_at dir) Q w) \<and>
     (holds_only (cert_at dir) R w \<and> holds_only (key_at dir) T w)"
  by (auto simp: slots_hold_def holds_only_def slots.only_def)

lemma keeps_slots:
  assumes "\<And>n V. keeps (holds_only (dir @ [n]) V) m"
  shows "keeps (slots_hold dir P Q R T) m"
  unfolding slots_hold_iff [abs_def] by (intro triple_conj assms)

lemma slots_hold_plan: "slots_hold dir P Q R T w \<Longrightarrow> slots_hold dir P Q R T (w\<lparr>wplan := fs\<rparr>)"
  by (simp add: slots_hold_iff holds_only_plan)

lemma keeps_both_exist: "keeps (slots_hold dir P Q R T) (both_exist p q)"
  unfolding both_exist_def
  by (auto intro!: triple_rules triple_path_exists slots_hold_plan)

lemma keeps_either_exists: "keeps (slots_hold dir P Q R T) (either_exists p q)"
  unfolding either_exists_def
  by (auto intro!: triple_rules triple_path_exists slots_hold_plan)

lemma keeps_create_harden:
  "keeps (slots_hold dir P Q R T) (io (create_dir_all dir))"
  "keeps (slots_hold dir P Q R T) (harden_dir_permissions dir)"
  by (rule keeps_slots; auto intro!: triple_rules)+

text \<open>A rotation's writes, by the contract of the slots.\<close>

lemma persist_rotation_slots:
  "triple (slots_hold dir P Q {Some (as_bytes (cert_pem old))} {Some (as_bytes (key_pem old))})
     (persist_rotation dir old new)
     (\<lambda>r w. r = \<lparr>previous = old, current = new\<rparr> \<and>
        slots_hold dir {Some (as_bytes (cert_pem old))} {Some (as_bytes (key_pem old))}
          {Some (as_bytes (cert_pem new))} {Some (as_bytes (key_pem new))} w)
     (\<lambda>w. slots_hold dir UNIV UNIV {Some (as_bytes (cert_pem old)), Some (as_bytes (cert_pem new))}
          {Some (as_bytes (key_pem old)), Some (as_bytes (key_pem new))} w \<and>
        (slots_hold dir UNIV UNIV {Some (as_bytes (cert_pem old))} {Some (as_bytes (key_pem old))} w \<or>
         slots_hold dir {Some (as_bytes (cert_pem old))} {Some (as_bytes (key_pem old))} UNIV UNIV w))"
    (is "triple ?pre _ ?post ?exit")
proof -
  let ?co = "as_bytes (cert_pem old)" and ?ko = "as_bytes (key_pem old)"
  let ?cn = "as_bytes (cert_pem new)" and ?kn = "as_bytes (key_pem new)"
  let ?writes = "seq (seq (atomic_write (prev_cert_at dir) ?co No) (\<lambda>_. atomic_write (prev_key_at dir) ?ko Yes))
      (\<lambda>_. seq (atomic_write (cert_at dir) ?cn No) (\<lambda>_. atomic_write (key_at dir) ?kn Yes))"
  have split: "persist_rotation dir old new =
      seq (harden_dir_permissions dir) (\<lambda>_. seq ?writes (\<lambda>_. ret \<lparr>previous = old, current = new\<rparr>))"
    by (simp add: persist_rotation_def seq_assoc)
  have harden: "triple ?pre (harden_dir_permissions dir) (\<lambda>_. ?pre) ?exit"
    by (rule triple_weaken [OF keeps_create_harden(2) [where P = P and Q = Q and R = "{Some ?co}" and T = "{Some ?ko}"]])
      (auto simp: slots_hold_def slots.only_def)
  have writes: "triple ?pre ?writes (\<lambda>_. slots_hold dir {Some ?co} {Some ?ko} {Some ?cn} {Some ?kn}) ?exit"
    by (rule triple_weaken [OF slots.demote_then_replace [of "prev_cert_at dir" "prev_key_at dir"
          "cert_at dir" "key_at dir" P Q ?co ?ko No Yes ?cn No ?kn Yes]])
      (auto simp: slots_hold_def slots.only_def)
  show ?thesis
    unfolding split
    by (rule triple_seq [OF harden], rule triple_seq [OF writes])
      (simp add: triple_def)
qed

lemma generate_and_persist_slots:
  assumes "generate_signed X sk rnd now = Ok n"
  shows "triple (slots_hold dir P Q R T) (generate_and_persist X dir sk rnd now)
    (\<lambda>m w. m = n \<and> slots_hold dir P Q {Some (as_bytes (cert_pem n))} {Some (as_bytes (key_pem n))} w)
    (slots_hold dir P Q (insert (Some (as_bytes (cert_pem n))) R) (insert (Some (as_bytes (key_pem n))) T))"
    (is "triple ?pre _ ?post ?exit")
proof -
  let ?c = "as_bytes (cert_pem n)" and ?k = "as_bytes (key_pem n)"
  let ?writes = "seq (atomic_write (cert_at dir) ?c No) (\<lambda>_. atomic_write (key_at dir) ?k Yes)"
  have split: "generate_and_persist X dir sk rnd now =
      seq (io (create_dir_all dir)) (\<lambda>_. seq (harden_dir_permissions dir) (\<lambda>_. seq ?writes (\<lambda>_. ret n)))"
    using assms by (simp add: generate_and_persist_def seq_assoc) (simp add: seq_def fun_eq_iff)
  have prep: "triple ?pre (io (create_dir_all dir)) (\<lambda>_. ?pre) ?exit"
    "triple ?pre (harden_dir_permissions dir) (\<lambda>_. ?pre) ?exit"
    by (rule triple_weaken [OF keeps_create_harden(1) [where P = P and Q = Q and R = R and T = T]]
          triple_weaken [OF keeps_create_harden(2) [where P = P and Q = Q and R = R and T = T]];
        auto simp: slots_hold_def slots.only_def)+
  have writes: "triple ?pre ?writes (\<lambda>_. slots_hold dir P Q {Some ?c} {Some ?k}) ?exit"
    by (rule triple_weaken [OF slots.put_two [of "cert_at dir" "key_at dir" "prev_cert_at dir"
          "prev_key_at dir" R T P Q ?c No ?k Yes]])
      (auto simp: slots_hold_def)
  show ?thesis
    unfolding split
    by (rule triple_seq [OF prep(1)], rule triple_seq [OF prep(2)], rule triple_seq [OF writes])
      (simp add: triple_def)
qed

text \<open>Reading the stored texts does not change what the slots hold.\<close>

lemma read_slot:
  "triple (slots_hold dir P Q R T) (read_to_string p)
     (\<lambda>s w. slots_hold dir P Q R T w \<and> content w p = Some (as_bytes s)) (slots_hold dir P Q R T)"
  by (rule triple_read_to_string) (auto intro: slots_hold_plan)

text \<open>What is found after a crash.\<close>

lemma slots_hold_recover:
  assumes "slots_hold dir P Q R T w"
  shows "content (recover c w) (prev_cert_at dir) \<in> P" "content (recover c w) (prev_key_at dir) \<in> Q"
    "content (recover c w) (cert_at dir) \<in> R" "content (recover c w) (key_at dir) \<in> T"
  using assms recover_may_hold [of w _ c] by (auto simp: slots_hold_def slots.only_def)

lemma settled_slot: "settled w p \<Longrightarrow> slots.only w p {content w p}"
  by (simp add: slots.only_def settled_may_hold)

lemma content_slot: "slots.only w p {v} \<Longrightarrow> content w p = v \<or> (\<exists>f. wfiles w p = Some f \<and> \<not> fsynced f)"
  by (auto simp: slots.only_def may_hold_def content_def split: option.splits)

end
