(* ===== verification/Dig_Lifecycle.thy ===== *)
theory Dig_Lifecycle
  imports Dig_Store
begin

text \<open>
  The life of an identity on disk: what a sequence of starts, rotations and retirements does, what
  is left after a failure or a crash in the middle of one, and who can read the key files. The
  properties without faults hold on both platforms; those about crashes hold on Unix, for every
  plan of the file system and every recovery, but one on Windows, of a stop inside its rename.
\<close>

section \<open>Lemmas\<close>

lemma quiet_recover [simp]: "quiet (recover c w)"
  by (simp add: quiet_def recover_def Let_def)

lemma wdirs_recover [simp]: "wdirs (recover c w) = wdirs w"
  by (simp add: recover_def Let_def)

lemma on_unix_recover [simp]: "on_unix (recover c w) = on_unix w"
  by (simp add: on_unix_def recover_def Let_def)

lemma may_hold_content: "content w p = Some b \<Longrightarrow> may_hold w p (Some b)"
  by (auto simp: may_hold_def content_def split: option.splits)

text \<open>If only one content may be found at a path, it is the content.\<close>

lemma only_content:
  assumes "slots.only w p {v}"
  shows "content w p = v"
proof (cases "\<exists>f. wfiles w p = Some f \<and> \<not> fsynced f")
  case True
  then have "may_hold w p (Some b)" for b by (auto simp: may_hold_def)
  then have "Some [] = v" and "Some [0] = v" using assms by (auto simp: slots.only_def)
  then show ?thesis by auto
qed (use content_slot [OF assms] in auto)

lemma stored_contents:
  "stored X w p q n \<Longrightarrow> content w p = Some (as_bytes (cert_pem n)) \<and> content w q = Some (as_bytes (key_pem n))"
  by (simp add: stored_def texts_at_def)

lemma stored_move:
  "stored X w p q n \<Longrightarrow> content w' p' = Some (as_bytes (cert_pem n)) \<Longrightarrow>
   content w' q' = Some (as_bytes (key_pem n)) \<Longrightarrow> stored X w' p' q' n"
  by (simp add: stored_def texts_at_def)

text \<open>A minted certificate is stored by writing its texts.\<close>

lemma minted_stored:
  assumes "rcgen_reads_back X" "keypair_round_trip X" "generate_signed X sk rnd now = Ok n"
    and "content w p = Some (as_bytes (cert_pem n))" "content w q = Some (as_bytes (key_pem n))"
  shows "stored X w p q n"
proof -
  obtain ca where "generate_signed_by X ca sk rnd now = Ok n"
    using assms(3) by (auto simp: generate_signed_Ok)
  with generate_signed_by_utf8 [OF assms(1,2) this] generate_signed_by_wf [OF assms(2) this] assms(4,5)
  show ?thesis by (simp add: stored_def texts_at_def)
qed

lemma load_after_recovery:
  "stored X (recover c w) (cert_at dir) (key_at dir) n \<Longrightarrow>
   load_or_generate X dir sk rnd now (recover c w) = (Ok n, recover c w)"
  by (rule load_stored [OF quiet_recover])

text \<open>What a rotation returns, on either platform and whatever calls fail: the checks and the reads
  change no file, so it has loaded the stored identity.\<close>

lemma keeps_files:
  "keeps (\<lambda>v. wfiles v = F) (both_exist p q)" "keeps (\<lambda>v. wfiles v = F) (either_exists p q)"
  by (auto simp: both_exist_def either_exists_def intro!: triple_rules triple_path_exists)

lemma read_file_text:
  assumes "wfiles w = F" and "io (read_to_string p) w = (Ok s, w')"
  shows "wfiles w' = F \<and> content w p = Some (as_bytes s)"
proof -
  have "triple (\<lambda>v. wfiles v = F) (io (read_to_string p))
      (\<lambda>s v. wfiles v = F \<and> content v p = Some (as_bytes s)) (\<lambda>v. wfiles v = F)"
    by (intro triple_io triple_read_to_string) simp_all
  from triple_Ok [OF this _ assms(2)] assms(1) show ?thesis by (auto simp: content_def)
qed

lemma rotate_returns:
  assumes "stored X w (cert_at dir) (key_at dir) old" and "rotate_cert X dir sk rnd now w = (Ok rot, w')"
  shows "previous rot = old \<and> generate_signed X sk rnd now = Ok (current rot)"
proof -
  obtain w1 w2 cpem w3 kpem w4 m new where
    b: "both_exist (cert_at dir) (key_at dir) w = (Ok True, w1)"
    and e: "either_exists (prev_cert_at dir) (prev_key_at dir) w1 = (Ok False, w2)"
    and c: "io (read_to_string (cert_at dir)) w2 = (Ok cpem, w3)"
    and k: "io (read_to_string (key_at dir)) w3 = (Ok kpem, w4)"
    and n: "from_pem X cpem kpem = Ok m" "generate_signed X sk rnd now = Ok new"
    and p: "persist_rotation dir m new w4 = (Ok rot, w')"
    using assms(2)
    by (auto simp: rotate_cert_def Let_def seq_eq_Ok read_key_to_zeroizing_def split: if_splits)
  have "wfiles w1 = wfiles w" by (rule triple_Ok [OF keeps_files(1) refl b])
  then have "wfiles w2 = wfiles w" by (rule triple_Ok [OF keeps_files(2) _ e])
  then have "as_bytes cpem = as_bytes (cert_pem old) \<and> as_bytes kpem = as_bytes (key_pem old)"
    using read_file_text [OF _ c] read_file_text [OF _ k] stored_contents [OF assms(1)]
    by (auto simp: content_def)
  moreover have "from_pem X (cert_pem old) (key_pem old) = Ok old"
    using assms(1) by (simp add: stored_def from_pem_Ok_iff)
  ultimately have "m = old" using n(1) as_bytes_inject by auto
  with n(2) p show ?thesis by (auto simp: persist_rotation_def seq_eq_Ok)
qed

text \<open>The rotation, step by step, with what the slots hold.\<close>

lemma rotate_slots:
  assumes "stored X w (cert_at dir) (key_at dir) old"
  defines "co \<equiv> as_bytes (cert_pem old)" and "ko \<equiv> as_bytes (key_pem old)"
  shows "triple (slots_hold dir P Q {Some co} {Some ko}) (rotate_cert X dir sk rnd now)
    (\<lambda>r. \<lambda>v. previous r = old \<and> generate_signed X sk rnd now = Ok (current r) \<and>
       slots_hold dir {Some co} {Some ko} {Some (as_bytes (cert_pem (current r)))}
         {Some (as_bytes (key_pem (current r)))} v)
    (\<lambda>v. slots_hold dir UNIV UNIV {Some co} {Some ko} v \<or>
       slots_hold dir {Some co} {Some ko} (- {None}) (- {None}) v)"
    (is "triple ?pre _ ?post ?exit")
proof -
  let ?pre' = "slots_hold dir P Q {Some co} {Some ko}"
  have weak: "?pre v \<Longrightarrow> ?exit v" for v by (auto simp: slots_hold_def slots.only_def)
  have read: "triple ?pre' (read_to_string p) (\<lambda>s v. ?pre' v \<and> content v p = Some (as_bytes s)) ?exit" for p
    by (rule triple_weaken [OF read_slot]) (use weak in auto)
  have both: "triple ?pre' (both_exist p q) (\<lambda>_. ?pre') ?exit"
    and either: "triple ?pre' (either_exists p q) (\<lambda>_. ?pre') ?exit" for p q
    by (rule triple_weaken [OF keeps_both_exist [of dir P Q "{Some co}" "{Some ko}"]]
        triple_weaken [OF keeps_either_exists [of dir P Q "{Some co}" "{Some ko}"]]; use weak in auto)+
  have finish: "triple (\<lambda>v. ?pre' v \<and> m = old \<and> generate_signed X sk rnd now = Ok new)
      (persist_rotation dir m new) ?post ?exit" for m new
  proof (cases "m = old \<and> generate_signed X sk rnd now = Ok new")
    case True
    then have m: "m = old" by simp
    show ?thesis
      unfolding m by (rule triple_weaken [OF persist_rotation_slots [of dir P Q old new]])
        (use True in \<open>auto simp: co_def ko_def slots_hold_def slots.only_def\<close>)
  qed (auto simp: triple_def)
  have reload: "from_pem X (cert_pem old) (key_pem old) = Ok old"
    using assms(1) by (simp add: stored_def from_pem_Ok_iff)
  have cert: "triple ?pre' (io (read_to_string (cert_at dir))) (\<lambda>s v. ?pre' v \<and> s = cert_pem old) ?exit"
    by (rule triple_weaken [OF triple_io [OF read]])
      (auto simp: co_def slots_hold_def dest: only_content)
  have key: "triple (\<lambda>v. ?pre' v \<and> a = cert_pem old) (read_key_to_zeroizing (key_at dir))
      (\<lambda>s v. ?pre' v \<and> a = cert_pem old \<and> s = key_pem old) ?exit" for a
    unfolding read_key_to_zeroizing_def
    by (cases "a = cert_pem old", rule triple_weaken [OF triple_io [OF read]])
      (auto simp: ko_def slots_hold_def triple_def dest: only_content)
  have load: "triple (\<lambda>v. ?pre' v \<and> a = cert_pem old \<and> b = key_pem old) (pure_act (from_pem X a b))
      (\<lambda>m v. ?pre' v \<and> m = old) ?exit" for a b
    by (rule triple_pure) (use weak in auto, use reload in auto)
  have mint: "triple (\<lambda>v. ?pre' v \<and> m = old) (pure_act (generate_signed X sk rnd now))
      (\<lambda>new v. ?pre' v \<and> m = old \<and> generate_signed X sk rnd now = Ok new) ?exit" for m
    by (rule triple_pure) (use weak in auto)
  have refuse: "triple ?pre' (throw e) ?post ?exit" for e
    using weak by (simp add: triple_def)
  show ?thesis
    unfolding rotate_cert_def Let_def
    by (rule triple_seq [OF both], rule triple_if, rule refuse,
        rule triple_seq [OF either], rule triple_if, rule refuse,
        rule triple_seq [OF cert], rule triple_seq [OF key], rule triple_seq [OF load],
        rule triple_seq [OF mint], rule finish)
qed

text \<open>A start, likewise.\<close>

lemma load_or_generate_slots:
  "triple (slots_hold dir P Q R T) (load_or_generate X dir sk rnd now)
    (\<lambda>n v. slots_hold dir P Q R T v \<and> (\<exists>a b. Some (as_bytes a) \<in> R \<and> Some (as_bytes b) \<in> T) \<or>
       generate_signed X sk rnd now = Ok n \<and>
       slots_hold dir P Q {Some (as_bytes (cert_pem n))} {Some (as_bytes (key_pem n))} v)
    (\<lambda>v. slots_hold dir P Q R T v \<or> (\<exists>n. generate_signed X sk rnd now = Ok n \<and>
       slots_hold dir P Q (insert (Some (as_bytes (cert_pem n))) R) (insert (Some (as_bytes (key_pem n))) T) v))"
    (is "triple ?pre _ ?post ?exit")
proof -
  have generate: "triple ?pre (generate_and_persist X dir sk rnd now) ?post ?exit"
  proof (cases "generate_signed X sk rnd now")
    case (Ok n)
    show ?thesis
      by (rule triple_weaken [OF generate_and_persist_slots [OF Ok, of dir P Q R T]]) (use Ok in auto)
  qed (auto simp: triple_def generate_and_persist_def seq_def)
  have both: "triple ?pre (both_exist p q) (\<lambda>_. ?pre) ?exit" for p q
    by (rule triple_weaken [OF keeps_both_exist [of dir P Q R T]]) auto
  have cert: "triple ?pre (io (read_to_string (cert_at dir)))
      (\<lambda>s v. ?pre v \<and> Some (as_bytes s) \<in> R) ?exit"
    by (rule triple_weaken [OF triple_io [OF read_slot [of dir P Q R T]]])
      (auto simp: slots_hold_def slots.only_def may_hold_content)
  have key: "triple (\<lambda>v. ?pre v \<and> Some (as_bytes a) \<in> R) (read_key_to_zeroizing (key_at dir))
      (\<lambda>s v. ?pre v \<and> Some (as_bytes a) \<in> R \<and> Some (as_bytes s) \<in> T) ?exit" for a
    unfolding read_key_to_zeroizing_def
    by (cases "Some (as_bytes a) \<in> R", rule triple_weaken [OF triple_io [OF read_slot [of dir P Q R T]]])
      (auto simp: slots_hold_def slots.only_def may_hold_content triple_def)
  have load: "triple (\<lambda>v. ?pre v \<and> Some (as_bytes a) \<in> R \<and> Some (as_bytes b) \<in> T)
      (pure_act (from_pem X a b)) ?post ?exit" for a b
    by (rule triple_pure) auto
  show ?thesis
    unfolding load_or_generate_def Let_def
    by (rule triple_seq [OF both], rule triple_if, rule triple_seq [OF cert], rule triple_seq [OF key],
        rule load, rule generate)
qed


section \<open>Properties without faults\<close>

lemma demo_world_quiet [simp]: "quiet (demo_world pl [])" "plain_dir (demo_world pl fs) (d # dir)"
  "content (demo_world pl fs) p = None" "on_unix (demo_world pl fs) \<longleftrightarrow> pl = Unix"
  "wplatform (demo_world pl fs) = pl"
  by (auto simp: quiet_def demo_world_def plain_dir_def content_def on_unix_def)

text \<open>
  C15. The first start. With a file of the pair absent, \<open>load_or_generate\<close> returns the newly minted
  certificate and leaves it on disk: every later start, with any BLS key, loads that certificate. On
  Unix the directory is then owner-only, and every start after a crash of the machine loads the
  certificate too: nothing of the write is still pending when the call returns.
\<close>

theorem first_start_persists:
  assumes laws: "rcgen_reads_back X" "keypair_round_trip X"
    and w: "quiet w" "plain_dir w dir" "content w (cert_at dir) = None \<or> content w (key_at dir) = None"
    and mint: "generate_signed X sk rnd now = Ok n"
  shows "\<exists>w'. load_or_generate X dir sk rnd now w = (Ok n, w') \<and>
    (\<forall>sk' rnd' now'. load_or_generate X dir sk' rnd' now' w' = (Ok n, w')) \<and>
    (on_unix w \<longrightarrow> wdirs w' dir = Some mode_0700 \<and>
       (\<forall>c sk' rnd' now'. load_or_generate X dir sk' rnd' now' (recover c w') = (Ok n, recover c w')))"
proof -
  obtain w' where w': "generate_and_persist X dir sk rnd now w = (Ok n, w')" "quiet w'"
    "on_unix w \<longrightarrow> wdirs w' dir = Some mode_0700"
    "content w' = put_pair dir CERT_FILE KEY_FILE n (content w)"
    using generate_and_persist_quiet [OF w(1,2) mint] by blast
  have run: "load_or_generate X dir sk rnd now w = (Ok n, w')"
    using both_exist_absent [OF w] w'(1) by (simp add: load_or_generate_def Let_def seq_def)
  have "stored X w' (cert_at dir) (key_at dir) n"
    by (rule minted_stored [OF laws mint]) (simp_all add: w'(4) put_pair_def)
  note loads = load_stored [OF w'(2) this]
  have "load_or_generate X dir sk' rnd' now' (recover c w') = (Ok n, recover c w')"
    if "on_unix w" for c sk' rnd' now'
  proof -
    have "slots_hold dir UNIV UNIV UNIV UNIV w" using that by (simp add: slots_hold_def slots.only_def)
    from triple_Ok [OF generate_and_persist_slots [OF mint] this w'(1)]
    have h: "slots_hold dir UNIV UNIV {Some (as_bytes (cert_pem n))} {Some (as_bytes (key_pem n))} w'"
      by simp
    have "stored X (recover c w') (cert_at dir) (key_at dir) n"
      using slots_hold_recover(3,4) [OF h, of c] by (simp add: minted_stored [OF laws mint])
    then show ?thesis by (rule load_after_recovery)
  qed
  with run loads w'(3) show ?thesis by blast
qed

theorem first_start_persists_witness:
  "\<exists>n w'. load_or_generate demo [''d''] [1] [2] 3 (demo_world Unix []) = (Ok n, w') \<and>
    (\<forall>sk' rnd' now'. load_or_generate demo [''d''] sk' rnd' now' w' = (Ok n, w'))"
proof -
  obtain n where "generate_signed demo [1] [2] 3 = Ok n"
    using demo_generate_signed [of 3 "[1]" "[2]"] by auto
  from first_start_persists [OF demo_rcgen_reads_back demo_keypair_round_trip _ _ _ this,
      of "demo_world Unix []" "[''d'']"]
  show ?thesis by auto
qed

text \<open>
  When \<open>rotate\<close> refuses: with a file of the current pair absent, with a file of a previous rotation
  present, or with a current pair that does not load, it returns the error for that case and
  changes nothing on disk.
\<close>

lemma rotate_refuses:
  assumes "quiet w" and "plain_dir w dir"
  shows "content w (cert_at dir) = None \<or> content w (key_at dir) = None \<longrightarrow>
        rotate_cert X dir sk rnd now w = (Err rotate_nothing, w)"
    and "texts_at w (cert_at dir) (key_at dir) a b \<longrightarrow>
        content w (prev_cert_at dir) \<noteq> None \<or> content w (prev_key_at dir) \<noteq> None \<longrightarrow>
        rotate_cert X dir sk rnd now w = (Err rotate_unretired, w)"
    and "texts_at w (cert_at dir) (key_at dir) a b \<longrightarrow> from_pem X a b = Err e \<longrightarrow>
        content w (prev_cert_at dir) = None \<longrightarrow> content w (prev_key_at dir) = None \<longrightarrow>
        rotate_cert X dir sk rnd now w = (Err e, w)"
proof (intro impI)
  assume "content w (cert_at dir) = None \<or> content w (key_at dir) = None"
  from both_exist_absent [OF assms this] show "rotate_cert X dir sk rnd now w = (Err rotate_nothing, w)"
    by (simp add: rotate_cert_def Let_def seq_def)
next
  show "texts_at w (cert_at dir) (key_at dir) a b \<longrightarrow>
        content w (prev_cert_at dir) \<noteq> None \<or> content w (prev_key_at dir) \<noteq> None \<longrightarrow>
        rotate_cert X dir sk rnd now w = (Err rotate_unretired, w)"
    and "texts_at w (cert_at dir) (key_at dir) a b \<longrightarrow> from_pem X a b = Err e \<longrightarrow>
        content w (prev_cert_at dir) = None \<longrightarrow> content w (prev_key_at dir) = None \<longrightarrow>
        rotate_cert X dir sk rnd now w = (Err e, w)"
    using both_exist_texts [OF assms(1)] either_exists_quiet [OF assms] read_texts [OF assms(1)]
    by (auto simp: rotate_cert_def Let_def seq_def)
qed

text \<open>
  The life of a rotation. From a directory that holds a current identity and nothing of a
  previous rotation, \<open>rotate\<close> returns the old identity and a newly minted one; from then on a start
  loads the new one, \<open>load_previous\<close> the old one, and another \<open>rotate\<close> is refused. After
  \<open>retire_previous\<close> a start still loads the new one, there is no previous one, and retiring again
  does nothing.
\<close>

lemma rotation_cycle:
  assumes laws: "rcgen_reads_back X" "keypair_round_trip X"
    and w: "quiet w" "ready_dir w dir" "stored X w (cert_at dir) (key_at dir) old"
      "content w (prev_cert_at dir) = None" "content w (prev_key_at dir) = None"
    and mint: "generate_signed X sk rnd now = Ok new"
  shows "\<exists>w1 w2. rotate_cert X dir sk rnd now w = (Ok \<lparr>previous = old, current = new\<rparr>, w1) \<and>
    load_or_generate X dir sk' rnd' now' w1 = (Ok new, w1) \<and>
    load_previous X dir w1 = (Ok (Some old), w1) \<and>
    rotate_cert X dir sk' rnd' now' w1 = (Err rotate_unretired, w1) \<and>
    retire_previous dir w1 = (Ok (), w2) \<and>
    load_or_generate X dir sk' rnd' now' w2 = (Ok new, w2) \<and>
    load_previous X dir w2 = (Ok None, w2) \<and>
    retire_previous dir w2 = (Ok (), w2)"
proof -
  have plain: "plain_dir w dir" using w(2) by (simp add: ready_dir_def)
  obtain w1 where w1: "persist_rotation dir old new w = (Ok \<lparr>previous = old, current = new\<rparr>, w1)"
    "quiet w1" "ready_dir w1 dir" "content w1 =
      put_pair dir CERT_FILE KEY_FILE new (put_pair dir CERT_FILE_PREV KEY_FILE_PREV old (content w))"
    using persist_rotation_quiet [OF w(1,2)] by blast
  have plain1: "plain_dir w1 dir" using w1(3) by (simp add: ready_dir_def)
  have new1: "stored X w1 (cert_at dir) (key_at dir) new"
    by (rule minted_stored [OF laws mint]) (simp_all add: w1(4) put_pair_def)
  have old1: "stored X w1 (prev_cert_at dir) (prev_key_at dir) old"
    using w(3) by (rule stored_move) (simp_all add: w1(4) put_pair_def)
  have unretired: "rotate_cert X dir sk' rnd' now' w1 = (Err rotate_unretired, w1)"
    using both_exist_texts [OF w1(2)] new1 either_exists_quiet [OF w1(2) plain1] stored_contents [OF old1]
    by (auto simp: rotate_cert_def Let_def seq_def stored_def)
  obtain w2 where w2: "retire_previous dir w1 = (Ok (), w2)" "quiet w2" "plain_dir w2 dir"
    "content w2 = (content w1)(prev_key_at dir := None, prev_cert_at dir := None)"
    using retire_quiet [OF w1(2) plain1] by blast
  have new2: "stored X w2 (cert_at dir) (key_at dir) new"
    using new1 stored_contents [OF new1] by (elim stored_move) (simp_all add: w2(4))
  have none2: "load_previous X dir w2 = (Ok None, w2)"
    by (rule load_previous_absent [OF w2(2,3)]) (simp add: w2(4))
  have again: "retire_previous dir w2 = (Ok (), w2)"
    by (rule retire_nothing [OF w2(2,3)]) (simp_all add: w2(4))
  show ?thesis
    using rotate_until_writes [OF w(1) plain w(3-5) mint] w1(1) load_stored [OF w1(2) new1]
      load_previous_stored [OF w1(2) old1] unretired w2(1) load_stored [OF w2(2) new2] none2 again
    by metis
qed

text \<open>A concrete directory with a stored identity, for the witnesses.\<close>

lemma demo_store:
  "\<exists>w n. quiet w \<and> on_unix w \<and> ready_dir w [''d''] \<and> stored demo w (cert_at [''d'']) (key_at [''d'']) n \<and>
     spki_der n = [2] \<and> content w (prev_cert_at [''d'']) = None \<and> content w (prev_key_at [''d'']) = None \<and>
     slots_hold [''d''] {None} {None} {content w (cert_at [''d''])} {content w (key_at [''d''])} w"
proof -
  obtain n where n: "generate_signed demo [1] [2] 3 = Ok n" "spki_der n = [2]"
    using demo_generate_signed [of 3 "[1]" "[2]"] by auto
  let ?w = "demo_world Unix []"
  obtain w where w: "generate_and_persist demo [''d''] [1] [2] 3 ?w = (Ok n, w)" "quiet w"
    "wplatform w = wplatform ?w" "ready_dir w [''d'']"
    "content w = put_pair [''d''] CERT_FILE KEY_FILE n (content ?w)"
    using generate_and_persist_quiet [of ?w "[''d'']", OF _ _ n(1)] by auto
  have "slots_hold [''d''] {None} {None} {None} {None} ?w"
    by (auto simp: slots_hold_def slots.only_def on_unix_def demo_world_def may_hold_def)
  from triple_Ok [OF generate_and_persist_slots [OF n(1)] this w(1)]
  have "slots_hold [''d''] {None} {None} {Some (as_bytes (cert_pem n))} {Some (as_bytes (key_pem n))} w"
    by simp
  moreover have "stored demo w (cert_at [''d'']) (key_at [''d'']) n"
    by (rule minted_stored [OF demo_rcgen_reads_back demo_keypair_round_trip n(1)])
      (simp_all add: w(5) put_pair_def)
  ultimately show ?thesis
    using w n by (intro exI [of _ w] exI [of _ n])
      (auto simp: put_pair_def on_unix_def)
qed

lemma rotation_cycle_example:
  "\<exists>w w1 w2 (old :: node_cert) (new :: node_cert).
     rotate_cert demo [''d''] [7] [8] 9 w = (Ok \<lparr>previous = old, current = new\<rparr>, w1) \<and>
     load_or_generate demo [''d''] [1] [2] 3 w1 = (Ok new, w1) \<and>
     load_previous demo [''d''] w1 = (Ok (Some old), w1) \<and>
     retire_previous [''d''] w1 = (Ok (), w2) \<and> load_previous demo [''d''] w2 = (Ok None, w2)"
proof -
  obtain w n where w: "quiet w" "ready_dir w [''d'']" "stored demo w (cert_at [''d'']) (key_at [''d'']) n"
    "content w (prev_cert_at [''d'']) = None" "content w (prev_key_at [''d'']) = None"
    using demo_store by blast
  obtain new where "generate_signed demo [7] [8] 9 = Ok new"
    using demo_generate_signed [of 9 "[7]" "[8]"] by auto
  from rotation_cycle [OF demo_rcgen_reads_back demo_keypair_round_trip w this, of "[1]" "[2]" 3]
  show ?thesis by blast
qed


section \<open>Properties under failures and crashes\<close>

text \<open>
  C5. A rotation never loses the identity. From current files that are on stable storage and load as
  \<open>old\<close>, for every plan of failures and every crash point of \<open>rotate\<close>, and every recovery: a start
  loads \<open>old\<close>, or \<open>load_previous\<close> does. When \<open>rotate\<close> has returned, a start loads the new identity
  and \<open>load_previous\<close> the old one, even if the machine crashes right after.
\<close>

theorem rotation_keeps_identity:
  assumes laws: "rcgen_reads_back X" "keypair_round_trip X"
    and w: "on_unix w" "settled w (cert_at dir)" "settled w (key_at dir)"
      "stored X w (cert_at dir) (key_at dir) old"
    and run: "rotate_cert X dir sk rnd now w = (r, w')"
  shows "(load_or_generate X dir sk' rnd' now' (recover c w') = (Ok old, recover c w') \<or>
      load_previous X dir (recover c w') = (Ok (Some old), recover c w')) \<and>
    (\<forall>rot. r = Ok rot \<longrightarrow> previous rot = old \<and>
      load_or_generate X dir sk' rnd' now' (recover c w') = (Ok (current rot), recover c w') \<and>
      load_previous X dir (recover c w') = (Ok (Some old), recover c w'))"
proof -
  let ?co = "as_bytes (cert_pem old)" and ?ko = "as_bytes (key_pem old)"
  have pre: "slots_hold dir UNIV UNIV {Some ?co} {Some ?ko} w"
    using w stored_contents [OF w(4)] by (auto simp: slots_hold_def slots.only_def settled_may_hold)
  note rule = rotate_slots [OF w(4), of UNIV UNIV sk rnd now]
  have cur: "load_or_generate X dir sk' rnd' now' (recover c w') = (Ok old, recover c w')"
    if "slots_hold dir P Q {Some ?co} {Some ?ko} w'" for P Q
    by (rule load_after_recovery, rule stored_move [OF w(4)])
      (use slots_hold_recover [OF that, of c] in simp_all)
  have prev: "load_previous X dir (recover c w') = (Ok (Some old), recover c w')"
    if "slots_hold dir {Some ?co} {Some ?ko} R T w'" for R T
    by (rule load_previous_stored [OF quiet_recover], rule stored_move [OF w(4)])
      (use slots_hold_recover [OF that, of c] in simp_all)
  show ?thesis
  proof (cases r)
    case (Ok rot)
    from triple_Ok [OF rule pre run [unfolded Ok]]
    have p: "previous rot = old" "generate_signed X sk rnd now = Ok (current rot)"
      and h: "slots_hold dir {Some ?co} {Some ?ko} {Some (as_bytes (cert_pem (current rot)))}
        {Some (as_bytes (key_pem (current rot)))} w'"
      by blast+
    have "stored X (recover c w') (cert_at dir) (key_at dir) (current rot)"
      using slots_hold_recover(3,4) [OF h, of c] by (simp add: minted_stored [OF laws p(2)])
    with p(1) prev [OF h] Ok load_after_recovery show ?thesis by auto
  qed (use triple_exit [OF rule pre run] cur prev in auto)
qed

lemma demo_settled_store:
  "\<exists>w n. on_unix w \<and> ready_dir w [''d''] \<and> settled w (cert_at [''d'']) \<and> settled w (key_at [''d'']) \<and>
     stored demo w (cert_at [''d'']) (key_at [''d'']) n \<and> spki_der n = [2] \<and>
     content w (prev_cert_at [''d'']) = None \<and> content w (prev_key_at [''d'']) = None \<and> wplan w = fs"
proof -
  obtain w n where w: "on_unix w" "stored demo w (cert_at [''d'']) (key_at [''d'']) n" "spki_der n = [2]"
    "ready_dir w [''d'']"
    and h: "slots_hold [''d''] {None} {None} {content w (cert_at [''d''])} {content w (key_at [''d''])} w"
    using demo_store by blast
  let ?v = "recover (\<lambda>_. (True, [])) w"
  let ?w = "?v\<lparr>wplan := fs\<rparr>"
  have content: "content ?w p = content ?v p" for p by (simp add: content_def)
  note found = slots_hold_recover [OF h, of "\<lambda>_. (True, [])"]
  have "stored demo ?w (cert_at [''d'']) (key_at [''d'']) n"
    by (rule stored_move [OF w(2)]) (use found(3,4) stored_contents [OF w(2)] content in auto)
  moreover have "settled ?w p" for p using settled_recover [of _ w p] by (simp add: settled_def)
  moreover have "ready_dir ?w [''d'']" using w(4)
    by (auto simp: ready_dir_def plain_dir_def recover_def Let_def)
  ultimately show ?thesis
    using w(1,3) found(1,2) content by (intro exI [of _ ?w] exI [of _ n]) (auto simp: on_unix_def recover_def Let_def)
qed

theorem rotation_keeps_identity_witness:
  "\<exists>w w' r old. rotate_cert demo [''d''] [7] [8] 9 w = (r, w') \<and>
    (load_or_generate demo [''d''] [1] [2] 3 (recover (\<lambda>_. (False, [])) w') =
        (Ok old, recover (\<lambda>_. (False, [])) w') \<or>
     load_previous demo [''d''] (recover (\<lambda>_. (False, [])) w') =
        (Ok (Some old), recover (\<lambda>_. (False, [])) w'))"
proof -
  obtain w n where w: "on_unix w" "settled w (cert_at [''d''])" "settled w (key_at [''d''])"
    "stored demo w (cert_at [''d'']) (key_at [''d'']) n"
    using demo_settled_store [of "[Proceed, Fail 0 NotFound]"] by blast
  obtain r w' where run: "rotate_cert demo [''d''] [7] [8] 9 w = (r, w')" by (cases "rotate_cert demo [''d''] [7] [8] 9 w")
  from rotation_keeps_identity [OF demo_rcgen_reads_back demo_keypair_round_trip w run] run
  show ?thesis by blast
qed

text \<open>
  C16. An interrupted first start is recoverable. From a directory with neither file, for every plan
  and crash point of \<open>load_or_generate\<close> and every recovery: a start loads the certificate that was
  being written, or one of the two files is absent, so a start mints anew; a pair that does not load
  is never left behind. When the call returned, the certificate it returned is the one that loads.
\<close>

theorem first_start_crash:
  assumes laws: "rcgen_reads_back X" "keypair_round_trip X"
    and w: "on_unix w" "settled w (cert_at dir)" "settled w (key_at dir)"
      "content w (cert_at dir) = None" "content w (key_at dir) = None"
    and run: "load_or_generate X dir sk rnd now w = (r, w')"
  shows "(content (recover c w') (cert_at dir) = None \<or> content (recover c w') (key_at dir) = None \<or>
      (\<exists>n. generate_signed X sk rnd now = Ok n \<and>
         load_or_generate X dir sk' rnd' now' (recover c w') = (Ok n, recover c w'))) \<and>
    (\<forall>n. r = Ok n \<longrightarrow> generate_signed X sk rnd now = Ok n \<and>
         load_or_generate X dir sk' rnd' now' (recover c w') = (Ok n, recover c w'))"
proof -
  have pre: "slots_hold dir UNIV UNIV {None} {None} w"
    using w by (auto simp: slots_hold_def slots.only_def settled_may_hold)
  note rule = load_or_generate_slots [of dir UNIV UNIV "{None}" "{None}" X sk rnd now]
  have loads: "load_or_generate X dir sk' rnd' now' (recover c w') = (Ok n, recover c w')"
    if "generate_signed X sk rnd now = Ok n" "content (recover c w') (cert_at dir) = Some (as_bytes (cert_pem n))"
      "content (recover c w') (key_at dir) = Some (as_bytes (key_pem n))" for n
    using that by (intro load_after_recovery minted_stored [OF laws])
  show ?thesis
  proof (cases r)
    case (Ok n)
    from triple_Ok [OF rule pre run [unfolded Ok]]
    have m: "generate_signed X sk rnd now = Ok n"
      and h: "slots_hold dir UNIV UNIV {Some (as_bytes (cert_pem n))} {Some (as_bytes (key_pem n))} w'"
      by auto
    from slots_hold_recover(3,4) [OF h, of c] loads [OF m] m Ok show ?thesis by auto
  qed (use triple_exit [OF rule pre run] loads in \<open>fastforce dest: slots_hold_recover [of _ _ _ _ _ _ c]\<close>)+
qed

theorem first_start_crash_witness:
  "\<exists>r w'. load_or_generate demo [''d''] [1] [2] 3 (demo_world Unix (replicate 12 Proceed @ [Stop 2])) = (r, w') \<and>
    (content (recover (\<lambda>_. (False, [])) w') (cert_at [''d'']) = None \<or>
     content (recover (\<lambda>_. (False, [])) w') (key_at [''d'']) = None \<or>
      (\<exists>n. generate_signed demo [1] [2] 3 = Ok n \<and>
         load_or_generate demo [''d''] [1] [9] 3 (recover (\<lambda>_. (False, [])) w') =
           (Ok n, recover (\<lambda>_. (False, [])) w')))"
proof -
  let ?w = "demo_world Unix (replicate 12 Proceed @ [Stop 2])"
  obtain r w' where run: "load_or_generate demo [''d''] [1] [2] 3 ?w = (r, w')"
    by (cases "load_or_generate demo [''d''] [1] [2] 3 ?w")
  have "settled ?w p" for p by (simp add: settled_def demo_world_def)
  from first_start_crash [OF demo_rcgen_reads_back demo_keypair_round_trip _ this this _ _ run] run
  show ?thesis by auto
qed

section \<open>Who can read the key\<close>

definition key_files :: "path \<Rightarrow> path set" where
  "key_files dir = {key_at dir, tmp_path (key_at dir), prev_key_at dir, tmp_path (prev_key_at dir)}"

lemma owner_only_reads [triple_rules]:
  "keeps (owner_only K) (both_exist p q)" "keeps (owner_only K) (either_exists p q)"
  "keeps (owner_only K) (path_exists p)" "keeps (owner_only K) (read_to_string p)"
  "keeps (owner_only K) (fs_read p)" "keeps (owner_only K) (read_key_to_zeroizing p)"
proof -
  show e: "keeps (owner_only K) (path_exists p)" for p by (rule triple_path_exists) simp_all
  show "keeps (owner_only K) (both_exist p q)" "keeps (owner_only K) (either_exists p q)"
    unfolding both_exist_def either_exists_def by (auto intro!: triple_rules e)
  show "keeps (owner_only K) (fs_read p)"
    by (rule triple_weaken [OF triple_fs_read [of "owner_only K" "owner_only K"]]) simp_all
  show r: "keeps (owner_only K) (read_to_string p)"
    by (rule triple_weaken [OF triple_read_to_string [of "owner_only K" "owner_only K"]]) simp_all
  show "keeps (owner_only K) (read_key_to_zeroizing p)"
    unfolding read_key_to_zeroizing_def by (rule triple_io [OF r])
qed

lemma key_files_names [simp]:
  "cert_at dir \<notin> key_files dir" "dir @ [CERT_FILE @ ''.tmp''] \<notin> key_files dir"
  "prev_cert_at dir \<notin> key_files dir" "dir @ [CERT_FILE_PREV @ ''.tmp''] \<notin> key_files dir"
  "key_at dir \<in> key_files dir" "dir @ [KEY_FILE @ ''.tmp''] \<in> key_files dir"
  "prev_key_at dir \<in> key_files dir" "dir @ [KEY_FILE_PREV @ ''.tmp''] \<in> key_files dir"
  by (auto simp: key_files_def)

text \<open>
  C18. The keys are for their owner only. If the key files and their staging files, where they exist,
  are closed to group and others, then after every operation, whatever it returned, and at every
  moment in the middle of it, as well as after a crash there, they still are. For a new directory
  the condition holds because there is no such file.
\<close>

theorem key_files_stay_owner_only:
  assumes "owner_only (key_files dir) w"
  shows "owner_only (key_files dir) (snd (load_or_generate X dir sk rnd now w)) \<and>
    owner_only (key_files dir) (snd (rotate_cert X dir sk rnd now w)) \<and>
    owner_only (key_files dir) (snd (load_previous X dir w)) \<and>
    owner_only (key_files dir) (snd (retire_previous dir w))"
proof (intro conjI)
  have k: "keeps (owner_only (key_files dir)) (load_or_generate X dir sk rnd now)"
    unfolding load_or_generate_def generate_and_persist_def Let_def
    by (intro triple_rules) simp_all
  show "owner_only (key_files dir) (snd (load_or_generate X dir sk rnd now w))"
    by (rule triple_any [OF k assms])
  have k: "keeps (owner_only (key_files dir)) (rotate_cert X dir sk rnd now)"
    unfolding rotate_cert_def persist_rotation_def Let_def
    by (intro triple_rules) simp_all
  show "owner_only (key_files dir) (snd (rotate_cert X dir sk rnd now w))"
    by (rule triple_any [OF k assms])
  have k: "keeps (owner_only (key_files dir)) (load_previous X dir)"
    unfolding load_previous_def Let_def by (intro triple_rules)
  show "owner_only (key_files dir) (snd (load_previous X dir w))"
    by (rule triple_any [OF k assms])
  have k: "keeps (owner_only (key_files dir)) (retire_previous dir)"
    unfolding retire_previous_def Let_def by (intro triple_rules)
  show "owner_only (key_files dir) (snd (retire_previous dir w))"
    by (rule triple_any [OF k assms])
qed

theorem key_files_stay_owner_only_witness:
  "owner_only (key_files [''d''])
     (snd (load_or_generate demo [''d''] [1] [2] 3 (demo_world Unix (replicate 12 Proceed @ [Stop 2]))))"
proof -
  have "owner_only (key_files [''d'']) (demo_world Unix (replicate 12 Proceed @ [Stop 2]))"
    by (simp add: owner_only_def on_unix_def demo_world_def)
  from key_files_stay_owner_only [OF this] show ?thesis by blast
qed


section \<open>A rotation interrupted between its last two writes\<close>

lemma plan_irrelevant [simp]:
  "texts_at (w\<lparr>wplan := fs\<rparr>) = texts_at w" "plain_dir (w\<lparr>wplan := fs\<rparr>) = plain_dir w"
  "content (w\<lparr>wplan := fs\<rparr>) = content w" "ready_dir (w\<lparr>wplan := fs\<rparr>) = ready_dir w"
  "stored X (w\<lparr>wplan := fs\<rparr>) = stored X w" "on_unix (w\<lparr>wplan := fs\<rparr>) = on_unix w"
  by (auto simp: texts_at_def plain_dir_def content_def ready_dir_def stored_def on_unix_def fun_eq_iff)

lemma calls_proceed:
  "wplan w = Proceed # Proceed # fs \<Longrightarrow> texts_at w p q a b \<Longrightarrow> both_exist p q w = (Ok True, w\<lparr>wplan := fs\<rparr>)"
  "wplan w = Proceed # Proceed # fs \<Longrightarrow> plain_dir w dir \<Longrightarrow> content w (dir @ [m]) = None \<Longrightarrow>
     content w (dir @ [n]) = None \<Longrightarrow> either_exists (dir @ [m]) (dir @ [n]) w = (Ok False, w\<lparr>wplan := fs\<rparr>)"
  "wplan w = Proceed # fs \<Longrightarrow> texts_at w p q a b \<Longrightarrow> io (read_to_string p) w = (Ok a, w\<lparr>wplan := fs\<rparr>)"
  "wplan w = Proceed # fs \<Longrightarrow> texts_at w p q a b \<Longrightarrow> read_key_to_zeroizing q w = (Ok b, w\<lparr>wplan := fs\<rparr>)"
  "wplan w = Proceed # fs \<Longrightarrow> on_unix w \<Longrightarrow> ready_dir w dir \<Longrightarrow> \<exists>w'. harden_dir_permissions dir w = (Ok (), w') \<and>
     wplan w' = fs \<and> on_unix w' \<and> wdirs w' = (wdirs w)(dir \<mapsto> mode_0700)"
  by (auto simp: both_exist_def either_exists_def path_exists_def syscall_def seq_def io_def
      read_to_string_def fs_read_def read_key_to_zeroizing_def texts_at_def content_def plain_dir_def
      ready_dir_def harden_dir_permissions_def harden_dir_permissions_unix_def on_platform_def
      on_unix_def set_permissions_def)

lemma write_slots:
  "triple (slots_hold dir P Q R T) (atomic_write (prev_cert_at dir) b k)
     (\<lambda>_. slots_hold dir {Some b} Q R T) (\<lambda>_. True)"
  "triple (slots_hold dir P Q R T) (atomic_write (prev_key_at dir) b k)
     (\<lambda>_. slots_hold dir P {Some b} R T) (\<lambda>_. True)"
  "triple (slots_hold dir P Q R T) (atomic_write (cert_at dir) b k)
     (\<lambda>_. slots_hold dir P Q {Some b} T) (\<lambda>_. True)"
proof -
  note frame = atomic_write_frame [where q = "dir @ [n]" and dest = "dir @ [m]" and V = V for n m V]
  note [simp] = slots_hold_iff [abs_def]
  show "triple (slots_hold dir P Q R T) (atomic_write (prev_cert_at dir) b k)
     (\<lambda>_. slots_hold dir {Some b} Q R T) (\<lambda>_. True)"
    by (rule triple_weaken [OF triple_conj [OF triple_conj [OF
          atomic_write_target [OF slots_ok(3), of _ P] frame [of KEY_FILE_PREV CERT_FILE_PREV Q]]
        triple_conj [OF frame [of CERT_FILE CERT_FILE_PREV R] frame [of KEY_FILE CERT_FILE_PREV T]]]])
      simp_all
  show "triple (slots_hold dir P Q R T) (atomic_write (prev_key_at dir) b k)
     (\<lambda>_. slots_hold dir P {Some b} R T) (\<lambda>_. True)"
    by (rule triple_weaken [OF triple_conj [OF triple_conj [OF
          frame [of CERT_FILE_PREV KEY_FILE_PREV P] atomic_write_target [OF slots_ok(4), of _ Q]]
        triple_conj [OF frame [of CERT_FILE KEY_FILE_PREV R] frame [of KEY_FILE KEY_FILE_PREV T]]]])
      simp_all
  show "triple (slots_hold dir P Q R T) (atomic_write (cert_at dir) b k)
     (\<lambda>_. slots_hold dir P Q {Some b} T) (\<lambda>_. True)"
    by (rule triple_weaken [OF triple_conj [OF triple_conj [OF
          frame [of CERT_FILE_PREV CERT_FILE P] frame [of KEY_FILE_PREV CERT_FILE Q]]
        triple_conj [OF atomic_write_target [OF slots_ok(1), of _ R] frame [of KEY_FILE CERT_FILE T]]]])
      simp_all
qed


lemma rotate_until_writes_proceed:
  assumes "wplan w = replicate 6 Proceed @ fs" and "plain_dir w dir"
    and "stored X w (cert_at dir) (key_at dir) old"
    and "content w (prev_cert_at dir) = None" and "content w (prev_key_at dir) = None"
    and "generate_signed X sk rnd now = Ok new"
  shows "rotate_cert X dir sk rnd now w = persist_rotation dir old new (w\<lparr>wplan := fs\<rparr>)"
proof -
  have t: "texts_at w (cert_at dir) (key_at dir) (cert_pem old) (key_pem old)"
    and "from_pem X (cert_pem old) (key_pem old) = Ok old"
    using assms(3) by (simp_all add: stored_def from_pem_Ok_iff)
  let ?w = "\<lambda>n. w\<lparr>wplan := replicate n Proceed @ fs\<rparr>"
  have "both_exist (cert_at dir) (key_at dir) w = (Ok True, ?w 4)"
    by (rule calls_proceed(1) [OF _ t]) (simp add: assms(1) numeral_eq_Suc)
  moreover have "either_exists (prev_cert_at dir) (prev_key_at dir) (?w 4) = (Ok False, ?w 2)"
    using calls_proceed(2) [of "?w 4" "replicate 2 Proceed @ fs" dir] assms by (simp add: numeral_eq_Suc)
  moreover have "io (read_to_string (cert_at dir)) (?w 2) = (Ok (cert_pem old), ?w 1)"
    using calls_proceed(3) [of "?w 2" "replicate 1 Proceed @ fs"] t by (simp add: numeral_eq_Suc)
  moreover have "read_key_to_zeroizing (key_at dir) (?w 1) = (Ok (key_pem old), ?w 0)"
    using calls_proceed(4) [of "?w 1" fs] t by simp
  ultimately show ?thesis
    using assms(6) \<open>from_pem X _ _ = Ok old\<close> by (simp add: rotate_cert_def Let_def seq_def)
qed

text \<open>A write in a directory, with what the slots hold and the rest of the plan.\<close>

definition in_progress ::
  "path \<Rightarrow> (world \<Rightarrow> bool) \<Rightarrow> fault list \<Rightarrow> world \<Rightarrow> bool" where
  "in_progress dir H fs w \<longleftrightarrow> H w \<and> wplan w = fs \<and> on_unix w \<and> wdirs w dir \<noteq> None \<and>
     (\<forall>n. wdirs w (dir @ [n]) = None)"

lemma write_in_progress:
  assumes "in_progress dir H (replicate (write_calls k) Proceed @ fs) w" and "is_slot (dir @ [n])"
    and "triple H (atomic_write (dir @ [n]) b k) (\<lambda>_. H') (\<lambda>_. True)"
  shows "\<exists>w'. atomic_write (dir @ [n]) b k w = (Ok (), w') \<and> in_progress dir H' fs w'"
proof -
  obtain w' where w': "atomic_write (dir @ [n]) b k w = (Ok (), w')" "wplan w' = fs" "on_unix w'" "wdirs w' = wdirs w"
    using atomic_write_proceeds [of w k fs "dir @ [n]" b] assms(1,2) by (auto simp: in_progress_def)
  moreover have "H' w'" using triple_Ok [OF assms(3) _ w'(1)] assms(1) by (simp add: in_progress_def)
  ultimately show ?thesis using assms(1) by (auto simp: in_progress_def)
qed

lemma key_write_stops:
  assumes "in_progress dir H [Stop 0] w"
  shows "atomic_write (key_at dir) b Yes w = (Crashed, w\<lparr>wplan := []\<rparr>)"
  using assms
  by (simp add: in_progress_def atomic_write_def Let_def write_key_file_def write_key_file_unix_def
      on_platform_def on_unix_def seq_def io_def open_create_def syscall_def)

lemma persist_rotation_interrupted:
  assumes w: "on_unix w" "ready_dir w dir" "wplan w = replicate 23 Proceed @ [Stop 0]"
    and h: "slots_hold dir P Q R T w"
  shows "\<exists>w'. persist_rotation dir old new w = (Crashed, w') \<and>
    slots_hold dir {Some (as_bytes (cert_pem old))} {Some (as_bytes (key_pem old))}
      {Some (as_bytes (cert_pem new))} T w' \<and> (\<forall>n. wdirs w' (dir @ [n]) = None)"
proof -
  let ?c = "as_bytes (cert_pem old)" and ?k = "as_bytes (key_pem old)" and ?n = "as_bytes (cert_pem new)"
  have calls: "replicate 22 Proceed @ [Stop 0] = replicate (write_calls No) Proceed @
      replicate (write_calls Yes) Proceed @ replicate (write_calls No) Proceed @ [Stop 0]"
    by (simp add: write_calls_def flip: replicate_add append_assoc)
  have "wplan w = Proceed # replicate 22 Proceed @ [Stop 0]"
    using w(3) by (simp add: numeral_eq_Suc)
  then obtain w1 where w1: "harden_dir_permissions dir w = (Ok (), w1)"
    "wplan w1 = replicate 22 Proceed @ [Stop 0]" "on_unix w1" "wdirs w1 = (wdirs w)(dir \<mapsto> mode_0700)"
    using calls_proceed(5) w(1,2) by blast
  have "slots_hold dir P Q R T w1" by (rule triple_Ok [OF keeps_create_harden(2) h w1(1)])
  then have p1: "in_progress dir (slots_hold dir P Q R T) (replicate (write_calls No) Proceed @
      replicate (write_calls Yes) Proceed @ replicate (write_calls No) Proceed @ [Stop 0]) w1"
    using w(2) w1 calls by (simp add: in_progress_def ready_dir_def plain_dir_def)
  obtain w2 where w2: "atomic_write (prev_cert_at dir) ?c No w1 = (Ok (), w2)"
    "in_progress dir (slots_hold dir {Some ?c} Q R T) (replicate (write_calls Yes) Proceed @
       replicate (write_calls No) Proceed @ [Stop 0]) w2"
    using write_in_progress [OF p1 slots_ok(3) write_slots(1)] by blast
  obtain w3 where w3: "atomic_write (prev_key_at dir) ?k Yes w2 = (Ok (), w3)"
    "in_progress dir (slots_hold dir {Some ?c} {Some ?k} R T) (replicate (write_calls No) Proceed @ [Stop 0]) w3"
    using write_in_progress [OF w2(2) slots_ok(4) write_slots(2)] by blast
  obtain w4 where w4: "atomic_write (cert_at dir) ?n No w3 = (Ok (), w4)"
    "in_progress dir (slots_hold dir {Some ?c} {Some ?k} {Some ?n} T) [Stop 0] w4"
    using write_in_progress [OF w3(2) slots_ok(1) write_slots(3)] by blast
  have "persist_rotation dir old new w = (Crashed, w4\<lparr>wplan := []\<rparr>)"
    using w1(1) w2(1) w3(1) w4(1) key_write_stops [OF w4(2)] by (simp add: persist_rotation_def seq_def)
  moreover have "slots_hold dir {Some ?c} {Some ?k} {Some ?n} T (w4\<lparr>wplan := []\<rparr>)"
    and "\<forall>n. wdirs (w4\<lparr>wplan := []\<rparr>) (dir @ [n]) = None"
    using w4(2) by (simp_all add: in_progress_def slots_hold_plan)
  ultimately show ?thesis by blast
qed

text \<open>Retiring a pair that is there.\<close>

lemma retire_pair:
  assumes "quiet w" and "\<forall>n. wdirs w (dir @ [n]) = None"
    and "content w (prev_cert_at dir) \<noteq> None" and "content w (prev_key_at dir) \<noteq> None"
  shows "\<exists>w'. retire_previous dir w = (Ok (), w') \<and> quiet w' \<and> wdirs w' = wdirs w \<and>
    content w' = (content w)(prev_key_at dir := None, prev_cert_at dir := None)"
  using assms
  by (auto simp: retire_previous_def Let_def seq_def fs_read_def remove_file_def io_def quiet_def
      content_def fun_eq_iff)

text \<open>A current pair that does not load, beside a previous pair, and after its retirement.\<close>

lemma blocked_directory:
  assumes q: "quiet v" and d: "\<forall>n. wdirs v (dir @ [n]) = None"
    and t: "texts_at v (cert_at dir) (key_at dir) a b" and bad: "from_pem X a b = Err e"
    and p: "stored X v (prev_cert_at dir) (prev_key_at dir) p"
  shows "load_or_generate X dir sk rnd now v = (Err e, v) \<and>
      rotate_cert X dir sk rnd now v = (Err rotate_unretired, v) \<and> load_previous X dir v = (Ok (Some p), v)"
    and "\<exists>v'. retire_previous dir v = (Ok (), v') \<and>
      (\<forall>sk rnd now. load_or_generate X dir sk rnd now v' = (Err e, v') \<and>
         rotate_cert X dir sk rnd now v' = (Err e, v') \<and> load_previous X dir v' = (Ok None, v'))"
proof -
  note c = stored_contents [OF p]
  have "either_exists (prev_cert_at dir) (prev_key_at dir) v = (Ok True, v)"
    using q c content_Some_file [of v "prev_cert_at dir"] by (simp add: either_exists_def seq_def quiet_def)
  then show "load_or_generate X dir sk rnd now v = (Err e, v) \<and>
      rotate_cert X dir sk rnd now v = (Err rotate_unretired, v) \<and> load_previous X dir v = (Ok (Some p), v)"
    using both_exist_texts [OF q t] load_texts [OF q t] load_previous_stored [OF q p] bad
    by (simp add: rotate_cert_def Let_def seq_def)
  obtain v' where v: "retire_previous dir v = (Ok (), v')" "quiet v'" "wdirs v' = wdirs v"
    "content v' = (content v)(prev_key_at dir := None, prev_cert_at dir := None)"
    using retire_pair [OF q d] c by auto
  have t': "texts_at v' (cert_at dir) (key_at dir) a b" using t by (simp add: texts_at_def v(4))
  have "content v' (prev_cert_at dir) = None" "content v' (prev_key_at dir) = None" by (simp_all add: v(4))
  then have "either_exists (prev_cert_at dir) (prev_key_at dir) v' = (Ok False, v')"
    and "both_exist (prev_cert_at dir) (prev_key_at dir) v' = (Ok False, v')"
    using v(2,3) d by (simp_all add: either_exists_def both_exist_def seq_def quiet_def content_def)
  then have "load_or_generate X dir sk rnd now v' = (Err e, v') \<and>
      rotate_cert X dir sk rnd now v' = (Err e, v') \<and> load_previous X dir v' = (Ok None, v')" for sk rnd now
    using both_exist_texts [OF v(2) t'] read_texts [OF v(2) t'] load_texts [OF v(2) t'] bad
    by (simp add: rotate_cert_def load_previous_def Let_def seq_def)
  with v(1) show "\<exists>v'. retire_previous dir v = (Ok (), v') \<and>
      (\<forall>sk rnd now. load_or_generate X dir sk rnd now v' = (Err e, v') \<and>
         rotate_cert X dir sk rnd now v' = (Err e, v') \<and> load_previous X dir v' = (Ok None, v'))" by blast
qed

definition pair_mismatch :: dig_tls_error where
  "pair_mismatch = Parse ''cert/key mismatch: the certificate does not certify the supplied private key''"

text \<open>
  C24. A rotation interrupted between its last two writes blocks the directory. Each file is intact
  then, but the new certificate stands beside the old key: after recovery every start fails with
  the mismatch error, and every \<open>rotate\<close> with the un-retired one, whatever keys they are given. The
  comment in \<open>rotate\<close> that a crash leaves the old or the new current pair does not hold for the
  pair; the old identity can be had from \<open>load_previous\<close> only. Doing what the un-retired error says,
  calling \<open>retire_previous\<close>, succeeds and removes that last copy: from then on every start and
  every \<open>rotate\<close> fail with the mismatch error, and there is no previous identity to load.
\<close>

theorem interrupted_rotation_blocks_start:
  assumes laws: "rcgen_reads_back X" "keypair_round_trip X"
    and w: "on_unix w" "ready_dir w dir" "settled w (cert_at dir)" "settled w (key_at dir)"
      "stored X w (cert_at dir) (key_at dir) old"
      "content w (prev_cert_at dir) = None" "content w (prev_key_at dir) = None"
    and mint: "generate_signed X sk rnd now = Ok new" "spki_der new \<noteq> spki_der old"
    and plan: "wplan w = replicate 29 Proceed @ [Stop 0]"
  shows "\<exists>w'. rotate_cert X dir sk rnd now w = (Crashed, w') \<and>
    (\<forall>c. (\<forall>sk' rnd' now'.
         load_or_generate X dir sk' rnd' now' (recover c w') = (Err pair_mismatch, recover c w') \<and>
         rotate_cert X dir sk' rnd' now' (recover c w') = (Err rotate_unretired, recover c w') \<and>
         load_previous X dir (recover c w') = (Ok (Some old), recover c w')) \<and>
       (\<exists>v. retire_previous dir (recover c w') = (Ok (), v) \<and>
         (\<forall>sk' rnd' now'. load_or_generate X dir sk' rnd' now' v = (Err pair_mismatch, v) \<and>
           rotate_cert X dir sk' rnd' now' v = (Err pair_mismatch, v) \<and> load_previous X dir v = (Ok None, v))))"
proof -
  let ?co = "as_bytes (cert_pem old)" and ?ko = "as_bytes (key_pem old)" and ?cn = "as_bytes (cert_pem new)"
  let ?w = "w\<lparr>wplan := replicate 23 Proceed @ [Stop 0]\<rparr>"
  have "wplan w = replicate 6 Proceed @ replicate 23 Proceed @ [Stop 0]"
    using plan by (simp flip: replicate_add append_assoc)
  from rotate_until_writes_proceed [OF this _ w(5-7) mint(1)] w(2)
  have run: "rotate_cert X dir sk rnd now w = persist_rotation dir old new ?w"
    by (simp add: ready_dir_def)
  have "slots_hold dir UNIV UNIV {Some ?co} {Some ?ko} w"
    using w stored_contents [OF w(5)] by (auto simp: slots_hold_def slots.only_def settled_may_hold)
  then have h: "slots_hold dir UNIV UNIV {Some ?co} {Some ?ko} ?w" by (rule slots_hold_plan)
  obtain w' where w': "persist_rotation dir old new ?w = (Crashed, w')" "\<forall>n. wdirs w' (dir @ [n]) = None"
    and h': "slots_hold dir {Some ?co} {Some ?ko} {Some ?cn} {Some ?ko} w'"
    using persist_rotation_interrupted [OF _ _ _ h, of old new] w by auto
  obtain ca where gen: "generate_signed_by X ca sk rnd now = Ok new"
    using mint(1) by (auto simp: generate_signed_Ok)
  have mix: "from_pem X (cert_pem new) (key_pem old) = Err pair_mismatch"
    using generate_signed_by_wf [OF laws(2) gen] w(5) mint(2) unfolding pair_mismatch_def
    by (intro mismatched_pair_Err) (auto simp: stored_def)
  note utf8 = generate_signed_by_utf8 [OF laws gen]
  have blocked: "quiet (recover c w') \<and> (\<forall>n. wdirs (recover c w') (dir @ [n]) = None) \<and>
      texts_at (recover c w') (cert_at dir) (key_at dir) (cert_pem new) (key_pem old) \<and>
      stored X (recover c w') (prev_cert_at dir) (prev_key_at dir) old" for c
    using slots_hold_recover [OF h', of c] w'(2) utf8 w(5)
    by (auto simp: texts_at_def stored_def)
  note facts = blocked_directory [OF blocked [THEN conjunct1] blocked [THEN conjunct2, THEN conjunct1]
      blocked [THEN conjunct2, THEN conjunct2, THEN conjunct1] mix blocked [THEN conjunct2, THEN conjunct2, THEN conjunct2]]
  have "rotate_cert X dir sk rnd now w = (Crashed, w')" using run w'(1) by simp
  with facts show ?thesis by blast
qed


theorem interrupted_rotation_blocks_start_witness:
  "\<exists>w w'. rotate_cert demo [''d''] [7] [8] 9 w = (Crashed, w') \<and>
    load_or_generate demo [''d''] [1] [2] 3 (recover (\<lambda>_. (True, [])) w') =
      (Err pair_mismatch, recover (\<lambda>_. (True, [])) w') \<and>
    (\<exists>v. retire_previous [''d''] (recover (\<lambda>_. (True, [])) w') = (Ok (), v) \<and>
       load_or_generate demo [''d''] [1] [2] 3 v = (Err pair_mismatch, v) \<and>
       load_previous demo [''d''] v = (Ok None, v))"
proof -
  obtain w n where w: "on_unix w" "ready_dir w [''d'']" "settled w (cert_at [''d''])"
    "settled w (key_at [''d''])" "stored demo w (cert_at [''d'']) (key_at [''d'']) n"
    "content w (prev_cert_at [''d'']) = None" "content w (prev_key_at [''d'']) = None"
    and spki: "spki_der n = [2]" and plan: "wplan w = replicate 29 Proceed @ [Stop 0]"
    using demo_settled_store by blast
  obtain new where new: "generate_signed demo [7] [8] 9 = Ok new" "spki_der new = [8]"
    using demo_generate_signed [of 9 "[7]" "[8]"] by auto
  have "spki_der new \<noteq> spki_der n" using spki new(2) by simp
  from interrupted_rotation_blocks_start [OF demo_rcgen_reads_back demo_keypair_round_trip w new(1) this plan]
  show ?thesis by blast
qed

section \<open>A rotation on Windows stopped in the middle of a rename\<close>

text \<open>A write there whose calls all proceed, and one whose rename fails and which stops after the
  target has been removed.\<close>

lemma windows_write_proceeds:
  assumes "wplatform w = Windows" and "wplan w = replicate 5 Proceed @ fs" and "ready_dir w dir"
  shows "\<exists>f w'. atomic_write (dir @ [n]) b k w = (Ok (), w') \<and> wplan w' = fs \<and> wplatform w' = Windows \<and>
    wdirs w' = wdirs w \<and> wfiles w' = (wfiles w)(dir @ [n @ ''.tmp''] := None, dir @ [n] \<mapsto> f) \<and> flushed b f"
  using assms
  by (cases k; cases "wfiles w (dir @ [n @ ''.tmp''])")
    (auto simp: atomic_write_def Let_def write_key_file_def write_key_file_windows_def fs_write_def
      open_create_def write_all_def open_write_def sync_all_def atomic_rename_def atomic_rename_windows_def
      on_err_def fs_rename_def fsync_dir_def fsync_dir_windows_def on_platform_def seq_def io_def
      syscall_def numeral_eq_Suc world_defs ready_dir_def plain_dir_def)

lemma windows_write_stops:
  assumes "wplatform w = Windows" and "wplan w = replicate 4 Proceed @ [Fail i e, Proceed, Proceed, Stop j]"
    and "ready_dir w dir" and "wfiles w (dir @ [n]) \<noteq> None"
  shows "\<exists>f w'. atomic_write (dir @ [n]) b k w = (Crashed, w') \<and> wdirs w' = wdirs w \<and>
    wfiles w' = (wfiles w)(dir @ [n @ ''.tmp''] \<mapsto> f, dir @ [n] := None) \<and> flushed b f"
  using assms
  by (cases k; cases "wfiles w (dir @ [n @ ''.tmp''])")
    (auto simp: atomic_write_def Let_def write_key_file_def write_key_file_windows_def fs_write_def
      open_create_def write_all_def open_write_def sync_all_def atomic_rename_def atomic_rename_windows_def
      on_err_def fs_rename_def path_exists_def remove_file_def on_platform_def seq_def io_def
      syscall_def numeral_eq_Suc world_defs ready_dir_def plain_dir_def)

lemma windows_rotation_stops:
  assumes w: "wplatform w = Windows" "ready_dir w dir" "wfiles w (cert_at dir) \<noteq> None"
    and plan: "wplan w = replicate 14 Proceed @ [Fail i e, Proceed, Proceed, Stop j]"
  shows "\<exists>f g h F w'. persist_rotation dir old new w = (Crashed, w') \<and> wdirs w' = wdirs w \<and>
    wfiles w' = (wfiles w)(dir @ [CERT_FILE_PREV @ ''.tmp''] := None, prev_cert_at dir \<mapsto> f,
      dir @ [KEY_FILE_PREV @ ''.tmp''] := None, prev_key_at dir \<mapsto> g,
      dir @ [CERT_FILE @ ''.tmp''] \<mapsto> h, cert_at dir := None) \<and>
    flushed (as_bytes (cert_pem old)) f \<and> flushed (as_bytes (key_pem old)) g \<and>
    flushed (as_bytes (cert_pem new)) h"
proof -
  let ?tail = "[Fail i e, Proceed, Proceed, Stop j]"
  have ready: "ready_dir v' dir" if "ready_dir v dir" "wdirs v' = wdirs v"
    "wfiles v' = (wfiles v)(dir @ [m] := None, dir @ [n] \<mapsto> f)" for v v' m n f
    using that by (auto simp: ready_dir_def plain_dir_def dest: prefixes_not_snoc)
  have harden: "harden_dir_permissions dir w = (Ok (), w)"
    using w(1) by (simp add: harden_dir_permissions_def harden_dir_permissions_windows_def on_platform_def)
  have "wplan w = replicate 5 Proceed @ replicate 5 Proceed @ replicate 4 Proceed @ ?tail"
    using plan by (simp flip: replicate_add append_assoc)
  from windows_write_proceeds [OF w(1) this w(2), of CERT_FILE_PREV "as_bytes (cert_pem old)" No]
  obtain f w1 where w1: "atomic_write (prev_cert_at dir) (as_bytes (cert_pem old)) No w = (Ok (), w1)"
    "wplan w1 = replicate 5 Proceed @ replicate 4 Proceed @ ?tail" "wplatform w1 = Windows" "wdirs w1 = wdirs w"
    "wfiles w1 = (wfiles w)(dir @ [CERT_FILE_PREV @ ''.tmp''] := None, prev_cert_at dir \<mapsto> f)"
    "flushed (as_bytes (cert_pem old)) f" by blast
  note r1 = ready [OF w(2) w1(4,5)]
  from windows_write_proceeds [OF w1(3,2) r1, of KEY_FILE_PREV "as_bytes (key_pem old)" Yes]
  obtain g w2 where w2: "atomic_write (prev_key_at dir) (as_bytes (key_pem old)) Yes w1 = (Ok (), w2)"
    "wplan w2 = replicate 4 Proceed @ ?tail" "wplatform w2 = Windows" "wdirs w2 = wdirs w1"
    "wfiles w2 = (wfiles w1)(dir @ [KEY_FILE_PREV @ ''.tmp''] := None, prev_key_at dir \<mapsto> g)"
    "flushed (as_bytes (key_pem old)) g" by blast
  have "wfiles w2 (cert_at dir) \<noteq> None" using w(3) by (simp add: w1(5) w2(5) name_defs)
  from windows_write_stops [OF w2(3,2) ready [OF r1 w2(4,5)] this, of "as_bytes (cert_pem new)" No]
  obtain h w3 where w3: "atomic_write (cert_at dir) (as_bytes (cert_pem new)) No w2 = (Crashed, w3)"
    "wdirs w3 = wdirs w2" "flushed (as_bytes (cert_pem new)) h"
    "wfiles w3 = (wfiles w2)(dir @ [CERT_FILE @ ''.tmp''] \<mapsto> h, cert_at dir := None)" by blast
  have "persist_rotation dir old new w = (Crashed, w3)"
    using harden w1(1) w2(1) w3(1) by (simp add: persist_rotation_def seq_def)
  with w1 w2 w3 show ?thesis by auto
qed

text \<open>
  C30. On Windows a crash in a rotation can replace the identity by a third one. If the rename over
  \<open>node.crt\<close> fails, \<open>atomic_rename\<close> removes the target and renames again; let the machine stop
  between the two, every other call having worked. In any recovery that finds the directory as it
  was last, \<open>node.crt\<close> holds neither its old nor its new contents, it is absent, and the new ones are
  in the staging file, which nothing reads: the next start finds no certificate, mints a new
  identity, and replaces the key files of the one in use; \<open>rotate\<close> finds nothing to rotate. The old
  identity is left in the previous slot, for \<open>load_previous\<close>.
\<close>

theorem windows_rename_stopped:
  assumes w: "wplatform w = Windows" "ready_dir w dir" "stored X w (cert_at dir) (key_at dir) old"
      "content w (prev_cert_at dir) = None" "content w (prev_key_at dir) = None"
    and mint: "generate_signed X sk rnd now = Ok new"
    and plan: "wplan w = replicate 20 Proceed @ [Fail i e, Proceed, Proceed, Stop j]"
    and start: "generate_signed X sk' rnd' now' = Ok third"
  shows "\<exists>w'. rotate_cert X dir sk rnd now w = (Crashed, w') \<and>
    (\<forall>c. (\<forall>p. fst (c p)) \<longrightarrow>
       content (recover c w') (cert_at dir) = None \<and>
       content (recover c w') (tmp_path (cert_at dir)) = Some (as_bytes (cert_pem new)) \<and>
       rotate_cert X dir sk' rnd' now' (recover c w') = (Err rotate_nothing, recover c w') \<and>
       load_previous X dir (recover c w') = (Ok (Some old), recover c w') \<and>
       (\<exists>v. load_or_generate X dir sk' rnd' now' (recover c w') = (Ok third, v) \<and>
          content v (cert_at dir) = Some (as_bytes (cert_pem third)) \<and>
          content v (key_at dir) = Some (as_bytes (key_pem third))))"
proof -
  let ?w = "w\<lparr>wplan := replicate 14 Proceed @ [Fail i e, Proceed, Proceed, Stop j]\<rparr>"
  have "wplan w = replicate 6 Proceed @ replicate 14 Proceed @ [Fail i e, Proceed, Proceed, Stop j]"
    using plan by (simp flip: replicate_add append_assoc)
  from rotate_until_writes_proceed [OF this _ w(3-5) mint] w(2)
  have run: "rotate_cert X dir sk rnd now w = persist_rotation dir old new ?w"
    by (simp add: ready_dir_def)
  have "wfiles ?w (cert_at dir) \<noteq> None"
    using stored_contents [OF w(3)] content_Some_file [of w "cert_at dir"] by simp
  then obtain f g h w' where stop: "persist_rotation dir old new ?w = (Crashed, w')" "wdirs w' = wdirs w"
    and files: "wfiles w' = (wfiles w)(dir @ [CERT_FILE_PREV @ ''.tmp''] := None, prev_cert_at dir \<mapsto> f,
      dir @ [KEY_FILE_PREV @ ''.tmp''] := None, prev_key_at dir \<mapsto> g,
      dir @ [CERT_FILE @ ''.tmp''] \<mapsto> h, cert_at dir := None)"
    and inodes: "flushed (as_bytes (cert_pem old)) f" "flushed (as_bytes (key_pem old)) g"
      "flushed (as_bytes (cert_pem new)) h"
    using windows_rotation_stops [of ?w dir i e j old new] w(1,2) by auto
  have after: "content (recover c w') (cert_at dir) = None \<and>
       content (recover c w') (tmp_path (cert_at dir)) = Some (as_bytes (cert_pem new)) \<and>
       rotate_cert X dir sk' rnd' now' (recover c w') = (Err rotate_nothing, recover c w') \<and>
       load_previous X dir (recover c w') = (Ok (Some old), recover c w') \<and>
       (\<exists>v. load_or_generate X dir sk' rnd' now' (recover c w') = (Ok third, v) \<and>
          content v (cert_at dir) = Some (as_bytes (cert_pem third)) \<and>
          content v (key_at dir) = Some (as_bytes (key_pem third)))" if c: "\<forall>p. fst (c p)" for c
  proof -
    let ?v = "recover c w'"
    have v: "wfiles ?v p = map_option (\<lambda>f. if fsynced f then f else f\<lparr>fdata := snd (c p), fsynced := True\<rparr>)
        (wfiles w' p)" for p
      using c by (simp add: recover_def Let_def)
    have gone: "wfiles ?v (cert_at dir) = None" and tmp: "wfiles ?v (dir @ [CERT_FILE @ ''.tmp'']) = Some h"
      and prev: "wfiles ?v (prev_cert_at dir) = Some f" "wfiles ?v (prev_key_at dir) = Some g"
      using inodes by (simp_all add: v files name_defs)
    have plain: "plain_dir ?v dir"
      using w(2) stop(2) by (auto simp: v files ready_dir_def plain_dir_def dest: prefixes_not_snoc)
    then have "wdirs ?v (cert_at dir) = None" by (simp add: plain_dir_def)
    then have absent: "both_exist (cert_at dir) (key_at dir) ?v = (Ok False, ?v)"
      using gone quiet_recover [of c w'] by (simp add: both_exist_def seq_def quiet_def)
    have "stored X ?v (prev_cert_at dir) (prev_key_at dir) old"
      using w(3) prev inodes by (intro stored_move [OF w(3)]) (simp_all add: content_def)
    moreover obtain v where "generate_and_persist X dir sk' rnd' now' ?v = (Ok third, v)"
      "content v = put_pair dir CERT_FILE KEY_FILE third (content ?v)"
      using generate_and_persist_quiet [OF quiet_recover plain start] by blast
    moreover from this have "content v (cert_at dir) = Some (as_bytes (cert_pem third))"
      "content v (key_at dir) = Some (as_bytes (key_pem third))" by (simp_all add: put_pair_def)
    moreover have "content ?v (cert_at dir) = None" "content ?v (tmp_path (cert_at dir)) = Some (as_bytes (cert_pem new))"
      using gone tmp inodes(3) by (simp_all add: content_def)
    ultimately show ?thesis
      using absent load_previous_stored [OF quiet_recover]
      by (simp add: rotate_cert_def load_or_generate_def Let_def seq_def)
  qed
  with run stop(1) show ?thesis by auto
qed

theorem windows_rename_stopped_witness:
  "\<exists>w w' (old :: node_cert) third v.
     stored demo w (cert_at [''d'']) (key_at [''d'']) old \<and> spki_der old = [2] \<and>
     rotate_cert demo [''d''] [7] [8] 9 w = (Crashed, w') \<and>
     content (recover (\<lambda>_. (True, [])) w') (cert_at [''d'']) = None \<and>
     load_or_generate demo [''d''] [1] [5] 3 (recover (\<lambda>_. (True, [])) w') = (Ok third, v) \<and>
     spki_der third = [5]"
proof -
  obtain w0 n where w: "ready_dir w0 [''d'']" "stored demo w0 (cert_at [''d'']) (key_at [''d'']) n" "spki_der n = [2]"
    "content w0 (prev_cert_at [''d'']) = None" "content w0 (prev_key_at [''d'']) = None"
    using demo_store by blast
  let ?w = "w0\<lparr>wplatform := Windows,
    wplan := replicate 20 Proceed @ [Fail 0 (OtherIo ''exists''), Proceed, Proceed, Stop 0]\<rparr>"
  have same: "ready_dir ?w [''d'']" "stored demo ?w (cert_at [''d'']) (key_at [''d'']) n"
    "content ?w (prev_cert_at [''d'']) = None" "content ?w (prev_key_at [''d'']) = None"
    using w by (simp_all add: ready_dir_def plain_dir_def stored_def texts_at_def content_def)
  obtain new where new: "generate_signed demo [7] [8] 9 = Ok new"
    using demo_generate_signed [of 9 "[7]" "[8]"] by auto
  obtain third where third: "generate_signed demo [1] [5] 3 = Ok third" "spki_der third = [5]"
    using demo_generate_signed [of 3 "[1]" "[5]"] by auto
  have plan: "wplan ?w = replicate 20 Proceed @ [Fail 0 (OtherIo ''exists''), Proceed, Proceed, Stop 0]"
    and pl: "wplatform ?w = Windows" by simp_all
  from windows_rename_stopped [OF pl same new plan third(1)] obtain w' where
    run: "rotate_cert demo [''d''] [7] [8] 9 ?w = (Crashed, w')" and
    after: "\<forall>c. (\<forall>p. fst (c p)) \<longrightarrow> content (recover c w') (cert_at [''d'']) = None \<and>
      (\<exists>v. load_or_generate demo [''d''] [1] [5] 3 (recover c w') = (Ok third, v))" by blast
  from after [THEN spec, of "\<lambda>_. (True, [])"] obtain v where
    "content (recover (\<lambda>_. (True, [])) w') (cert_at [''d'']) = None"
    "load_or_generate demo [''d''] [1] [5] 3 (recover (\<lambda>_. (True, [])) w') = (Ok third, v)" by auto
  with same(2) w(3) run third(2) show ?thesis by blast
qed

section \<open>A failed existence check, and a retirement that is not flushed\<close>

text \<open>
  C25. A failed look at the file overwrites the identity. \<open>Path::exists\<close> is false when the call under
  it fails; if that happens once to \<open>node.crt\<close> of a live identity and every later call works,
  \<open>load_or_generate\<close> mints another identity and writes it over the stored one, and from then on a
  start loads that one. The identity is not regenerated \<open>only if absent\<close>.
\<close>

theorem failed_check_replaces_identity:
  assumes laws: "rcgen_reads_back X" "keypair_round_trip X"
    and w: "plain_dir w dir" "stored X w (cert_at dir) (key_at dir) old" "wplan w = [Fail k e]"
    and mint: "generate_signed X sk rnd now = Ok new"
  shows "\<exists>w'. load_or_generate X dir sk rnd now w = (Ok new, w') \<and>
    (\<forall>sk' rnd' now'. load_or_generate X dir sk' rnd' now' w' = (Ok new, w'))"
proof -
  let ?w = "w\<lparr>wplan := []\<rparr>"
  have "both_exist (cert_at dir) (key_at dir) w = (Ok False, ?w)"
    using w(3) by (simp add: both_exist_def path_exists_def syscall_def seq_def)
  moreover obtain w' where w': "generate_and_persist X dir sk rnd now ?w = (Ok new, w')" "quiet w'"
    "content w' = put_pair dir CERT_FILE KEY_FILE new (content ?w)"
    using generate_and_persist_quiet [of ?w dir, OF _ _ mint] w(1) by (auto simp: quiet_def)
  ultimately have "load_or_generate X dir sk rnd now w = (Ok new, w')"
    by (simp add: load_or_generate_def Let_def seq_def)
  moreover have "stored X w' (cert_at dir) (key_at dir) new"
    by (rule minted_stored [OF laws mint]) (simp_all add: w'(3) put_pair_def)
  ultimately show ?thesis using load_stored [OF w'(2)] by blast
qed

theorem failed_check_replaces_identity_witness:
  "\<exists>w w' (old :: node_cert) (new :: node_cert).
     stored demo w (cert_at [''d'']) (key_at [''d'']) old \<and> spki_der old \<noteq> spki_der new \<and>
     load_or_generate demo [''d''] [1] [8] 3 w = (Ok new, w') \<and>
     load_or_generate demo [''d''] [1] [9] 3 w' = (Ok new, w')"
proof -
  obtain w n where w: "ready_dir w [''d'']" "stored demo w (cert_at [''d'']) (key_at [''d'']) n"
    "spki_der n = [2]" "wplan w = [Fail 0 (OtherIo ''permission denied'')]"
    using demo_settled_store by blast
  obtain new where new: "generate_signed demo [1] [8] 3 = Ok new" "spki_der new = [8]"
    using demo_generate_signed [of 3 "[1]" "[8]"] by auto
  from failed_check_replaces_identity [OF demo_rcgen_reads_back demo_keypair_round_trip _ w(2,4) new(1)] w(1)
  show ?thesis using w(2,3) new(2) by (fastforce simp: ready_dir_def)
qed

text \<open>
  C39. A retired key may come back. \<open>retire_previous\<close> removes the files without flushing the
  directory; if the machine crashes after it has returned, the key of the previous identity may be
  found again, with the bytes it had. Deleting it does not make it unrecoverable.
\<close>

theorem retired_key_may_return:
  assumes "quiet w" and "plain_dir w dir" and "settled w (prev_key_at dir)"
    and "content w (prev_key_at dir) = Some key"
  shows "\<exists>w' c. retire_previous dir w = (Ok (), w') \<and> content w' (prev_key_at dir) = None \<and>
    content (recover c w') (prev_key_at dir) = Some key"
proof -
  obtain w' where w': "retire_previous dir w = (Ok (), w')" "wdisk w' = wdisk w"
    "content w' = (content w)(prev_key_at dir := None, prev_cert_at dir := None)"
    using retire_quiet [OF assms(1,2)] by blast
  have "may_hold w' (prev_key_at dir) (Some key)"
    using assms(3,4) w'(2) by (auto simp: may_hold_def settled_def content_def)
  from may_hold_recover [OF this] w' show ?thesis by auto
qed

theorem retired_key_may_return_witness:
  "let f = \<lparr>fdata = [1, 2], fmode = mode_0600, fsynced = True\<rparr>;
       w = (demo_world Unix [])\<lparr>wfiles := [prev_key_at [''d''] \<mapsto> f], wdisk := [prev_key_at [''d''] \<mapsto> f]\<rparr>
   in \<exists>w' c. retire_previous [''d''] w = (Ok (), w') \<and> content w' (prev_key_at [''d'']) = None \<and>
        content (recover c w') (prev_key_at [''d'']) = Some [1, 2]"
  unfolding Let_def
  by (rule retired_key_may_return)
    (auto simp: quiet_def demo_world_def plain_dir_def settled_def content_def)

end
