(* ===== verification/Dig_History.thy ===== *)
theory Dig_History
  imports Dig_Lifecycle
begin

text \<open>
  The life of a directory over any number of process runs, rotations, retirements, failures and
  crashes, as a transition relation. A process that starts loads its identity from the recovered
  directory; while it runs it may rotate and retire; a call that does not return, whether it fails
  or the machine stops in it, ends the run, and so may a loss of power at any time; the next run
  follows a restart of the machine. Rotations and retirements run under any plan of the file
  system; a start under any plan in which its first two calls, the existence checks, do not fail, because
  an existence check that fails makes it overwrite the identity. They may stop the machine, and every
  later call may fail or stop it.
\<close>

section \<open>Runs\<close>

datatype mode =
    Running node_cert
  | Down node_cert

text \<open>None of the first \<open>n\<close> calls fails.\<close>

fun no_failure :: "nat \<Rightarrow> fault list \<Rightarrow> bool" where
  "no_failure (Suc n) (Fail k e # fs) = False"
| "no_failure (Suc n) (f # fs) = no_failure n fs"
| "no_failure n fs = True"

text \<open>The identity a mode stands for: the one in use, or the last one that was.\<close>

fun holder :: "mode \<Rightarrow> node_cert" where
  "holder (Running n) = n"
| "holder (Down n) = n"

fun mode_after :: "('e, node_cert) outcome \<Rightarrow> node_cert \<Rightarrow> mode" where
  "mode_after (Ok m) n = Running m"
| "mode_after _ n = Down n"

inductive run_step :: "crates \<Rightarrow> path \<Rightarrow> mode \<times> world \<Rightarrow> mode \<times> world \<Rightarrow> bool"
  for X :: crates and dir :: path
where
  boot: "no_failure 2 fs \<Longrightarrow> load_or_generate X dir sk rnd now ((recover c w)\<lparr>wplan := fs\<rparr>) = (r, w') \<Longrightarrow>
    run_step X dir (Down n, w) (mode_after r n, w')"
| rotates: "rotate_cert X dir sk rnd now (w\<lparr>wplan := fs\<rparr>) = (r, w') \<Longrightarrow>
    run_step X dir (Running n, w) (mode_after (bind r (\<lambda>rot. Ok (current rot))) n, w')"
| retires: "retire_previous dir (w\<lparr>wplan := fs\<rparr>) = (r, w') \<Longrightarrow>
    run_step X dir (Running n, w) (mode_after (bind r (\<lambda>_. Ok n)) n, w')"
| loads_previous: "load_previous X dir (w\<lparr>wplan := fs\<rparr>) = (r, w') \<Longrightarrow>
    run_step X dir (Running n, w) (mode_after (bind r (\<lambda>_. Ok n)) n, w')"
| power_off: "run_step X dir (Running n, w) (Down n, w)"

inductive history :: "crates \<Rightarrow> path \<Rightarrow> mode \<times> world \<Rightarrow> mode \<times> world \<Rightarrow> bool"
  for X :: crates and dir :: path and s0 :: "mode \<times> world"
where
  here: "history X dir s0 s0"
| next_step: "history X dir s0 s \<Longrightarrow> run_step X dir s s' \<Longrightarrow> history X dir s0 s'"

inductive_cases run_stepE: "run_step X dir (md, w) s'"

section \<open>The invariant\<close>

definition loadable :: "crates \<Rightarrow> node_cert \<Rightarrow> bool" where
  "loadable X n \<longleftrightarrow> node_cert_wf X n \<and> valid_utf8 (as_bytes (cert_pem n)) \<and> valid_utf8 (as_bytes (key_pem n))"

definition current_is :: "path \<Rightarrow> node_cert \<Rightarrow> world \<Rightarrow> bool" where
  "current_is dir n w \<longleftrightarrow> holds_only (cert_at dir) {Some (as_bytes (cert_pem n))} w \<and>
     holds_only (key_at dir) {Some (as_bytes (key_pem n))} w"

text \<open>The identity is saved in the previous slots, and the current ones hold something.\<close>

definition previous_is :: "path \<Rightarrow> node_cert \<Rightarrow> world \<Rightarrow> bool" where
  "previous_is dir n w \<longleftrightarrow> slots_hold dir {Some (as_bytes (cert_pem n))} {Some (as_bytes (key_pem n))}
     (- {None}) (- {None}) w"

fun run_inv :: "crates \<Rightarrow> path \<Rightarrow> mode \<times> world \<Rightarrow> bool" where
  "run_inv X dir (Running n, w) \<longleftrightarrow> loadable X n \<and> current_is dir n w"
| "run_inv X dir (Down n, w) \<longleftrightarrow> loadable X n \<and> (current_is dir n w \<or> previous_is dir n w)"

lemma current_is_slots:
  "current_is dir n w \<longleftrightarrow>
     slots_hold dir UNIV UNIV {Some (as_bytes (cert_pem n))} {Some (as_bytes (key_pem n))} w"
  by (auto simp: current_is_def slots_hold_iff holds_only_def)

lemma plan_of_inv [simp]:
  "current_is dir n (w\<lparr>wplan := fs\<rparr>) = current_is dir n w"
  by (auto simp: current_is_def holds_only_def on_unix_def may_hold_def)

lemma holds_only_recover: "holds_only q V w \<Longrightarrow> holds_only q V (recover c w)"
  using settled_may_hold [OF settled_recover, of c w q] recover_may_hold [of w q c]
  by (auto simp: holds_only_def)

lemma inv_recover:
  "current_is dir n w \<Longrightarrow> current_is dir n (recover c w)"
  "previous_is dir n w \<Longrightarrow> previous_is dir n (recover c w)"
  by (auto simp: current_is_def previous_is_def slots_hold_iff intro: holds_only_recover)

lemma holds_only_content:
  "holds_only q {v} w \<Longrightarrow> content w q = v"
  by (intro only_content) (simp add: holds_only_def slots.only_def)

lemma loadable_stored:
  "loadable X n \<Longrightarrow> current_is dir n w \<Longrightarrow> stored X w (cert_at dir) (key_at dir) n"
  "loadable X n \<Longrightarrow> previous_is dir n w \<Longrightarrow> stored X w (prev_cert_at dir) (prev_key_at dir) n"
  by (auto simp: loadable_def current_is_def previous_is_def slots_hold_iff stored_def texts_at_def
      dest: holds_only_content)

lemma stored_loadable: "stored X w p q n \<Longrightarrow> loadable X n"
  by (simp add: stored_def texts_at_def loadable_def)

section \<open>Each step keeps it\<close>

lemma minted_loadable:
  assumes "rcgen_reads_back X" "keypair_round_trip X" "generate_signed X sk rnd now = Ok n"
  shows "loadable X n"
proof -
  let ?w = "\<lparr>wfiles = [[''c''] \<mapsto> \<lparr>fdata = as_bytes (cert_pem n), fmode = 0, fsynced = True\<rparr>,
      [''k''] \<mapsto> \<lparr>fdata = as_bytes (key_pem n), fmode = 0, fsynced = True\<rparr>], wdisk = Map.empty,
    wdirs = Map.empty, wumask = 0, wplatform = Unix, wplan = []\<rparr>"
  have "stored X ?w [''c''] [''k''] n" by (rule minted_stored [OF assms]) (simp_all add: content_def)
  then show ?thesis by (rule stored_loadable)
qed

lemma rotates_keeps:
  assumes laws: "rcgen_reads_back X" "keypair_round_trip X" and n: "loadable X n" "current_is dir n w"
    and run: "rotate_cert X dir sk rnd now w = (r, w')"
  shows "run_inv X dir (mode_after (bind r (\<lambda>rot. Ok (current rot))) n, w')"
proof -
  note rule = rotate_slots [OF loadable_stored(1) [OF n], of UNIV UNIV sk rnd now]
  have pre: "slots_hold dir UNIV UNIV {Some (as_bytes (cert_pem n))} {Some (as_bytes (key_pem n))} w"
    using n(2) by (simp add: current_is_slots)
  show ?thesis
  proof (cases r)
    case (Ok rot)
    from triple_Ok [OF rule pre run [unfolded Ok]] minted_loadable [OF laws]
    show ?thesis by (auto simp: Ok current_is_slots slots_hold_def slots.only_def)
  qed (use triple_exit [OF rule pre run] n(1) in \<open>auto simp: current_is_slots previous_is_def\<close>)
qed

lemma current_kept:
  assumes "\<And>q V. q \<in> {cert_at dir, key_at dir} \<Longrightarrow> keeps (holds_only q V) m" and "current_is dir n w" and "m w = (r, w')"
  shows "current_is dir n w'"
proof -
  have "keeps (current_is dir n) m"
    unfolding current_is_def [abs_def] by (rule triple_conj) (simp_all add: assms(1))
  from triple_any [OF this assms(2)] assms(3) show ?thesis by simp
qed

lemma holds_only_reads [triple_rules]:
  "keeps (holds_only q V) (path_exists p)" "keeps (holds_only q V) (fs_read p)"
  "keeps (holds_only q V) (read_to_string p)"
  by (rule triple_weaken [OF triple_path_exists [of "holds_only q V" "holds_only q V"]]
      triple_weaken [OF triple_fs_read [of "holds_only q V" "holds_only q V"]]
      triple_weaken [OF triple_read_to_string [of "holds_only q V" "holds_only q V"]];
    simp add: holds_only_plan)+

lemma retire_keeps:
  "q \<in> {cert_at dir, key_at dir} \<Longrightarrow> keeps (holds_only q V) (retire_previous dir)"
  unfolding retire_previous_def Let_def by (auto intro!: triple_rules)

lemma load_previous_keeps: "keeps (holds_only q V) (load_previous X dir)"
  unfolding load_previous_def Let_def both_exist_def by (auto intro!: triple_rules)

text \<open>A start on a recovered directory that has both files reads them and changes nothing.\<close>

definition same :: "world \<Rightarrow> world \<Rightarrow> bool" where
  "same u w \<longleftrightarrow> wfiles w = wfiles u \<and> wdisk w = wdisk u \<and> wplatform w = wplatform u"

lemma same_reads:
  "wfiles u p \<noteq> None \<Longrightarrow> triple (\<lambda>w. same u w \<and> no_failure (Suc n) (wplan w)) (path_exists p)
     (\<lambda>b w. (same u w \<and> no_failure n (wplan w)) \<and> b) (same u)"
  "triple (same u) (fs_read p) (\<lambda>bs w. same u w \<and> content u p = Some bs) (same u)"
  by (auto simp: triple_def path_exists_def fs_read_def syscall_def same_def content_def
      split: list.splits fault.splits option.splits)

lemma same_read_to_string:
  "triple (same u) (read_to_string p)
     (\<lambda>s w. same u w \<and> content u p = Some (as_bytes s) \<and> valid_utf8 (as_bytes s)) (same u)"
  unfolding read_to_string_def
  by (rule triple_seq [OF same_reads(2)])
    (auto simp: triple_def dest: from_utf8_SomeD split: option.splits)

lemma same_both_exist:
  "wfiles u p \<noteq> None \<Longrightarrow> wfiles u q \<noteq> None \<Longrightarrow>
   triple (\<lambda>w. same u w \<and> no_failure 2 (wplan w)) (both_exist p q) (\<lambda>b w. same u w \<and> b) (same u)"
  unfolding both_exist_def numeral_2_eq_2
  by (rule triple_seq [OF same_reads(1)], simp, rule triple_if, rule triple_weaken [OF same_reads(1) [where n = 0]])
    (auto simp: triple_def)

lemma boot_reads:
  assumes "wfiles u (cert_at dir) \<noteq> None" and "wfiles u (key_at dir) \<noteq> None"
  shows "triple (\<lambda>w. same u w \<and> no_failure 2 (wplan w)) (load_or_generate X dir sk rnd now)
    (\<lambda>m w. same u w \<and> stored X u (cert_at dir) (key_at dir) m) (same u)"
proof -
  have key: "triple (\<lambda>w. same u w \<and> content u (cert_at dir) = Some (as_bytes a) \<and> valid_utf8 (as_bytes a))
      (read_key_to_zeroizing (key_at dir))
      (\<lambda>b w. same u w \<and> texts_at u (cert_at dir) (key_at dir) a b) (same u)" for a
  proof (cases "content u (cert_at dir) = Some (as_bytes a) \<and> valid_utf8 (as_bytes a)")
    case True
    then show ?thesis
      unfolding read_key_to_zeroizing_def
      by (intro triple_weaken [OF triple_io [OF same_read_to_string]]) (auto simp: texts_at_def)
  qed (auto simp: triple_def)
  have load: "triple (\<lambda>w. same u w \<and> texts_at u (cert_at dir) (key_at dir) a b) (pure_act (from_pem X a b))
      (\<lambda>m w. same u w \<and> stored X u (cert_at dir) (key_at dir) m) (same u)" for a b
    by (rule triple_pure) (auto simp: stored_def from_pem_Ok_iff)
  show ?thesis
    unfolding load_or_generate_def Let_def
    by (rule triple_seq [OF same_both_exist [OF assms]], rule triple_if,
        rule triple_weaken [OF triple_seq [OF triple_io [OF same_read_to_string] triple_seq [OF key load]]])
      (auto simp: triple_def)
qed

lemma same_holds: "same u w \<Longrightarrow> holds_only q V w = holds_only q V u"
  by (simp add: same_def holds_only_def on_unix_def may_hold_def)

lemma same_inv:
  "same u w \<Longrightarrow> current_is dir n w = current_is dir n u"
  "same u w \<Longrightarrow> previous_is dir n w = previous_is dir n u"
  by (simp_all add: current_is_def previous_is_def slots_hold_iff same_holds)

lemma settled_holds: "settled w q \<Longrightarrow> on_unix w \<Longrightarrow> holds_only q {content w q} w"
  by (simp add: holds_only_def settled_may_hold)

lemma settled_current:
  assumes "settled w (cert_at dir)" and "settled w (key_at dir)" and "on_unix w"
    and "stored X w (cert_at dir) (key_at dir) n"
  shows "current_is dir n w"
  using settled_holds [OF assms(1,3)] settled_holds [OF assms(2,3)] stored_contents [OF assms(4)]
  by (simp add: current_is_def)

lemma inv_on_unix: "current_is dir n w \<or> previous_is dir n w \<Longrightarrow> on_unix w"
  by (auto simp: current_is_def previous_is_def slots_hold_def holds_only_def)

lemma boot_keeps:
  assumes n: "loadable X n" and inv: "current_is dir n w \<or> previous_is dir n w" and "no_failure 2 fs"
    and run: "load_or_generate X dir sk rnd now ((recover c w)\<lparr>wplan := fs\<rparr>) = (r, w')"
  shows "run_inv X dir (mode_after r n, w')"
proof -
  let ?v = "recover c w" and ?u = "(recover c w)\<lparr>wplan := fs\<rparr>"
  have v: "current_is dir n ?v \<or> previous_is dir n ?v" using inv inv_recover by blast
  have "content ?v (cert_at dir) \<noteq> None \<and> content ?v (key_at dir) \<noteq> None"
    using inv
  proof
    assume "current_is dir n w"
    from stored_contents [OF loadable_stored(1) [OF n inv_recover(1) [OF this]]] show ?thesis by simp
  next
    assume "previous_is dir n w"
    from slots_hold_recover(3,4) [OF this [unfolded previous_is_def], of c] show ?thesis by simp
  qed
  then have there: "wfiles ?u (cert_at dir) \<noteq> None" "wfiles ?u (key_at dir) \<noteq> None"
    by (simp_all add: content_def)
  have u: "same ?u ?u \<and> no_failure 2 (wplan ?u)" "same ?v ?u"
    using assms(3) by (simp_all add: same_def recover_def Let_def)
  note rule = boot_reads [OF there]
  show ?thesis
  proof (cases r)
    case (Ok m)
    from triple_Ok [OF rule u(1) run [unfolded Ok]]
    have m: "same ?u w'" "stored X ?u (cert_at dir) (key_at dir) m" by blast+
    have "stored X ?v (cert_at dir) (key_at dir) m" using m(2) by (simp only: plan_irrelevant)
    moreover have "on_unix ?v" using inv_on_unix [OF inv] by (simp only: on_unix_recover)
    ultimately have "current_is dir m ?v"
      using settled_current [OF settled_recover settled_recover] by blast
    with m(2) Ok show ?thesis by (simp add: same_inv(1) [OF m(1)] stored_loadable)
  qed (use triple_exit [OF rule u(1) run] v n in \<open>auto simp: same_inv [of ?u w'] same_inv(2) [OF u(2)]\<close>)
qed

lemma kept_mode:
  "loadable X n \<Longrightarrow> current_is dir n w \<Longrightarrow> run_inv X dir (mode_after (bind r (\<lambda>_. Ok n)) n, w)"
  by (cases r) auto

lemma quiet_calls_keep:
  assumes "loadable X n" and "current_is dir n w"
  shows "retire_previous dir (w\<lparr>wplan := fs\<rparr>) = (r, w') \<Longrightarrow> run_inv X dir (mode_after (bind r (\<lambda>_. Ok n)) n, w')"
    and "load_previous X dir (w\<lparr>wplan := fs\<rparr>) = (q, w') \<Longrightarrow> run_inv X dir (mode_after (bind q (\<lambda>_. Ok n)) n, w')"
proof -
  have w: "current_is dir n (w\<lparr>wplan := fs\<rparr>)" using assms(2) by simp
  show "run_inv X dir (mode_after (bind r (\<lambda>_. Ok n)) n, w')" if "retire_previous dir (w\<lparr>wplan := fs\<rparr>) = (r, w')"
    by (rule kept_mode [OF assms(1) current_kept [OF retire_keeps w that]])
  show "run_inv X dir (mode_after (bind q (\<lambda>_. Ok n)) n, w')" if "load_previous X dir (w\<lparr>wplan := fs\<rparr>) = (q, w')"
    by (rule kept_mode [OF assms(1) current_kept [OF load_previous_keeps w that]])
qed

lemma run_step_keeps:
  assumes laws: "rcgen_reads_back X" "keypair_round_trip X"
    and "run_inv X dir (md, w)" and "run_step X dir (md, w) s'"
  shows "run_inv X dir s'"
  by (rule run_stepE [OF assms(4)])
    (use assms(3) in \<open>auto intro: boot_keeps quiet_calls_keep intro!: rotates_keeps [OF laws, rotated 2]\<close>)

lemma history_keeps:
  assumes "rcgen_reads_back X" "keypair_round_trip X"
    and "history X dir s0 s" and "run_inv X dir s0"
  shows "run_inv X dir s"
  using assms(3,4)
proof induction
  case (next_step s s')
  then show ?case by (cases s) (auto intro: run_step_keeps [OF assms(1,2)])
qed

lemma recovered_loads:
  "loadable X n \<Longrightarrow> current_is dir n w \<Longrightarrow>
     load_or_generate X dir sk rnd now (recover c w) = (Ok n, recover c w)"
  "loadable X n \<Longrightarrow> previous_is dir n w \<Longrightarrow>
     load_previous X dir (recover c w) = (Ok (Some n), recover c w)"
  by (auto intro!: load_after_recovery load_previous_stored loadable_stored inv_recover)

section \<open>Property\<close>

text \<open>
  C4. No history loses the identity. From a directory whose identity is on stable storage, after any
  number of process starts, rotations, retirements and loads of the previous certificate, each
  with any plan of failures and crash points (of a start, only the two existence checks must not
  fail), with losses of power in between: the identity last in use is loaded after a crash by a
  start or by \<open>load_previous\<close>, and while a process runs, by a start. Retiring is safe there because a
  process only runs, and so only retires, when a start or a rotation has returned its identity.
\<close>

theorem history_keeps_identity:
  assumes laws: "rcgen_reads_back X" "keypair_round_trip X"
    and w: "on_unix w0" "settled w0 (cert_at dir)" "settled w0 (key_at dir)"
      "stored X w0 (cert_at dir) (key_at dir) n0"
    and run: "history X dir (Running n0, w0) (md, w)"
  shows "(load_or_generate X dir sk rnd now (recover c w) = (Ok (holder md), recover c w) \<or>
      load_previous X dir (recover c w) = (Ok (Some (holder md)), recover c w)) \<and>
    (\<forall>n. md = Running n \<longrightarrow> load_or_generate X dir sk rnd now (recover c w) = (Ok n, recover c w))"
proof -
  have "run_inv X dir (Running n0, w0)"
    using settled_current [OF w(2,3,1,4)] stored_loadable [OF w(4)] by simp
  then have "run_inv X dir (md, w)" by (rule history_keeps [OF laws run])
  then show ?thesis by (cases md) (auto intro: recovered_loads)
qed

theorem history_keeps_identity_witness:
  "\<exists>n w w1 w2 r md. history demo [''d''] (Running n, w) (md, w2) \<and>
     rotate_cert demo [''d''] [7] [8] 9 (w\<lparr>wplan := [Proceed, Proceed, Proceed, Proceed, Proceed, Proceed, Stop 0]\<rparr>) = (r, w1) \<and>
     md = mode_after (bind r (\<lambda>rot. Ok (current rot))) n \<and> w2 = w1 \<and>
     (load_or_generate demo [''d''] [1] [2] 3 (recover (\<lambda>_. (False, [])) w2) = (Ok (holder md), recover (\<lambda>_. (False, [])) w2) \<or>
      load_previous demo [''d''] (recover (\<lambda>_. (False, [])) w2) = (Ok (Some (holder md)), recover (\<lambda>_. (False, [])) w2))"
proof -
  let ?fs = "[Proceed, Proceed, Proceed, Proceed, Proceed, Proceed, Stop 0]"
  obtain w n where w: "on_unix w" "settled w (cert_at [''d''])" "settled w (key_at [''d''])"
    "stored demo w (cert_at [''d'']) (key_at [''d'']) n"
    using demo_settled_store by blast
  obtain r w1 where run: "rotate_cert demo [''d''] [7] [8] 9 (w\<lparr>wplan := ?fs\<rparr>) = (r, w1)"
    by (cases "rotate_cert demo [''d''] [7] [8] 9 (w\<lparr>wplan := ?fs\<rparr>)")
  let ?md = "mode_after (bind r (\<lambda>rot. Ok (current rot))) n"
  have h: "history demo [''d''] (Running n, w) (?md, w1)"
    by (rule history.next_step [OF history.here run_step.rotates [OF run]])
  from history_keeps_identity [OF demo_rcgen_reads_back demo_keypair_round_trip w h, of "[1]" "[2]" 3 "\<lambda>_. (False, [])"] h run
  show ?thesis by blast
qed

end
