(* ===== verification/Dig_Spec.thy ===== *)
theory Dig_Spec
  imports Dig_Lifecycle
begin

text \<open>
  What the store of a node's identity promises, as a machine of three states that knows nothing of
  files: no identity yet, a live one, or a live one beside the retiring one of the last rotation.
  The operations of \<open>node_cert.rs\<close> refine it: run on a directory that represents a state, without
  faults, each returns the machine's answer and leaves a directory that represents the machine's
  next state. So what holds of every run of the machine holds of every sequence of calls.
\<close>

section \<open>The machine\<close>

datatype identity_state =
    NoIdentity
  | Live node_cert
  | Overlap node_cert node_cert

datatype command =
    Start opaque bytes int
  | Rotate opaque bytes int
  | LoadPrevious
  | Retire

datatype answer =
    Identity node_cert
  | Rotated node_cert node_cert
  | Previous "node_cert option"
  | Retired

type_synonym response = "(dig_tls_error, answer) outcome"

fun spec_step :: "crates \<Rightarrow> command \<Rightarrow> identity_state \<Rightarrow> response \<times> identity_state" where
  "spec_step X (Start sk rnd now) NoIdentity =
     (bind (generate_signed X sk rnd now) (\<lambda>n. Ok (Identity n)),
      case generate_signed X sk rnd now of Ok n \<Rightarrow> Live n | _ \<Rightarrow> NoIdentity)"
| "spec_step X (Start sk rnd now) (Live n) = (Ok (Identity n), Live n)"
| "spec_step X (Start sk rnd now) (Overlap p n) = (Ok (Identity n), Overlap p n)"
| "spec_step X (Rotate sk rnd now) NoIdentity = (Err rotate_nothing, NoIdentity)"
| "spec_step X (Rotate sk rnd now) (Live n) =
     (bind (generate_signed X sk rnd now) (\<lambda>m. Ok (Rotated n m)),
      case generate_signed X sk rnd now of Ok m \<Rightarrow> Overlap n m | _ \<Rightarrow> Live n)"
| "spec_step X (Rotate sk rnd now) (Overlap p n) = (Err rotate_unretired, Overlap p n)"
| "spec_step X LoadPrevious (Overlap p n) = (Ok (Previous (Some p)), Overlap p n)"
| "spec_step X LoadPrevious s = (Ok (Previous None), s)"
| "spec_step X Retire (Overlap p n) = (Ok Retired, Live n)"
| "spec_step X Retire s = (Ok Retired, s)"

fun spec_run :: "crates \<Rightarrow> command list \<Rightarrow> identity_state \<Rightarrow> response list \<times> identity_state" where
  "spec_run X [] s = ([], s)"
| "spec_run X (c # cs) s =
     (let (r, s') = spec_step X c s; (rs, s'') = spec_run X cs s' in (r # rs, s''))"

section \<open>The calls\<close>

fun store_step :: "crates \<Rightarrow> path \<Rightarrow> command \<Rightarrow> answer store_op" where
  "store_step X dir (Start sk rnd now) = seq (load_or_generate X dir sk rnd now) (\<lambda>n. ret (Identity n))"
| "store_step X dir (Rotate sk rnd now) =
     seq (rotate_cert X dir sk rnd now) (\<lambda>r. ret (Rotated (previous r) (current r)))"
| "store_step X dir LoadPrevious = seq (load_previous X dir) (\<lambda>p. ret (Previous p))"
| "store_step X dir Retire = seq (retire_previous dir) (\<lambda>_. ret Retired)"

fun store_run :: "crates \<Rightarrow> path \<Rightarrow> command list \<Rightarrow> world \<Rightarrow> response list \<times> world" where
  "store_run X dir [] w = ([], w)"
| "store_run X dir (c # cs) w =
     (let (r, w') = store_step X dir c w; (rs, w'') = store_run X dir cs w' in (r # rs, w''))"

section \<open>Representation\<close>

definition no_previous :: "world \<Rightarrow> path \<Rightarrow> bool" where
  "no_previous w dir \<longleftrightarrow> content w (prev_cert_at dir) = None \<and> content w (prev_key_at dir) = None"

fun holds_state :: "crates \<Rightarrow> path \<Rightarrow> world \<Rightarrow> identity_state \<Rightarrow> bool" where
  "holds_state X dir w NoIdentity \<longleftrightarrow>
     plain_dir w dir \<and> content w (cert_at dir) = None \<and> content w (key_at dir) = None \<and> no_previous w dir"
| "holds_state X dir w (Live n) \<longleftrightarrow>
     ready_dir w dir \<and> stored X w (cert_at dir) (key_at dir) n \<and> no_previous w dir"
| "holds_state X dir w (Overlap p n) \<longleftrightarrow>
     ready_dir w dir \<and> stored X w (cert_at dir) (key_at dir) n \<and>
     stored X w (prev_cert_at dir) (prev_key_at dir) p"

definition represents :: "crates \<Rightarrow> path \<Rightarrow> world \<Rightarrow> identity_state \<Rightarrow> bool" where
  "represents X dir w s \<longleftrightarrow> quiet w \<and> holds_state X dir w s"

lemma represents_simps:
  "represents X dir w NoIdentity \<longleftrightarrow> quiet w \<and> plain_dir w dir \<and> content w (cert_at dir) = None \<and>
     content w (key_at dir) = None \<and> no_previous w dir"
  "represents X dir w (Live n) \<longleftrightarrow> quiet w \<and> ready_dir w dir \<and>
     stored X w (cert_at dir) (key_at dir) n \<and> no_previous w dir"
  "represents X dir w (Overlap p n) \<longleftrightarrow> quiet w \<and> ready_dir w dir \<and>
     stored X w (cert_at dir) (key_at dir) n \<and> stored X w (prev_cert_at dir) (prev_key_at dir) p"
  by (auto simp: represents_def)

section \<open>Refinement, operation by operation\<close>

definition refines :: "crates \<Rightarrow> path \<Rightarrow> command \<Rightarrow> identity_state \<Rightarrow> bool" where
  "refines X dir c s \<longleftrightarrow>
     (\<forall>w. represents X dir w s \<longrightarrow>
        (\<exists>w'. store_step X dir c w = (fst (spec_step X c s), w') \<and>
           represents X dir w' (snd (spec_step X c s))))"

lemma refinesI:
  "(\<And>w. represents X dir w s \<Longrightarrow>
     \<exists>w'. store_step X dir c w = (fst (spec_step X c s), w') \<and> represents X dir w' (snd (spec_step X c s))) \<Longrightarrow>
   refines X dir c s"
  by (simp add: refines_def)

lemma seq_generate_fails:
  assumes "\<nexists>n. generate_signed X sk rnd now = Ok n"
  shows "seq (seq (pure_act (generate_signed X sk rnd now)) f) (\<lambda>n. ret (g n)) w =
    (bind (generate_signed X sk rnd now) (\<lambda>n. Ok (h n)), w)"
  using assms by (cases "generate_signed X sk rnd now") (auto simp: seq_def)

lemma start_refines:
  assumes laws: "rcgen_reads_back X" "keypair_round_trip X"
  shows "refines X dir (Start sk rnd now) s"
proof (rule refinesI)
  fix w assume w: "represents X dir w s"
  show "\<exists>w'. store_step X dir (Start sk rnd now) w = (fst (spec_step X (Start sk rnd now) s), w') \<and>
      represents X dir w' (snd (spec_step X (Start sk rnd now) s))"
  proof (cases s)
    case NoIdentity
    with w have q: "quiet w" "plain_dir w dir" "content w (cert_at dir) = None" "no_previous w dir"
      by (simp_all add: represents_simps)
    have start: "load_or_generate X dir sk rnd now w = generate_and_persist X dir sk rnd now w"
      using both_exist_absent [OF q(1,2), of CERT_FILE KEY_FILE] q(3)
      by (simp add: load_or_generate_def Let_def seq_def)
    show ?thesis
    proof (cases "\<exists>n. generate_signed X sk rnd now = Ok n")
      case True
      then obtain n where n: "generate_signed X sk rnd now = Ok n" by blast
      obtain w' where w': "generate_and_persist X dir sk rnd now w = (Ok n, w')" "quiet w'" "ready_dir w' dir"
        "content w' = put_pair dir CERT_FILE KEY_FILE n (content w)"
        using generate_and_persist_quiet [OF q(1,2) n] by blast
      have "stored X w' (cert_at dir) (key_at dir) n"
        by (rule minted_stored [OF laws n]) (simp_all add: w'(4) put_pair_def)
      moreover have "no_previous w' dir" using q(4) by (simp add: no_previous_def w'(4) put_pair_def)
      ultimately show ?thesis
        using NoIdentity n start w' by (auto simp: represents_simps seq_def)
    next
      case False
      then have "store_step X dir (Start sk rnd now) w = (bind (generate_signed X sk rnd now) (\<lambda>n. Ok (Identity n)), w)"
        using seq_generate_fails [OF False, where w = w] start
        by (simp add: generate_and_persist_def) (simp add: seq_def)
      with False NoIdentity w show ?thesis
        by (cases "generate_signed X sk rnd now") simp_all
    qed
  qed (use w in \<open>auto simp: represents_simps seq_def load_stored\<close>)
qed

lemma rotate_refines_live:
  assumes laws: "rcgen_reads_back X" "keypair_round_trip X" and w: "represents X dir w (Live n)"
  shows "\<exists>w'. store_step X dir (Rotate sk rnd now) w = (fst (spec_step X (Rotate sk rnd now) (Live n)), w') \<and>
      represents X dir w' (snd (spec_step X (Rotate sk rnd now) (Live n)))"
proof -
  from w have q: "quiet w" "ready_dir w dir" "plain_dir w dir" "stored X w (cert_at dir) (key_at dir) n"
    "content w (prev_cert_at dir) = None" "content w (prev_key_at dir) = None"
    by (simp_all add: represents_simps no_previous_def ready_dir_def)
  show ?thesis
  proof (cases "\<exists>m. generate_signed X sk rnd now = Ok m")
    case True
    then obtain m where m: "generate_signed X sk rnd now = Ok m" by blast
    obtain w' where w': "persist_rotation dir n m w = (Ok \<lparr>previous = n, current = m\<rparr>, w')" "quiet w'"
      "ready_dir w' dir" "content w' =
        put_pair dir CERT_FILE KEY_FILE m (put_pair dir CERT_FILE_PREV KEY_FILE_PREV n (content w))"
      using persist_rotation_quiet [OF q(1,2)] by blast
    have "stored X w' (cert_at dir) (key_at dir) m"
      by (rule minted_stored [OF laws m]) (simp_all add: w'(4) put_pair_def)
    moreover have "stored X w' (prev_cert_at dir) (prev_key_at dir) n"
      using q(4) by (rule stored_move) (simp_all add: w'(4) put_pair_def)
    ultimately show ?thesis
      using m w' rotate_until_writes [OF q(1,3-6) m] by (auto simp: represents_simps seq_def)
  next
    case False
    have t: "texts_at w (cert_at dir) (key_at dir) (cert_pem n) (key_pem n)"
      and f: "from_pem X (cert_pem n) (key_pem n) = Ok n"
      using q(4) by (simp_all add: stored_def from_pem_Ok_iff)
    have "store_step X dir (Rotate sk rnd now) w = (bind (generate_signed X sk rnd now) (\<lambda>m. Ok (Rotated n m)), w)"
      using False both_exist_texts [OF q(1) t] either_exists_quiet [OF q(1,3)] q(5,6)
        read_texts [OF q(1) t] f
      by (cases "generate_signed X sk rnd now") (simp_all add: rotate_cert_def Let_def seq_def)
    with False w show ?thesis
      by (cases "generate_signed X sk rnd now") simp_all
  qed
qed

lemma rotate_refines:
  assumes laws: "rcgen_reads_back X" "keypair_round_trip X"
  shows "refines X dir (Rotate sk rnd now) s"
proof (rule refinesI)
  fix w assume w: "represents X dir w s"
  show "\<exists>w'. store_step X dir (Rotate sk rnd now) w = (fst (spec_step X (Rotate sk rnd now) s), w') \<and>
      represents X dir w' (snd (spec_step X (Rotate sk rnd now) s))"
  proof (cases s)
    case NoIdentity
    then show ?thesis
      using w rotate_refuses(1) [of w dir X sk rnd now] by (auto simp: represents_simps seq_def)
  next
    case (Live n)
    with w show ?thesis using rotate_refines_live [OF laws] by simp
  next
    case (Overlap p n)
    with w have q: "quiet w" "plain_dir w dir" "content w (prev_cert_at dir) \<noteq> None"
      and t: "texts_at w (cert_at dir) (key_at dir) (cert_pem n) (key_pem n)"
      using stored_contents [of X w "prev_cert_at dir" "prev_key_at dir" p]
      by (simp_all add: represents_simps ready_dir_def stored_def)
    have "rotate_cert X dir sk rnd now w = (Err rotate_unretired, w)"
      using rotate_refuses(2) [OF q(1,2), rule_format, OF t] q(3) by blast
    with Overlap w show ?thesis by (simp add: seq_def)
  qed
qed

lemma load_previous_refines: "refines X dir LoadPrevious s"
proof (rule refinesI)
  fix w assume w: "represents X dir w s"
  have none: "load_previous X dir w = (Ok None, w)" if "quiet w" "plain_dir w dir" "no_previous w dir"
    using that by (auto simp: no_previous_def intro: load_previous_absent)
  show "\<exists>w'. store_step X dir LoadPrevious w = (fst (spec_step X LoadPrevious s), w') \<and>
      represents X dir w' (snd (spec_step X LoadPrevious s))"
    using w none load_previous_stored [of w X dir]
    by (cases s) (auto simp: represents_simps ready_dir_def seq_def)
qed

lemma retire_refines: "refines X dir Retire s"
proof (rule refinesI)
  fix w assume w: "represents X dir w s"
  have none: "retire_previous dir w = (Ok (), w)" if "quiet w" "plain_dir w dir" "no_previous w dir"
    using that by (auto simp: no_previous_def intro: retire_nothing)
  show "\<exists>w'. store_step X dir Retire w = (fst (spec_step X Retire s), w') \<and>
      represents X dir w' (snd (spec_step X Retire s))"
  proof (cases s)
    case (Overlap p n)
    with w have q: "quiet w" "ready_dir w dir" "stored X w (cert_at dir) (key_at dir) n"
      by (simp_all add: represents_simps)
    obtain w' where w': "retire_previous dir w = (Ok (), w')" "quiet w'" "plain_dir w' dir" "wdirs w' = wdirs w"
      "content w' = (content w)(prev_key_at dir := None, prev_cert_at dir := None)"
      using retire_quiet [OF q(1)] q(2) by (auto simp: ready_dir_def)
    have "stored X w' (cert_at dir) (key_at dir) n"
      using stored_contents [OF q(3)] by (intro stored_move [OF q(3)]) (simp_all add: w'(5))
    with Overlap q w' show ?thesis
      by (auto simp: represents_simps no_previous_def ready_dir_def seq_def)
  next
    case NoIdentity
    then have "retire_previous dir w = (Ok (), w)" using w none by (simp add: represents_simps)
    then show ?thesis using w NoIdentity by (simp add: seq_def)
  next
    case (Live n)
    then have "retire_previous dir w = (Ok (), w)" using w none by (simp add: represents_simps ready_dir_def)
    then show ?thesis using w Live by (simp add: seq_def)
  qed
qed

lemma step_refines: "rcgen_reads_back X \<Longrightarrow> keypair_round_trip X \<Longrightarrow> refines X dir c s"
  by (cases c) (simp_all add: start_refines rotate_refines load_previous_refines retire_refines)

lemma run_refines:
  assumes "rcgen_reads_back X" and "keypair_round_trip X" and "represents X dir w s"
  shows "\<exists>w'. store_run X dir cs w = (fst (spec_run X cs s), w') \<and> represents X dir w' (snd (spec_run X cs s))"
  using assms(3)
proof (induction cs arbitrary: w s)
  case (Cons c cs)
  obtain w1 where w1: "store_step X dir c w = (fst (spec_step X c s), w1)"
    "represents X dir w1 (snd (spec_step X c s))"
    using step_refines [OF assms(1,2), unfolded refines_def, rule_format, OF Cons.prems] by blast
  from Cons.IH [OF w1(2)] w1(1) show ?case
    by (auto simp: Let_def split: prod.split)
qed simp

section \<open>Property\<close>

text \<open>
  C12. The store refines the machine of three states. From a directory that represents a state, any
  sequence of starts, rotations, loads of the previous certificate and retirements, run without
  faults, gives the machine's answers in order, refusals included, and leaves a directory that
  represents the machine's state after them.
\<close>

theorem store_refines_spec:
  assumes "rcgen_reads_back X" and "keypair_round_trip X" and "represents X dir w s"
  shows "\<exists>w'. store_run X dir cs w = (fst (spec_run X cs s), w') \<and> represents X dir w' (snd (spec_run X cs s))"
  by (rule run_refines [OF assms])

lemma demo_represents: "represents demo [''d''] (demo_world Unix []) NoIdentity"
  by (simp add: represents_simps no_previous_def)

lemma demo_spec_run:
  assumes "generate_signed demo [1] [2] 3 = Ok n" and "generate_signed demo [7] [8] 9 = Ok m"
  shows "spec_run demo
      [Retire, Start [1] [2] 3, Rotate [7] [8] 9, Rotate [7] [8] 9, LoadPrevious, Retire, Start [4] [4] 4] NoIdentity =
    ([Ok Retired, Ok (Identity n), Ok (Rotated n m), Err rotate_unretired, Ok (Previous (Some n)), Ok Retired,
      Ok (Identity m)], Live m)"
  using assms by simp

theorem store_refines_spec_witness:
  "\<exists>n m w'. store_run demo [''d'']
      [Retire, Start [1] [2] 3, Rotate [7] [8] 9, Rotate [7] [8] 9, LoadPrevious, Retire, Start [4] [4] 4]
      (demo_world Unix []) =
    ([Ok Retired, Ok (Identity n), Ok (Rotated n m), Err rotate_unretired, Ok (Previous (Some n)), Ok Retired,
      Ok (Identity m)], w') \<and> spki_der n \<noteq> spki_der m"
proof -
  obtain n where n: "generate_signed demo [1] [2] 3 = Ok n" "spki_der n = [2]"
    using demo_generate_signed [of 3 "[1]" "[2]"] by auto
  obtain m where m: "generate_signed demo [7] [8] 9 = Ok m" "spki_der m = [8]"
    using demo_generate_signed [of 9 "[7]" "[8]"] by auto
  from store_refines_spec [OF demo_rcgen_reads_back demo_keypair_round_trip demo_represents]
  obtain w' where "store_run demo [''d'']
      [Retire, Start [1] [2] 3, Rotate [7] [8] 9, Rotate [7] [8] 9, LoadPrevious, Retire, Start [4] [4] 4]
      (demo_world Unix []) = (fst (spec_run demo
      [Retire, Start [1] [2] 3, Rotate [7] [8] 9, Rotate [7] [8] 9, LoadPrevious, Retire, Start [4] [4] 4]
      NoIdentity), w')" by blast
  with n(2) m(2) show ?thesis unfolding demo_spec_run [OF n(1) m(1)] by auto
qed

end
