(* ===== verification/Dig_Dates.thy ===== *)
theory Dig_Dates
  imports Dig_Lifecycle
begin

text \<open>
  When minting succeeds. Two ranges of dates bear on it: that of \<open>OffsetDateTime\<close>, whose operators
  panic outside, and the narrower one of the dates a certificate can encode, which rcgen signs.
  Both minting functions subtract from the current time and add to it; if both results can be
  encoded, minting returns a certificate, and if one leaves \<open>OffsetDateTime\<close>, it panics, and a first
  start that panics has written nothing. In between, what happens is rcgen's.
\<close>

text \<open>\<open>OffsetDateTime\<close> ranges over \<open>lo\<close> to \<open>hi\<close>; its operators panic outside and are exact inside.\<close>

definition time_range :: "crates \<Rightarrow> int \<Rightarrow> int \<Rightarrow> bool" where
  "time_range X lo hi \<longleftrightarrow>
     (\<forall>t d. offset_date_time_add X t d = (if lo \<le> t + d \<and> t + d \<le> hi then Some (t + d) else None)) \<and>
     (\<forall>t d. offset_date_time_sub X t d = (if lo \<le> t - d \<and> t - d \<le> hi then Some (t - d) else None))"

text \<open>
  Parameters rcgen can encode: dates from \<open>lo\<close> to \<open>hi\<close> (the years 0 to 9999), names that are IA5
  strings, custom extensions under private-enterprise OIDs.
\<close>

definition encodable :: "crates \<Rightarrow> int \<Rightarrow> int \<Rightarrow> cert_params \<Rightarrow> bool" where
  "encodable X lo hi p \<longleftrightarrow>
     lo \<le> not_before p \<and> not_before p \<le> hi \<and> lo \<le> not_after p \<and> not_after p \<le> hi \<and>
     (\<forall>n. DnsName n \<in> set (subject_alt_names p) \<longrightarrow> (\<exists>s. ia5string_try_from X s = Inr n)) \<and>
     (\<forall>oid v. OidContent oid v \<in> set (custom_extensions p) \<longrightarrow> private_oid oid)"

text \<open>
  rcgen generates a key of the randomness it draws, makes the default parameters, takes the leaf's
  name (ASCII) and signs what it can encode. (The operating system's randomness is taken to be
  available; rcgen returns an error when it is not.)
\<close>

definition rcgen_signs :: "crates \<Rightarrow> int \<Rightarrow> int \<Rightarrow> bool" where
  "rcgen_signs X lo hi \<longleftrightarrow>
     (\<forall>r. \<exists>k. keypair_generate_for X r PKCS_ECDSA_P256_SHA256 = Inr k) \<and>
     (\<exists>p. params_new X [] = Inr p) \<and> (\<exists>s. ia5string_try_from X LEAF_SAN = Inr s) \<and>
     (\<forall>p k. encodable X lo hi p \<longrightarrow> (\<exists>c. params_self_signed X p k = Inr c)) \<and>
     (\<forall>p k ic ik. encodable X lo hi p \<longrightarrow> (\<exists>c. params_signed_by X p k ic ik = Inr c))"

text \<open>The shipped CA loads: its key and its certificate parse, as parameters that can be encoded.\<close>

definition shipped_ca_parses :: "crates \<Rightarrow> int \<Rightarrow> int \<Rightarrow> bool" where
  "shipped_ca_parses X lo hi \<longleftrightarrow>
     (\<exists>k. keypair_from_pem X DIG_CA_KEY_PEM = Inr k) \<and>
     (\<exists>p. params_from_ca_cert_pem X DIG_CA_CERT_PEM = Inr p \<and> encodable X lo hi p)"

lemma time_range_exact: "time_range X lo hi \<Longrightarrow> time_exact X"
  by (simp add: time_range_def time_exact_def)

lemma shipped_ca_loads: "rcgen_signs X lo hi \<Longrightarrow> shipped_ca_parses X lo hi \<Longrightarrow> \<exists>ca. embedded X = Ok ca"
  unfolding rcgen_signs_def shipped_ca_parses_def embedded_def ca_from_pem_Ok
  by (metis dig_ca.select_convs)

text \<open>What rcgen has signed for a key is accepted by \<open>from_parts\<close> with that key.\<close>

lemma signed_from_parts:
  assumes "rcgen_reads_back X" and "params_signed_by X p k ic ik = Inr c"
  shows "\<exists>n. from_parts X (certificate_pem X c) kpem k = Ok n"
proof -
  obtain der rest x where "pemfile_certs X (as_bytes (certificate_pem X c)) = Inr der # rest"
    "parse_x509_certificate X der = Inr x" "subject_pki_raw x = keypair_public_key_der X k"
    using assms unfolding rcgen_reads_back_def reads_back_as_def by blast
  then show ?thesis by (simp add: from_parts_Ok first_pem_cert_def)
qed

text \<open>The range of current times for which a backdate and a lifetime stay in range.\<close>

definition mintable :: "int \<Rightarrow> int \<Rightarrow> int \<Rightarrow> int \<Rightarrow> bool" where
  "mintable lo hi lifetime now \<longleftrightarrow> lo + 3600 \<le> now \<and> now \<le> hi - lifetime"

lemma dates_in_range:
  assumes "time_range X lo hi" and "0 \<le> lifetime"
  shows "mintable lo hi lifetime now \<Longrightarrow>
      offset_date_time_sub X now CLOCK_SKEW_BACKDATE = Some (now - 3600) \<and>
      offset_date_time_add X now lifetime = Some (now + lifetime)"
    and "\<not> mintable lo hi lifetime now \<Longrightarrow>
      offset_date_time_sub X now CLOCK_SKEW_BACKDATE = None \<or> offset_date_time_add X now lifetime = None"
  using assms by (auto simp: time_range_def mintable_def CLOCK_SKEW_BACKDATE_def duration_hours_def)

lemma leaf_dates:
  assumes "time_range X lo hi"
  shows "mintable lo hi 315360000 now \<Longrightarrow>
      offset_date_time_sub X now CLOCK_SKEW_BACKDATE = Some (now - 3600) \<and>
      offset_date_time_add X now LEAF_LIFETIME = Some (now + 315360000)"
    and "\<not> mintable lo hi 315360000 now \<Longrightarrow>
      offset_date_time_sub X now CLOCK_SKEW_BACKDATE = None \<or> offset_date_time_add X now LEAF_LIFETIME = None"
  using dates_in_range [OF assms, of 315360000 now]
  by (auto simp: LEAF_LIFETIME_def duration_days_def)

lemma mintable_mono: "mintable lo hi d now \<Longrightarrow> l \<le> lo \<Longrightarrow> hi \<le> h \<Longrightarrow> mintable l h d now"
  by (simp add: mintable_def)

text \<open>The laws of the two ranges: the dates that can be encoded are dates of \<open>OffsetDateTime\<close>.\<close>

definition date_laws :: "crates \<Rightarrow> int \<Rightarrow> int \<Rightarrow> int \<Rightarrow> int \<Rightarrow> bool" where
  "date_laws X l lo hi h \<longleftrightarrow> l \<le> lo \<and> hi \<le> h \<and> time_range X l h \<and>
     rcgen_signs X lo hi \<and> rcgen_defaults X \<and> rcgen_reads_back X"

lemma date_laws:
  assumes "date_laws X l lo hi h"
  shows "l \<le> lo" "hi \<le> h" "time_range X l h" "rcgen_signs X lo hi" "rcgen_defaults X" "rcgen_reads_back X"
  using assms by (simp_all add: date_laws_def)

lemma generated_inputs:
  assumes "rcgen_signs X lo hi"
  obtains k p s where "keypair_generate_for X rnd PKCS_ECDSA_P256_SHA256 = Inr k" "params_new X [] = Inr p"
    "ia5string_try_from X LEAF_SAN = Inr s"
  using assms unfolding rcgen_signs_def by blast

lemma leaf_mints:
  assumes L: "date_laws X l lo hi h"
  shows "mintable lo hi 315360000 now \<Longrightarrow> \<exists>n. generate_signed_by X ca sk rnd now = Ok n"
    and "\<not> mintable l h 315360000 now \<Longrightarrow> generate_signed_by X ca sk rnd now = Panicked"
proof -
  note L = date_laws [OF L]
  obtain k p s where r: "keypair_generate_for X rnd PKCS_ECDSA_P256_SHA256 = Inr k"
    "params_new X [] = Inr p" "ia5string_try_from X LEAF_SAN = Inr s"
    by (rule generated_inputs [OF L(4)])
  show "\<exists>n. generate_signed_by X ca sk rnd now = Ok n" if m: "mintable lo hi 315360000 now"
  proof -
    let ?q = "attach_binding X (leaf_params p (now - 3600) (now + 315360000) s) k sk"
    have "encodable X lo hi ?q"
      using m r(2,3) L(5) binding_oid_private
      by (auto simp: encodable_def attach_binding_def leaf_params_def Let_def rcgen_defaults_def mintable_def)
    then obtain c where c: "params_signed_by X ?q k (ca_cert ca) (ca_key ca) = Inr c"
      using L(4) unfolding rcgen_signs_def by blast
    from signed_from_parts [OF L(6) this, of "keypair_serialize_pem X k"]
    obtain n where "from_parts X (certificate_pem X c) (keypair_serialize_pem X k) k = Ok n" by blast
    with r c leaf_dates(1) [OF L(3) mintable_mono [OF m L(1,2)]] show ?thesis
      by (intro exI [of _ n]) (simp add: generate_signed_by_Ok)
  qed
  show "generate_signed_by X ca sk rnd now = Panicked" if "\<not> mintable l h 315360000 now"
    using leaf_dates(2) [OF L(3) that] r
    by (cases "offset_date_time_sub X now CLOCK_SKEW_BACKDATE") (auto simp: generate_signed_by_def)
qed

lemma ca_mints:
  assumes L: "date_laws X l lo hi h"
  shows "mintable lo hi 3153600000 now \<Longrightarrow> \<exists>m. generate_dig_ca X rnd now = Ok m"
    and "\<not> mintable l h 3153600000 now \<Longrightarrow> generate_dig_ca X rnd now = Panicked"
proof -
  note L = date_laws [OF L]
  obtain k p where r: "keypair_generate_for X rnd PKCS_ECDSA_P256_SHA256 = Inr k" "params_new X [] = Inr p"
    by (rule generated_inputs [OF L(4)])
  have lifetime: "CA_LIFETIME = 3153600000" by (simp add: CA_LIFETIME_def duration_days_def)
  show "\<exists>m. generate_dig_ca X rnd now = Ok m" if m: "mintable lo hi 3153600000 now"
  proof -
    have "encodable X lo hi (ca_params p (now - 3600) (now + 3153600000))"
      using m r(2) L(5) by (auto simp: encodable_def ca_params_def rcgen_defaults_def mintable_def)
    then obtain c where "params_self_signed X (ca_params p (now - 3600) (now + 3153600000)) k = Inr c"
      using L(4) unfolding rcgen_signs_def by blast
    with r dates_in_range(1) [OF L(3) _ mintable_mono [OF m L(1,2)]] show ?thesis
      by (simp add: generate_dig_ca_def lifetime)
  qed
  show "generate_dig_ca X rnd now = Panicked" if "\<not> mintable l h 3153600000 now"
    using dates_in_range(2) [OF L(3) _ that] r
    by (cases "offset_date_time_sub X now CLOCK_SKEW_BACKDATE") (auto simp: generate_dig_ca_def lifetime)
qed

lemma signed_mints:
  assumes "date_laws X l lo hi h" and "shipped_ca_parses X lo hi"
  shows "mintable lo hi 315360000 now \<Longrightarrow> \<exists>n. generate_signed X sk rnd now = Ok n"
    and "\<not> mintable l h 315360000 now \<Longrightarrow> generate_signed X sk rnd now = Panicked"
  using shipped_ca_loads [OF date_laws(4) [OF assms(1)] assms(2)] leaf_mints [OF assms(1)]
  by (auto simp: generate_signed_def)

section \<open>Property\<close>

text \<open>
  C20. The dates a node can be minted at. Let \<open>OffsetDateTime\<close> range over \<open>l\<close> to \<open>h\<close>, and let rcgen
  sign parameters whose dates lie from \<open>lo\<close> to \<open>hi\<close>, the dates a certificate can encode. When the
  current time is at least one hour after \<open>lo\<close> and 3650 days before \<open>hi\<close>, minting a leaf returns a
  certificate, whatever CA signs it. When it is less than one hour after \<open>l\<close> or less than 3650 days
  before \<open>h\<close>, minting panics, and a first start panics with no file or directory created. The same
  of minting a CA, with 36500 days.
\<close>

theorem mintable_dates:
  assumes laws: "date_laws X l lo hi h" "shipped_ca_parses X lo hi"
  shows "(lo + 3600 \<le> now \<and> now \<le> hi - 3650 * 86400 \<longrightarrow>
      (\<exists>n. generate_signed X sk rnd now = Ok n) \<and> (\<forall>ca. \<exists>n. generate_signed_by X ca sk rnd now = Ok n)) \<and>
    (now < l + 3600 \<or> h - 3650 * 86400 < now \<longrightarrow>
      generate_signed X sk rnd now = Panicked \<and> (\<forall>ca. generate_signed_by X ca sk rnd now = Panicked) \<and>
      (\<forall>w dir. quiet w \<longrightarrow> plain_dir w dir \<longrightarrow> content w (cert_at dir) = None \<longrightarrow>
         load_or_generate X dir sk rnd now w = (Panicked, w))) \<and>
    (lo + 3600 \<le> now \<and> now \<le> hi - 36500 * 86400 \<longrightarrow> (\<exists>m. generate_dig_ca X rnd now = Ok m)) \<and>
    (now < l + 3600 \<or> h - 36500 * 86400 < now \<longrightarrow> generate_dig_ca X rnd now = Panicked)"
proof -
  have first: "load_or_generate X dir sk rnd now w = (Panicked, w)"
    if "quiet w" "plain_dir w dir" "content w (cert_at dir) = None" "\<not> mintable l h 315360000 now" for w dir
    using both_exist_absent [OF that(1,2), of CERT_FILE KEY_FILE] that(3) signed_mints(2) [OF laws that(4)]
    by (simp add: load_or_generate_def generate_and_persist_def Let_def seq_def)
  have leaf: "mintable a b 315360000 now \<longleftrightarrow> a + 3600 \<le> now \<and> now \<le> b - 3650 * 86400" for a b
    by (simp add: mintable_def)
  have ca: "mintable a b 3153600000 now \<longleftrightarrow> a + 3600 \<le> now \<and> now \<le> b - 36500 * 86400" for a b
    by (simp add: mintable_def)
  show ?thesis
    using signed_mints [OF laws, of now sk rnd] leaf_mints [OF laws(1), of now _ sk rnd] first
      ca_mints [OF laws(1), of now rnd]
    unfolding leaf ca by (simp add: not_le)
qed

lemma demo_mint_laws:
  "date_laws demo (- 377705116800) (- 62167219200) 253402300799 253402300799"
  "shipped_ca_parses demo (- 62167219200) 253402300799"
proof -
  have "rcgen_signs demo (- 62167219200) 253402300799" by (simp add: rcgen_signs_def demo_def)
  moreover have "time_range demo (- 377705116800) 253402300799" by (simp add: time_range_def demo_def)
  ultimately show "date_laws demo (- 377705116800) (- 62167219200) 253402300799 253402300799"
    using demo_rcgen_defaults demo_rcgen_reads_back by (simp add: date_laws_def)
  have "params_from_ca_cert_pem demo = (\<lambda>_. Inr demo_params)" by (simp add: demo_def)
  moreover have "encodable demo (- 62167219200) 253402300799 demo_params"
    by (simp add: encodable_def demo_params_def)
  ultimately show "shipped_ca_parses demo (- 62167219200) 253402300799"
    using demo_embedded by (auto simp: shipped_ca_parses_def embedded_def ca_from_pem_Ok)
qed

theorem mintable_dates_witness:
  "(\<exists>n. generate_signed demo [1] [2] 0 = Ok n) \<and> generate_signed demo [1] [2] 253402300799 = Panicked"
  using mintable_dates [OF demo_mint_laws, of 0 "[1]" "[2]"]
    mintable_dates [OF demo_mint_laws, of 253402300799 "[1]" "[2]"]
  by simp

end
