(* ===== verification/Dig_Generate.thy ===== *)
theory Dig_Generate
  imports Dig_Store
begin

text \<open>
  \<open>examples/generate_ca.rs\<close>, the program that mints the shipped CA: it calls \<open>generate_dig_ca\<close>
  and writes the pair with \<open>fs::write\<close>, in place and without a flush. The manifest directory, a
  constant of the build, is an argument, as are the randomness and the time; the lines it prints
  are its result.
\<close>

datatype main_error =
    DigTls dig_tls_error
  | IoFailed io_error

datatype printed =
    WroteTo path
  | ByteCount string nat

definition generate_ca_main :: "crates \<Rightarrow> path \<Rightarrow> bytes \<Rightarrow> int \<Rightarrow> (world, main_error, printed list) action" where
  "generate_ca_main X manifest_dir rnd now =
     seq (on_err (pure_act (generate_dig_ca X rnd now)) (\<lambda>e. throw (DigTls e))) (\<lambda>ca.
     let dir = manifest_dir @ [''src'', ''ca''] in
     seq (on_err (create_dir_all dir) (\<lambda>e. throw (IoFailed e))) (\<lambda>_.
     seq (on_err (fs_write (dir @ [''dig_ca.crt'']) (as_bytes (ca_cert_pem ca))) (\<lambda>e. throw (IoFailed e))) (\<lambda>_.
     seq (on_err (fs_write (dir @ [''dig_ca.key'']) (as_bytes (ca_key_pem ca))) (\<lambda>e. throw (IoFailed e))) (\<lambda>_.
     ret [WroteTo dir, ByteCount ''dig_ca.crt'' (length (as_bytes (ca_cert_pem ca))),
          ByteCount ''dig_ca.key'' (length (as_bytes (ca_key_pem ca)))]))))"

abbreviation ca_dir :: "path \<Rightarrow> path" where "ca_dir m \<equiv> m @ [''src'', ''ca'']"

section \<open>Lemmas\<close>

lemma seq_on_err_Ok:
  "m w = (Ok a, w1) \<Longrightarrow> seq (on_err m h) f w = f a w1"
  by (simp add: seq_def on_err_def)

text \<open>\<open>fs::write\<close> of a file in a directory that is there.\<close>

lemma fs_write_quiet:
  assumes "quiet w" and "ready_dir w d"
  shows "\<exists>w'. fs_write (d @ [n]) b w = (Ok (), w') \<and> quiet w' \<and> ready_dir w' d \<and>
    content w' = (content w)(d @ [n] := Some b)"
  using assms
  by (cases "wfiles w (d @ [n])")
    (auto simp: fs_write_def open_create_def write_all_def append_data_def set_file_def taint_def quiet_def
      ready_dir_def plain_dir_def seq_def content_def fun_eq_iff)

lemma create_dir_quiet:
  assumes "quiet w" and "plain_dir w d"
  shows "\<exists>w'. create_dir_all d w = (Ok (), w') \<and> quiet w' \<and> ready_dir w' d \<and> content w' = content w"
  using assms
  by (auto simp: create_dir_all_def quiet_def plain_dir_def ready_dir_def content_def fun_eq_iff)

lemma generate_ca_main_quiet:
  assumes "quiet w" and "plain_dir w (ca_dir d)" and ca: "generate_dig_ca X rnd now = Ok ca"
  shows "\<exists>out w'. generate_ca_main X d rnd now w = (Ok out, w') \<and>
    content w' = (content w)(ca_dir d @ [''dig_ca.crt''] := Some (as_bytes (ca_cert_pem ca)),
      ca_dir d @ [''dig_ca.key''] := Some (as_bytes (ca_key_pem ca)))"
proof -
  obtain w1 where w1: "create_dir_all (ca_dir d) w = (Ok (), w1)" "quiet w1" "ready_dir w1 (ca_dir d)"
    "content w1 = content w"
    using create_dir_quiet [OF assms(1,2)] by blast
  obtain w2 where w2: "fs_write (ca_dir d @ [''dig_ca.crt'']) (as_bytes (ca_cert_pem ca)) w1 = (Ok (), w2)"
    "quiet w2" "ready_dir w2 (ca_dir d)"
    "content w2 = (content w1)(ca_dir d @ [''dig_ca.crt''] := Some (as_bytes (ca_cert_pem ca)))"
    using fs_write_quiet [OF w1(2,3)] by blast
  obtain w3 where w3: "fs_write (ca_dir d @ [''dig_ca.key'']) (as_bytes (ca_key_pem ca)) w2 = (Ok (), w3)"
    "content w3 = (content w2)(ca_dir d @ [''dig_ca.key''] := Some (as_bytes (ca_key_pem ca)))"
    using fs_write_quiet [OF w2(2,3)] by blast
  have mint: "pure_act (generate_dig_ca X rnd now) w = (Ok ca, w)" using ca by simp
  show ?thesis
    unfolding generate_ca_main_def Let_def
      seq_on_err_Ok [of "pure_act (generate_dig_ca X rnd now)" w, OF mint]
      seq_on_err_Ok [of "create_dir_all _" w, OF w1(1)]
      seq_on_err_Ok [of "fs_write _ _" w1, OF w2(1)] seq_on_err_Ok [of "fs_write _ _" w2, OF w3(1)]
    using w1(4) w2(4) w3(2) by simp
qed

section \<open>Properties\<close>

text \<open>
  C40. The generated CA can be shipped. When the key generation and the signing succeed, the program
  run on a directory without faults leaves two files whose texts \<open>DigCa::from_pem\<close> accepts, the
  loaded issuer key being the one the certificate was self-signed with; the signed parameters make
  a CA of path length 0 for certificate and CRL signing only, valid from one hour before \<open>now\<close> for
  36500 days after it. No other file changes.
\<close>

theorem generated_ca_is_usable:
  assumes "time_exact X" and "keypair_round_trip X" and "ca_rereads X"
    and "generate_dig_ca X rnd now = Ok m" and "quiet w" and "plain_dir w (ca_dir d)"
  shows "\<exists>out w' p key c ca. generate_ca_main X d rnd now w = (Ok out, w') \<and>
     content w' (ca_dir d @ [''dig_ca.crt'']) = Some (as_bytes (certificate_pem X c)) \<and>
     content w' (ca_dir d @ [''dig_ca.key'']) = Some (as_bytes (keypair_serialize_pem X key)) \<and>
     (\<forall>q. q \<notin> {ca_dir d @ [''dig_ca.crt''], ca_dir d @ [''dig_ca.key'']} \<longrightarrow> content w' q = content w q) \<and>
     ca_from_pem X (certificate_pem X c) (keypair_serialize_pem X key) = Ok ca \<and> ca_key ca = key \<and>
     params_self_signed X p key = Inr c \<and>
     params_is_ca p = IsCaCa (Constrained 0) \<and> key_usages p = [KeyCertSign, CrlSign] \<and>
     not_before p = now - 3600 \<and> not_after p = now + 36500 * 86400"
proof -
  obtain out w' where run: "generate_ca_main X d rnd now w = (Ok out, w')"
    "content w' = (content w)(ca_dir d @ [''dig_ca.crt''] := Some (as_bytes (ca_cert_pem m)),
       ca_dir d @ [''dig_ca.key''] := Some (as_bytes (ca_key_pem m)))"
    using generate_ca_main_quiet [OF assms(5,6,4)] by blast
  obtain p key c ca where p: "params_self_signed X p key = Inr c" "ca_cert_pem m = certificate_pem X c"
    "ca_key_pem m = keypair_serialize_pem X key"
    "params_is_ca p = IsCaCa (Constrained 0)" "key_usages p = [KeyCertSign, CrlSign]"
    "not_before p = now - 3600" "not_after p = now + 36500 * 86400"
    "ca_from_pem X (ca_cert_pem m) (ca_key_pem m) = Ok ca" "ca_key ca = key"
    using minted_ca_loads [OF assms(1-4)] by blast
  show ?thesis
    using run p by (intro exI [of _ out] exI [of _ w'] exI [of _ p] exI [of _ key] exI [of _ c] exI [of _ ca]) auto
qed

theorem generated_ca_is_usable_witness:
  "\<exists>out w' p key c ca. generate_ca_main demo [''m''] [4] 1000 (demo_world Unix []) = (Ok out, w') \<and>
     content w' (ca_dir [''m''] @ [''dig_ca.crt'']) = Some (as_bytes (certificate_pem demo c)) \<and>
     content w' (ca_dir [''m''] @ [''dig_ca.key'']) = Some (as_bytes (keypair_serialize_pem demo key)) \<and>
     (\<forall>q. q \<notin> {ca_dir [''m''] @ [''dig_ca.crt''], ca_dir [''m''] @ [''dig_ca.key'']} \<longrightarrow>
        content w' q = content (demo_world Unix []) q) \<and>
     ca_from_pem demo (certificate_pem demo c) (keypair_serialize_pem demo key) = Ok ca \<and> ca_key ca = key \<and>
     params_self_signed demo p key = Inr c \<and>
     params_is_ca p = IsCaCa (Constrained 0) \<and> key_usages p = [KeyCertSign, CrlSign] \<and>
     not_before p = 1000 - 3600 \<and> not_after p = 1000 + 36500 * 86400"
proof -
  obtain m where m: "generate_dig_ca demo [4] 1000 = Ok m" using demo_ca ..
  have w: "quiet (demo_world Unix [])" "plain_dir (demo_world Unix []) (ca_dir [''m''])"
    by (auto simp: quiet_def demo_world_def plain_dir_def)
  show ?thesis
    by (rule generated_ca_is_usable [OF demo_time_exact demo_keypair_round_trip demo_ca_rereads m w])
qed

end
