(* ===== verification/Dig_Verify.thy ===== *)
theory Dig_Verify
  imports Dig_Binding Dig_Ca
begin

text \<open>
  \<open>verify.rs\<close>: the trust decision on a peer's certificate. The shared memory holds the cells behind
  the \<open>Arc<Mutex<_>>\<close> capture handles, each with its poison flag, and the \<open>OnceLock\<close> of the CA
  certificate; a handle is the address of its cell, so that clones of a handle share it. The chain
  check, the pin-and-bind step, the two verifiers in both modes and their trait methods are
  translated with their early returns and their messages.

  The contract of a peer verifier is the locale \<open>peer_verifier\<close>: what it decides and what it
  captures, as one equation. Its lemmas (an exact acceptance condition, authentication by a pin,
  anti-downgrade, what is captured on acceptance and on refusal) are proved once from it, and both
  verifiers are shown to satisfy it.
\<close>

section \<open>Shared memory\<close>

record 'a mutex =
  mvalue :: 'a
  mpoisoned :: bool

record memory =
  pcells :: "nat \<Rightarrow> peer_id option mutex"
  bcells :: "nat \<Rightarrow> bytes option mutex"
  pnext :: nat
  bnext :: nat
  ca_cell :: "bytes option"

text \<open>The handles, by the address of the cell they share.\<close>

datatype captured_peer_id = CapturedPeerId nat
datatype captured_bls_pub = CapturedBlsPub nat

datatype tls_error = General string | OtherTlsError string

type_synonym 'a verdict = "(memory, tls_error, 'a) action"

text \<open>\<open>get\<close>: locking a poisoned mutex makes \<open>unwrap\<close> panic.\<close>

fun captured_peer_id_get :: "captured_peer_id \<Rightarrow> peer_id option verdict" where
  "captured_peer_id_get (CapturedPeerId a) m =
     (if mpoisoned (pcells m a) then (Panicked, m) else (Ok (mvalue (pcells m a)), m))"

fun captured_bls_pub_get :: "captured_bls_pub \<Rightarrow> bytes option verdict" where
  "captured_bls_pub_get (CapturedBlsPub a) m =
     (if mpoisoned (bcells m a) then (Panicked, m) else (Ok (mvalue (bcells m a)), m))"

text \<open>\<open>*handle.0.lock().unwrap() = v\<close>.\<close>

fun store_peer_id :: "captured_peer_id \<Rightarrow> peer_id option \<Rightarrow> unit verdict" where
  "store_peer_id (CapturedPeerId a) v m =
     (if mpoisoned (pcells m a) then (Panicked, m)
      else (Ok (), m\<lparr>pcells := (pcells m)(a := (pcells m a)\<lparr>mvalue := v\<rparr>)\<rparr>))"

fun store_bls :: "captured_bls_pub \<Rightarrow> bytes option \<Rightarrow> unit verdict" where
  "store_bls (CapturedBlsPub a) v m =
     (if mpoisoned (bcells m a) then (Panicked, m)
      else (Ok (), m\<lparr>bcells := (bcells m)(a := (bcells m a)\<lparr>mvalue := v\<rparr>)\<rparr>))"

section \<open>The chain check\<close>

definition CHAIN_SIG_ALGS :: "chain_sig_alg list" where
  "CHAIN_SIG_ALGS = [ECDSA_P256_SHA256, ECDSA_P256_SHA384, ECDSA_P384_SHA256, ECDSA_P384_SHA384]"

text \<open>\<open>embedded_ca_cert_der\<close> on the memory's cell. Its error is always \<open>Ca\<close>, so the text of an I/O
  error, here empty, is never used.\<close>

definition embedded_anchor :: "crates \<Rightarrow> bytes verdict" where
  "embedded_anchor X m =
     (let (r, cell) = embedded_ca_cert_der X (ca_cell m)
      in (case r of
            Ok der \<Rightarrow> Ok der
          | Err e \<Rightarrow> Err (General (''DigNetwork CA: '' @ display_error (\<lambda>_. '''') e))
          | Panicked \<Rightarrow> Panicked
          | Crashed \<Rightarrow> Crashed, m\<lparr>ca_cell := cell\<rparr>))"

definition verify_chain_to_dig_ca ::
  "crates \<Rightarrow> bytes \<Rightarrow> bytes list \<Rightarrow> int \<Rightarrow> key_usage \<Rightarrow> unit verdict" where
  "verify_chain_to_dig_ca X end_entity intermediates now usage =
     seq (embedded_anchor X) (\<lambda>ca_der.
     seq (pure_act (map_err
            (\<lambda>e. General (''DigNetwork CA is not a valid trust anchor: '' @ e))
            (anchor_from_trusted_cert X ca_der))) (\<lambda>anchor.
     seq (pure_act (map_err
            (\<lambda>e. General (''peer leaf is not a valid certificate: '' @ e))
            (end_entity_try_from X end_entity))) (\<lambda>ee.
     pure_act (map_err
            (\<lambda>e. General (''peer leaf does not chain to the DigNetwork CA: '' @ e))
            (verify_for_usage X ee CHAIN_SIG_ALGS [anchor] intermediates now usage)))))"

section \<open>Pin and bind\<close>

definition pin_and_bind ::
  "crates \<Rightarrow> bytes \<Rightarrow> peer_id option \<Rightarrow> captured_peer_id \<Rightarrow> binding_policy \<Rightarrow> captured_bls_pub \<Rightarrow>
   peer_id verdict" where
  "pin_and_bind X end_entity expected captured policy captured_bls =
     (case peer_id_from_leaf_cert_der X end_entity of
        None \<Rightarrow> throw (General ''peer leaf certificate could not be parsed as X.509'')
      | Some derived \<Rightarrow>
         seq (store_peer_id captured (Some derived)) (\<lambda>_.
         seq (case expected of
                None \<Rightarrow> ret ()
              | Some e \<Rightarrow>
                  if derived \<noteq> e then
                    seq (pure_act (fmt_display e)) (\<lambda>es.
                    seq (pure_act (fmt_display derived)) (\<lambda>ds.
                    throw (General (''peer_id mismatch: expected '' @ es @ '', got '' @ ds))))
                  else ret ()) (\<lambda>_.
         seq (if policy \<noteq> Off then
                (case evaluate (verify_binding_from_leaf_cert X end_entity) policy of
                   Ok pub \<Rightarrow> store_bls captured_bls pub
                 | Err reason \<Rightarrow>
                     seq (pure_act (fmt_display derived)) (\<lambda>ds.
                     throw (General (''peer '' @ ds @ '' rejected by cert BLS binding policy: '' @ reason)))
                 | Panicked \<Rightarrow> pure_act Panicked
                 | Crashed \<Rightarrow> pure_act Crashed)
              else ret ()) (\<lambda>_.
         ret derived))))"

section \<open>Handshake signatures\<close>

definition default_signature_schemes :: "crates \<Rightarrow> nat list" where
  "default_signature_schemes X = ring_supported_schemes X"

definition verify_tls12 ::
  "crates \<Rightarrow> bytes \<Rightarrow> bytes \<Rightarrow> digitally_signed_struct \<Rightarrow> (tls_error, unit) outcome" where
  "verify_tls12 X message cert dss =
     map_err OtherTlsError (rustls_verify_tls12 X message cert dss (ring_supported_schemes X))"

definition verify_tls13 ::
  "crates \<Rightarrow> bytes \<Rightarrow> bytes \<Rightarrow> digitally_signed_struct \<Rightarrow> (tls_error, unit) outcome" where
  "verify_tls13 X message cert dss =
     map_err OtherTlsError (rustls_verify_tls13 X message cert dss (ring_supported_schemes X))"

section \<open>The verifiers\<close>

record dig_server_cert_verifier =
  sv_expected :: "peer_id option"
  sv_captured :: captured_peer_id
  sv_binding_policy :: binding_policy
  sv_captured_bls :: captured_bls_pub
  sv_schemes :: "nat list"
  sv_require_ca_chain :: bool

definition server_verifier_new ::
  "crates \<Rightarrow> peer_id option \<Rightarrow> captured_peer_id \<Rightarrow> binding_policy \<Rightarrow> captured_bls_pub \<Rightarrow>
   dig_server_cert_verifier" where
  "server_verifier_new X expected captured policy captured_bls =
     \<lparr>sv_expected = expected, sv_captured = captured, sv_binding_policy = policy,
      sv_captured_bls = captured_bls, sv_schemes = default_signature_schemes X,
      sv_require_ca_chain = True\<rparr>"

definition server_verifier_new_spki_pinned ::
  "crates \<Rightarrow> peer_id option \<Rightarrow> captured_peer_id \<Rightarrow> binding_policy \<Rightarrow> captured_bls_pub \<Rightarrow>
   dig_server_cert_verifier" where
  "server_verifier_new_spki_pinned X expected captured policy captured_bls =
     \<lparr>sv_expected = expected, sv_captured = captured, sv_binding_policy = policy,
      sv_captured_bls = captured_bls, sv_schemes = default_signature_schemes X,
      sv_require_ca_chain = False\<rparr>"

text \<open>The server name and the OCSP response are arguments the code ignores.\<close>

definition verify_server_cert ::
  "crates \<Rightarrow> dig_server_cert_verifier \<Rightarrow> bytes \<Rightarrow> bytes list \<Rightarrow> string \<Rightarrow> bytes \<Rightarrow> int \<Rightarrow> unit verdict" where
  "verify_server_cert X v end_entity intermediates server_name ocsp_response now =
     seq (if sv_require_ca_chain v
          then verify_chain_to_dig_ca X end_entity intermediates now UsageServerAuth
          else ret ()) (\<lambda>_.
     seq (pin_and_bind X end_entity (sv_expected v) (sv_captured v) (sv_binding_policy v)
            (sv_captured_bls v)) (\<lambda>_.
     ret ()))"

definition server_verify_tls12_signature ::
  "crates \<Rightarrow> dig_server_cert_verifier \<Rightarrow> bytes \<Rightarrow> bytes \<Rightarrow> digitally_signed_struct \<Rightarrow> (tls_error, unit) outcome" where
  "server_verify_tls12_signature X v message cert dss = verify_tls12 X message cert dss"

definition server_verify_tls13_signature ::
  "crates \<Rightarrow> dig_server_cert_verifier \<Rightarrow> bytes \<Rightarrow> bytes \<Rightarrow> digitally_signed_struct \<Rightarrow> (tls_error, unit) outcome" where
  "server_verify_tls13_signature X v message cert dss = verify_tls13 X message cert dss"

definition server_supported_verify_schemes :: "dig_server_cert_verifier \<Rightarrow> nat list" where
  "server_supported_verify_schemes v = sv_schemes v"

record dig_client_cert_verifier =
  cv_expected :: "peer_id option"
  cv_captured :: captured_peer_id
  cv_binding_policy :: binding_policy
  cv_captured_bls :: captured_bls_pub
  cv_schemes :: "nat list"
  cv_root_hints :: "bytes list"
  cv_require_ca_chain :: bool

definition client_verifier_new ::
  "crates \<Rightarrow> peer_id option \<Rightarrow> captured_peer_id \<Rightarrow> binding_policy \<Rightarrow> captured_bls_pub \<Rightarrow>
   dig_client_cert_verifier" where
  "client_verifier_new X expected captured policy captured_bls =
     \<lparr>cv_expected = expected, cv_captured = captured, cv_binding_policy = policy,
      cv_captured_bls = captured_bls, cv_schemes = default_signature_schemes X, cv_root_hints = [],
      cv_require_ca_chain = True\<rparr>"

definition client_verifier_new_spki_pinned ::
  "crates \<Rightarrow> peer_id option \<Rightarrow> captured_peer_id \<Rightarrow> binding_policy \<Rightarrow> captured_bls_pub \<Rightarrow>
   dig_client_cert_verifier" where
  "client_verifier_new_spki_pinned X expected captured policy captured_bls =
     \<lparr>cv_expected = expected, cv_captured = captured, cv_binding_policy = policy,
      cv_captured_bls = captured_bls, cv_schemes = default_signature_schemes X, cv_root_hints = [],
      cv_require_ca_chain = False\<rparr>"

definition offer_client_auth :: "dig_client_cert_verifier \<Rightarrow> bool" where
  "offer_client_auth v = True"

definition client_auth_mandatory :: "dig_client_cert_verifier \<Rightarrow> bool" where
  "client_auth_mandatory v = True"

definition root_hint_subjects :: "dig_client_cert_verifier \<Rightarrow> bytes list" where
  "root_hint_subjects v = cv_root_hints v"

definition verify_client_cert ::
  "crates \<Rightarrow> dig_client_cert_verifier \<Rightarrow> bytes \<Rightarrow> bytes list \<Rightarrow> int \<Rightarrow> unit verdict" where
  "verify_client_cert X v end_entity intermediates now =
     seq (if cv_require_ca_chain v
          then verify_chain_to_dig_ca X end_entity intermediates now UsageClientAuth
          else ret ()) (\<lambda>_.
     seq (pin_and_bind X end_entity (cv_expected v) (cv_captured v) (cv_binding_policy v)
            (cv_captured_bls v)) (\<lambda>_.
     ret ()))"

definition client_verify_tls12_signature ::
  "crates \<Rightarrow> dig_client_cert_verifier \<Rightarrow> bytes \<Rightarrow> bytes \<Rightarrow> digitally_signed_struct \<Rightarrow> (tls_error, unit) outcome" where
  "client_verify_tls12_signature X v message cert dss = verify_tls12 X message cert dss"

definition client_verify_tls13_signature ::
  "crates \<Rightarrow> dig_client_cert_verifier \<Rightarrow> bytes \<Rightarrow> bytes \<Rightarrow> digitally_signed_struct \<Rightarrow> (tls_error, unit) outcome" where
  "client_verify_tls13_signature X v message cert dss = verify_tls13 X message cert dss"

definition client_supported_verify_schemes :: "dig_client_cert_verifier \<Rightarrow> nat list" where
  "client_supported_verify_schemes v = cv_schemes v"

definition dig_ca_trust_anchor_der :: "crates \<Rightarrow> (bytes option, dig_tls_error, bytes) action" where
  "dig_ca_trust_anchor_der X = embedded_ca_cert_der X"


section \<open>The contract of a peer verifier\<close>

text \<open>
  \<open>seen\<close> and \<open>bound\<close> are what the capture handles hold; \<open>healthy\<close> says that neither is poisoned.
\<close>

locale peer_verifier =
  fixes verify :: "bytes \<Rightarrow> bytes list \<Rightarrow> int \<Rightarrow> ('m, tls_error, unit) action"
    and chain_ok :: "bytes \<Rightarrow> bytes list \<Rightarrow> int \<Rightarrow> bool"
    and leaf_id :: "bytes \<Rightarrow> peer_id option"
    and leaf_binding :: "bytes \<Rightarrow> binding_outcome"
    and expected :: "peer_id option"
    and policy :: binding_policy
    and healthy :: "'m \<Rightarrow> bool"
    and seen :: "'m \<Rightarrow> peer_id option"
    and bound :: "'m \<Rightarrow> bytes option"
  assumes answers: "healthy m \<Longrightarrow> verify der ims now m = (r, m') \<Longrightarrow>
      healthy m' \<and> (r = Ok () \<or> (\<exists>e. r = Err e))"
    and decides: "healthy m \<Longrightarrow> verify der ims now m = (r, m') \<Longrightarrow>
      r = Ok () \<longleftrightarrow> chain_ok der ims now \<and>
        (\<exists>d. leaf_id der = Some d \<and> expected \<in> {None, Some d}) \<and>
        (\<exists>b. evaluate (leaf_binding der) policy = Ok b)"
    and sees: "healthy m \<Longrightarrow> verify der ims now m = (r, m') \<Longrightarrow>
      seen m' = (if chain_ok der ims now \<and> leaf_id der \<noteq> None then leaf_id der else seen m)"
    and captures: "healthy m \<Longrightarrow> verify der ims now m = (r, m') \<Longrightarrow>
      bound m' = (if r = Ok () \<and> policy \<noteq> Off
        then (case leaf_binding der of Bound k \<Rightarrow> Some k | _ \<Rightarrow> None) else bound m)"
begin

text \<open>An accepted peer is the one that is captured, and is the pinned one.\<close>

lemma accepted_is_seen:
  "healthy m \<Longrightarrow> verify der ims now m = (Ok (), m') \<Longrightarrow>
   leaf_id der \<noteq> None \<and> seen m' = leaf_id der"
  using decides [of m der ims now "Ok ()" m'] sees [of m der ims now "Ok ()" m'] by auto

lemma accepted_is_pinned:
  "healthy m \<Longrightarrow> verify der ims now m = (Ok (), m') \<Longrightarrow> expected = Some e \<Longrightarrow>
   leaf_id der = Some e \<and> seen m' = Some e"
  using decides [of m der ims now "Ok ()" m'] sees [of m der ims now "Ok ()" m'] by auto

text \<open>Under \<open>Required\<close> only a verified binding is accepted, and its key is captured.\<close>

lemma required_is_bound:
  assumes "healthy m" and "verify der ims now m = (Ok (), m')" and "policy = Required"
  shows "\<exists>k. leaf_binding der = Bound k \<and> bound m' = Some k"
proof -
  obtain b where "evaluate (leaf_binding der) Required = Ok b"
    using decides [OF assms(1,2)] assms(3) by auto
  then obtain k where "leaf_binding der = Bound k"
    by (cases "leaf_binding der") auto
  with captures [OF assms(1,2)] assms(3) show ?thesis by simp
qed

text \<open>A refusal is an error and leaves the captured key as it was.\<close>

lemma refusal:
  assumes "healthy m" and "\<not> (chain_ok der ims now \<and>
        (\<exists>d. leaf_id der = Some d \<and> expected \<in> {None, Some d}) \<and>
        (\<exists>b. evaluate (leaf_binding der) policy = Ok b))"
  shows "\<exists>e m'. verify der ims now m = (Err e, m') \<and> healthy m' \<and> bound m' = bound m"
proof -
  obtain r m' where r: "verify der ims now m = (r, m')" by (cases "verify der ims now m")
  have "r \<noteq> Ok ()" using decides [OF assms(1) r] assms(2) by blast
  with answers [OF assms(1) r] captures [OF assms(1) r] r show ?thesis by auto
qed

text \<open>A run of verifications, one for each connection of a configuration.\<close>

fun verify_all :: "(bytes \<times> bytes list \<times> int) list \<Rightarrow> 'm \<Rightarrow> 'm" where
  "verify_all [] m = m"
| "verify_all ((der, ims, now) # cs) m = verify_all cs (snd (verify der ims now m))"

lemma healthy_step: "healthy m \<Longrightarrow> healthy (snd (verify der ims now m))"
  using answers [OF _ surjective_pairing] by blast

text \<open>What is seen in the end is the last leaf that reached the capture.\<close>

lemma seen_last:
  assumes "healthy m"
  shows "seen (verify_all cs m) =
    (case filter (\<lambda>(der, ims, now). chain_ok der ims now \<and> leaf_id der \<noteq> None) (rev cs) of
       [] \<Rightarrow> seen m | c # _ \<Rightarrow> leaf_id (fst c))"
  using assms
proof (induction cs m rule: verify_all.induct)
  case (2 der ims now cs m)
  let ?good = "\<lambda>(der, ims, now). chain_ok der ims now \<and> leaf_id der \<noteq> None"
  have "seen (snd (verify der ims now m)) = (if ?good (der, ims, now) then leaf_id der else seen m)"
    using sees [OF \<open>healthy m\<close> surjective_pairing] by simp
  with 2 show ?case
    by (cases "filter ?good (rev cs)") (auto simp: healthy_step)
qed simp

end

section \<open>What the code decides\<close>

fun peer_cell :: "captured_peer_id \<Rightarrow> memory \<Rightarrow> peer_id option mutex" where
  "peer_cell (CapturedPeerId a) m = pcells m a"

fun bls_cell :: "captured_bls_pub \<Rightarrow> memory \<Rightarrow> bytes option mutex" where
  "bls_cell (CapturedBlsPub a) m = bcells m a"

definition healthy :: "crates \<Rightarrow> captured_peer_id \<Rightarrow> captured_bls_pub \<Rightarrow> memory \<Rightarrow> bool" where
  "healthy X p b m \<longleftrightarrow>
     \<not> mpoisoned (peer_cell p m) \<and> \<not> mpoisoned (bls_cell b m) \<and> anchor_cell_ok X (ca_cell m)"

definition seen :: "captured_peer_id \<Rightarrow> memory \<Rightarrow> peer_id option" where
  "seen p m = mvalue (peer_cell p m)"

definition bound :: "captured_bls_pub \<Rightarrow> memory \<Rightarrow> bytes option" where
  "bound b m = mvalue (bls_cell b m)"

definition chains :: "crates \<Rightarrow> bytes \<Rightarrow> bytes list \<Rightarrow> int \<Rightarrow> key_usage \<Rightarrow> bool" where
  "chains X der ims now usage \<longleftrightarrow>
     anchor X \<noteq> [] \<and>
     (\<exists>a ee. anchor_from_trusted_cert X (anchor X) = Inr a \<and> end_entity_try_from X der = Inr ee \<and>
        verify_for_usage X ee CHAIN_SIG_ALGS [a] ims now usage = Inr ())"

lemma verify_chain_eq:
  assumes "anchor_cell_ok X (ca_cell m)"
  shows "\<exists>r. verify_chain_to_dig_ca X der ims now usage m = (r, m\<lparr>ca_cell := Some (anchor X)\<rparr>) \<and>
    (r = Ok () \<and> chains X der ims now usage \<or> (\<exists>e. r = Err e) \<and> \<not> chains X der ims now usage)"
proof -
  have a: "embedded_anchor X m =
    (if anchor X = [] then Err (General (''DigNetwork CA: '' @ display_error (\<lambda>_. '''')
         (Ca ''embedded DigNetwork CA certificate is missing or unparseable'')))
     else Ok (anchor X), m\<lparr>ca_cell := Some (anchor X)\<rparr>)"
    by (simp add: embedded_anchor_def embedded_ca_cert_der_eq [OF assms])
  show ?thesis
    by (cases "anchor X = []"; cases "anchor_from_trusted_cert X (anchor X)";
        cases "end_entity_try_from X der";
        cases "verify_for_usage X (projr (end_entity_try_from X der)) CHAIN_SIG_ALGS
          [projr (anchor_from_trusted_cert X (anchor X))] ims now usage")
      (simp_all add: verify_chain_to_dig_ca_def seq_def a chains_def)
qed

text \<open>The pin-and-bind step as one equation, when no cell is poisoned.\<close>

definition with_peer :: "captured_peer_id \<Rightarrow> peer_id option \<Rightarrow> memory \<Rightarrow> memory" where
  "with_peer p v m = (case p of CapturedPeerId a \<Rightarrow> m\<lparr>pcells := (pcells m)(a := (pcells m a)\<lparr>mvalue := v\<rparr>)\<rparr>)"

definition with_bls :: "captured_bls_pub \<Rightarrow> bytes option \<Rightarrow> memory \<Rightarrow> memory" where
  "with_bls b v m = (case b of CapturedBlsPub a \<Rightarrow> m\<lparr>bcells := (bcells m)(a := (bcells m a)\<lparr>mvalue := v\<rparr>)\<rparr>)"

lemma store_healthy:
  "\<not> mpoisoned (peer_cell p m) \<Longrightarrow> store_peer_id p v m = (Ok (), with_peer p v m)"
  "\<not> mpoisoned (bls_cell b m) \<Longrightarrow> store_bls b k m = (Ok (), with_bls b k m)"
  by (cases p, simp add: with_peer_def) (cases b, simp add: with_bls_def)

lemma with_simps [simp]:
  "peer_cell p (with_peer p v m) = (peer_cell p m)\<lparr>mvalue := v\<rparr>"
  "bls_cell b (with_bls b k m) = (bls_cell b m)\<lparr>mvalue := k\<rparr>"
  "peer_cell p (with_bls b k m) = peer_cell p m" "bls_cell b (with_peer p v m) = bls_cell b m"
  "ca_cell (with_peer p v m) = ca_cell m" "ca_cell (with_bls b k m) = ca_cell m"
  "peer_cell p (m\<lparr>ca_cell := c\<rparr>) = peer_cell p m" "bls_cell b (m\<lparr>ca_cell := c\<rparr>) = bls_cell b m"
  by (cases p; cases b; simp add: with_peer_def with_bls_def)+

lemma fmt_display_Ok [simp]: "fmt_display p = Ok (hex_string (peer_bytes p))"
  by (simp add: fmt_display_def to_hex_eq)

lemma pin_and_bind_eq:
  assumes "\<not> mpoisoned (peer_cell p m)" and "\<not> mpoisoned (bls_cell b m)"
  shows "pin_and_bind X der expected p policy b m =
    (case peer_id_from_leaf_cert_der X der of
       None \<Rightarrow> (Err (General ''peer leaf certificate could not be parsed as X.509''), m)
     | Some d \<Rightarrow>
         if expected \<notin> {None, Some d} then
           (Err (General (''peer_id mismatch: expected '' @ hex_string (peer_bytes (the expected)) @
              '', got '' @ hex_string (peer_bytes d))), with_peer p (Some d) m)
         else if policy = Off then (Ok d, with_peer p (Some d) m)
         else (case evaluate (verify_binding_from_leaf_cert X der) policy of
             Ok pub \<Rightarrow> (Ok d, with_bls b pub (with_peer p (Some d) m))
           | Err reason \<Rightarrow>
               (Err (General (''peer '' @ hex_string (peer_bytes d) @
                  '' rejected by cert BLS binding policy: '' @ reason)), with_peer p (Some d) m)
           | _ \<Rightarrow> (Panicked, with_peer p (Some d) m)))"
proof (cases "peer_id_from_leaf_cert_der X der")
  case (Some d)
  then show ?thesis
    using assms
    by (cases expected; cases "evaluate (verify_binding_from_leaf_cert X der) policy")
      (auto simp: pin_and_bind_def seq_def store_healthy)
qed (simp add: pin_and_bind_def)

section \<open>Both verifiers satisfy the contract\<close>

text \<open>Either verifier, with the chain check for a usage or without one.\<close>

definition verify_peer ::
  "crates \<Rightarrow> key_usage option \<Rightarrow> peer_id option \<Rightarrow> captured_peer_id \<Rightarrow> binding_policy \<Rightarrow> captured_bls_pub \<Rightarrow>
   bytes \<Rightarrow> bytes list \<Rightarrow> int \<Rightarrow> unit verdict" where
  "verify_peer X usage expected p policy b der ims now =
     seq (case usage of Some u \<Rightarrow> verify_chain_to_dig_ca X der ims now u | None \<Rightarrow> ret ()) (\<lambda>_.
     seq (pin_and_bind X der expected p policy b) (\<lambda>_. ret ()))"

definition chain_needed :: "crates \<Rightarrow> key_usage option \<Rightarrow> bytes \<Rightarrow> bytes list \<Rightarrow> int \<Rightarrow> bool" where
  "chain_needed X usage der ims now =
     (case usage of Some u \<Rightarrow> chains X der ims now u | None \<Rightarrow> True)"

lemma verify_peer_cases:
  assumes "healthy X p b m"
  shows "\<exists>m1. healthy X p b m1 \<and> seen p m1 = seen p m \<and> bound b m1 = bound b m \<and>
    (chain_needed X usage der ims now \<and>
       verify_peer X usage expected p policy b der ims now m =
         seq (pin_and_bind X der expected p policy b) (\<lambda>_. ret ()) m1 \<or>
     \<not> chain_needed X usage der ims now \<and>
       (\<exists>e. verify_peer X usage expected p policy b der ims now m = (Err e, m1)))"
proof (cases usage)
  case (Some u)
  have "anchor_cell_ok X (ca_cell m)" using assms by (simp add: healthy_def)
  from verify_chain_eq [OF this, of der ims now u] obtain r where
    "verify_chain_to_dig_ca X der ims now u m = (r, m\<lparr>ca_cell := Some (anchor X)\<rparr>)"
    "r = Ok () \<and> chains X der ims now u \<or> (\<exists>e. r = Err e) \<and> \<not> chains X der ims now u"
    by blast
  then show ?thesis
    using assms Some
    by (intro exI [of _ "m\<lparr>ca_cell := Some (anchor X)\<rparr>"])
      (auto simp: healthy_def seen_def bound_def verify_peer_def chain_needed_def seq_def
        anchor_cell_ok_after)
next
  case None
  with assms show ?thesis
    by (intro exI [of _ m]) (auto simp: verify_peer_def chain_needed_def)
qed

lemma verify_peer_result:
  assumes h: "healthy X p b m"
    and run: "verify_peer X usage expected p policy b der ims now m = (r, m')"
  shows "healthy X p b m' \<and> (r = Ok () \<or> (\<exists>e. r = Err e)) \<and>
     (r = Ok () \<longleftrightarrow> chain_needed X usage der ims now \<and>
        (\<exists>d. peer_id_from_leaf_cert_der X der = Some d \<and> expected \<in> {None, Some d}) \<and>
        (\<exists>b. evaluate (verify_binding_from_leaf_cert X der) policy = Ok b)) \<and>
     seen p m' = (if chain_needed X usage der ims now \<and> peer_id_from_leaf_cert_der X der \<noteq> None
       then peer_id_from_leaf_cert_der X der else seen p m) \<and>
     bound b m' = (if r = Ok () \<and> policy \<noteq> Off
       then (case verify_binding_from_leaf_cert X der of Bound k \<Rightarrow> Some k | _ \<Rightarrow> None) else bound b m)"
proof -
  from verify_peer_cases [OF h, of usage der ims now expected policy] obtain m1 where
    m1: "healthy X p b m1" "seen p m1 = seen p m" "bound b m1 = bound b m" and
    c: "chain_needed X usage der ims now \<and>
       (r, m') = seq (pin_and_bind X der expected p policy b) (\<lambda>_. ret ()) m1 \<or>
     \<not> chain_needed X usage der ims now \<and> (\<exists>e. (r, m') = (Err e, m1))"
    unfolding run by blast
  have eq: "\<not> mpoisoned (peer_cell p m1)" "\<not> mpoisoned (bls_cell b m1)"
    using m1(1) by (simp_all add: healthy_def)
  note facts = m1 c pin_and_bind_eq [OF eq, of X der expected policy]
  show ?thesis
  proof (cases "peer_id_from_leaf_cert_der X der")
    case None
    then show ?thesis using facts by (auto simp: seq_def)
  next
    case (Some d)
    then show ?thesis
      using facts
      by (cases "expected \<in> {None, Some d}"; cases "verify_binding_from_leaf_cert X der"; cases policy)
        (auto simp: healthy_def seen_def bound_def seq_def)
  qed
qed

interpretation peer: peer_verifier "verify_peer X usage expected p policy b" "chain_needed X usage"
    "peer_id_from_leaf_cert_der X" "verify_binding_from_leaf_cert X" expected policy
    "healthy X p b" "seen p" "bound b"
  for X usage expected p policy b
  by unfold_locales (use verify_peer_result in blast)+

text \<open>The two trait methods are this, for the two usages.\<close>

definition ca_usage :: "bool \<Rightarrow> key_usage \<Rightarrow> key_usage option" where
  "ca_usage require_ca_chain usage = (if require_ca_chain then Some usage else None)"

lemma verify_server_cert_eq:
  "verify_server_cert X v der ims name ocsp now =
     verify_peer X (ca_usage (sv_require_ca_chain v) UsageServerAuth) (sv_expected v) (sv_captured v)
       (sv_binding_policy v) (sv_captured_bls v) der ims now"
  by (simp add: verify_server_cert_def verify_peer_def ca_usage_def)

lemma verify_client_cert_eq:
  "verify_client_cert X v der ims now =
     verify_peer X (ca_usage (cv_require_ca_chain v) UsageClientAuth) (cv_expected v) (cv_captured v)
       (cv_binding_policy v) (cv_captured_bls v) der ims now"
  by (simp add: verify_client_cert_def verify_peer_def ca_usage_def)


text \<open>The connections of one server configuration, one after the other.\<close>

fun verify_clients ::
  "crates \<Rightarrow> dig_client_cert_verifier \<Rightarrow> (bytes \<times> bytes list \<times> int) list \<Rightarrow> memory \<Rightarrow> memory" where
  "verify_clients X v [] m = m"
| "verify_clients X v ((der, ims, now) # cs) m =
     verify_clients X v cs (snd (verify_client_cert X v der ims now m))"

lemma verify_clients_eq:
  "verify_clients X v cs m =
     peer.verify_all X (ca_usage (cv_require_ca_chain v) UsageClientAuth) (cv_expected v) (cv_captured v)
       (cv_binding_policy v) (cv_captured_bls v) cs m"
  by (induction X v cs m rule: verify_clients.induct) (simp_all add: verify_client_cert_eq)

section \<open>Trust, stated without the code's steps\<close>

text \<open>
  \<open>trusted X usage expected policy der ims now\<close>: the leaf chains to the shipped CA for the usage
  (when one is asked for), it parses, the digest of its SPKI is the expected peer id (when there is
  one), and the policy is met: nothing under \<open>Off\<close>, a valid binding under \<open>Required\<close>, a valid
  binding or none at all under \<open>Opportunistic\<close>.
\<close>

definition trusted ::
  "crates \<Rightarrow> key_usage option \<Rightarrow> peer_id option \<Rightarrow> binding_policy \<Rightarrow> bytes \<Rightarrow> bytes list \<Rightarrow> int \<Rightarrow> bool" where
  "trusted X usage expected policy der ims now \<longleftrightarrow>
     (\<forall>u. usage = Some u \<longrightarrow> chains X der ims now u) \<and>
     (\<exists>x. parse_x509_certificate X der = Inr x \<and>
        (\<forall>e. expected = Some e \<longrightarrow> peer_bytes e = sha256_digest X (subject_pki_raw x)) \<and>
        (policy = Off \<or> (\<exists>k. binds X x k) \<or>
         policy = Opportunistic \<and> first_extension DIG_BLS_BINDING_OID_STR (x509_extensions x) = None))"

lemma leaf_id_iff:
  "peer_id_from_leaf_cert_der X der = Some d \<longleftrightarrow>
     (\<exists>x. parse_x509_certificate X der = Inr x \<and> d = PeerId (sha256_digest X (subject_pki_raw x)))"
  by (auto simp: peer_id_from_leaf_cert_der_def peer_id_from_tls_spki_der_def split: sum.splits)

lemma policy_met_iff:
  assumes "parse_x509_certificate X der = Inr x"
  shows "(\<exists>b. evaluate (verify_binding_from_leaf_cert X der) policy = Ok b) \<longleftrightarrow>
    policy = Off \<or> (\<exists>k. binds X x k) \<or>
    policy = Opportunistic \<and> first_extension DIG_BLS_BINDING_OID_STR (x509_extensions x) = None"
proof -
  have b: "verify_binding_from_leaf_cert X der = Bound k \<longleftrightarrow> binds X x k" for k
    using assms by (simp add: verify_binding_Bound_iff)
  have a: "verify_binding_from_leaf_cert X der = Absent \<longleftrightarrow>
      first_extension DIG_BLS_BINDING_OID_STR (x509_extensions x) = None"
    using assms by (simp add: verify_binding_Absent_iff)
  show ?thesis
    unfolding b [symmetric] a [symmetric]
    by (cases "verify_binding_from_leaf_cert X der"; cases policy) simp_all
qed

lemma trusted_iff:
  "trusted X usage expected policy der ims now \<longleftrightarrow>
     chain_needed X usage der ims now \<and>
     (\<exists>d. peer_id_from_leaf_cert_der X der = Some d \<and> expected \<in> {None, Some d}) \<and>
     (\<exists>b. evaluate (verify_binding_from_leaf_cert X der) policy = Ok b)"
proof (cases "parse_x509_certificate X der")
  case (Inr x)
  have "(\<forall>e. expected = Some e \<longrightarrow> peer_bytes e = h) \<longleftrightarrow> expected \<in> {None, Some (PeerId h)}" for h
    by (cases expected) (auto simp: peer_id.expand)
  then show ?thesis
    using Inr
    by (cases usage)
      (auto simp: trusted_def leaf_id_iff policy_met_iff [OF Inr] chain_needed_def)
qed (simp add: trusted_def leaf_id_iff)

lemma verify_peer_trusted:
  assumes "healthy X p b m"
  shows "(\<exists>m'. verify_peer X usage expected p policy b der ims now m = (Ok (), m')) \<longleftrightarrow>
      trusted X usage expected policy der ims now" (is ?accept)
    and "(\<exists>e m'. verify_peer X usage expected p policy b der ims now m = (Err e, m')) \<longleftrightarrow>
      \<not> trusted X usage expected policy der ims now" (is ?refuse)
proof -
  obtain r m' where run: "verify_peer X usage expected p policy b der ims now m = (r, m')"
    by (cases "verify_peer X usage expected p policy b der ims now m")
  note facts = run peer.decides [OF assms run] peer.answers [OF assms run]
  show ?accept unfolding trusted_iff using facts by auto
  show ?refuse unfolding trusted_iff using facts by auto
qed

lemma trusted_is_accepted:
  "healthy X p b m \<Longrightarrow> trusted X usage expected policy der ims now \<Longrightarrow>
   \<exists>m'. verify_peer X usage expected p policy b der ims now m = (Ok (), m')"
  using verify_peer_trusted(1) by blast

lemma read_bls: "healthy X p b m \<Longrightarrow> captured_bls_pub_get b m = (Ok (bound b m), m)"
  by (cases b) (simp add: healthy_def bound_def)

lemma read_peer: "healthy X p b m \<Longrightarrow> captured_peer_id_get p m = (Ok (seen p m), m)"
  by (cases p) (simp add: healthy_def seen_def)

lemma required_captures:
  assumes "healthy X p b m" and "verify_peer X usage expected p Required b der ims now m = (Ok (), m')"
  shows "\<exists>x k. parse_x509_certificate X der = Inr x \<and> binds X x k \<and>
    captured_bls_pub_get b m' = (Ok (Some k), m')"
proof -
  have "healthy X p b m'" using peer.answers [OF assms] by simp
  from read_bls [OF this] peer.required_is_bound [OF assms refl] show ?thesis
    by (auto simp: verify_binding_Bound_iff)
qed

section \<open>Properties\<close>

text \<open>
  C2. What a dialing peer accepts. With handles that are not poisoned, \<open>verify_server_cert\<close> returns
  success exactly on a leaf that is trusted: it chains to the shipped CA for server authentication
  when the verifier requires it, it has the pinned peer id when there is a pin, and its binding
  meets the policy. Otherwise it returns an error, and it never panics. The server name and the
  OCSP response have no influence.
\<close>

theorem server_cert_accepted_iff:
  assumes "healthy X (sv_captured v) (sv_captured_bls v) m"
  shows "((\<exists>m'. verify_server_cert X v der ims name ocsp now m = (Ok (), m')) \<longleftrightarrow>
      trusted X (ca_usage (sv_require_ca_chain v) UsageServerAuth) (sv_expected v) (sv_binding_policy v)
        der ims now) \<and>
    ((\<exists>e m'. verify_server_cert X v der ims name ocsp now m = (Err e, m')) \<longleftrightarrow>
      \<not> trusted X (ca_usage (sv_require_ca_chain v) UsageServerAuth) (sv_expected v) (sv_binding_policy v)
        der ims now)"
  unfolding verify_server_cert_eq using verify_peer_trusted [OF assms] by blast

definition demo_memory :: memory where
  "demo_memory = \<lparr>pcells = (\<lambda>_. \<lparr>mvalue = None, mpoisoned = False\<rparr>),
     bcells = (\<lambda>_. \<lparr>mvalue = None, mpoisoned = False\<rparr>), pnext = 1, bnext = 1, ca_cell = None\<rparr>"

lemma demo_memory_healthy [simp]: "healthy X p b demo_memory"
  by (cases p; cases b) (simp add: healthy_def demo_memory_def anchor_cell_ok_def)

text \<open>A leaf of the concrete instance without a binding, signed by the shipped CA's key or by another.\<close>

definition demo_plain_leaf :: "bytes \<Rightarrow> bytes \<Rightarrow> bytes" where
  "demo_plain_leaf k ik = demo_cert demo_params k ik"

lemma demo_plain_leaf_parses:
  "parse_x509_certificate demo (demo_plain_leaf k ik) = Inr \<lparr>subject_pki_raw = k, x509_extensions = []\<rparr>"
  using demo_parse_cert [of demo_params k ik]
  by (auto simp: demo_plain_leaf_def demo_def demo_params_def)

lemma demo_trusted_plain:
  "trusted demo None expected policy (demo_plain_leaf k ik) ims now \<longleftrightarrow>
     (\<forall>e. expected = Some e \<longrightarrow> peer_bytes e = sha256_digest demo k) \<and> policy \<noteq> Required"
  by (cases policy) (auto simp: trusted_def demo_plain_leaf_parses binds_def)

abbreviation demo_p :: captured_peer_id where "demo_p \<equiv> CapturedPeerId 0"
abbreviation demo_b :: captured_bls_pub where "demo_b \<equiv> CapturedBlsPub 0"

theorem server_cert_accepted_iff_witness:
  "\<exists>e m'. verify_server_cert demo
     (server_verifier_new_spki_pinned demo (Some (PeerId (sha256_digest demo [4]))) demo_p Opportunistic demo_b)
     (demo_plain_leaf [5] [99]) [] '''' [] 0 demo_memory = (Err e, m')"
proof -
  let ?v = "server_verifier_new_spki_pinned demo (Some (PeerId (sha256_digest demo [4]))) demo_p Opportunistic demo_b"
  have "sha256_digest demo [4] \<noteq> sha256_digest demo [5]" by (simp add: demo_def demo_pad_def)
  moreover have "healthy demo (sv_captured ?v) (sv_captured_bls ?v) demo_memory" by simp
  note server_cert_accepted_iff [OF this, of "demo_plain_leaf [5] [99]" "[]" "''''" "[]" 0]
  ultimately show ?thesis
    by (simp add: server_verifier_new_spki_pinned_def ca_usage_def demo_trusted_plain)
qed

text \<open>
  C3. What a listening peer accepts. With handles that are not poisoned, \<open>verify_client_cert\<close>
  returns success exactly on a leaf that is trusted for client authentication, returns an error
  otherwise and never panics; and the verifier asks for a client certificate and insists on one.
\<close>

theorem client_cert_accepted_iff:
  assumes "healthy X (cv_captured v) (cv_captured_bls v) m"
  shows "((\<exists>m'. verify_client_cert X v der ims now m = (Ok (), m')) \<longleftrightarrow>
      trusted X (ca_usage (cv_require_ca_chain v) UsageClientAuth) (cv_expected v) (cv_binding_policy v)
        der ims now) \<and>
    ((\<exists>e m'. verify_client_cert X v der ims now m = (Err e, m')) \<longleftrightarrow>
      \<not> trusted X (ca_usage (cv_require_ca_chain v) UsageClientAuth) (cv_expected v) (cv_binding_policy v)
        der ims now) \<and>
    offer_client_auth v \<and> client_auth_mandatory v"
  unfolding verify_client_cert_eq offer_client_auth_def client_auth_mandatory_def
  using verify_peer_trusted [OF assms] by blast

theorem client_cert_accepted_iff_witness:
  "\<exists>m'. verify_client_cert demo (client_verifier_new_spki_pinned demo None demo_p Opportunistic demo_b)
     (demo_plain_leaf [5] [99]) [] 0 demo_memory = (Ok (), m')"
proof -
  let ?v = "client_verifier_new_spki_pinned demo None demo_p Opportunistic demo_b"
  have "healthy demo (cv_captured ?v) (cv_captured_bls ?v) demo_memory" by simp
  from client_cert_accepted_iff [OF this, of "demo_plain_leaf [5] [99]" "[]" 0] show ?thesis
    by (simp add: client_verifier_new_spki_pinned_def ca_usage_def demo_trusted_plain)
qed

text \<open>
  C11. A pin authenticates. When a dialing verifier with a pin, in either mode and under every
  policy, accepts a leaf, the digest of the leaf's SPKI is the pinned peer id, and the captured
  peer id is that id.
\<close>

theorem pinned_dial_authenticates:
  assumes "healthy X (sv_captured v) (sv_captured_bls v) m" and "sv_expected v = Some e"
    and "verify_server_cert X v der ims name ocsp now m = (Ok (), m')"
  shows "(\<exists>x. parse_x509_certificate X der = Inr x \<and> e = PeerId (sha256_digest X (subject_pki_raw x))) \<and>
    captured_peer_id_get (sv_captured v) m' = (Ok (Some e), m')"
proof -
  note run = assms(3) [unfolded verify_server_cert_eq]
  from peer.accepted_is_pinned [OF assms(1) run assms(2)]
  have "peer_id_from_leaf_cert_der X der = Some e" "seen (sv_captured v) m' = Some e" by auto
  moreover have "healthy X (sv_captured v) (sv_captured_bls v) m'"
    using peer.answers [OF assms(1) run] by simp
  ultimately show ?thesis
    by (cases "sv_captured v") (auto simp: leaf_id_iff healthy_def seen_def)
qed

theorem pinned_dial_authenticates_witness:
  "\<exists>m'. verify_server_cert demo
       (server_verifier_new_spki_pinned demo (Some (PeerId (sha256_digest demo [5]))) demo_p Off demo_b)
       (demo_plain_leaf [5] [1]) [] '''' [] 0 demo_memory = (Ok (), m') \<and>
     captured_peer_id_get demo_p m' = (Ok (Some (PeerId (sha256_digest demo [5]))), m')"
proof -
  let ?e = "PeerId (sha256_digest demo [5])"
  let ?v = "server_verifier_new_spki_pinned demo (Some ?e) demo_p Off demo_b"
  have h: "healthy demo (sv_captured ?v) (sv_captured_bls ?v) demo_memory" by simp
  have e: "sv_expected ?v = Some ?e" "sv_captured ?v = demo_p"
    by (simp_all add: server_verifier_new_spki_pinned_def)
  have "\<exists>m'. verify_server_cert demo ?v (demo_plain_leaf [5] [1]) [] '''' [] 0 demo_memory = (Ok (), m')"
    using verify_peer_trusted(1) [OF h]
    by (simp add: verify_server_cert_eq server_verifier_new_spki_pinned_def ca_usage_def demo_trusted_plain)
  with pinned_dial_authenticates [OF h e(1)] e(2) show ?thesis by metis
qed

text \<open>
  C10. \<open>Required\<close> cannot be downgraded. When either verifier is configured with \<open>Required\<close> and accepts
  a leaf, in either mode, the leaf carries a valid binding of some BLS key to its own SPKI, and the
  captured key is that key; a leaf without a binding, or with an invalid one, is never accepted.
\<close>

theorem required_needs_binding:
  "(healthy X (cv_captured v) (cv_captured_bls v) m \<and> cv_binding_policy v = Required \<and>
      verify_client_cert X v der ims now m = (Ok (), m') \<longrightarrow>
      (\<exists>x k. parse_x509_certificate X der = Inr x \<and> binds X x k \<and>
        captured_bls_pub_get (cv_captured_bls v) m' = (Ok (Some k), m'))) \<and>
   (healthy X (sv_captured s) (sv_captured_bls s) m \<and> sv_binding_policy s = Required \<and>
      verify_server_cert X s der ims name ocsp now m = (Ok (), m') \<longrightarrow>
      (\<exists>x k. parse_x509_certificate X der = Inr x \<and> binds X x k \<and>
        captured_bls_pub_get (sv_captured_bls s) m' = (Ok (Some k), m')))"
  unfolding verify_client_cert_eq verify_server_cert_eq by (auto dest: required_captures)

text \<open>A bound leaf of the concrete instance: key \<open>k\<close>, BLS secret \<open>sk\<close>, signed by the CA's key or not.\<close>

definition demo_bound_leaf :: "bytes \<Rightarrow> opaque \<Rightarrow> bytes \<Rightarrow> bytes" where
  "demo_bound_leaf k sk ik = demo_cert (attach_binding demo demo_params k sk) k ik"

lemma demo_bound_leaf:
  "\<exists>x. parse_x509_certificate demo (demo_bound_leaf k sk ik) = Inr x \<and> subject_pki_raw x = k"
  "verify_binding_from_leaf_cert demo (demo_bound_leaf k sk ik) = Bound (public_key_bytes demo sk)"
proof -
  let ?p = "attach_binding demo demo_params k sk"
  show "\<exists>x. parse_x509_certificate demo (demo_bound_leaf k sk ik) = Inr x \<and> subject_pki_raw x = k"
    using demo_parse_cert [of ?p k ik] by (auto simp: demo_bound_leaf_def demo_def)
  have "params_signed_by demo ?p k [] ik = Inr (demo_bound_leaf k sk ik)"
    by (simp add: demo_bound_leaf_def demo_def)
  then have "reads_back_as demo (demo_bound_leaf k sk ik) ?p k"
    using demo_rcgen_reads_back unfolding rcgen_reads_back_def by blast
  moreover have "pemfile_certs demo (as_bytes (certificate_pem demo c)) = [Inr c]" for c
    by (simp add: demo_def)
  ultimately show "verify_binding_from_leaf_cert demo (demo_bound_leaf k sk ik) = Bound (public_key_bytes demo sk)"
    using attached_binding_bound [OF demo_bls_correct demo_bls_lengths demo_bls_key_ok]
    by (metis demo_params_def cert_params.select_convs(9))
qed

lemma demo_trusted_bound:
  "trusted demo None expected policy (demo_bound_leaf k sk ik) ims now \<longleftrightarrow>
     (\<forall>e. expected = Some e \<longrightarrow> peer_bytes e = sha256_digest demo k)"
proof -
  obtain x where x: "parse_x509_certificate demo (demo_bound_leaf k sk ik) = Inr x" "subject_pki_raw x = k"
    using demo_bound_leaf(1) by blast
  have "binds demo x (public_key_bytes demo sk)"
    using demo_bound_leaf(2) [of k sk ik] x(1) by (simp add: verify_binding_Bound_iff)
  with x show ?thesis by (auto simp: trusted_def)
qed

theorem required_needs_binding_witness:
  "\<exists>m'. verify_client_cert demo (client_verifier_new_spki_pinned demo None demo_p Required demo_b)
       (demo_bound_leaf [5] [7] [1]) [] 0 demo_memory = (Ok (), m') \<and>
     (\<exists>k. captured_bls_pub_get demo_b m' = (Ok (Some k), m'))"
proof -
  let ?v = "client_verifier_new_spki_pinned demo None demo_p Required demo_b"
  have h: "healthy demo (cv_captured ?v) (cv_captured_bls ?v) demo_memory" by simp
  have e: "cv_binding_policy ?v = Required" "cv_captured_bls ?v = demo_b"
    by (simp_all add: client_verifier_new_spki_pinned_def)
  have t: "trusted demo None None Required (demo_bound_leaf [5] [7] [1]) [] 0"
    by (simp add: demo_trusted_bound)
  obtain m' where m: "verify_client_cert demo ?v (demo_bound_leaf [5] [7] [1]) [] 0 demo_memory = (Ok (), m')"
    using trusted_is_accepted [OF h t]
    by (auto simp: verify_client_cert_eq client_verifier_new_spki_pinned_def ca_usage_def)
  from required_needs_binding [THEN conjunct1, rule_format, OF conjI [OF h conjI [OF e(1) m]]] e(2) m
  show ?thesis by auto
qed

text \<open>On the concrete instance, whose shipped CA has the key 99, a leaf of the CA is accepted.\<close>

lemma demo_anchor: "anchor demo = [99]"
proof -
  obtain cs where "DIG_CA_CERT_PEM = CHR ''-'' # cs"
    by (simp add: DIG_CA_CERT_PEM_def pem_text_def)
  then have "demo_pem DIG_CA_CERT_PEM = demo_pem (CHR ''-'' # cs)" by (rule arg_cong)
  then have "demo_pem DIG_CA_CERT_PEM = Some [99]" by (simp add: demo_pem_def)
  then show ?thesis by (simp add: anchor_def first_pem_cert_def demo_def)
qed

lemma demo_chains: "chains demo (demo_cert p k ik) ims now usage \<longleftrightarrow> ik = [99]"
proof -
  have "demo_fields 2 (demo_cert p k ik) = [k, ik]"
    by (simp add: demo_cert_def numeral_eq_Suc)
  moreover obtain x where "demo_parse (demo_cert p k ik) = Inr x" using demo_parse_cert by blast
  ultimately show ?thesis by (simp add: chains_def demo_anchor) (simp add: demo_def)
qed

text \<open>What the handles hold after a refusal, for the common core of the two verifiers.\<close>

lemma refused_handles:
  assumes h: "healthy X p b m" and run: "verify_peer X usage expected p policy b der ims now m = (Err e, m')"
  shows "captured_bls_pub_get b m' = (Ok (bound b m), m') \<and>
    captured_peer_id_get p m' = (Ok (if chain_needed X usage der ims now \<and> peer_id_from_leaf_cert_der X der \<noteq> None
      then peer_id_from_leaf_cert_der X der else seen p m), m')"
proof -
  have "healthy X p b m'" using peer.answers [OF h run] by simp
  then show ?thesis
    using read_bls read_peer peer.captures [OF h run] peer.sees [OF h run] by simp
qed

text \<open>
  C34. What a refusal leaves behind, on the listening and on the dialing side. A leaf that fails the
  chain check or does not parse leaves both handles as they were. A leaf that is refused for its pin
  or its binding leaves its own peer id in the one handle and the key of an earlier peer in the
  other: the handles then describe two different peers.
\<close>

theorem refusal_leaves_stale_key:
  "(healthy X (cv_captured v) (cv_captured_bls v) m \<and> verify_client_cert X v der ims now m = (Err e, m') \<longrightarrow>
      captured_bls_pub_get (cv_captured_bls v) m' = (Ok (bound (cv_captured_bls v) m), m') \<and>
      captured_peer_id_get (cv_captured v) m' =
        (Ok (if (cv_require_ca_chain v \<longrightarrow> chains X der ims now UsageClientAuth) \<and>
               peer_id_from_leaf_cert_der X der \<noteq> None
             then peer_id_from_leaf_cert_der X der else seen (cv_captured v) m), m')) \<and>
   (healthy X (sv_captured s) (sv_captured_bls s) m \<and> verify_server_cert X s der ims name ocsp now m = (Err e, m') \<longrightarrow>
      captured_bls_pub_get (sv_captured_bls s) m' = (Ok (bound (sv_captured_bls s) m), m') \<and>
      captured_peer_id_get (sv_captured s) m' =
        (Ok (if (sv_require_ca_chain s \<longrightarrow> chains X der ims now UsageServerAuth) \<and>
               peer_id_from_leaf_cert_der X der \<noteq> None
             then peer_id_from_leaf_cert_der X der else seen (sv_captured s) m), m'))"
  using refused_handles [of X "cv_captured v" "cv_captured_bls v" m "ca_usage (cv_require_ca_chain v) UsageClientAuth"
      "cv_expected v" "cv_binding_policy v" der ims now e m']
    refused_handles [of X "sv_captured s" "sv_captured_bls s" m "ca_usage (sv_require_ca_chain s) UsageServerAuth"
      "sv_expected s" "sv_binding_policy s" der ims now e m']
  unfolding verify_client_cert_eq verify_server_cert_eq
  by (simp add: chain_needed_def ca_usage_def split: if_splits)

text \<open>On the concrete instance: a first client is accepted, a second refused for want of a binding.\<close>

theorem refusal_leaves_stale_key_witness:
  "\<exists>m1 m2 e. verify_client_cert demo (client_verifier_new_spki_pinned demo None demo_p Required demo_b)
       (demo_bound_leaf [5] [7] [1]) [] 0 demo_memory = (Ok (), m1) \<and>
     verify_client_cert demo (client_verifier_new_spki_pinned demo None demo_p Required demo_b)
       (demo_plain_leaf [6] [1]) [] 0 m1 = (Err e, m2) \<and>
     captured_peer_id_get demo_p m2 = (Ok (Some (PeerId (sha256_digest demo [6]))), m2) \<and>
     captured_bls_pub_get demo_b m2 = (Ok (Some (public_key_bytes demo [7])), m2)"
proof -
  let ?v = "client_verifier_new_spki_pinned demo None demo_p Required demo_b"
  have eq: "verify_client_cert demo ?v der ims now =
      verify_peer demo None None demo_p Required demo_b der ims now" for der ims now
    by (simp add: verify_client_cert_eq client_verifier_new_spki_pinned_def ca_usage_def)
  have f: "cv_captured ?v = demo_p" "cv_captured_bls ?v = demo_b" "\<not> cv_require_ca_chain ?v"
    by (simp_all add: client_verifier_new_spki_pinned_def)
  obtain m1 where m1: "verify_peer demo None None demo_p Required demo_b (demo_bound_leaf [5] [7] [1]) [] 0
      demo_memory = (Ok (), m1)"
    using trusted_is_accepted [OF demo_memory_healthy] demo_trusted_bound by blast
  have h: "healthy demo (cv_captured ?v) (cv_captured_bls ?v) m1"
    using peer.answers [OF demo_memory_healthy m1] f by simp
  have b: "bound demo_b m1 = Some (public_key_bytes demo [7])"
    using peer.captures [OF demo_memory_healthy m1] demo_bound_leaf(2) by simp
  have "\<not> trusted demo None None Required (demo_plain_leaf [6] [1]) [] 0" by (simp add: demo_trusted_plain)
  then obtain e m2 where m2: "verify_client_cert demo ?v (demo_plain_leaf [6] [1]) [] 0 m1 = (Err e, m2)"
    unfolding eq using verify_peer_trusted(2) [OF h [unfolded f]] by blast
  have "peer_id_from_leaf_cert_der demo (demo_plain_leaf [6] [1]) = Some (PeerId (sha256_digest demo [6]))"
    by (simp add: leaf_id_iff demo_plain_leaf_parses)
  with refusal_leaves_stale_key [THEN conjunct1, rule_format, OF conjI [OF h m2]] m1 m2 b
  show ?thesis unfolding eq f by (auto simp: f)
qed

text \<open>
  C31. The handles of a server configuration are shared by all its connections. After any number of
  connections, the captured peer id is that of the last leaf that passed the chain check, when one
  is required, and could be parsed, accepted or not; before the first such leaf it is what it was.
\<close>

theorem capture_is_last_leaf:
  assumes "healthy X (cv_captured v) (cv_captured_bls v) m"
  shows "seen (cv_captured v) (verify_clients X v cs m) =
    (case filter (\<lambda>(der, ims, now).
        (cv_require_ca_chain v \<longrightarrow> chains X der ims now UsageClientAuth) \<and>
        peer_id_from_leaf_cert_der X der \<noteq> None) (rev cs) of
       [] \<Rightarrow> seen (cv_captured v) m
     | c # _ \<Rightarrow> peer_id_from_leaf_cert_der X (fst c))"
  using peer.seen_last [OF assms, of "ca_usage (cv_require_ca_chain v) UsageClientAuth" "cv_expected v"
      "cv_binding_policy v" cs]
  by (simp add: verify_clients_eq chain_needed_def ca_usage_def)

theorem capture_is_last_leaf_witness:
  "seen demo_p (verify_clients demo (client_verifier_new_spki_pinned demo None demo_p Required demo_b)
     [(demo_plain_leaf [5] [1], [], 0), (demo_plain_leaf [6] [1], [], 0)] demo_memory) =
   Some (PeerId (sha256_digest demo [6]))"
proof -
  let ?v = "client_verifier_new_spki_pinned demo None demo_p Required demo_b"
  have id: "peer_id_from_leaf_cert_der demo (demo_plain_leaf k [1]) = Some (PeerId (sha256_digest demo k))" for k
    by (simp add: leaf_id_iff demo_plain_leaf_parses)
  have f: "cv_captured ?v = demo_p" "\<not> cv_require_ca_chain ?v"
    by (simp_all add: client_verifier_new_spki_pinned_def)
  have "healthy demo (cv_captured ?v) (cv_captured_bls ?v) demo_memory" by simp
  from capture_is_last_leaf [OF this,
      of "[(demo_plain_leaf [5] [1], [], 0), (demo_plain_leaf [6] [1], [], 0)]"]
  show ?thesis by (simp add: f id del: verify_clients.simps)
qed

end
