(* ===== verification/Dig_Race.thy ===== *)
theory Dig_Race
  imports Dig_Verify
begin

text \<open>
  Several connections of one server configuration at a time. The verifier of a configuration, with
  its two capture handles, is shared by all connections of the acceptor, and each connection runs
  \<open>verify_client_cert\<close> on its own thread; the two captures are two separate lock acquisitions. The
  step relation interleaves the connections at these: a step is a run of one connection up to and
  including its next access to shared memory. The stores are the code's own operations of
  \<open>Dig_Verify\<close>.

  A mutex is its value with its poison flag, and a step that locks one includes waiting for it: the
  source holds a lock for the one statement that reads or writes the value and takes no other lock
  under it, so the critical sections are atomic here. Waiting is not modelled; whether a thread
  that wants a lock gets it is part of whether the scheduler gives its connection a turn.

  Shown: a connection that runs alone does exactly what \<open>verify_client_cert\<close> does; what the handles
  can hold in any reachable state; that a connection which keeps getting turns reaches the right
  verdict, in every unbounded run; and that the handles can hold the peer id of one accepted peer beside
  the BLS key of another.
\<close>

type_synonym connection = "bytes \<times> bytes list \<times> int"

datatype phase =
    Start
  | Chained
  | Captured peer_id
  | Accepted peer_id
  | Refused tls_error
  | Aborted

type_synonym race = "memory \<times> (nat \<Rightarrow> phase)"

definition chain_check :: "crates \<Rightarrow> dig_client_cert_verifier \<Rightarrow> connection \<Rightarrow> unit verdict" where
  "chain_check X v c =
     (if cv_require_ca_chain v
      then verify_chain_to_dig_ca X (fst c) (fst (snd c)) (snd (snd c)) UsageClientAuth
      else ret ())"

text \<open>What is decided after the first capture, without touching memory: the value to store in the
  second handle (if there is one to store), or the refusal.\<close>

definition after_capture ::
  "crates \<Rightarrow> dig_client_cert_verifier \<Rightarrow> connection \<Rightarrow> peer_id \<Rightarrow> (tls_error, bytes option option) outcome" where
  "after_capture X v c d =
     (if cv_expected v \<notin> {None, Some d} then
        bind (fmt_display (the (cv_expected v))) (\<lambda>es.
        bind (fmt_display d) (\<lambda>ds.
        Err (General (''peer_id mismatch: expected '' @ es @ '', got '' @ ds))))
      else if cv_binding_policy v = Off then Ok None
      else (case evaluate (verify_binding_from_leaf_cert X (fst c)) (cv_binding_policy v) of
          Ok pub \<Rightarrow> Ok (Some pub)
        | Err reason \<Rightarrow>
            bind (fmt_display d) (\<lambda>ds.
            Err (General (''peer '' @ ds @ '' rejected by cert BLS binding policy: '' @ reason)))
        | Panicked \<Rightarrow> Panicked
        | Crashed \<Rightarrow> Crashed))"

fun phase_of :: "(tls_error, 'a) outcome \<Rightarrow> phase \<Rightarrow> phase" where
  "phase_of (Ok _) next = next"
| "phase_of (Err e) next = Refused e"
| "phase_of Panicked next = Aborted"
| "phase_of Crashed next = Aborted"

inductive step ::
  "crates \<Rightarrow> dig_client_cert_verifier \<Rightarrow> (nat \<Rightarrow> connection) \<Rightarrow> nat \<Rightarrow> race \<Rightarrow> race \<Rightarrow> bool"
  for X :: crates and v :: dig_client_cert_verifier and cs :: "nat \<Rightarrow> connection" and i :: nat
where
  chain: "ph i = Start \<Longrightarrow> chain_check X v (cs i) m = (r, m') \<Longrightarrow>
    step X v cs i (m, ph) (m', ph(i := phase_of r Chained))"
| unparsed: "ph i = Chained \<Longrightarrow> peer_id_from_leaf_cert_der X (fst (cs i)) = None \<Longrightarrow>
    step X v cs i (m, ph)
      (m, ph(i := Refused (General ''peer leaf certificate could not be parsed as X.509'')))"
| capture: "ph i = Chained \<Longrightarrow> peer_id_from_leaf_cert_der X (fst (cs i)) = Some d \<Longrightarrow>
    store_peer_id (cv_captured v) (Some d) m = (r, m') \<Longrightarrow>
    step X v cs i (m, ph) (m', ph(i := phase_of r (Captured d)))"
| settle: "ph i = Captured d \<Longrightarrow> after_capture X v (cs i) d = Ok None \<Longrightarrow>
    step X v cs i (m, ph) (m, ph(i := Accepted d))"
| bind_key: "ph i = Captured d \<Longrightarrow> after_capture X v (cs i) d = Ok (Some pub) \<Longrightarrow>
    store_bls (cv_captured_bls v) pub m = (r, m') \<Longrightarrow>
    step X v cs i (m, ph) (m', ph(i := phase_of r (Accepted d)))"
| refuse: "ph i = Captured d \<Longrightarrow> after_capture X v (cs i) d = r \<Longrightarrow> r \<in> {Panicked, Crashed} \<or> (\<exists>e. r = Err e) \<Longrightarrow>
    step X v cs i (m, ph) (m, ph(i := phase_of r (Accepted d)))"

text \<open>The states reachable from a memory with all connections at their start.\<close>

inductive reachable ::
  "crates \<Rightarrow> dig_client_cert_verifier \<Rightarrow> (nat \<Rightarrow> connection) \<Rightarrow> memory \<Rightarrow> race \<Rightarrow> bool"
  for X :: crates and v :: dig_client_cert_verifier and cs :: "nat \<Rightarrow> connection" and m0 :: memory
where
  init: "reachable X v cs m0 (m0, \<lambda>_. Start)"
| more: "reachable X v cs m0 s \<Longrightarrow> step X v cs i s s' \<Longrightarrow> reachable X v cs m0 s'"

inductive_cases stepE: "step X v cs i (m, ph) s'"

inductive_simps step_iff: "step X v cs i (m, ph) s'"

section \<open>A connection on its own\<close>

lemma pin_and_bind_stages:
  "pin_and_bind X (fst c) (cv_expected v) (cv_captured v) (cv_binding_policy v) (cv_captured_bls v) =
     (case peer_id_from_leaf_cert_der X (fst c) of
        None \<Rightarrow> throw (General ''peer leaf certificate could not be parsed as X.509'')
      | Some d \<Rightarrow>
          seq (store_peer_id (cv_captured v) (Some d)) (\<lambda>_.
          seq (pure_act (after_capture X v c d)) (\<lambda>k.
          seq (case k of None \<Rightarrow> ret () | Some pub \<Rightarrow> store_bls (cv_captured_bls v) pub) (\<lambda>_.
          ret d))))"
proof (cases "peer_id_from_leaf_cert_der X (fst c)")
  case (Some d)
  show ?thesis
    by (cases "cv_expected v"; cases "evaluate (verify_binding_from_leaf_cert X (fst c)) (cv_binding_policy v)")
      (auto simp: Some pin_and_bind_def after_capture_def seq_def fun_eq_iff
        split: prod.split outcome.split)
qed (simp add: pin_and_bind_def)

lemma verify_client_cert_stages:
  "verify_client_cert X v (fst c) (fst (snd c)) (snd (snd c)) =
     seq (chain_check X v c) (\<lambda>_.
     seq (pin_and_bind X (fst c) (cv_expected v) (cv_captured v) (cv_binding_policy v)
            (cv_captured_bls v)) (\<lambda>_. ret ()))"
  by (simp add: verify_client_cert_def chain_check_def)

abbreviation steps ::
  "crates \<Rightarrow> dig_client_cert_verifier \<Rightarrow> (nat \<Rightarrow> connection) \<Rightarrow> nat \<Rightarrow> race \<Rightarrow> race \<Rightarrow> bool" where
  "steps X v cs i \<equiv> rtranclp (step X v cs i)"

lemma steps_from_captured:
  assumes "ph i = Captured d"
    and "seq (pure_act (after_capture X v (cs i) d)) (\<lambda>k.
          seq (case k of None \<Rightarrow> ret () | Some pub \<Rightarrow> store_bls (cv_captured_bls v) pub) (\<lambda>_. ret d)) m = (r, m')"
  shows "steps X v cs i (m, ph) (m', ph(i := phase_of r (Accepted d)))"
proof (cases "after_capture X v (cs i) d")
  case (Ok k)
  show ?thesis
  proof (cases k)
    case None
    have "r = Ok d" and "m' = m" using assms(2) Ok None by (simp_all add: seq_def)
    then show ?thesis using step.settle [where ph = ph and i = i and cs = cs, OF assms(1)] Ok None by auto
  next
    case (Some pub)
    obtain r1 where s: "store_bls (cv_captured_bls v) pub m = (r1, m')"
      "phase_of r (Accepted d) = phase_of r1 (Accepted d)"
      using assms(2) Ok Some by (auto simp: seq_def split: prod.splits outcome.splits)
    show ?thesis
      unfolding s(2) using step.bind_key [where ph = ph and i = i and cs = cs, OF assms(1)] Ok Some s(1) by auto
  qed
next
  case (Err e)
  have "r = Err e" and "m' = m" using assms(2) Err by (simp_all add: seq_def)
  then show ?thesis using step.refuse [where ph = ph and i = i and cs = cs, OF assms(1) Err] by auto
next
  case Panicked
  have "r = Panicked" and "m' = m" using assms(2) Panicked by (simp_all add: seq_def)
  then show ?thesis using step.refuse [where ph = ph and i = i and cs = cs, OF assms(1) Panicked] by auto
next
  case Crashed
  have "r = Crashed" and "m' = m" using assms(2) Crashed by (simp_all add: seq_def)
  then show ?thesis using step.refuse [where ph = ph and i = i and cs = cs, OF assms(1) Crashed] by auto
qed

lemma steps_from_chained:
  assumes "ph i = Chained"
    and "pin_and_bind X (fst (cs i)) (cv_expected v) (cv_captured v) (cv_binding_policy v)
      (cv_captured_bls v) m = (r, m')"
  shows "steps X v cs i (m, ph)
    (m', ph(i := phase_of r (Accepted (the (peer_id_from_leaf_cert_der X (fst (cs i)))))))"
proof (cases "peer_id_from_leaf_cert_der X (fst (cs i))")
  case None
  then show ?thesis
    using assms(2) step.unparsed [where ph = ph and i = i and cs = cs, OF assms(1) None]
    by (auto simp: pin_and_bind_def)
next
  case (Some d)
  obtain r1 :: "(tls_error, unit) outcome" and m1
    where s: "store_peer_id (cv_captured v) (Some d) m = (r1, m1)" by fastforce
  have first: "step X v cs i (m, ph) (m1, ph(i := phase_of r1 (Captured d)))"
    by (rule step.capture [where ph = ph and i = i and cs = cs, OF assms(1) Some s])
  show ?thesis
  proof (cases r1)
    case (Ok u)
    with assms(2) s Some have "steps X v cs i (m1, ph(i := Captured d))
        (m', (ph(i := Captured d))(i := phase_of r (Accepted d)))"
      by (intro steps_from_captured) (simp_all add: pin_and_bind_stages seq_def)
    with first Ok Some show ?thesis by (auto intro: converse_rtranclp_into_rtranclp)
  qed (use assms(2) s Some first in \<open>auto simp: pin_and_bind_stages seq_def intro!: r_into_rtranclp\<close>)
qed

lemma steps_from_start:
  assumes "ph i = Start" and "cs i = (der, ims, now)"
    and "verify_client_cert X v der ims now m = (r, m')"
  shows "steps X v cs i (m, ph) (m', ph(i := phase_of r (Accepted (the (peer_id_from_leaf_cert_der X der)))))"
proof -
  obtain r1 m1 where s: "chain_check X v (cs i) m = (r1, m1)" by fastforce
  have first: "step X v cs i (m, ph) (m1, ph(i := phase_of r1 Chained))"
    by (rule step.chain [where ph = ph and i = i and cs = cs, OF assms(1) s])
  have run: "seq (chain_check X v (cs i)) (\<lambda>_.
     seq (pin_and_bind X (fst (cs i)) (cv_expected v) (cv_captured v) (cv_binding_policy v)
            (cv_captured_bls v)) (\<lambda>_. ret ())) m = (r, m')"
    using assms(2,3) verify_client_cert_stages [of X v "cs i"] by simp
  show ?thesis
  proof (cases r1)
    case (Ok u)
    obtain r2 where p: "pin_and_bind X (fst (cs i)) (cv_expected v) (cv_captured v) (cv_binding_policy v)
            (cv_captured_bls v) m1 = (r2, m')" "\<And>x. phase_of r x = phase_of r2 x"
      using run s Ok by (auto simp: seq_def split: prod.splits outcome.splits)
    have "steps X v cs i (m1, ph(i := Chained)) (m', (ph(i := Chained))(i := phase_of r2
        (Accepted (the (peer_id_from_leaf_cert_der X (fst (cs i)))))))"
      by (rule steps_from_chained [where cs = cs and i = i, OF _ p(1)]) simp
    with first Ok p(2) assms(2) show ?thesis by (auto intro: converse_rtranclp_into_rtranclp)
  qed (use run s first in \<open>auto simp: seq_def intro!: r_into_rtranclp\<close>)
qed

section \<open>What an interleaving can reach\<close>

definition leaf_ok :: "crates \<Rightarrow> dig_client_cert_verifier \<Rightarrow> connection \<Rightarrow> bool" where
  "leaf_ok X v c \<longleftrightarrow>
     chain_needed X (ca_usage (cv_require_ca_chain v) UsageClientAuth) (fst c) (fst (snd c)) (snd (snd c))"

definition trusted_client :: "crates \<Rightarrow> dig_client_cert_verifier \<Rightarrow> connection \<Rightarrow> bool" where
  "trusted_client X v c \<longleftrightarrow>
     trusted X (ca_usage (cv_require_ca_chain v) UsageClientAuth) (cv_expected v) (cv_binding_policy v)
       (fst c) (fst (snd c)) (snd (snd c))"

fun phase_ok :: "crates \<Rightarrow> dig_client_cert_verifier \<Rightarrow> connection \<Rightarrow> phase \<Rightarrow> bool" where
  "phase_ok X v c Start = True"
| "phase_ok X v c Chained = leaf_ok X v c"
| "phase_ok X v c (Captured d) = (leaf_ok X v c \<and> peer_id_from_leaf_cert_der X (fst c) = Some d)"
| "phase_ok X v c (Accepted d) = (trusted_client X v c \<and> peer_id_from_leaf_cert_der X (fst c) = Some d)"
| "phase_ok X v c (Refused e) = (\<not> trusted_client X v c)"
| "phase_ok X v c Aborted = False"

definition race_inv ::
  "crates \<Rightarrow> dig_client_cert_verifier \<Rightarrow> (nat \<Rightarrow> connection) \<Rightarrow> memory \<Rightarrow> race \<Rightarrow> bool" where
  "race_inv X v cs m0 s \<longleftrightarrow>
     healthy X (cv_captured v) (cv_captured_bls v) (fst s) \<and>
     (\<forall>i. phase_ok X v (cs i) (snd s i)) \<and>
     (seen (cv_captured v) (fst s) = seen (cv_captured v) m0 \<or>
      (\<exists>i. leaf_ok X v (cs i) \<and> seen (cv_captured v) (fst s) = peer_id_from_leaf_cert_der X (fst (cs i)))) \<and>
     (bound (cv_captured_bls v) (fst s) = bound (cv_captured_bls v) m0 \<or>
      (\<exists>i d. snd s i = Accepted d \<and> evaluate (verify_binding_from_leaf_cert X (fst (cs i))) (cv_binding_policy v)
          = Ok (bound (cv_captured_bls v) (fst s))))"

lemma chain_check_result:
  assumes "healthy X (cv_captured v) (cv_captured_bls v) m" and "chain_check X v c m = (r, m')"
  shows "healthy X (cv_captured v) (cv_captured_bls v) m' \<and>
    seen (cv_captured v) m' = seen (cv_captured v) m \<and>
    bound (cv_captured_bls v) m' = bound (cv_captured_bls v) m \<and>
    (r = Ok () \<and> leaf_ok X v c \<or> (\<exists>e. r = Err e) \<and> \<not> leaf_ok X v c)"
proof (cases "cv_require_ca_chain v")
  case True
  have "anchor_cell_ok X (ca_cell m)" using assms(1) by (simp add: healthy_def)
  from verify_chain_eq [OF this, of "fst c" "fst (snd c)" "snd (snd c)" UsageClientAuth] assms True
  show ?thesis
    by (auto simp: chain_check_def leaf_ok_def chain_needed_def ca_usage_def healthy_def seen_def bound_def
        anchor_cell_ok_after)
next
  case False
  with assms show ?thesis
    by (auto simp: chain_check_def leaf_ok_def chain_needed_def ca_usage_def)
qed

lemma after_capture_cases:
  "(\<exists>k. after_capture X v c d = Ok k \<and> cv_expected v \<in> {None, Some d} \<and>
      (k = None \<and> cv_binding_policy v = Off \<or>
       (\<exists>pub. k = Some pub \<and> evaluate (verify_binding_from_leaf_cert X (fst c)) (cv_binding_policy v) = Ok pub))) \<or>
   (\<exists>e. after_capture X v c d = Err e) \<and>
     (cv_expected v \<notin> {None, Some d} \<or>
      (\<exists>e. evaluate (verify_binding_from_leaf_cert X (fst c)) (cv_binding_policy v) = Err e))"
  by (cases "cv_expected v"; cases "evaluate (verify_binding_from_leaf_cert X (fst c)) (cv_binding_policy v)")
    (auto simp: after_capture_def)

lemma trusted_client_leaf: "trusted_client X v c \<Longrightarrow> leaf_ok X v c"
  by (simp add: trusted_client_def trusted_iff leaf_ok_def)

lemma trusted_client_id:
  "trusted_client X v c \<Longrightarrow> \<exists>d. peer_id_from_leaf_cert_der X (fst c) = Some d"
  by (auto simp: trusted_client_def trusted_iff)

lemma after_capture_untrusted:
  assumes "peer_id_from_leaf_cert_der X (fst c) = Some d" and "after_capture X v c d = Err e"
  shows "\<not> trusted_client X v c"
  using after_capture_cases [of X v c d] assms
  by (auto simp: trusted_client_def trusted_iff)

lemma after_capture_trusted:
  assumes "phase_ok X v c (Captured d)" and "after_capture X v c d = Ok k"
  shows "phase_ok X v c (Accepted d)"
proof -
  have "\<exists>b. evaluate (verify_binding_from_leaf_cert X (fst c)) (cv_binding_policy v) = Ok b"
    "cv_expected v \<in> {None, Some d}"
    using after_capture_cases [of X v c d] assms(2)
    by (auto simp: evaluate_cases split: binding_outcome.split)
  with assms(1) show ?thesis
    by (auto simp: trusted_client_def trusted_iff leaf_ok_def)
qed

lemma race_inv_phase:
  assumes "race_inv X v cs m0 (m, ph)" and "phase_ok X v (cs i) p" and "\<And>d. ph i \<noteq> Accepted d"
  shows "race_inv X v cs m0 (m, ph(i := p))"
proof -
  have "(ph(i := p)) j = Accepted d" if "ph j = Accepted d" for j d
    using that assms(3) by auto
  then have key: "(\<exists>i d. ph i = Accepted d \<and> E i) \<Longrightarrow> (\<exists>j d. (ph(i := p)) j = Accepted d \<and> E j)" for E
    by metis
  have phases: "phase_ok X v (cs j) ((ph(i := p)) j)" for j
    using assms(1,2) by (simp add: race_inv_def)
  note inv = assms(1) [unfolded race_inv_def fst_conv snd_conv]
  show ?thesis
    unfolding race_inv_def fst_conv snd_conv
  proof (intro conjI)
    show "\<forall>j. phase_ok X v (cs j) ((ph(i := p)) j)" using phases by blast
    show "bound (cv_captured_bls v) m = bound (cv_captured_bls v) m0 \<or>
      (\<exists>j d. (ph(i := p)) j = Accepted d \<and> evaluate (verify_binding_from_leaf_cert X (fst (cs j)))
          (cv_binding_policy v) = Ok (bound (cv_captured_bls v) m))"
      using inv [THEN conjunct2, THEN conjunct2, THEN conjunct2] by (rule disj_forward) (assumption, rule key)
  qed (use inv in simp_all)
qed


lemma race_inv_healthy: "race_inv X v cs m0 (m, ph) \<Longrightarrow> healthy X (cv_captured v) (cv_captured_bls v) m"
  by (simp add: race_inv_def)

lemma race_inv_phase_ok: "race_inv X v cs m0 (m, ph) \<Longrightarrow> phase_ok X v (cs i) (ph i)"
  by (simp add: race_inv_def)

lemma race_inv_capture:
  assumes "race_inv X v cs m0 (m, ph)" and "leaf_ok X v (cs i)"
    and "peer_id_from_leaf_cert_der X (fst (cs i)) = Some d"
  shows "race_inv X v cs m0 (with_peer (cv_captured v) (Some d) m, ph)"
proof -
  have "seen (cv_captured v) (with_peer (cv_captured v) (Some d) m) = Some d"
    and "bound b (with_peer (cv_captured v) (Some d) m) = bound b m" for b
    by (simp_all add: seen_def bound_def)
  moreover have "healthy X (cv_captured v) (cv_captured_bls v) (with_peer (cv_captured v) (Some d) m)"
    using race_inv_healthy [OF assms(1)] by (simp add: healthy_def)
  ultimately show ?thesis
    using assms unfolding race_inv_def fst_conv snd_conv by auto
qed

lemma race_inv_bind:
  assumes "race_inv X v cs m0 (m, ph)" and "ph i = Accepted d"
    and "evaluate (verify_binding_from_leaf_cert X (fst (cs i))) (cv_binding_policy v) = Ok pub"
  shows "race_inv X v cs m0 (with_bls (cv_captured_bls v) pub m, ph)"
proof -
  have "bound (cv_captured_bls v) (with_bls (cv_captured_bls v) pub m) = pub"
    and "seen p (with_bls (cv_captured_bls v) pub m) = seen p m" for p
    by (simp_all add: seen_def bound_def)
  moreover have "healthy X (cv_captured v) (cv_captured_bls v) (with_bls (cv_captured_bls v) pub m)"
    using race_inv_healthy [OF assms(1)] by (simp add: healthy_def)
  ultimately show ?thesis
    using assms unfolding race_inv_def fst_conv snd_conv by auto
qed

lemma step_keeps_inv:
  assumes inv: "race_inv X v cs m0 s" and "step X v cs i s s'"
  shows "race_inv X v cs m0 s'"
  using assms(2,1)
proof cases
  case (chain ph m r m')
  have h: "healthy X (cv_captured v) (cv_captured_bls v) m" using inv chain(1) by (simp add: race_inv_def)
  note c = chain_check_result [OF h chain(4)]
  have "race_inv X v cs m0 (m', ph)" using inv c unfolding race_inv_def chain(1) fst_conv snd_conv by simp
  moreover have "phase_ok X v (cs i) (phase_of r Chained)" using c trusted_client_leaf [of X v "cs i"] by auto
  ultimately show ?thesis unfolding chain(2) by (rule race_inv_phase) (simp add: chain(3))
next
  case (unparsed ph m)
  have "\<not> trusted_client X v (cs i)" using unparsed(4) trusted_client_id [of X v "cs i"] by auto
  with unparsed show ?thesis using inv by (auto intro: race_inv_phase)
next
  case (capture ph d m r m')
  note inv' = inv [unfolded capture(1)]
  have ok: "leaf_ok X v (cs i)" using race_inv_phase_ok [OF inv', of i] capture(3) by simp
  have "r = Ok ()" and m': "m' = with_peer (cv_captured v) (Some d) m"
    using capture(5) race_inv_healthy [OF inv'] by (simp_all add: store_healthy healthy_def)
  then show ?thesis
    unfolding capture(2) m' using race_inv_phase [OF race_inv_capture [OF inv' ok capture(4)], of i "Captured d"]
      ok capture(3,4) by simp
next
  case (settle ph d m)
  have "phase_ok X v (cs i) (Captured d)" using inv settle(1,3) by (auto simp: race_inv_def dest: spec [of _ i])
  from race_inv_phase [OF inv [unfolded settle(1)] after_capture_trusted [OF this settle(4)]]
  show ?thesis unfolding settle(2) by (simp add: settle(3))
next
  case (bind_key ph d pub m r m')
  note inv' = inv [unfolded bind_key(1)]
  have "phase_ok X v (cs i) (Captured d)" using race_inv_phase_ok [OF inv', of i] bind_key(3) by simp
  from race_inv_phase [OF inv' after_capture_trusted [OF this bind_key(4)]]
  have acc: "race_inv X v cs m0 (m, ph(i := Accepted d))" by (simp add: bind_key(3))
  have "r = Ok ()" and m': "m' = with_bls (cv_captured_bls v) pub m"
    using bind_key(5) race_inv_healthy [OF inv'] by (simp_all add: store_healthy healthy_def)
  moreover have "evaluate (verify_binding_from_leaf_cert X (fst (cs i))) (cv_binding_policy v) = Ok pub"
    using after_capture_cases [of X v "cs i" d] bind_key(4) by auto
  ultimately show ?thesis
    unfolding bind_key(2) m' using race_inv_bind [OF acc, of i d pub] by simp
next
  case (refuse ph d r m)
  obtain e where "r = Err e"
    using after_capture_cases [of X v "cs i" d] refuse(4,5) by auto
  moreover have "peer_id_from_leaf_cert_der X (fst (cs i)) = Some d"
    using race_inv_phase_ok [OF inv [unfolded refuse(1)], of i] refuse(3) by simp
  ultimately have "phase_ok X v (cs i) (Refused e)"
    using after_capture_untrusted refuse(4) by simp
  with race_inv_phase [OF inv [unfolded refuse(1)], of i "Refused e"] \<open>r = Err e\<close> show ?thesis
    unfolding refuse(2) by (simp add: refuse(3))
qed

lemma reachable_inv:
  assumes "reachable X v cs m0 s" and "healthy X (cv_captured v) (cv_captured_bls v) m0"
  shows "race_inv X v cs m0 s"
  using assms(1)
proof induction
  case init
  then show ?case using assms(2) by (simp add: race_inv_def)
next
  case (more s i s')
  then show ?case using step_keeps_inv by blast
qed

lemma reachable_steps:
  "steps X v cs i s s' \<Longrightarrow> reachable X v cs m0 s \<Longrightarrow> reachable X v cs m0 s'"
  by (induction rule: rtranclp_induct) (auto intro: more)

section \<open>Properties\<close>

text \<open>
  C33. A connection on its own does what \<open>verify_client_cert\<close> does. From any shared memory, the steps
  of one connection, uninterrupted, lead to exactly the memory and the verdict of the sequential
  call: the interleaved model refines into the code's function.
\<close>

theorem lone_connection_is_sequential:
  assumes "ph i = Start" and "cs i = (der, ims, now)" and "verify_client_cert X v der ims now m = (r, m')"
  shows "rtranclp (step X v cs i) (m, ph)
    (m', ph(i := phase_of r (Accepted (the (peer_id_from_leaf_cert_der X der)))))"
  using assms by (rule steps_from_start)

theorem lone_connection_is_sequential_witness:
  "\<exists>m'. rtranclp (step demo (client_verifier_new_spki_pinned demo None demo_p Required demo_b)
      (\<lambda>_. (demo_bound_leaf [5] [7] [1], [], 0)) 3) (demo_memory, \<lambda>_. Start)
    (m', (\<lambda>_. Start)(3 := Accepted (the (peer_id_from_leaf_cert_der demo (demo_bound_leaf [5] [7] [1])))))"
proof -
  let ?v = "client_verifier_new_spki_pinned demo None demo_p Required demo_b"
  obtain m' where "verify_client_cert demo ?v (demo_bound_leaf [5] [7] [1]) [] 0 demo_memory = (Ok (), m')"
    using trusted_is_accepted [OF demo_memory_healthy [of demo demo_p demo_b], of None None Required
        "demo_bound_leaf [5] [7] [1]" "[]" 0]
    by (auto simp: verify_client_cert_eq client_verifier_new_spki_pinned_def ca_usage_def demo_trusted_bound)
  from lone_connection_is_sequential [where i = 3 and ph = "\<lambda>_. Start"
      and cs = "\<lambda>_. (demo_bound_leaf [5] [7] [1], [], 0)", OF refl refl this]
  show ?thesis by auto
qed


text \<open>How far a connection is from its end.\<close>

fun work :: "phase \<Rightarrow> nat" where
  "work Start = 3"
| "work Chained = 2"
| "work (Captured d) = 1"
| "work _ = 0"

lemma work_phase_of: "work p < n \<Longrightarrow> work (phase_of r p) < n"
  by (cases r) simp_all

lemma work_accepted [simp]: "work (phase_of r (Accepted d)) = 0"
  by (cases r) simp_all

lemma step_works:
  assumes "step X v cs i (m, ph) (m', ph')"
  shows "work (ph' i) < work (ph i) \<and> (\<forall>j. j \<noteq> i \<longrightarrow> ph' j = ph j)"
  by (rule stepE [OF assms]) (auto intro!: work_phase_of)

lemma step_exists:
  assumes "0 < work (ph i)"
  shows "\<exists>s'. step X v cs i (m, ph) s'"
proof (cases "ph i")
  case Start
  then show ?thesis by (cases "chain_check X v (cs i) m") (auto simp: step_iff)
next
  case Chained
  then show ?thesis
    by (cases "peer_id_from_leaf_cert_der X (fst (cs i))") (auto simp: step_iff intro: prod.exhaust)
next
  case (Captured d)
  show ?thesis
  proof (cases "after_capture X v (cs i) d")
    case (Ok k)
    with Captured show ?thesis by (cases k) (auto simp: step_iff intro: prod.exhaust)
  qed (use Captured in \<open>auto simp: step_iff\<close>)
qed (use assms in simp_all)

text \<open>
  An unbounded run. At each moment \<open>t\<close> the scheduler gives a turn to one connection, \<open>f t\<close>, which takes
  its next step, or stays as it is when it has finished.
\<close>

definition run_of ::
  "crates \<Rightarrow> dig_client_cert_verifier \<Rightarrow> (nat \<Rightarrow> connection) \<Rightarrow> (nat \<Rightarrow> nat) \<Rightarrow> (nat \<Rightarrow> race) \<Rightarrow> bool" where
  "run_of X v cs f \<sigma> \<longleftrightarrow> (\<forall>t.
     step X v cs (f t) (\<sigma> t) (\<sigma> (Suc t)) \<or>
     (\<nexists>s'. step X v cs (f t) (\<sigma> t) s') \<and> \<sigma> (Suc t) = \<sigma> t)"

definition served :: "(nat \<Rightarrow> nat) \<Rightarrow> nat \<Rightarrow> bool" where
  "served f i \<longleftrightarrow> (\<forall>t. \<exists>t'\<ge>t. f t' = i)"

lemma run_exists: "\<exists>\<sigma>. \<sigma> 0 = s \<and> run_of X v cs f \<sigma>"
proof -
  have "\<exists>\<sigma>. \<forall>t. (t = 0 \<longrightarrow> \<sigma> t = s) \<and> (step X v cs (f t) (\<sigma> t) (\<sigma> (Suc t)) \<or>
     (\<nexists>s'. step X v cs (f t) (\<sigma> t) s') \<and> \<sigma> (Suc t) = \<sigma> t)"
    by (rule dependent_nat_choice [where P = "\<lambda>t x. t = 0 \<longrightarrow> x = s"]) auto
  then show ?thesis unfolding run_of_def by auto
qed

lemma run_reachable:
  assumes "run_of X v cs f \<sigma>" and "\<sigma> 0 = (m0, \<lambda>_. Start)"
  shows "reachable X v cs m0 (\<sigma> t)"
proof (induction t)
  case (Suc t)
  from assms(1) have "step X v cs (f t) (\<sigma> t) (\<sigma> (Suc t)) \<or> \<sigma> (Suc t) = \<sigma> t" by (auto simp: run_of_def)
  with Suc show ?case by (auto intro: more)
qed (simp add: assms(2) init)

lemma run_turn:
  assumes "run_of X v cs f \<sigma>"
  shows "snd (\<sigma> (Suc t)) i = snd (\<sigma> t) i \<and> (f t = i \<longrightarrow> work (snd (\<sigma> t) i) = 0) \<or>
    f t = i \<and> work (snd (\<sigma> (Suc t)) i) < work (snd (\<sigma> t) i)"
proof -
  obtain m ph m' ph' where s: "\<sigma> t = (m, ph)" "\<sigma> (Suc t) = (m', ph')" by fastforce
  consider "step X v cs (f t) (m, ph) (m', ph')"
    | "\<nexists>s'. step X v cs (f t) (m, ph) s'" "ph' = ph"
    using assms s unfolding run_of_def by (metis prod.inject)
  then show ?thesis
  proof cases
    case 1
    then show ?thesis using step_works [OF 1] s by (cases "i = f t") auto
  next
    case 2
    then show ?thesis using step_exists [of ph "f t" X v cs m] s by auto
  qed
qed

lemma run_work: "run_of X v cs f \<sigma> \<Longrightarrow> work (snd (\<sigma> (t + k)) i) \<le> work (snd (\<sigma> t) i)"
proof (induction k)
  case (Suc k)
  with run_turn [OF Suc.prems, of "t + k" i] show ?case by (auto intro: order_trans)
qed simp

lemma run_finished:
  assumes "run_of X v cs f \<sigma>" and "work (snd (\<sigma> t) i) = 0"
  shows "snd (\<sigma> (t + k)) i = snd (\<sigma> t) i"
proof (induction k)
  case (Suc k)
  with run_turn [OF assms(1), of "t + k" i] assms(2) show ?case by auto
qed simp

lemma run_finishes:
  assumes r: "run_of X v cs f \<sigma>" and "served f i"
  shows "\<exists>k. work (snd (\<sigma> (t + k)) i) = 0"
proof (induction "work (snd (\<sigma> t) i)" arbitrary: t rule: less_induct)
  case less
  obtain k where k: "f (t + k) = i" using assms(2) unfolding served_def by (metis le_Suc_ex)
  show ?case
  proof (cases "work (snd (\<sigma> (t + k)) i) = 0")
    case False
    then have "work (snd (\<sigma> (Suc (t + k))) i) < work (snd (\<sigma> t) i)"
      using run_turn [OF r, of "t + k" i] run_work [OF r, of t k i] k by auto
    from less [OF this] show ?thesis by (metis add.assoc add_Suc_shift)
  qed blast
qed

text \<open>
  C7. Every connection is answered, and rightly. Take any number of connections of one server
  configuration, even infinitely many, and any run in which the scheduler gives a connection a turn
  again and again, whatever it does with the others. Then there is a moment from which on this
  connection has its final verdict: accepted under the peer id of its leaf, if the leaf is trusted,
  and refused otherwise, whatever the leaves of the other connections are. A turn includes that the
  locks it needs are obtained: that a waiting thread gets a lock is the assumption on the scheduler.
\<close>

theorem every_connection_is_answered:
  assumes "healthy X (cv_captured v) (cv_captured_bls v) m0"
    and "\<sigma> 0 = (m0, \<lambda>_. Start)" and "run_of X v cs f \<sigma>" and "served f i"
  shows "\<exists>t p. (\<forall>t'\<ge>t. snd (\<sigma> t') i = p) \<and>
    (if trusted X (ca_usage (cv_require_ca_chain v) UsageClientAuth) (cv_expected v) (cv_binding_policy v)
          (fst (cs i)) (fst (snd (cs i))) (snd (snd (cs i)))
     then \<exists>d. peer_id_from_leaf_cert_der X (fst (cs i)) = Some d \<and> p = Accepted d
     else \<exists>e. p = Refused e)"
proof -
  obtain t where w: "work (snd (\<sigma> t) i) = 0"
    using run_finishes [OF assms(3,4), of 0] by auto
  have "race_inv X v cs m0 (fst (\<sigma> t), snd (\<sigma> t))"
    using reachable_inv [OF run_reachable [OF assms(3,2)] assms(1)] by simp
  from race_inv_phase_ok [OF this, of i]
  have ok: "phase_ok X v (cs i) (snd (\<sigma> t) i)" .
  have "if trusted_client X v (cs i)
     then \<exists>d. peer_id_from_leaf_cert_der X (fst (cs i)) = Some d \<and> snd (\<sigma> t) i = Accepted d
     else \<exists>e. snd (\<sigma> t) i = Refused e"
    using ok w by (cases "snd (\<sigma> t) i") auto
  moreover have "\<forall>t'\<ge>t. snd (\<sigma> t') i = snd (\<sigma> t) i"
    using run_finished [OF assms(3) w] by (metis le_Suc_ex)
  ultimately show ?thesis unfolding trusted_client_def by blast
qed

theorem every_connection_is_answered_witness:
  "\<exists>\<sigma> t. run_of demo (client_verifier_new_spki_pinned demo None demo_p Required demo_b)
      (\<lambda>i. if even i then (demo_bound_leaf [5] [7] [1], [], 0) else ([], [], 0)) (\<lambda>t. t mod 4) \<sigma> \<and>
    snd (\<sigma> 0) = (\<lambda>_. Start) \<and> snd (\<sigma> t) 2 = Accepted (PeerId (sha256_digest demo [5]))"
proof -
  let ?v = "client_verifier_new_spki_pinned demo None demo_p Required demo_b"
  let ?cs = "\<lambda>i :: nat. if even i then (demo_bound_leaf [5] [7] [1], [] :: bytes list, 0 :: int) else ([], [], 0)"
  let ?f = "\<lambda>t :: nat. t mod 4"
  obtain \<sigma> where \<sigma>: "\<sigma> 0 = (demo_memory, \<lambda>_. Start)" "run_of demo ?v ?cs ?f \<sigma>"
    using run_exists by blast
  have "\<exists>t'\<ge>t. t' mod 4 = 2" for t :: nat
    by (rule exI [of _ "2 + t * 4"]) (simp add: mod_mult_self1 del: add_2_eq_Suc)
  then have f: "served ?f 2" by (simp add: served_def)
  have h: "healthy demo (cv_captured ?v) (cv_captured_bls ?v) demo_memory"
    using demo_memory_healthy by (simp add: client_verifier_new_spki_pinned_def)
  have id: "peer_id_from_leaf_cert_der demo (demo_bound_leaf [5] [7] [1]) = Some (PeerId (sha256_digest demo [5]))"
    using demo_bound_leaf(1) [of "[5]" "[7]" "[1]"] by (auto simp: leaf_id_iff)
  have "trusted demo (ca_usage (cv_require_ca_chain ?v) UsageClientAuth) (cv_expected ?v) (cv_binding_policy ?v)
      (fst (?cs 2)) (fst (snd (?cs 2))) (snd (snd (?cs 2)))"
    by (simp add: client_verifier_new_spki_pinned_def ca_usage_def demo_trusted_bound)
  with every_connection_is_answered [OF h \<sigma> f] id
  obtain t where "\<forall>t'\<ge>t. snd (\<sigma> t') 2 = Accepted (PeerId (sha256_digest demo [5]))" by auto
  with \<sigma> show ?thesis by (intro exI [of _ \<sigma>] exI [of _ t]) auto
qed

text \<open>
  C6. No interleaving accepts an untrusted peer. In every state reachable by any number of
  connections in any order of their steps, an accepted connection's leaf is trusted and its peer id
  is the digest of that leaf's SPKI, no connection has panicked, and the handles hold what they held
  at the start, or the peer id of a leaf that passed the chain check and the outcome of the binding
  of an accepted leaf.
\<close>

theorem interleaving_is_safe:
  assumes "reachable X v cs m0 (m, ph)" and "healthy X (cv_captured v) (cv_captured_bls v) m0"
  shows "(\<forall>i d. ph i = Accepted d \<longrightarrow>
      trusted X (ca_usage (cv_require_ca_chain v) UsageClientAuth) (cv_expected v) (cv_binding_policy v)
        (fst (cs i)) (fst (snd (cs i))) (snd (snd (cs i))) \<and>
      peer_id_from_leaf_cert_der X (fst (cs i)) = Some d) \<and>
    (\<forall>i. ph i \<noteq> Aborted) \<and>
    (seen (cv_captured v) m = seen (cv_captured v) m0 \<or>
      (\<exists>i. leaf_ok X v (cs i) \<and> seen (cv_captured v) m = peer_id_from_leaf_cert_der X (fst (cs i)))) \<and>
    (bound (cv_captured_bls v) m = bound (cv_captured_bls v) m0 \<or>
      (\<exists>i d. ph i = Accepted d \<and> evaluate (verify_binding_from_leaf_cert X (fst (cs i))) (cv_binding_policy v)
          = Ok (bound (cv_captured_bls v) m)))"
proof -
  have inv: "race_inv X v cs m0 (m, ph)" by (rule reachable_inv [OF assms])
  have "phase_ok X v (cs i) (ph i)" for i using race_inv_phase_ok [OF inv] .
  then have "\<forall>i d. ph i = Accepted d \<longrightarrow> trusted_client X v (cs i) \<and>
      peer_id_from_leaf_cert_der X (fst (cs i)) = Some d" and "\<forall>i. ph i \<noteq> Aborted"
    by (metis phase_ok.simps(4), metis phase_ok.simps(6))
  then show ?thesis using inv by (simp add: trusted_client_def race_inv_def)
qed

lemma demo_lone_run:
  "\<exists>m. reachable demo (client_verifier_new_spki_pinned demo None demo_p Required demo_b)
      (\<lambda>_. (demo_bound_leaf [5] [7] [1], [], 0)) demo_memory
    (m, (\<lambda>_. Start)(3 := Accepted (PeerId (sha256_digest demo [5]))))"
proof -
  let ?v = "client_verifier_new_spki_pinned demo None demo_p Required demo_b"
  have id: "peer_id_from_leaf_cert_der demo (demo_bound_leaf [5] [7] [1]) = Some (PeerId (sha256_digest demo [5]))"
    using demo_bound_leaf(1) [of "[5]" "[7]" "[1]"] by (auto simp: leaf_id_iff)
  obtain m' where "verify_client_cert demo ?v (demo_bound_leaf [5] [7] [1]) [] 0 demo_memory = (Ok (), m')"
    using trusted_is_accepted [OF demo_memory_healthy [of demo demo_p demo_b], of None None Required
        "demo_bound_leaf [5] [7] [1]" "[]" 0]
    by (auto simp: verify_client_cert_eq client_verifier_new_spki_pinned_def ca_usage_def demo_trusted_bound)
  from steps_from_start [where i = 3 and ph = "\<lambda>_. Start"
      and cs = "\<lambda>_. (demo_bound_leaf [5] [7] [1], [], 0)", OF refl refl this]
  have "steps demo ?v (\<lambda>_. (demo_bound_leaf [5] [7] [1], [], 0)) 3 (demo_memory, \<lambda>_. Start)
      (m', (\<lambda>_. Start)(3 := Accepted (PeerId (sha256_digest demo [5]))))" using id by simp
  from reachable_steps [OF this init] show ?thesis by blast
qed

theorem interleaving_is_safe_witness:
  "trusted demo None None Required (demo_bound_leaf [5] [7] [1]) [] 0 \<and>
   peer_id_from_leaf_cert_der demo (demo_bound_leaf [5] [7] [1]) = Some (PeerId (sha256_digest demo [5]))"
proof -
  let ?v = "client_verifier_new_spki_pinned demo None demo_p Required demo_b"
  have v: "ca_usage (cv_require_ca_chain ?v) UsageClientAuth = None" "cv_expected ?v = None"
    "cv_binding_policy ?v = Required"
    by (simp_all add: client_verifier_new_spki_pinned_def ca_usage_def)
  obtain m where "reachable demo ?v (\<lambda>_. (demo_bound_leaf [5] [7] [1], [], 0)) demo_memory
    (m, (\<lambda>_. Start)(3 := Accepted (PeerId (sha256_digest demo [5]))))"
    using demo_lone_run by blast
  from interleaving_is_safe [OF this demo_memory_healthy, THEN conjunct1, rule_format, of 3] v
  show ?thesis by simp
qed

section \<open>Two handles, two peers\<close>

lemma captures_in_order:
  assumes "healthy X (cv_captured v) (cv_captured_bls v) m" and "ph i = Start" and "leaf_ok X v (cs i)"
    and "peer_id_from_leaf_cert_der X (fst (cs i)) = Some d"
  shows "\<exists>m'. steps X v cs i (m, ph) (m', ph(i := Captured d)) \<and>
    healthy X (cv_captured v) (cv_captured_bls v) m' \<and> seen (cv_captured v) m' = Some d \<and>
    bound (cv_captured_bls v) m' = bound (cv_captured_bls v) m"
proof -
  obtain r m1 where c: "chain_check X v (cs i) m = (r, m1)" by fastforce
  from chain_check_result [OF assms(1) c] assms(3)
  have m1: "healthy X (cv_captured v) (cv_captured_bls v) m1" "r = Ok ()"
    "bound (cv_captured_bls v) m1 = bound (cv_captured_bls v) m" by auto
  let ?m = "with_peer (cv_captured v) (Some d) m1"
  have "step X v cs i (m, ph) (m1, ph(i := Chained))"
    using step.chain [where ph = ph and i = i and cs = cs, OF assms(2) c] m1(2) by simp
  moreover have "store_peer_id (cv_captured v) (Some d) m1 = ((Ok () :: (tls_error, unit) outcome), ?m)"
    using m1(1) by (simp add: healthy_def store_healthy)
  from step.capture [where ph = "ph(i := Chained)" and i = i and cs = cs, OF _ assms(4) this]
  have "step X v cs i (m1, ph(i := Chained)) (?m, ph(i := Captured d))" by simp
  ultimately have "steps X v cs i (m, ph) (?m, ph(i := Captured d))"
    by (meson converse_rtranclp_into_rtranclp r_into_rtranclp)
  then show ?thesis using m1 by (intro exI [of _ ?m]) (auto simp: healthy_def seen_def bound_def)
qed

lemma binds_in_order:
  assumes "healthy X (cv_captured v) (cv_captured_bls v) m" and "ph i = Captured d"
    and "cv_expected v \<in> {None, Some d}" and "cv_binding_policy v \<noteq> Off"
    and "verify_binding_from_leaf_cert X (fst (cs i)) = Bound k"
  shows "\<exists>m'. steps X v cs i (m, ph) (m', ph(i := Accepted d)) \<and>
    healthy X (cv_captured v) (cv_captured_bls v) m' \<and> seen (cv_captured v) m' = seen (cv_captured v) m \<and>
    bound (cv_captured_bls v) m' = Some k"
proof -
  let ?m = "with_bls (cv_captured_bls v) (Some k) m"
  have a: "after_capture X v (cs i) d = Ok (Some (Some k))"
    using assms(3-5) by (simp add: after_capture_def evaluate_cases)
  have "store_bls (cv_captured_bls v) (Some k) m = ((Ok () :: (tls_error, unit) outcome), ?m)"
    using assms(1) by (simp add: healthy_def store_healthy)
  from step.bind_key [where ph = ph and i = i and cs = cs, OF assms(2) a this]
  have "step X v cs i (m, ph) (?m, ph(i := Accepted d))" by simp
  then show ?thesis
    using assms(1) by (intro exI [of _ ?m]) (auto simp: healthy_def seen_def bound_def)
qed

text \<open>
  C23. The handles can describe two different peers. Whenever two connections of one configuration
  present trusted leaves with valid bindings, some order of their steps ends with both accepted,
  the captured peer id that of the second and the captured BLS key that of the first; a caller
  that reads both handles to learn who connected and seals to that key uses the wrong key for that
  peer id.
\<close>

theorem captures_can_mix_peers:
  assumes h: "healthy X (cv_captured v) (cv_captured_bls v) m0"
    and open_server: "cv_expected v = None" "cv_binding_policy v \<noteq> Off"
    and leaves: "leaf_ok X v (cs 0)" "leaf_ok X v (cs 1)"
      "peer_id_from_leaf_cert_der X (fst (cs 0)) = Some a" "peer_id_from_leaf_cert_der X (fst (cs 1)) = Some b"
      "verify_binding_from_leaf_cert X (fst (cs 0)) = Bound ka"
      "verify_binding_from_leaf_cert X (fst (cs 1)) = Bound kb"
  shows "\<exists>m ph. reachable X v cs m0 (m, ph) \<and> ph 0 = Accepted a \<and> ph 1 = Accepted b \<and>
    seen (cv_captured v) m = Some b \<and> bound (cv_captured_bls v) m = Some ka"
proof -
  let ?ph = "\<lambda>_. Start"
  let ?h = "healthy X (cv_captured v) (cv_captured_bls v)"
  have free: "cv_expected v \<in> {None, Some d}" for d using open_server(1) by simp
  obtain m1 where 1: "steps X v cs 0 (m0, ?ph) (m1, ?ph(0 := Captured a))" "?h m1"
    using captures_in_order [where ph = ?ph and i = 0 and cs = cs, OF h _ leaves(1,3)] by auto
  obtain m2 where 2: "steps X v cs 1 (m1, ?ph(0 := Captured a)) (m2, ?ph(0 := Captured a, 1 := Captured b))"
    "?h m2" "seen (cv_captured v) m2 = Some b"
    using captures_in_order [where ph = "?ph(0 := Captured a)" and i = 1 and cs = cs, OF 1(2) _ leaves(2,4)] by auto
  obtain m3 where 3: "steps X v cs 1 (m2, ?ph(0 := Captured a, 1 := Captured b))
      (m3, ?ph(0 := Captured a, 1 := Accepted b))" "?h m3" "seen (cv_captured v) m3 = Some b"
    using binds_in_order [where ph = "?ph(0 := Captured a, 1 := Captured b)" and i = 1 and cs = cs,
        OF 2(2) _ free open_server(2) leaves(6)] 2(3) by auto
  let ?fin = "?ph(0 := Captured a, 1 := Accepted b, 0 := Accepted a)"
  obtain m4 where 4: "steps X v cs 0 (m3, ?ph(0 := Captured a, 1 := Accepted b)) (m4, ?fin)"
    "seen (cv_captured v) m4 = Some b" "bound (cv_captured_bls v) m4 = Some ka"
    using binds_in_order [where ph = "?ph(0 := Captured a, 1 := Accepted b)" and i = 0 and cs = cs,
        OF 3(2) _ free open_server(2) leaves(5)] 3(3) by auto
  have "reachable X v cs m0 (m4, ?fin)"
    by (rule reachable_steps [OF 4(1)], rule reachable_steps [OF 3(1)], rule reachable_steps [OF 2(1)],
        rule reachable_steps [OF 1(1)], rule init)
  with 4(2,3) show ?thesis by (intro exI [of _ m4] exI [of _ ?fin]) simp
qed

theorem captures_can_mix_peers_witness:
  "\<exists>m ph. reachable demo (client_verifier_new_spki_pinned demo None demo_p Required demo_b)
      (\<lambda>i. if i = 0 then (demo_bound_leaf [5] [7] [1], [], 0) else (demo_bound_leaf [6] [8] [1], [], 0))
      demo_memory (m, ph) \<and>
    ph 0 = Accepted (PeerId (sha256_digest demo [5])) \<and> ph 1 = Accepted (PeerId (sha256_digest demo [6])) \<and>
    seen demo_p m = Some (PeerId (sha256_digest demo [6])) \<and> bound demo_b m = Some (public_key_bytes demo [7])"
proof -
  let ?v = "client_verifier_new_spki_pinned demo None demo_p Required demo_b"
  let ?cs = "\<lambda>i :: nat. if i = 0 then (demo_bound_leaf [5] [7] [1], [] :: bytes list, 0 :: int)
      else (demo_bound_leaf [6] [8] [1], [], 0)"
  have v: "cv_expected ?v = None" "cv_binding_policy ?v \<noteq> Off" "cv_captured ?v = demo_p"
    "cv_captured_bls ?v = demo_b" "leaf_ok demo ?v c" for c
    by (simp_all add: client_verifier_new_spki_pinned_def leaf_ok_def chain_needed_def ca_usage_def)
  have id: "peer_id_from_leaf_cert_der demo (demo_bound_leaf k sk ik) = Some (PeerId (sha256_digest demo k))"
    for k sk ik
    using demo_bound_leaf(1) [of k sk ik] by (auto simp: leaf_id_iff)
  from captures_can_mix_peers [of demo ?v demo_memory ?cs, OF demo_memory_healthy v(1,2) v(5) v(5)]
  show ?thesis by (simp add: id demo_bound_leaf(2) v(3,4))
qed

end
