(* ===== verification/Dig_Config.thy ===== *)
theory Dig_Config
  imports Dig_Verify Dig_NodeCert
begin

text \<open>
  \<open>config.rs\<close>: the four ready-made configurations. Each allocates two new capture handles, builds
  the verifier over them, and hands the verifier, the node's certificate and its key to rustls. A
  rustls configuration is represented by what it was built from: the verifier, the chain and the
  key. The four functions are written out as the source has them; the lemmas treat them as
  instances of one construction.

  The contract of the allocator of handles is the locale \<open>handle_heap\<close>, interpreted for both kinds of
  handle: a new handle is empty, is none of those in use, and leaves what they hold.
\<close>

section \<open>Handles\<close>

definition captured_peer_id_default :: "(memory, 'e, captured_peer_id) action" where
  "captured_peer_id_default m =
     (Ok (CapturedPeerId (pnext m)),
      m\<lparr>pcells := (pcells m)(pnext m := \<lparr>mvalue = None, mpoisoned = False\<rparr>), pnext := Suc (pnext m)\<rparr>)"

definition captured_bls_pub_default :: "(memory, 'e, captured_bls_pub) action" where
  "captured_bls_pub_default m =
     (Ok (CapturedBlsPub (bnext m)),
      m\<lparr>bcells := (bcells m)(bnext m := \<lparr>mvalue = None, mpoisoned = False\<rparr>), bnext := Suc (bnext m)\<rparr>)"

section \<open>Configurations\<close>

record rustls_server_config =
  rs_verifier :: dig_client_cert_verifier
  rs_chain :: "bytes list"
  rs_key :: bytes

record rustls_client_config =
  rc_verifier :: dig_server_cert_verifier
  rc_chain :: "bytes list"
  rc_key :: bytes

record server_tls =
  st_config :: rustls_server_config
  st_captured_peer_id :: captured_peer_id
  st_captured_bls :: captured_bls_pub

record client_tls =
  ct_config :: rustls_client_config
  ct_captured_peer_id :: captured_peer_id
  ct_captured_bls :: captured_bls_pub

type_synonym 'a builder = "(memory, dig_tls_error, 'a) action"

definition server_config :: "crates \<Rightarrow> node_cert \<Rightarrow> binding_policy \<Rightarrow> server_tls builder" where
  "server_config X node policy =
     seq captured_peer_id_default (\<lambda>captured_peer_id.
     seq captured_bls_pub_default (\<lambda>captured_bls.
     (let verifier = client_verifier_new X None captured_peer_id policy captured_bls in
     seq (pure_act (map_err (\<lambda>e. RustlsConfig (''protocol versions: '' @ e))
            (safe_default_protocol_versions X))) (\<lambda>_.
     seq (pure_act (rustls_private_key X node)) (\<lambda>key.
     seq (pure_act (map_err (\<lambda>e. RustlsConfig (''server single cert: '' @ e))
            (server_single_cert X (rustls_cert_chain node) key))) (\<lambda>_.
     ret \<lparr>st_config = \<lparr>rs_verifier = verifier, rs_chain = rustls_cert_chain node, rs_key = key\<rparr>,
          st_captured_peer_id = captured_peer_id, st_captured_bls = captured_bls\<rparr>))))))"

definition client_config ::
  "crates \<Rightarrow> node_cert \<Rightarrow> peer_id option \<Rightarrow> binding_policy \<Rightarrow> client_tls builder" where
  "client_config X node expected policy =
     seq captured_peer_id_default (\<lambda>captured_peer_id.
     seq captured_bls_pub_default (\<lambda>captured_bls.
     (let verifier = server_verifier_new X expected captured_peer_id policy captured_bls in
     seq (pure_act (map_err (\<lambda>e. RustlsConfig (''protocol versions: '' @ e))
            (safe_default_protocol_versions X))) (\<lambda>_.
     seq (pure_act (rustls_private_key X node)) (\<lambda>key.
     seq (pure_act (map_err (\<lambda>e. RustlsConfig (''client auth cert: '' @ e))
            (client_auth_cert X (rustls_cert_chain node) key))) (\<lambda>_.
     ret \<lparr>ct_config = \<lparr>rc_verifier = verifier, rc_chain = rustls_cert_chain node, rc_key = key\<rparr>,
          ct_captured_peer_id = captured_peer_id, ct_captured_bls = captured_bls\<rparr>))))))"

definition server_config_spki_pinned :: "crates \<Rightarrow> node_cert \<Rightarrow> binding_policy \<Rightarrow> server_tls builder" where
  "server_config_spki_pinned X node policy =
     seq captured_peer_id_default (\<lambda>captured_peer_id.
     seq captured_bls_pub_default (\<lambda>captured_bls.
     (let verifier = client_verifier_new_spki_pinned X None captured_peer_id policy captured_bls in
     seq (pure_act (map_err (\<lambda>e. RustlsConfig (''protocol versions: '' @ e))
            (safe_default_protocol_versions X))) (\<lambda>_.
     seq (pure_act (rustls_private_key X node)) (\<lambda>key.
     seq (pure_act (map_err (\<lambda>e. RustlsConfig (''server single cert: '' @ e))
            (server_single_cert X (rustls_cert_chain node) key))) (\<lambda>_.
     ret \<lparr>st_config = \<lparr>rs_verifier = verifier, rs_chain = rustls_cert_chain node, rs_key = key\<rparr>,
          st_captured_peer_id = captured_peer_id, st_captured_bls = captured_bls\<rparr>))))))"

definition client_config_spki_pinned ::
  "crates \<Rightarrow> node_cert \<Rightarrow> peer_id option \<Rightarrow> binding_policy \<Rightarrow> client_tls builder" where
  "client_config_spki_pinned X node expected policy =
     seq captured_peer_id_default (\<lambda>captured_peer_id.
     seq captured_bls_pub_default (\<lambda>captured_bls.
     (let verifier = server_verifier_new_spki_pinned X expected captured_peer_id policy captured_bls in
     seq (pure_act (map_err (\<lambda>e. RustlsConfig (''protocol versions: '' @ e))
            (safe_default_protocol_versions X))) (\<lambda>_.
     seq (pure_act (rustls_private_key X node)) (\<lambda>key.
     seq (pure_act (map_err (\<lambda>e. RustlsConfig (''client auth cert: '' @ e))
            (client_auth_cert X (rustls_cert_chain node) key))) (\<lambda>_.
     ret \<lparr>ct_config = \<lparr>rc_verifier = verifier, rc_chain = rustls_cert_chain node, rc_key = key\<rparr>,
          ct_captured_peer_id = captured_peer_id, ct_captured_bls = captured_bls\<rparr>))))))"

section \<open>New handles\<close>






section \<open>The configurations as one construction\<close>

definition build_config ::
  "crates \<Rightarrow> node_cert \<Rightarrow> (bytes list \<Rightarrow> bytes \<Rightarrow> string + unit) \<Rightarrow> string \<Rightarrow>
   (bytes \<Rightarrow> captured_peer_id \<Rightarrow> captured_bls_pub \<Rightarrow> 't) \<Rightarrow> 't builder" where
  "build_config X node install label mk =
     seq captured_peer_id_default (\<lambda>p.
     seq captured_bls_pub_default (\<lambda>b.
     seq (pure_act (map_err (\<lambda>e. RustlsConfig (''protocol versions: '' @ e))
            (safe_default_protocol_versions X))) (\<lambda>_.
     seq (pure_act (rustls_private_key X node)) (\<lambda>key.
     seq (pure_act (map_err (\<lambda>e. RustlsConfig (label @ e)) (install (rustls_cert_chain node) key))) (\<lambda>_.
     ret (mk key p b))))))"

definition server_tls_of ::
  "(captured_peer_id \<Rightarrow> captured_bls_pub \<Rightarrow> dig_client_cert_verifier) \<Rightarrow> node_cert \<Rightarrow>
   bytes \<Rightarrow> captured_peer_id \<Rightarrow> captured_bls_pub \<Rightarrow> server_tls" where
  "server_tls_of v node key p b =
     \<lparr>st_config = \<lparr>rs_verifier = v p b, rs_chain = rustls_cert_chain node, rs_key = key\<rparr>,
      st_captured_peer_id = p, st_captured_bls = b\<rparr>"

definition client_tls_of ::
  "(captured_peer_id \<Rightarrow> captured_bls_pub \<Rightarrow> dig_server_cert_verifier) \<Rightarrow> node_cert \<Rightarrow>
   bytes \<Rightarrow> captured_peer_id \<Rightarrow> captured_bls_pub \<Rightarrow> client_tls" where
  "client_tls_of v node key p b =
     \<lparr>ct_config = \<lparr>rc_verifier = v p b, rc_chain = rustls_cert_chain node, rc_key = key\<rparr>,
      ct_captured_peer_id = p, ct_captured_bls = b\<rparr>"

lemma configs_eq:
  "server_config X node policy = build_config X node (server_single_cert X) ''server single cert: ''
     (server_tls_of (\<lambda>p b. client_verifier_new X None p policy b) node)"
  "server_config_spki_pinned X node policy = build_config X node (server_single_cert X) ''server single cert: ''
     (server_tls_of (\<lambda>p b. client_verifier_new_spki_pinned X None p policy b) node)"
  "client_config X node expected policy = build_config X node (client_auth_cert X) ''client auth cert: ''
     (client_tls_of (\<lambda>p b. server_verifier_new X expected p policy b) node)"
  "client_config_spki_pinned X node expected policy =
     build_config X node (client_auth_cert X) ''client auth cert: ''
       (client_tls_of (\<lambda>p b. server_verifier_new_spki_pinned X expected p policy b) node)"
  by (simp_all add: server_config_def server_config_spki_pinned_def client_config_def
      client_config_spki_pinned_def build_config_def Let_def server_tls_of_def client_tls_of_def)

text \<open>The memory a construction leaves: two new empty cells, everything else as it was.\<close>

definition with_new_handles :: "memory \<Rightarrow> memory" where
  "with_new_handles m =
     m\<lparr>pcells := (pcells m)(pnext m := \<lparr>mvalue = None, mpoisoned = False\<rparr>), pnext := Suc (pnext m),
       bcells := (bcells m)(bnext m := \<lparr>mvalue = None, mpoisoned = False\<rparr>), bnext := Suc (bnext m)\<rparr>"

lemma build_config_eq:
  "build_config X node install label mk m =
     ((case safe_default_protocol_versions X of
         Inl e \<Rightarrow> Err (RustlsConfig (''protocol versions: '' @ e))
       | Inr _ \<Rightarrow> (case private_key_der_try_from X (key_der node) of
             Inl _ \<Rightarrow> Panicked
           | Inr key \<Rightarrow> (case install (rustls_cert_chain node) key of
                 Inl e \<Rightarrow> Err (RustlsConfig (label @ e))
               | Inr _ \<Rightarrow> Ok (mk key (CapturedPeerId (pnext m)) (CapturedBlsPub (bnext m)))))),
      with_new_handles m)"
  by (auto simp: build_config_def seq_def captured_peer_id_default_def captured_bls_pub_default_def
      rustls_private_key_def with_new_handles_def split: sum.splits)

lemma build_config_Ok:
  "build_config X node install label mk m = (Ok t, m') \<longleftrightarrow>
     m' = with_new_handles m \<and> (\<exists>u key v. safe_default_protocol_versions X = Inr u \<and>
       private_key_der_try_from X (key_der node) = Inr key \<and>
       install (rustls_cert_chain node) key = Inr v \<and>
       t = mk key (CapturedPeerId (pnext m)) (CapturedBlsPub (bnext m)))"
  by (auto simp: build_config_eq split: sum.splits)

lemma new_handles_healthy:
  assumes "anchor_cell_ok X (ca_cell m)"
  shows "healthy X (CapturedPeerId (pnext m)) (CapturedBlsPub (bnext m)) (with_new_handles m)"
    and "seen (CapturedPeerId (pnext m)) (with_new_handles m) = None"
    and "bound (CapturedBlsPub (bnext m)) (with_new_handles m) = None"
  using assms by (simp_all add: healthy_def seen_def bound_def with_new_handles_def)



section \<open>Properties\<close>

text \<open>What the BLS handle of a new configuration holds after it accepted a leaf.\<close>

definition bound_key :: "crates \<Rightarrow> binding_policy \<Rightarrow> bytes \<Rightarrow> bytes option" where
  "bound_key X policy der =
     (if policy = Off then None
      else case verify_binding_from_leaf_cert X der of Bound k \<Rightarrow> Some k | _ \<Rightarrow> None)"

lemma accepted_handles:
  assumes h: "healthy X p b m" and run: "verify_peer X usage expected p policy b der ims now m = (Ok (), m')"
    and "bound b m = None"
  shows "captured_peer_id_get p m' = (Ok (peer_id_from_leaf_cert_der X der), m') \<and>
    captured_bls_pub_get b m' = (Ok (bound_key X policy der), m')"
proof -
  have "healthy X p b m'" using peer.answers [OF h run] by simp
  then show ?thesis
    using read_peer read_bls peer.accepted_is_seen [OF h run] peer.captures [OF h run] assms(3)
    by (simp add: bound_key_def)
qed

lemma server_wired:
  assumes "build_config X node install label (server_tls_of v node) m = (Ok t, m')" and "anchor_cell_ok X (ca_cell m)"
    and v: "\<And>p b. v p b = \<lparr>cv_expected = None, cv_captured = p, cv_binding_policy = policy, cv_captured_bls = b,
      cv_schemes = default_signature_schemes X, cv_root_hints = [], cv_require_ca_chain = ca\<rparr>"
  shows "captured_peer_id_get (st_captured_peer_id t) m' = (Ok None, m') \<and>
    captured_bls_pub_get (st_captured_bls t) m' = (Ok None, m') \<and>
    rs_chain (st_config t) = [cert_der node] \<and>
    (\<forall>der ims now.
       ((\<exists>m''. verify_client_cert X (rs_verifier (st_config t)) der ims now m' = (Ok (), m'')) \<longleftrightarrow>
          trusted X (ca_usage ca UsageClientAuth) None policy der ims now) \<and>
       (\<forall>m''. verify_client_cert X (rs_verifier (st_config t)) der ims now m' = (Ok (), m'') \<longrightarrow>
          captured_peer_id_get (st_captured_peer_id t) m'' = (Ok (peer_id_from_leaf_cert_der X der), m'') \<and>
          captured_bls_pub_get (st_captured_bls t) m'' = (Ok (bound_key X policy der), m'')))"
proof -
  let ?p = "CapturedPeerId (pnext m)" and ?b = "CapturedBlsPub (bnext m)"
  have m': "m' = with_new_handles m" and t: "st_captured_peer_id t = ?p" "st_captured_bls t = ?b"
    "rs_verifier (st_config t) = v ?p ?b" "rs_chain (st_config t) = [cert_der node]"
    using assms(1) by (auto simp: build_config_Ok server_tls_of_def rustls_cert_chain_def)
  note new = new_handles_healthy [OF assms(2), folded m']
  have "captured_peer_id_get ?p m'' = (Ok (peer_id_from_leaf_cert_der X der), m'') \<and>
      captured_bls_pub_get ?b m'' = (Ok (bound_key X policy der), m'')"
    if "verify_peer X (ca_usage ca UsageClientAuth) None ?p policy ?b der ims now m' = (Ok (), m'')"
    for der ims now m''
    using accepted_handles [OF new(1) that new(3)] .
  then show ?thesis
    using read_peer [OF new(1)] read_bls [OF new(1)] new(2,3) verify_peer_trusted(1) [OF new(1)]
    by (simp add: t v verify_client_cert_eq)
qed

text \<open>
  C26. The server configurations. The handles returned are new and empty, and they are the ones the
  configured verifier fills; the node's leaf is the whole chain presented. \<open>server_config\<close> accepts
  exactly the clients that chain to the shipped CA for client authentication and meet the policy,
  \<open>server_config_spki_pinned\<close> those that meet the policy; neither pins a caller, and on acceptance the
  returned handles give the client's peer id and the key its leaf is validly bound to, if any and
  unless the policy is \<open>Off\<close>.
\<close>

theorem server_configs_accept:
  assumes "anchor_cell_ok X (ca_cell m)"
    and "(if ca then server_config X node policy m else server_config_spki_pinned X node policy m) = (Ok t, m')"
  shows "captured_peer_id_get (st_captured_peer_id t) m' = (Ok None, m') \<and>
    captured_bls_pub_get (st_captured_bls t) m' = (Ok None, m') \<and>
    rs_chain (st_config t) = [cert_der node] \<and>
    (\<forall>der ims now.
       ((\<exists>m''. verify_client_cert X (rs_verifier (st_config t)) der ims now m' = (Ok (), m'')) \<longleftrightarrow>
          trusted X (ca_usage ca UsageClientAuth) None policy der ims now) \<and>
       (\<forall>m''. verify_client_cert X (rs_verifier (st_config t)) der ims now m' = (Ok (), m'') \<longrightarrow>
          captured_peer_id_get (st_captured_peer_id t) m'' = (Ok (peer_id_from_leaf_cert_der X der), m'') \<and>
          captured_bls_pub_get (st_captured_bls t) m'' = (Ok (bound_key X policy der), m'')))"
proof (cases ca)
  case True
  have b: "build_config X node (server_single_cert X) ''server single cert: ''
      (server_tls_of (\<lambda>p b. client_verifier_new X None p policy b) node) m = (Ok t, m')"
    using assms(2) True by (simp add: configs_eq)
  show ?thesis
    by (rule server_wired [OF b assms(1)]) (simp add: client_verifier_new_def True)
next
  case False
  have b: "build_config X node (server_single_cert X) ''server single cert: ''
      (server_tls_of (\<lambda>p b. client_verifier_new_spki_pinned X None p policy b) node) m = (Ok t, m')"
    using assms(2) False by (simp add: configs_eq)
  show ?thesis
    by (rule server_wired [OF b assms(1)]) (simp add: client_verifier_new_spki_pinned_def False)
qed

lemma demo_config [simp]:
  "\<exists>t. server_config demo node policy m = (Ok t, with_new_handles m)"
  "\<exists>t. server_config_spki_pinned demo node policy m = (Ok t, with_new_handles m)"
  "\<exists>t. client_config demo node e policy m = (Ok t, with_new_handles m)"
  "\<exists>t. client_config_spki_pinned demo node e policy m = (Ok t, with_new_handles m)"
  by (simp_all add: configs_eq build_config_Ok) (simp_all add: demo_def)

definition demo_node :: node_cert where
  "demo_node = \<lparr>cert_pem = '''', key_pem = '''', cert_der = [1], key_der = [2], spki_der = [2],
     node_peer_id = PeerId []\<rparr>"

theorem server_configs_accept_witness:
  "\<exists>t m' m''. server_config_spki_pinned demo demo_node Opportunistic demo_memory = (Ok t, m') \<and>
     captured_peer_id_get (st_captured_peer_id t) m' = (Ok None, m') \<and>
     verify_client_cert demo (rs_verifier (st_config t)) (demo_plain_leaf [5] [1]) [] 0 m' = (Ok (), m'')"
proof -
  obtain t where t: "server_config_spki_pinned demo demo_node Opportunistic demo_memory =
      (Ok t, with_new_handles demo_memory)"
    using demo_config(2) by blast
  have "anchor_cell_ok demo (ca_cell demo_memory)" by (simp add: demo_memory_def anchor_cell_ok_def)
  from server_configs_accept [OF this, of False demo_node Opportunistic t "with_new_handles demo_memory"] t
  have c: "captured_peer_id_get (st_captured_peer_id t) (with_new_handles demo_memory) =
      (Ok None, with_new_handles demo_memory)"
    "\<exists>m''. verify_client_cert demo (rs_verifier (st_config t)) (demo_plain_leaf [5] [1]) [] 0
        (with_new_handles demo_memory) = (Ok (), m'')"
    by (simp_all add: ca_usage_def demo_trusted_plain)
  with t show ?thesis by blast
qed

lemma client_wired:
  assumes "build_config X node install label (client_tls_of v node) m = (Ok t, m')" and "anchor_cell_ok X (ca_cell m)"
    and v: "\<And>p b. v p b = \<lparr>sv_expected = expected, sv_captured = p, sv_binding_policy = policy,
      sv_captured_bls = b, sv_schemes = default_signature_schemes X, sv_require_ca_chain = ca\<rparr>"
  shows "captured_peer_id_get (ct_captured_peer_id t) m' = (Ok None, m') \<and>
    captured_bls_pub_get (ct_captured_bls t) m' = (Ok None, m') \<and>
    rc_chain (ct_config t) = [cert_der node] \<and>
    (\<forall>der ims name ocsp now.
       ((\<exists>m''. verify_server_cert X (rc_verifier (ct_config t)) der ims name ocsp now m' = (Ok (), m'')) \<longleftrightarrow>
          trusted X (ca_usage ca UsageServerAuth) expected policy der ims now) \<and>
       (\<forall>m''. verify_server_cert X (rc_verifier (ct_config t)) der ims name ocsp now m' = (Ok (), m'') \<longrightarrow>
          captured_peer_id_get (ct_captured_peer_id t) m'' = (Ok (peer_id_from_leaf_cert_der X der), m'') \<and>
          captured_bls_pub_get (ct_captured_bls t) m'' = (Ok (bound_key X policy der), m'')))"
proof -
  let ?p = "CapturedPeerId (pnext m)" and ?b = "CapturedBlsPub (bnext m)"
  have m': "m' = with_new_handles m" and t: "ct_captured_peer_id t = ?p" "ct_captured_bls t = ?b"
    "rc_verifier (ct_config t) = v ?p ?b" "rc_chain (ct_config t) = [cert_der node]"
    using assms(1) by (auto simp: build_config_Ok client_tls_of_def rustls_cert_chain_def)
  note new = new_handles_healthy [OF assms(2), folded m']
  have "captured_peer_id_get ?p m'' = (Ok (peer_id_from_leaf_cert_der X der), m'') \<and>
      captured_bls_pub_get ?b m'' = (Ok (bound_key X policy der), m'')"
    if "verify_peer X (ca_usage ca UsageServerAuth) expected ?p policy ?b der ims now m' = (Ok (), m'')"
    for der ims now m''
    using accepted_handles [OF new(1) that new(3)] .
  then show ?thesis
    using read_peer [OF new(1)] read_bls [OF new(1)] new(2,3) verify_peer_trusted(1) [OF new(1)]
    by (simp add: t v verify_server_cert_eq)
qed

text \<open>
  C27. The client configurations. The same for the dialing side: \<open>client_config\<close> accepts exactly the
  servers that chain to the shipped CA for server authentication, have the expected peer id when
  one is given and meet the policy, \<open>client_config_spki_pinned\<close> drops the chain and nothing else;
  on acceptance the returned handles give the server's peer id and its bound key.
\<close>

theorem client_configs_accept:
  assumes "anchor_cell_ok X (ca_cell m)"
    and "(if ca then client_config X node expected policy m
          else client_config_spki_pinned X node expected policy m) = (Ok t, m')"
  shows "captured_peer_id_get (ct_captured_peer_id t) m' = (Ok None, m') \<and>
    captured_bls_pub_get (ct_captured_bls t) m' = (Ok None, m') \<and>
    rc_chain (ct_config t) = [cert_der node] \<and>
    (\<forall>der ims name ocsp now.
       ((\<exists>m''. verify_server_cert X (rc_verifier (ct_config t)) der ims name ocsp now m' = (Ok (), m'')) \<longleftrightarrow>
          trusted X (ca_usage ca UsageServerAuth) expected policy der ims now) \<and>
       (\<forall>m''. verify_server_cert X (rc_verifier (ct_config t)) der ims name ocsp now m' = (Ok (), m'') \<longrightarrow>
          captured_peer_id_get (ct_captured_peer_id t) m'' = (Ok (peer_id_from_leaf_cert_der X der), m'') \<and>
          captured_bls_pub_get (ct_captured_bls t) m'' = (Ok (bound_key X policy der), m'')))"
proof (cases ca)
  case True
  have b: "build_config X node (client_auth_cert X) ''client auth cert: ''
      (client_tls_of (\<lambda>p b. server_verifier_new X expected p policy b) node) m = (Ok t, m')"
    using assms(2) True by (simp add: configs_eq)
  show ?thesis
    by (rule client_wired [OF b assms(1)]) (simp add: server_verifier_new_def True)
next
  case False
  have b: "build_config X node (client_auth_cert X) ''client auth cert: ''
      (client_tls_of (\<lambda>p b. server_verifier_new_spki_pinned X expected p policy b) node) m = (Ok t, m')"
    using assms(2) False by (simp add: configs_eq)
  show ?thesis
    by (rule client_wired [OF b assms(1)]) (simp add: server_verifier_new_spki_pinned_def False)
qed

theorem client_configs_accept_witness:
  "\<exists>t m'. client_config_spki_pinned demo demo_node (Some (PeerId (sha256_digest demo [4]))) Off demo_memory
       = (Ok t, m') \<and>
     (\<nexists>m''. verify_server_cert demo (rc_verifier (ct_config t)) (demo_plain_leaf [5] [1]) [] '''' [] 0 m'
       = (Ok (), m''))"
proof -
  let ?e = "Some (PeerId (sha256_digest demo [4]))"
  obtain t where t: "client_config_spki_pinned demo demo_node ?e Off demo_memory =
      (Ok t, with_new_handles demo_memory)"
    using demo_config(4) by blast
  have "sha256_digest demo [4] \<noteq> sha256_digest demo [5]" by (simp add: demo_def demo_pad_def)
  then have "\<not> trusted demo (ca_usage False UsageServerAuth) ?e Off (demo_plain_leaf [5] [1]) [] 0"
    by (simp add: ca_usage_def demo_trusted_plain)
  moreover have "anchor_cell_ok demo (ca_cell demo_memory)" by (simp add: demo_memory_def anchor_cell_ok_def)
  note client_configs_accept [OF this, of False demo_node ?e Off t "with_new_handles demo_memory"]
  ultimately show ?thesis using t by (intro exI [of _ t] exI [of _ "with_new_handles demo_memory"]) auto
qed




text \<open>rustls-pki-types accepts every key that rcgen serialises.\<close>

definition pkcs8_accepted :: "crates \<Rightarrow> bool" where
  "pkcs8_accepted X \<longleftrightarrow> (\<forall>k. \<exists>d. private_key_der_try_from X (keypair_serialize_der X k) = Inr d)"

text \<open>rustls has the protocol versions and takes the node's certificate and key.\<close>

definition rustls_takes :: "crates \<Rightarrow> (bytes list \<Rightarrow> bytes \<Rightarrow> string + unit) \<Rightarrow> node_cert \<Rightarrow> bool" where
  "rustls_takes X install node \<longleftrightarrow>
     (\<exists>u v key. safe_default_protocol_versions X = Inr u \<and>
        private_key_der_try_from X (key_der node) = Inr key \<and> install [cert_der node] key = Inr v)"

lemma build_config_outcome:
  assumes "pkcs8_accepted X" and "node_cert_wf X node"
  shows "case fst (build_config X node install label mk m) of
       Ok t \<Rightarrow> rustls_takes X install node
     | Err e \<Rightarrow> (\<exists>s. e = RustlsConfig s) \<and> \<not> rustls_takes X install node
     | _ \<Rightarrow> False"
proof -
  obtain k where "key_der node = keypair_serialize_der X k"
    using assms(2) by (auto simp: node_cert_wf_def split: sum.splits)
  with assms(1) obtain key where "private_key_der_try_from X (key_der node) = Inr key"
    by (auto simp: pkcs8_accepted_def)
  then show ?thesis
    by (auto simp: build_config_eq rustls_cert_chain_def rustls_takes_def split: sum.splits)
qed

text \<open>
  C35. Building a configuration does not panic. If rustls-pki-types accepts every key that rcgen
  serialises, then for a well-formed node each of the four functions returns a configuration or a
  \<open>RustlsConfig\<close> error, and it returns a configuration exactly when rustls has the protocol versions
  and takes the certificate and key. The \<open>expect\<close> of \<open>rustls_private_key\<close> is never reached.
\<close>

theorem configs_do_not_panic:
  assumes "pkcs8_accepted X" and "node_cert_wf X node"
  shows "(\<forall>r \<in> {fst (server_config X node policy m), fst (server_config_spki_pinned X node policy m)}.
      case r of
        Ok t \<Rightarrow> rustls_takes X (server_single_cert X) node
      | Err e \<Rightarrow> (\<exists>s. e = RustlsConfig s) \<and> \<not> rustls_takes X (server_single_cert X) node
      | _ \<Rightarrow> False) \<and>
    (\<forall>r \<in> {fst (client_config X node expected policy m), fst (client_config_spki_pinned X node expected policy m)}.
      case r of
        Ok t \<Rightarrow> rustls_takes X (client_auth_cert X) node
      | Err e \<Rightarrow> (\<exists>s. e = RustlsConfig s) \<and> \<not> rustls_takes X (client_auth_cert X) node
      | _ \<Rightarrow> False)"
  unfolding configs_eq by (simp only: ball_simps simp_thms build_config_outcome [OF assms])

theorem configs_do_not_panic_witness:
  "\<exists>n. case fst (server_config demo n Required demo_memory) of
      Ok t \<Rightarrow> rustls_takes demo (server_single_cert demo) n
    | Err e \<Rightarrow> (\<exists>s. e = RustlsConfig s) \<and> \<not> rustls_takes demo (server_single_cert demo) n
    | _ \<Rightarrow> False"
proof -
  obtain n where "generate_signed demo [1] [5] 0 = Ok n"
    using demo_generate_signed [of 0 "[1]" "[5]"] by auto
  then have wf: "node_cert_wf demo n" by (rule generate_signed_wf [OF demo_keypair_round_trip])
  have "pkcs8_accepted demo" by (simp add: pkcs8_accepted_def demo_def)
  from configs_do_not_panic [OF this wf, of Required demo_memory None] show ?thesis by blast
qed

end
