(* ===== verification/Dig_Network.thy ===== *)
theory Dig_Network
  imports Dig_NodeCert Dig_Config
begin

text \<open>
  A certificate minted under the shipped CA, met by a peer's verifier. The laws a handshake rests on
  are collected in \<open>handshake_laws\<close>; the lemmas show that such a leaf chains, that it is trusted by
  either verifier under every policy, and what the handles hold after it was accepted.
\<close>

section \<open>Minted certificates in a handshake\<close>

text \<open>
  The documented behaviour of webpki for the shipped CA: the certificate of an end entity (webpki
  refuses a CA certificate in its place), signed by it with the usage's extended key usage and no
  custom extension but under a private-enterprise OID, is accepted, without intermediates, during
  its validity.
\<close>

definition leaf_profile :: "cert_params \<Rightarrow> bool" where
  "leaf_profile p \<longleftrightarrow> params_is_ca p \<in> {NoCa, ExplicitNoCa} \<and>
     list_all (\<lambda>e. case e of OidContent oid v \<Rightarrow> private_oid oid) (custom_extensions p)"

definition eku_of :: "key_usage \<Rightarrow> ext_key_usage_purpose" where
  "eku_of u = (case u of UsageServerAuth \<Rightarrow> ServerAuth | UsageClientAuth \<Rightarrow> ClientAuth)"

definition webpki_accepts_signed :: "crates \<Rightarrow> bool" where
  "webpki_accepts_signed X \<longleftrightarrow>
     anchor X \<noteq> [] \<and>
     (\<forall>ca p k c der rest u t. embedded X = Ok ca \<longrightarrow>
        leaf_profile p \<longrightarrow> params_signed_by X p k (ca_cert ca) (ca_key ca) = Inr c \<longrightarrow>
        pemfile_certs X (as_bytes (certificate_pem X c)) = Inr der # rest \<longrightarrow>
        eku_of u \<in> set (extended_key_usages p) \<longrightarrow> not_before p \<le> t \<longrightarrow> t \<le> not_after p \<longrightarrow>
        (\<exists>a ee. anchor_from_trusted_cert X (anchor X) = Inr a \<and> end_entity_try_from X der = Inr ee \<and>
           verify_for_usage X ee CHAIN_SIG_ALGS [a] [] t u = Inr ()))"

definition handshake_laws :: "crates \<Rightarrow> bool" where
  "handshake_laws X \<longleftrightarrow> rcgen_reads_back X \<and> rcgen_defaults X \<and> keypair_round_trip X \<and> time_exact X \<and>
     bls_correct X \<and> bls_lengths X \<and> webpki_accepts_signed X"

lemma minted_profile:
  "rcgen_defaults X \<Longrightarrow> params_new X [] = Inr params \<Longrightarrow>
   leaf_profile (attach_binding X (leaf_params params nb na san) key sk)"
  by (auto simp: rcgen_defaults_def leaf_profile_def attach_binding_def leaf_params_def Let_def binding_oid_private)

lemma minted_chains:
  assumes "handshake_laws X" and "generate_signed X sk rnd now = Ok n"
    and "now - 3600 \<le> t" and "t \<le> now + 3650 * 86400"
  shows "chains X (cert_der n) [] t u"
proof -
  from assms(2) obtain ca key params nb na san c where ca: "embedded X = Ok ca"
    and d: "offset_date_time_sub X now CLOCK_SKEW_BACKDATE = Some nb"
      "offset_date_time_add X now LEAF_LIFETIME = Some na"
    and p: "params_new X [] = Inr params"
    and c: "params_signed_by X (attach_binding X (leaf_params params nb na san) key sk)
          key (ca_cert ca) (ca_key ca) = Inr c"
    and n: "from_parts X (certificate_pem X c) (keypair_serialize_pem X key) key = Ok n"
    by (auto simp: generate_signed_Ok generate_signed_by_Ok)
  let ?p = "attach_binding X (leaf_params params nb na san) key sk"
  have "nb = now - 3600" and "na = now + 3650 * 86400"
    using assms(1) d
    by (auto simp: handshake_laws_def time_exact_def CLOCK_SKEW_BACKDATE_def LEAF_LIFETIME_def
        duration_hours_def duration_days_def)
  then have "not_before ?p \<le> t" "t \<le> not_after ?p" "eku_of u \<in> set (extended_key_usages ?p)"
    using assms(3,4) by (cases u; simp add: attach_binding_def leaf_params_def Let_def eku_of_def)+
  moreover have "leaf_profile ?p"
    using assms(1) p by (intro minted_profile) (simp_all add: handshake_laws_def)
  moreover have "first_pem_cert X (certificate_pem X c) = Some (cert_der n)"
    using n by (auto simp: from_parts_Ok)
  then obtain rest where "pemfile_certs X (as_bytes (certificate_pem X c)) = Inr (cert_der n) # rest"
    by (auto simp: first_pem_cert_def split: list.splits sum.splits)
  ultimately show ?thesis
    using assms(1) ca c unfolding handshake_laws_def webpki_accepts_signed_def chains_def by blast
qed

text \<open>A well-formed node's certificate has the node's peer id.\<close>

lemma node_leaf_id:
  assumes "node_cert_wf X n"
  shows "peer_id_from_leaf_cert_der X (cert_der n) = Some (node_peer_id n)"
  using assms by (auto simp: node_cert_wf_def peer_id_from_leaf_cert_der_def split: sum.splits)

lemma minted_trusted:
  assumes "handshake_laws X" and "bls_key_ok X sk" and "generate_signed X sk rnd now = Ok n"
    and "now - 3600 \<le> t" and "t \<le> now + 3650 * 86400" and "expected \<in> {None, Some (node_peer_id n)}"
  shows "trusted X usage expected policy (cert_der n) [] t"
    and "verify_binding_from_leaf_cert X (cert_der n) = Bound (public_key_bytes X sk)"
    and "peer_id_from_leaf_cert_der X (cert_der n) = Some (node_peer_id n)"
proof -
  obtain ca where ca: "generate_signed_by X ca sk rnd now = Ok n"
    using assms(3) by (auto simp: generate_signed_Ok)
  show b: "verify_binding_from_leaf_cert X (cert_der n) = Bound (public_key_bytes X sk)"
    using generate_signed_by_bound [OF _ _ _ _ assms(2) ca] assms(1) by (simp add: handshake_laws_def)
  have "node_cert_wf X n" using generate_signed_wf [OF _ assms(3)] assms(1) by (simp add: handshake_laws_def)
  then show i: "peer_id_from_leaf_cert_der X (cert_der n) = Some (node_peer_id n)" by (rule node_leaf_id)
  show "trusted X usage expected policy (cert_der n) [] t"
    using minted_chains [OF assms(1,3-5)] assms(6) b i
    by (cases usage) (auto simp: trusted_iff chain_needed_def evaluate_cases)
qed

text \<open>One side of a handshake: the verifier's decision on a minted peer and what it captures.\<close>

lemma minted_accepted:
  assumes "handshake_laws X" and "bls_key_ok X sk" and "generate_signed X sk rnd now = Ok n"
    and "now - 3600 \<le> t" and "t \<le> now + 3650 * 86400" and "expected \<in> {None, Some (node_peer_id n)}"
    and h: "healthy X p b m"
  shows "\<exists>m'. verify_peer X usage expected p policy b (cert_der n) [] t m = (Ok (), m') \<and>
    captured_peer_id_get p m' = (Ok (Some (node_peer_id n)), m') \<and>
    (policy \<noteq> Off \<longrightarrow> captured_bls_pub_get b m' = (Ok (Some (public_key_bytes X sk)), m'))"
proof -
  note minted = minted_trusted [OF assms(1-6)]
  obtain m' where run: "verify_peer X usage expected p policy b (cert_der n) [] t m = (Ok (), m')"
    using trusted_is_accepted [OF h minted(1)] by blast
  have "healthy X p b m'" using peer.answers [OF h run] by simp
  with run peer.accepted_is_seen [OF h run] peer.captures [OF h run] read_peer read_bls minted(2,3)
  show ?thesis by (intro exI [of _ m']) auto
qed

lemma server_config_parts:
  assumes "server_config X node policy m = (Ok s, m1)" and "anchor_cell_ok X (ca_cell m)"
  shows "rs_verifier (st_config s) =
      client_verifier_new X None (st_captured_peer_id s) policy (st_captured_bls s) \<and>
    rs_chain (st_config s) = [cert_der node] \<and>
    healthy X (st_captured_peer_id s) (st_captured_bls s) m1"
  using assms new_handles_healthy(1) [OF assms(2)]
  by (auto simp: configs_eq build_config_Ok server_tls_of_def rustls_cert_chain_def)

lemma client_config_parts:
  assumes "client_config X node expected policy m = (Ok s, m1)" and "anchor_cell_ok X (ca_cell m)"
  shows "rc_verifier (ct_config s) =
      server_verifier_new X expected (ct_captured_peer_id s) policy (ct_captured_bls s) \<and>
    rc_chain (ct_config s) = [cert_der node] \<and>
    healthy X (ct_captured_peer_id s) (ct_captured_bls s) m1"
  using assms new_handles_healthy(1) [OF assms(2)]
  by (auto simp: configs_eq build_config_Ok client_tls_of_def rustls_cert_chain_def)

lemma demo_handshake_laws: "handshake_laws demo"
proof -
  have "\<exists>ee. end_entity_try_from demo (demo_cert p k [99]) = Inr ee \<and>
      verify_for_usage demo ee CHAIN_SIG_ALGS [a] [] t u = Inr ()" for p k a t u
    using demo_chains [of p k "[99]" "[]" t u] by (auto simp: chains_def demo_def)
  then have "webpki_accepts_signed demo"
    using demo_embedded by (auto simp: webpki_accepts_signed_def demo_anchor) (auto simp: demo_def)
  then show ?thesis
    by (simp add: handshake_laws_def demo_laws)
qed

end
