(* ===== verification/Dig_Testing.thy ===== *)
theory Dig_Testing
  imports Dig_Dates Dig_Network "HOL-Library.Sublist"
begin

text \<open>
  The ground the crate's unit tests stand on. A test is a computation that panics when one of its
  assertions, \<open>unwrap\<close>s or \<open>expect\<close>s fails; it passes when it returns. This theory has the assertions
  and unwraps of the standard library, the functions of other crates that only the tests call (one
  more record of parameters), the random draws and clock readings of a test, and the laws the tests
  rely on, as named predicates.
\<close>

section \<open>Assertions and unwraps\<close>

text \<open>A test has no error of its own: what fails in it panics.\<close>

type_synonym test = "(unit, unit) outcome"
type_synonym 's test_on = "('s, unit, unit) action"

definition passes :: "test \<Rightarrow> bool" where
  "passes t \<longleftrightarrow> t = Ok ()"

definition assert_that :: "bool \<Rightarrow> ('e, unit) outcome" where
  "assert_that b = (if b then Ok () else Panicked)"

text \<open>\<open>Result::unwrap\<close> (and \<open>expect\<close>), \<open>Result::expect_err\<close>, \<open>Result::is_ok\<close> and \<open>is_err\<close>; the same of
  a computation on a state. \<open>Option::unwrap\<close> is \<open>or_panic\<close>.\<close>

fun unwrap :: "('e, 'a) outcome \<Rightarrow> ('f, 'a) outcome" where
  "unwrap (Ok a) = Ok a"
| "unwrap (Err e) = Panicked"
| "unwrap Panicked = Panicked"
| "unwrap Crashed = Crashed"

fun expect_err :: "('e, 'a) outcome \<Rightarrow> ('f, 'e) outcome" where
  "expect_err (Ok a) = Panicked"
| "expect_err (Err e) = Ok e"
| "expect_err Panicked = Panicked"
| "expect_err Crashed = Crashed"

fun is_ok :: "('e, 'a) outcome \<Rightarrow> ('f, bool) outcome" where
  "is_ok (Ok a) = Ok True"
| "is_ok (Err e) = Ok False"
| "is_ok Panicked = Panicked"
| "is_ok Crashed = Crashed"

definition unwrap_sum :: "'x + 'a \<Rightarrow> ('f, 'a) outcome" where
  "unwrap_sum r = (case r of Inl _ \<Rightarrow> Panicked | Inr a \<Rightarrow> Ok a)"

definition after :: "(('e, 'a) outcome \<Rightarrow> ('f, 'b) outcome) \<Rightarrow> ('s, 'e, 'a) action \<Rightarrow> ('s, 'f, 'b) action" where
  "after g m = (\<lambda>s. case m s of (r, s') \<Rightarrow> (g r, s'))"

lemma unwrap_sum_simps [simp]: "unwrap_sum (Inr a) = Ok a" "unwrap_sum (Inl x) = Panicked"
  by (simp_all add: unwrap_sum_def)

lemma assert_that_simps [simp]: "assert_that True = Ok ()" "assert_that False = Panicked"
  by (simp_all add: assert_that_def)

lemma assert_passes [simp]:
  "assert_that b = Ok u \<longleftrightarrow> b"
  "bind (assert_that b) f = Ok x \<longleftrightarrow> b \<and> f () = Ok x"
  by (cases b; simp)+

lemma seq_after:
  "m s = (r, s') \<Longrightarrow> seq (after g m) f s = (case g r of
     Ok b \<Rightarrow> f b s' | Err e \<Rightarrow> (Err e, s') | Panicked \<Rightarrow> (Panicked, s') | Crashed \<Rightarrow> (Crashed, s'))"
  by (simp add: seq_def after_def split: outcome.split)

lemma seq_unwrap: "m s = (Ok a, s') \<Longrightarrow> seq (after unwrap m) f s = f a s'"
  by (simp add: seq_after)

lemma seq_pure: "r = Ok a \<Longrightarrow> seq (pure_act r) f s = f a s"
  by (simp add: seq_def)

text \<open>
  \<open>runs P m c Q\<close>: from every state with \<open>P\<close>, the computation \<open>m\<close> returns \<open>c\<close> and leaves a state with
  \<open>Q\<close>. Unlike \<open>triple\<close> it demands that \<open>m\<close> returns; a failing assertion does not satisfy it.
\<close>

definition runs :: "('s \<Rightarrow> bool) \<Rightarrow> ('s, 'e, 'a) action \<Rightarrow> 'a \<Rightarrow> ('s \<Rightarrow> bool) \<Rightarrow> bool" where
  "runs P m c Q \<longleftrightarrow> (\<forall>s. P s \<longrightarrow> (\<exists>s'. m s = (Ok c, s') \<and> Q s'))"

definition fails :: "('s \<Rightarrow> bool) \<Rightarrow> ('s, 'e, 'a) action \<Rightarrow> 'e \<Rightarrow> ('s \<Rightarrow> bool) \<Rightarrow> bool" where
  "fails P m e Q \<longleftrightarrow> (\<forall>s. P s \<longrightarrow> (\<exists>s'. m s = (Err e, s') \<and> Q s'))"

named_theorems run_rules "what a computation of a test returns"

lemma runs_seq: "runs P m c Q \<Longrightarrow> runs Q (f c) d R \<Longrightarrow> runs P (seq m f) d R"
  unfolding runs_def by (metis seq_step(1))

lemma runs_unwrap [run_rules]: "runs P m c Q \<Longrightarrow> runs P (after unwrap m) c Q"
  by (fastforce simp: runs_def after_def)

lemma runs_expect_err [run_rules]: "fails P m e Q \<Longrightarrow> runs P (after expect_err m) e Q"
  by (fastforce simp: runs_def fails_def after_def)

lemma runs_is_err [run_rules]: "fails P m e Q \<Longrightarrow> runs P (after is_ok m) False Q"
  by (fastforce simp: runs_def fails_def after_def)

lemma runs_pure: "r = Ok c \<Longrightarrow> runs P (pure_act r) c P"
  by (simp add: runs_def)

lemma runs_check [run_rules]: "b \<Longrightarrow> runs P (pure_act (assert_that b)) () P"
  by (simp add: runs_def)

lemma runs_ret: "runs P (ret a) a P"
  by (simp add: runs_def)

lemma runs_weaken: "runs P m c Q \<Longrightarrow> (\<And>s. P' s \<Longrightarrow> P s) \<Longrightarrow> runs P' m c Q"
  by (auto simp: runs_def)

lemma runs_passes: "runs P m () Q \<Longrightarrow> P s \<Longrightarrow> passes (fst (m s))"
  unfolding runs_def passes_def by (metis fst_conv)

text \<open>\<open>str::contains\<close>.\<close>

definition str_contains :: "string \<Rightarrow> string \<Rightarrow> bool" where
  "str_contains s t \<longleftrightarrow> sublist t s"

section \<open>Draws and the clock\<close>

text \<open>
  The randomness of the key pairs a test generates and the clock readings it takes, in the order of
  the test's calls.
\<close>

record draws =
  random :: "nat \<Rightarrow> bytes"
  clock :: "nat \<Rightarrow> int"

section \<open>Functions only the tests call\<close>

text \<open>chia-bls: \<open>SecretKey::from_seed\<close>, \<open>to_bytes\<close>; rcgen: \<open>KeyPair::generate\<close>,
  \<open>generate_simple_self_signed\<close> (the certificate of its result), \<open>Certificate::der\<close>; rustls: the display
  of an error, \<open>ServerName::try_from\<close>; \<open>tempfile::tempdir\<close>.\<close>

record test_deps =
  sk_from_seed :: "bytes \<Rightarrow> opaque"
  sk_to_bytes :: "opaque \<Rightarrow> bytes"
  keypair_generate :: "bytes \<Rightarrow> string + opaque"
  generate_simple_self_signed :: "bytes \<Rightarrow> string list \<Rightarrow> string + opaque"
  certificate_der :: "opaque \<Rightarrow> bytes"
  display_tls_error :: "tls_error \<Rightarrow> string"
  server_name_try_from :: "string \<Rightarrow> string + string"
  tempdir :: "world \<Rightarrow> (io_error, path) outcome \<times> world"

section \<open>Laws\<close>

text \<open>
  BLS encodings with both flag bits set are the point at infinity, whose only encoding is
  \<open>0xC0\<close> followed by zeros; chia-bls and blst decode no other.
\<close>

definition infinity_canonical :: "crates \<Rightarrow> bool" where
  "infinity_canonical X \<longleftrightarrow>
     (\<forall>b r. b AND 0xC0 = 0xC0 \<longrightarrow> b # r \<noteq> 0xC0 # replicate (length r) 0 \<longrightarrow>
        pk_from_bytes X (b # r) = None \<and> sig_from_bytes X (b # r) = None \<and>
        blst_p1_uncompress X (b # r) = None)"

text \<open>
  Among the secret keys \<open>S\<close> and the messages \<open>M\<close>, a signature verifies only under the public key it
  was made for and over the message it was made on.
\<close>

definition signatures_separate :: "crates \<Rightarrow> opaque set \<Rightarrow> bytes set \<Rightarrow> bool" where
  "signatures_separate X S M \<longleftrightarrow>
     (\<forall>sk \<in> S. \<forall>m \<in> M. \<forall>sk' \<in> S. \<forall>m' \<in> M.
        aug_verify X (aug_sign X sk m) (sk_public_key X sk') m' \<longrightarrow>
        sk_public_key X sk' = sk_public_key X sk \<and> m' = m)"

text \<open>The seeds of the test labels give different public keys.\<close>

definition labels_differ :: "crates \<Rightarrow> test_deps \<Rightarrow> string set \<Rightarrow> bool" where
  "labels_differ X T L \<longleftrightarrow>
     inj_on (\<lambda>l. sk_public_key X (sk_from_seed T (sha256_digest X (as_bytes l)))) L"

text \<open>A certificate is a universal-class DER value: x509-parser parses nothing else.\<close>

definition certificates_universal :: "crates \<Rightarrow> bool" where
  "certificates_universal X \<longleftrightarrow>
     (\<forall>b r. b AND 0xC0 \<noteq> 0 \<longrightarrow> (\<exists>e. parse_x509_certificate X (b # r) = Inl e))"

text \<open>rcgen's default validity: 1975-01-01 to 4096-01-01.\<close>

definition DEFAULT_NOT_BEFORE :: int where "DEFAULT_NOT_BEFORE = 157766400"
definition DEFAULT_NOT_AFTER :: int where "DEFAULT_NOT_AFTER = 67090118400"

definition default_validity :: "crates \<Rightarrow> bool" where
  "default_validity X \<longleftrightarrow>
     (\<forall>names p. names \<in> {[], [''peer.dig'']} \<longrightarrow> params_new X names = Inr p \<longrightarrow>
        not_before p = DEFAULT_NOT_BEFORE \<and> not_after p = DEFAULT_NOT_AFTER)"

text \<open>
  The draws of a test: each of the first eight gives a key pair, and different draws give different
  public keys, none the key of the shipped CA; SHA-256 has no collision among these public keys. The
  clock is read within the hour and within rcgen's default validity, and at each reading the dates
  of a CA can be encoded.
\<close>

definition keys_differ :: "crates \<Rightarrow> (bytes \<Rightarrow> string + opaque) \<Rightarrow> draws \<Rightarrow> bool" where
  "keys_differ X gen E \<longleftrightarrow>
     (\<forall>i < 8. \<exists>k. gen (random E i) = Inr k) \<and>
     (\<forall>i < 8. \<forall>j < 8. \<forall>k l. gen (random E i) = Inr k \<longrightarrow> gen (random E j) = Inr l \<longrightarrow> i \<noteq> j \<longrightarrow>
        keypair_public_key_der X k \<noteq> keypair_public_key_der X l)"

definition drawn_spkis :: "crates \<Rightarrow> (bytes \<Rightarrow> string + opaque) \<Rightarrow> draws \<Rightarrow> bytes set" where
  "drawn_spkis X gen E = {keypair_public_key_der X k | k i. i < 8 \<and> gen (random E i) = Inr k}"

definition no_collision :: "crates \<Rightarrow> bytes set \<Rightarrow> bool" where
  "no_collision X S \<longleftrightarrow> inj_on (sha256_digest X) S"

definition not_the_shipped_key :: "crates \<Rightarrow> (bytes \<Rightarrow> string + opaque) \<Rightarrow> draws \<Rightarrow> bool" where
  "not_the_shipped_key X gen E \<longleftrightarrow>
     (\<forall>i < 8. \<forall>k ca. gen (random E i) = Inr k \<longrightarrow> embedded X = Ok ca \<longrightarrow>
        keypair_public_key_der X k \<noteq> keypair_public_key_der X (ca_key ca))"

definition clock_steady :: "int \<Rightarrow> int \<Rightarrow> draws \<Rightarrow> bool" where
  "clock_steady lo hi E \<longleftrightarrow>
     (\<forall>i < 8. clock E 0 \<le> clock E i \<and> clock E i \<le> clock E 0 + 3600 \<and>
        mintable lo hi 3153600000 (clock E i) \<and> DEFAULT_NOT_BEFORE \<le> clock E i \<and> clock E i \<le> DEFAULT_NOT_AFTER)"

text \<open>No drawn key has the peer id \<open>0x22\<close> repeated, which one test pins as a wrong one.\<close>

definition not_the_wrong_pin :: "crates \<Rightarrow> (bytes \<Rightarrow> string + opaque) \<Rightarrow> draws \<Rightarrow> bool" where
  "not_the_wrong_pin X gen E \<longleftrightarrow>
     (\<forall>i < 8. \<forall>k. gen (random E i) = Inr k \<longrightarrow>
        sha256_digest X (keypair_public_key_der X k) \<noteq> replicate 32 0x22)"

text \<open>
  rcgen's self-signed certificates read back like the signed ones; the simple ones are default
  parameters for the names, signed by a generated key; defaults have no custom extension; and no
  certificate has an extension under a private-enterprise OID that was not put in.
\<close>

definition self_signed_reads_back :: "crates \<Rightarrow> bool" where
  "self_signed_reads_back X \<longleftrightarrow>
     (\<forall>p k c. params_self_signed X p k = Inr c \<longrightarrow> reads_back_as X c p k)"

definition simple_is_self_signed :: "crates \<Rightarrow> test_deps \<Rightarrow> bool" where
  "simple_is_self_signed X T \<longleftrightarrow>
     (\<forall>r. \<exists>k p c. generate_simple_self_signed T r [''peer.dig''] = Inr c \<and>
        params_new X [''peer.dig''] = Inr p \<and> params_self_signed X p k = Inr c)"

text \<open>The default parameters of no names, and of the one name the tests use: an end entity's, without
  custom extensions, and such that rcgen can encode them.\<close>

definition named_defaults :: "crates \<Rightarrow> int \<Rightarrow> int \<Rightarrow> bool" where
  "named_defaults X lo hi \<longleftrightarrow> (\<forall>names \<in> {[], [''peer.dig'']}. \<exists>p. params_new X names = Inr p \<and>
     custom_extensions p = [] \<and> params_is_ca p = NoCa \<and> encodable X lo hi p)"

text \<open>\<open>SecretKey::from_seed\<close> derives no zero key.\<close>

definition seeds_give_keys :: "crates \<Rightarrow> test_deps \<Rightarrow> bool" where
  "seeds_give_keys X T \<longleftrightarrow> (\<forall>m. bls_key_ok X (sk_from_seed T (sha256_digest X m)))"

definition no_stray_extension :: "crates \<Rightarrow> bool" where
  "no_stray_extension X \<longleftrightarrow>
     (\<forall>p k ic ik c der rest x oid. custom_extensions p = [] \<longrightarrow> private_oid oid \<longrightarrow>
        params_self_signed X p k = Inr c \<or> params_signed_by X p k ic ik = Inr c \<longrightarrow>
        pemfile_certs X (as_bytes (certificate_pem X c)) = Inr der # rest \<longrightarrow>
        parse_x509_certificate X der = Inr x \<longrightarrow>
        first_extension (dotted oid) (x509_extensions x) = None)"

text \<open>\<open>der\<close> is what the certificate's PEM text encodes; PEM texts have their armour.\<close>

definition der_of_pem :: "crates \<Rightarrow> test_deps \<Rightarrow> bool" where
  "der_of_pem X T \<longleftrightarrow>
     (\<forall>c der rest. pemfile_certs X (as_bytes (certificate_pem X c)) = Inr der # rest \<longrightarrow>
        certificate_der T c = der)"

definition pem_armour :: "crates \<Rightarrow> bool" where
  "pem_armour X \<longleftrightarrow>
     (\<forall>c. sublist ''BEGIN CERTIFICATE'' (certificate_pem X c)) \<and>
     (\<forall>k. sublist ''PRIVATE KEY'' (keypair_serialize_pem X k))"

text \<open>\<open>tempdir\<close> makes a directory with nothing in it; a display of a general error shows its text.\<close>

definition empty_dir :: "world \<Rightarrow> path \<Rightarrow> bool" where
  "empty_dir w dir \<longleftrightarrow> quiet w \<and> ready_dir w dir \<and> (\<forall>n. wfiles w (dir @ [n]) = None)"

definition tempdir_fresh :: "test_deps \<Rightarrow> world \<Rightarrow> bool" where
  "tempdir_fresh T w \<longleftrightarrow>
     (\<exists>dir w'. tempdir T w = (Ok dir, w') \<and> empty_dir w' dir \<and> wplatform w' = wplatform w)"

definition displays_message :: "test_deps \<Rightarrow> bool" where
  "displays_message T \<longleftrightarrow> (\<forall>m. sublist m (display_tls_error T (General m)))"

text \<open>
  webpki parses the certificate of an end entity that rcgen signed, but finds no path to the shipped
  CA when another key than the CA's signed it.
\<close>

definition webpki_refuses_foreign :: "crates \<Rightarrow> bool" where
  "webpki_refuses_foreign X \<longleftrightarrow>
     (\<forall>p k ic ik c der rest. leaf_profile p \<longrightarrow> params_signed_by X p k ic ik = Inr c \<or> ik = k \<and> params_self_signed X p k = Inr c \<longrightarrow>
        pemfile_certs X (as_bytes (certificate_pem X c)) = Inr der # rest \<longrightarrow>
        (\<exists>ee. end_entity_try_from X der = Inr ee \<and>
           (\<forall>ca a t u. embedded X = Ok ca \<longrightarrow> keypair_public_key_der X ik \<noteq> keypair_public_key_der X (ca_key ca) \<longrightarrow>
              anchor_from_trusted_cert X (anchor X) = Inr a \<longrightarrow>
              (\<exists>e. verify_for_usage X ee CHAIN_SIG_ALGS [a] [] t u = Inl e))))"

text \<open>
  The labels and messages on which the tests rely on a signature not verifying for another key or
  message. The binding messages are those of the first two key pairs drawn.
\<close>

definition rival_labels :: "string set" where
  "rival_labels = {''bls/wrong-msg'', ''bls/signer'', ''bls/other'',
     ''binding/victim'', ''binding/attacker'', ''binding/replay''}"

definition rival_messages :: "crates \<Rightarrow> test_deps \<Rightarrow> draws \<Rightarrow> bytes set" where
  "rival_messages X T E =
     as_bytes ` {''the real message'', ''a different message'', ''payload''} \<union>
     {binding_message (keypair_public_key_der X k) | k i. i < 2 \<and> keypair_generate T (random E i) = Inr k}"

text \<open>All laws of the other crates, and all of what a test draws.\<close>

definition crates_behave :: "crates \<Rightarrow> test_deps \<Rightarrow> int \<Rightarrow> int \<Rightarrow> bool" where
  "crates_behave X T lo hi \<longleftrightarrow>
     bls_correct X \<and> bls_lengths X \<and> seeds_give_keys X T \<and> infinity_canonical X \<and>
     certificates_universal X \<and> (\<exists>l h. date_laws X l lo hi h) \<and> self_signed_reads_back X \<and>
     keypair_round_trip X \<and> ca_rereads X \<and> named_defaults X lo hi \<and> default_validity X \<and>
     simple_is_self_signed X T \<and>
     no_stray_extension X \<and> der_of_pem X T \<and> pem_armour X \<and> shipped_ca_parses X lo hi \<and>
     webpki_accepts_signed X \<and> webpki_refuses_foreign X \<and>
     displays_message T \<and> (\<exists>n. server_name_try_from T ''peer.dig'' = Inr n)"

abbreviation p256 :: "crates \<Rightarrow> bytes \<Rightarrow> string + opaque" where
  "p256 X \<equiv> \<lambda>r. keypair_generate_for X r PKCS_ECDSA_P256_SHA256"

definition draws_behave :: "crates \<Rightarrow> test_deps \<Rightarrow> int \<Rightarrow> int \<Rightarrow> draws \<Rightarrow> bool" where
  "draws_behave X T lo hi E \<longleftrightarrow>
     keys_differ X (keypair_generate T) E \<and> keys_differ X (p256 X) E \<and> no_collision X (drawn_spkis X (p256 X) E) \<and>
     not_the_shipped_key X (p256 X) E \<and> not_the_wrong_pin X (p256 X) E \<and>
     clock_steady lo hi E \<and> labels_differ X T rival_labels \<and>
     signatures_separate X ((\<lambda>l. sk_from_seed T (sha256_digest X (as_bytes l))) ` rival_labels)
       (rival_messages X T E)"

lemmas behave_defs = crates_behave_def draws_behave_def

lemma crates_behave_laws:
  assumes "crates_behave X T lo hi"
  shows "bls_correct X" "bls_lengths X" "seeds_give_keys X T" "infinity_canonical X"
    "certificates_universal X" "rcgen_signs X lo hi" "rcgen_reads_back X" "self_signed_reads_back X"
    "keypair_round_trip X" "ca_rereads X" "named_defaults X lo hi" "simple_is_self_signed X T"
    "no_stray_extension X" "der_of_pem X T" "pem_armour X" "shipped_ca_parses X lo hi"
    "\<exists>l h. date_laws X l lo hi h" "webpki_accepts_signed X" "webpki_refuses_foreign X" "displays_message T"
    "rcgen_defaults X" "time_exact X" "handshake_laws X" "default_validity X"
proof -
  obtain l h where dates: "date_laws X l lo hi h" using assms by (auto simp: crates_behave_def)
  show a: "bls_correct X" "bls_lengths X" "seeds_give_keys X T" "infinity_canonical X"
    "certificates_universal X" "self_signed_reads_back X"
    "keypair_round_trip X" "ca_rereads X" "named_defaults X lo hi" "simple_is_self_signed X T"
    "no_stray_extension X" "der_of_pem X T" "pem_armour X" "shipped_ca_parses X lo hi"
    "\<exists>l h. date_laws X l lo hi h" "webpki_accepts_signed X" "webpki_refuses_foreign X" "displays_message T"
    "default_validity X"
    using assms by (simp_all add: crates_behave_def)
  show b: "rcgen_defaults X" "rcgen_signs X lo hi" "rcgen_reads_back X" "time_exact X"
    using date_laws [OF dates] by (auto intro: time_range_exact)
  show "handshake_laws X" using a b by (simp add: handshake_laws_def)
qed

lemma test_key_ok: "crates_behave X T lo hi \<Longrightarrow> bls_key_ok X (sk_from_seed T (sha256_digest X m))"
  using crates_behave_laws(3) unfolding seeds_give_keys_def by blast

text \<open>Minting in a test succeeds, and different draws give different peer ids.\<close>

lemma clock_mintable:
  assumes "draws_behave X T lo hi E" and "i < 8"
  shows "mintable lo hi 3153600000 (clock E i)" "mintable lo hi 315360000 (clock E i)"
  using assms by (auto simp: draws_behave_def clock_steady_def mintable_def)

lemma test_mints:
  assumes "crates_behave X T lo hi" and "draws_behave X T lo hi E" and "j < 8"
  shows "\<exists>n. generate_signed_by X ca sk rnd (clock E j) = Ok n"
    and "\<exists>n. generate_signed X sk rnd (clock E j) = Ok n"
    and "\<exists>m. generate_dig_ca X rnd (clock E j) = Ok m"
proof -
  obtain l h where dates: "date_laws X l lo hi h" using crates_behave_laws(17) [OF assms(1)] by blast
  note now = clock_mintable [OF assms(2,3)]
  show "\<exists>n. generate_signed_by X ca sk rnd (clock E j) = Ok n"
    by (rule leaf_mints(1) [OF dates now(2)])
  show "\<exists>n. generate_signed X sk rnd (clock E j) = Ok n"
    by (rule signed_mints(1) [OF dates crates_behave_laws(16) [OF assms(1)] now(2)])
  show "\<exists>m. generate_dig_ca X rnd (clock E j) = Ok m"
    by (rule ca_mints(1) [OF dates now(1)])
qed

lemma minted_key:
  "generate_signed_by X ca sk rnd now = Ok n \<Longrightarrow>
   \<exists>k. keypair_generate_for X rnd PKCS_ECDSA_P256_SHA256 = Inr k \<and> spki_der n = keypair_public_key_der X k \<and>
     node_peer_id n = PeerId (sha256_digest X (spki_der n))"
  by (auto simp: generate_signed_by_Ok from_parts_Ok peer_id_from_tls_spki_der_def)

lemma distinct_mints:
  assumes "draws_behave X T lo hi E" and "i < 8" "j < 8" "i \<noteq> j"
    and "generate_signed_by X ca sk (random E i) t = Ok n" "generate_signed_by X ca' sk' (random E j) u = Ok m"
  shows "node_peer_id n \<noteq> node_peer_id m" "spki_der n \<noteq> spki_der m"
proof -
  obtain k where k: "p256 X (random E i) = Inr k" "spki_der n = keypair_public_key_der X k"
    "node_peer_id n = PeerId (sha256_digest X (spki_der n))" using minted_key [OF assms(5)] by blast
  obtain l where l: "p256 X (random E j) = Inr l" "spki_der m = keypair_public_key_der X l"
    "node_peer_id m = PeerId (sha256_digest X (spki_der m))" using minted_key [OF assms(6)] by blast
  have differ: "keys_differ X (p256 X) E" and inj: "inj_on (sha256_digest X) (drawn_spkis X (p256 X) E)"
    using assms(1) by (simp_all add: draws_behave_def no_collision_def)
  show s: "spki_der n \<noteq> spki_der m"
    using differ k(1,2) l(1,2) assms(2-4) unfolding keys_differ_def by metis
  have "spki_der n \<in> drawn_spkis X (p256 X) E" "spki_der m \<in> drawn_spkis X (p256 X) E"
    using k(1,2) l(1,2) assms(2,3) unfolding drawn_spkis_def by auto
  with inj s have "sha256_digest X (spki_der n) \<noteq> sha256_digest X (spki_der m)" by (auto dest: inj_onD)
  then show "node_peer_id n \<noteq> node_peer_id m" using k(3) l(3) by simp
qed

end
