(* ===== verification/Dig_Tests_Bls.thy ===== *)
theory Dig_Tests_Bls
  imports Dig_Testing
begin

text \<open>
  The unit tests of \<open>bls.rs\<close>. The round-trip tests hold of every instance of the other crates that
  satisfies the laws. The golden vectors pin bytes of chia-bls, which no law states; what is shown of
  them is how the two tests hang together: an implementation of chia-bls that passes the first, on the
  bytes produced, and verifies its own signatures passes the second, on the pinned signatures, and
  printing the vectors anew gives the source's literals back.
\<close>

section \<open>The tests\<close>

definition identity_sk :: "crates \<Rightarrow> test_deps \<Rightarrow> string \<Rightarrow> opaque" where
  "identity_sk X T label = sk_from_seed T (sha256_digest X (as_bytes label))"

definition sign_then_verify_round_trips :: "crates \<Rightarrow> test_deps \<Rightarrow> test" where
  "sign_then_verify_round_trips X T =
     (let sk = identity_sk X T ''bls/round-trip'';
          pk = public_key_bytes X sk;
          msg = as_bytes ''dig-tls binding message'';
          sig = sign_message X sk msg
      in assert_that (verify_signature X pk msg sig))"

definition verify_rejects_wrong_message :: "crates \<Rightarrow> test_deps \<Rightarrow> test" where
  "verify_rejects_wrong_message X T =
     (let sk = identity_sk X T ''bls/wrong-msg'';
          pk = public_key_bytes X sk;
          sig = sign_message X sk (as_bytes ''the real message'')
      in assert_that (\<not> verify_signature X pk (as_bytes ''a different message'') sig))"

definition verify_rejects_wrong_key :: "crates \<Rightarrow> test_deps \<Rightarrow> test" where
  "verify_rejects_wrong_key X T =
     (let signer = identity_sk X T ''bls/signer'';
          other = public_key_bytes X (identity_sk X T ''bls/other'');
          msg = as_bytes ''payload'';
          sig = sign_message X signer msg
      in assert_that (\<not> verify_signature X other msg sig))"

definition verify_rejects_malformed_bytes :: "crates \<Rightarrow> test_deps \<Rightarrow> test" where
  "verify_rejects_malformed_bytes X T =
     (let sk = identity_sk X T ''bls/malformed'';
          pk = public_key_bytes X sk
      in bind (assert_that (\<not> verify_signature X pk (as_bytes ''m'') (replicate 96 0xFF))) (\<lambda>_.
         assert_that (\<not> verify_signature X (replicate 48 0xFF) (as_bytes ''m'')
           (sign_message X sk (as_bytes ''m'')))))"

definition subgroup_check_accepts_real_key_rejects_junk :: "crates \<Rightarrow> test_deps \<Rightarrow> test" where
  "subgroup_check_accepts_real_key_rejects_junk X T =
     (let pk = public_key_bytes X (identity_sk X T ''bls/subgroup'')
      in bind (assert_that (g1_subgroup_check X pk)) (\<lambda>_.
         bind (assert_that (\<not> g1_subgroup_check X (replicate 48 0))) (\<lambda>_.
         assert_that (\<not> g1_subgroup_check X (replicate 48 0xFF)))))"

section \<open>The golden vectors\<close>

definition GOLDEN_MSG :: bytes where
  "GOLDEN_MSG = as_bytes ''dig-tls golden vector message''"

definition GOLDEN_VECTORS :: "(string \<times> string \<times> string \<times> string) list" where
  "GOLDEN_VECTORS =
     [(''golden/peer-a'',
       ''2b9b10c104d2c4750cd6d4e649d69869cb9738b153eef7e93613b9ecb453d618'',
       ''9072f1915e0f024466afdc24876d4ea13dd1064df5a67495589863bcda39ec621c809d92ba67bf5bd667c6d5b3178529'',
       ''96e87a385dc5cfbeb285000c3c22e5ae76356c249f9842bf8cd8d93c6c5e0a858ad2b2b4035760b21abe71d2d6ba169605b8c6867eb25ef70472b2f0b56684fbb91c07031fe916e3a892f8c0c471ade2e4a7338e14ebf328114c676e1153e867''),
      (''golden/peer-b'',
       ''591fdea7194dd3f68d7a62bc76c18edb37aca6a9ab10222971ef8f450e26ecc1'',
       ''896df5e5c5cbf071d98233a9189423b589d63edadd92752a49e8df8d65617b2bb492162ab6ff74bf25b7b5ffa8f7fc65'',
       ''aea3cbb6ac127c107b9cfa42e940c46697a9d1d6df1ef405f6d3321959780758d9b8e0479c027dea74109bd084703e2211f9f479a82144d9f9c197ccce2d07657242364dd3cad464b30116a8bd6b25e6d58335bb016ee95fc10145fe170102c9'')]"

text \<open>\<open>format!("{b:02x}")\<close>: the digits without leading zeros, padded on the left to two.\<close>

definition fmt_02x :: "byte \<Rightarrow> string" where
  "fmt_02x b =
     (let n = unat b;
          d = (if n < 16 then [hex_char n] else [hex_char (n div 16), hex_char (n mod 16)])
      in replicate (2 - length d) (CHR ''0'') @ d)"

definition golden_to_hex :: "bytes \<Rightarrow> string" where
  "golden_to_hex bytes = concat (map fmt_02x bytes)"

text \<open>\<open>&s[a..b]\<close> panics when the range is not one of \<open>s\<close> or cuts a character.\<close>

definition char_boundary :: "string \<Rightarrow> nat \<Rightarrow> bool" where
  "char_boundary s i \<longleftrightarrow> i = length s \<or> i < length s \<and> \<not> utf8_cont (byte_of_char (s ! i))"

definition str_slice :: "string \<Rightarrow> nat \<Rightarrow> nat \<Rightarrow> ('e, string) outcome" where
  "str_slice s a b =
     (if a \<le> b \<and> char_boundary s a \<and> char_boundary s b then Ok (take (b - a) (drop a s)) else Panicked)"

text \<open>\<open>u8::from_str_radix(src, 16)\<close>: an optional plus sign and hex digits, at least one, of a value
  that fits; the errors are not told apart by the caller.\<close>

fun radix16_loop :: "nat \<Rightarrow> string \<Rightarrow> byte option" where
  "radix16_loop acc [] = Some (word_of_nat acc)"
| "radix16_loop acc (c # cs) =
     (case to_digit c 16 of
        None \<Rightarrow> None
      | Some d \<Rightarrow> if acc * 16 + unat d < 256 then radix16_loop (acc * 16 + unat d) cs else None)"

definition u8_from_str_radix16 :: "string \<Rightarrow> byte option" where
  "u8_from_str_radix16 src =
     (case src of
        [] \<Rightarrow> None
      | c # cs \<Rightarrow> if c = CHR ''+'' then (if cs = [] then None else radix16_loop 0 cs) else radix16_loop 0 src)"

fun golden_from_hex_loop :: "string \<Rightarrow> nat \<Rightarrow> bytes \<Rightarrow> ('e, bytes) outcome" where
  "golden_from_hex_loop s i [] = Ok []"
| "golden_from_hex_loop s i (_ # out) =
     bind (str_slice s (i * 2) (i * 2 + 2)) (\<lambda>t.
     bind (or_panic (u8_from_str_radix16 t)) (\<lambda>byte.
     bind (golden_from_hex_loop s (Suc i) out) (\<lambda>bs.
     Ok (byte # bs))))"

text \<open>The buffer is passed in and returned filled.\<close>

definition golden_from_hex :: "string \<Rightarrow> bytes \<Rightarrow> ('e, bytes) outcome" where
  "golden_from_hex s out =
     bind (assert_that (length s = length out * 2)) (\<lambda>_. golden_from_hex_loop s 0 out)"

fun golden_byte_loop :: "crates \<Rightarrow> test_deps \<Rightarrow> (string \<times> string \<times> string \<times> string) list \<Rightarrow> test" where
  "golden_byte_loop X T [] = Ok ()"
| "golden_byte_loop X T ((label, sk_hex, pk_hex, sig_hex) # vs) =
     (let sk = identity_sk X T label in
      bind (assert_that (golden_to_hex (sk_to_bytes T sk) = sk_hex)) (\<lambda>_.
      bind (assert_that (golden_to_hex (public_key_bytes X sk) = pk_hex)) (\<lambda>_.
      bind (assert_that (golden_to_hex (sign_message X sk GOLDEN_MSG) = sig_hex)) (\<lambda>_.
      golden_byte_loop X T vs))))"

definition golden_vectors_are_byte_identical :: "crates \<Rightarrow> test_deps \<Rightarrow> test" where
  "golden_vectors_are_byte_identical X T = golden_byte_loop X T GOLDEN_VECTORS"

fun pinned_loop :: "crates \<Rightarrow> (string \<times> string \<times> string \<times> string) list \<Rightarrow> test" where
  "pinned_loop X [] = Ok ()"
| "pinned_loop X ((label, _, pk_hex, sig_hex) # vs) =
     bind (golden_from_hex pk_hex (replicate 48 0)) (\<lambda>pk.
     bind (golden_from_hex sig_hex (replicate 96 0)) (\<lambda>sig.
     bind (assert_that (verify_signature X pk GOLDEN_MSG sig)) (\<lambda>_.
     pinned_loop X vs)))"

definition pinned_signatures_still_verify :: "crates \<Rightarrow> test" where
  "pinned_signatures_still_verify X = pinned_loop X GOLDEN_VECTORS"

text \<open>The ignored test that prints the literals; its result is the printed lines.\<close>

definition golden_line :: "string \<Rightarrow> string \<Rightarrow> string \<Rightarrow> string \<Rightarrow> string" where
  "golden_line label sk pk sig =
     (let q = [CHR 0x22] in
      ''('' @ q @ label @ q @ '', '' @ q @ sk @ q @ '', '' @ q @ pk @ q @ '', '' @ q @ sig @ q @ ''),'')"

definition emit_golden_vectors :: "crates \<Rightarrow> test_deps \<Rightarrow> string list" where
  "emit_golden_vectors X T =
     map (\<lambda>(label, _). let sk = identity_sk X T label in
            golden_line label (golden_to_hex (sk_to_bytes T sk)) (golden_to_hex (public_key_bytes X sk))
              (golden_to_hex (sign_message X sk GOLDEN_MSG))) GOLDEN_VECTORS"

section \<open>The round-trip tests pass\<close>

definition bls_tests :: "crates \<Rightarrow> test_deps \<Rightarrow> test list" where
  "bls_tests X T =
     [sign_then_verify_round_trips X T, verify_rejects_wrong_message X T, verify_rejects_wrong_key X T,
      verify_rejects_malformed_bytes X T, subgroup_check_accepts_real_key_rejects_junk X T]"

lemma verify_signed:
  assumes "bls_correct X" and "signatures_separate X S M" and "sk \<in> S" "sk' \<in> S" "m \<in> M" "m' \<in> M"
    and "verify_signature X (public_key_bytes X sk') m' (sign_message X sk m)"
  shows "sk_public_key X sk' = sk_public_key X sk \<and> m' = m"
proof -
  have "aug_verify X (aug_sign X sk m) (sk_public_key X sk') m'"
    using assms(1,7) by (simp add: verify_signature_def public_key_bytes_def sign_message_def bls_correct_def)
  with assms(2-6) show ?thesis unfolding signatures_separate_def by blast
qed

text \<open>The all-ones buffers decode to nothing.\<close>

lemma all_ones:
  assumes "infinity_canonical X" and "0 < n"
  shows "pk_from_bytes X (replicate n 0xFF) = None" "sig_from_bytes X (replicate n 0xFF) = None"
    "blst_p1_uncompress X (replicate n 0xFF) = None"
proof -
  obtain k where n: "replicate n (0xFF :: byte) = 0xFF # replicate k 0xFF"
    using assms(2) by (cases n) auto
  have "(0xFF :: byte) AND 0xC0 = 0xC0" "(0xFF :: byte) \<noteq> 0xC0" by simp_all
  then show "pk_from_bytes X (replicate n 0xFF) = None" "sig_from_bytes X (replicate n 0xFF) = None"
    "blst_p1_uncompress X (replicate n 0xFF) = None"
    using assms(1) unfolding n infinity_canonical_def by (metis list.inject)+
qed

lemma rival_signature:
  assumes "crates_behave X T lo hi" and "draws_behave X T lo hi E"
    and "l \<in> rival_labels" "l' \<in> rival_labels" "m \<in> rival_messages X T E" "m' \<in> rival_messages X T E"
    and "verify_signature X (public_key_bytes X (identity_sk X T l')) m' (sign_message X (identity_sk X T l) m)"
  shows "l' = l \<and> m' = m"
proof -
  have sep: "signatures_separate X (identity_sk X T ` rival_labels) (rival_messages X T E)"
    and inj: "inj_on (\<lambda>l. sk_public_key X (identity_sk X T l)) rival_labels"
    using assms(2) by (simp_all add: draws_behave_def labels_differ_def identity_sk_def [abs_def])
  from verify_signed [OF crates_behave_laws(1) [OF assms(1)] sep _ _ assms(5-7)] assms(3,4)
  have "sk_public_key X (identity_sk X T l') = sk_public_key X (identity_sk X T l)" "m' = m" by simp_all
  with inj_onD [OF inj _ assms(4,3)] show ?thesis by simp
qed

lemma bls_tests_pass:
  assumes laws: "crates_behave X T lo hi" and draws: "draws_behave X T lo hi E"
  shows "t \<in> set (bls_tests X T) \<Longrightarrow> passes t"
proof -
  note rival = rival_signature [OF laws draws]
  have "\<not> verify_signature X (public_key_bytes X (identity_sk X T ''bls/wrong-msg''))
      (as_bytes ''a different message'') (sign_message X (identity_sk X T ''bls/wrong-msg'') (as_bytes ''the real message''))"
    using rival [of "''bls/wrong-msg''" "''bls/wrong-msg''" "as_bytes ''the real message''" "as_bytes ''a different message''"]
    by (auto simp: rival_labels_def rival_messages_def simp del: as_bytes_simps)
  moreover have "\<not> verify_signature X (public_key_bytes X (identity_sk X T ''bls/other'')) (as_bytes ''payload'')
      (sign_message X (identity_sk X T ''bls/signer'') (as_bytes ''payload''))"
    using rival [of "''bls/signer''" "''bls/other''" "as_bytes ''payload''" "as_bytes ''payload''"]
    by (auto simp: rival_labels_def rival_messages_def simp del: as_bytes_simps)
  moreover have "\<not> verify_signature X pk m (replicate 96 0xFF)" "\<not> verify_signature X (replicate 48 0xFF) m s"
    "\<not> g1_subgroup_check X (replicate 48 0xFF)" "\<not> g1_subgroup_check X (replicate 48 0)" for pk m s
    using all_ones [OF crates_behave_laws(4) [OF laws], of 96] all_ones [OF crates_behave_laws(4) [OF laws], of 48]
    by (simp_all add: verify_signature_iff g1_subgroup_check_iff G1_ZERO_def)
  moreover have "bls_key_ok X (identity_sk X T l)" for l using test_key_ok [OF laws] by (simp add: identity_sk_def)
  note verify_sign_message [OF crates_behave_laws(1) [OF laws] this] g1_subgroup_check_public_key [OF this]
  ultimately show "t \<in> set (bls_tests X T) \<Longrightarrow> passes t"
    by (auto simp: bls_tests_def passes_def sign_then_verify_round_trips_def verify_rejects_wrong_message_def
        verify_rejects_wrong_key_def verify_rejects_malformed_bytes_def
        subgroup_check_accepts_real_key_rejects_junk_def Let_def simp del: as_bytes_simps)
qed

section \<open>Hex of the golden tests\<close>

lemma golden_to_hex_eq: "golden_to_hex bs = hex_string bs"
proof -
  have "fmt_02x = (\<lambda>b. [hex_char (unat b div 16), hex_char (unat b mod 16)])"
    by (rule ext) (simp add: fmt_02x_def Let_def numeral_2_eq_2, simp add: hex_char_def)
  then show ?thesis by (simp add: golden_to_hex_def hex_string_def)
qed

lemma hex_char_not_plus: "n < 16 \<Longrightarrow> hex_char n \<noteq> CHR ''+''"
  by (rule all_digits [where P = "\<lambda>n. hex_char n \<noteq> CHR ''+''"]) code_simp

lemma u8_from_hex_digits:
  "h < 16 \<Longrightarrow> l < 16 \<Longrightarrow> u8_from_str_radix16 [hex_char h, hex_char l] = Some (word_of_nat (16 * h + l))"
  by (simp add: u8_from_str_radix16_def hex_char_not_plus to_digit_hex_char unat_of_nat mult.commute)

lemma hex_string_ascii: "c \<in> set (hex_string bs) \<Longrightarrow> \<not> utf8_cont (byte_of_char c)"
proof -
  have digit: "\<not> utf8_cont (byte_of_char (hex_char n))" if "n < 16" for n
    using hex_char_ascii [OF that] by (simp add: utf8_cont_def word_less_nat_alt word_le_nat_alt)
  have "unat b div 16 < 16" "unat b mod 16 < 16" for b :: byte
    using unat_byte_less [of b] by linarith+
  then show "c \<in> set (hex_string bs) \<Longrightarrow> \<not> utf8_cont (byte_of_char c)"
    by (auto simp: hex_string_def digit)
qed

lemma golden_from_hex_loop_eq:
  assumes "length out = length bs" and "\<And>c. c \<in> set s \<Longrightarrow> \<not> utf8_cont (byte_of_char c)"
    and "drop (i * 2) s = hex_string bs" and "i * 2 \<le> length s"
  shows "(golden_from_hex_loop s i out :: ('e, bytes) outcome) = Ok bs"
  using assms(1,3,4)
proof (induction bs arbitrary: i out)
  case (Cons b bs)
  obtain o1 out' where out: "out = o1 # out'" "length out' = length bs"
    using Cons.prems(1) by (cases out) auto
  have d: "drop (i * 2) s = hex_char (unat b div 16) # hex_char (unat b mod 16) # hex_string bs"
    using Cons.prems(2) by (simp add: hex_string_def)
  have len: "length s = i * 2 + 2 + length (hex_string bs)"
    using arg_cong [OF d, of length] Cons.prems(3) by simp
  have edge: "char_boundary s j" if "j \<le> length s" for j
    using that assms(2) by (auto simp: char_boundary_def)
  have slice: "(str_slice s (i * 2) (Suc (Suc (i * 2))) :: ('e, string) outcome) = Ok [hex_char (unat b div 16), hex_char (unat b mod 16)]"
    using len edge [of "i * 2"] edge [of "Suc (Suc (i * 2))"] by (simp add: str_slice_def d)
  have "unat b div 16 < 16" "unat b mod 16 < 16" using unat_byte_less [of b] by linarith+
  from u8_from_hex_digits [OF this]
  have byte: "u8_from_str_radix16 [hex_char (unat b div 16), hex_char (unat b mod 16)] = Some b"
    by (simp flip: of_nat_mult of_nat_add)
  have "drop (Suc i * 2) s = drop 2 (drop (i * 2) s)" by (simp add: numeral_2_eq_2)
  then have "drop (Suc i * 2) s = hex_string bs" unfolding d by (simp add: numeral_2_eq_2)
  from Cons.IH [OF out(2) this] len show ?case
    unfolding out(1) by (simp add: slice byte)
qed simp

lemma golden_from_hex_eq: "length out = length bs \<Longrightarrow> golden_from_hex (hex_string bs) out = Ok bs"
  unfolding golden_from_hex_def
  by (simp add: length_hex_string golden_from_hex_loop_eq hex_string_ascii)

section \<open>The golden tests\<close>

text \<open>A pinned vector that the implementation reproduces is one that it verifies.\<close>

lemma golden_loops:
  assumes "bls_correct X" and "bls_lengths X" and "seeds_give_keys X T"
  shows "golden_byte_loop X T vs = Ok () \<Longrightarrow> pinned_loop X vs = Ok ()"
proof (induction vs)
  case (Cons v vs)
  obtain label sk_hex pk_hex sig_hex where v: "v = (label, sk_hex, pk_hex, sig_hex)" by (cases v)
  let ?sk = "identity_sk X T label"
  from Cons.prems have h: "hex_string (public_key_bytes X ?sk) = pk_hex"
    "hex_string (sign_message X ?sk GOLDEN_MSG) = sig_hex" "golden_byte_loop X T vs = Ok ()"
    by (simp_all add: v Let_def golden_to_hex_eq)
  have "(golden_from_hex pk_hex (replicate 48 0) :: (unit, bytes) outcome) = Ok (public_key_bytes X ?sk)"
    "(golden_from_hex sig_hex (replicate 96 0) :: (unit, bytes) outcome) = Ok (sign_message X ?sk GOLDEN_MSG)"
    using assms(2) by (simp_all add: golden_from_hex_eq flip: h(1,2))
  moreover have "bls_key_ok X ?sk" using assms(3) by (simp add: seeds_give_keys_def identity_sk_def)
  ultimately show ?case
    using verify_sign_message [OF assms(1)] Cons.IH [OF h(3)] by (simp add: v)
qed simp

lemma emitted_lines:
  "golden_byte_loop X T vs = Ok () \<Longrightarrow>
   map (\<lambda>(label, _). let sk = identity_sk X T label in
            golden_line label (golden_to_hex (sk_to_bytes T sk)) (golden_to_hex (public_key_bytes X sk))
              (golden_to_hex (sign_message X sk GOLDEN_MSG))) vs =
   map (\<lambda>(label, sk, pk, sig). golden_line label sk pk sig) vs"
  by (induction vs) (auto simp: Let_def)

text \<open>
  For a chia-bls that verifies its own signatures, passing the test on produced bytes implies passing
  the test on pinned signatures; and then the ignored test prints the literals of the source. Whether
  chia-bls passes the first is not decidable here.
\<close>

lemma golden_tests_agree:
  assumes "bls_correct X" and "bls_lengths X" and "seeds_give_keys X T"
    and "passes (golden_vectors_are_byte_identical X T)"
  shows "passes (pinned_signatures_still_verify X) \<and>
    emit_golden_vectors X T = map (\<lambda>(label, sk, pk, sig). golden_line label sk pk sig) GOLDEN_VECTORS"
  using golden_loops [OF assms(1-3)] emitted_lines assms(4)
  unfolding passes_def golden_vectors_are_byte_identical_def pinned_signatures_still_verify_def
    emit_golden_vectors_def
  by blast

end
