(* ===== verification/Dig_Bench.thy ===== *)
theory Dig_Bench
  imports Dig_Testing
begin

text \<open>
  A concrete instance of the other crates, of the functions the tests call and of what a test draws,
  that satisfies all the laws the unit tests rely on; their witnesses run on it. It models no code. It is
  the instance of \<open>Dig_Demo\<close> with PEM texts that have armour and decoders that refuse more.
\<close>

definition bench_pem :: "string \<Rightarrow> string \<Rightarrow> bytes option" where
  "bench_pem a s =
     (if prefix a s then unhex (drop (length a) s)
      else case s of [] \<Rightarrow> None | c # _ \<Rightarrow> if c = CHR ''-'' then Some [99] else None)"

definition bench_parse :: "bytes \<Rightarrow> string + x509" where
  "bench_parse der =
     (case der of
        b # _ \<Rightarrow> if b AND 0xC0 \<noteq> 0 then Inl ''not a certificate'' else demo_parse der
      | [] \<Rightarrow> demo_parse der)"

definition bench_params :: cert_params where
  "bench_params = demo_params\<lparr>not_before := DEFAULT_NOT_BEFORE, not_after := DEFAULT_NOT_AFTER\<rparr>"

definition bench :: crates where
  "bench = demo\<lparr>
     pk_from_bytes := (\<lambda>b. if length b = 48 \<and> hd b = 2 then Some b else None),
     sig_from_bytes := (\<lambda>b. if length b = 96 \<and> hd b = 2 then Some b else None),
     parse_x509_certificate := bench_parse,
     pemfile_certs := (\<lambda>b. case bench_pem ''BEGIN CERTIFICATE'' (map char_of_byte b) of
        None \<Rightarrow> [] | Some d \<Rightarrow> [Inr d]),
     keypair_from_pem := (\<lambda>s. case bench_pem ''PRIVATE KEY'' s of None \<Rightarrow> Inl ''bad key'' | Some k \<Rightarrow> Inr k),
     keypair_serialize_pem := (\<lambda>k. ''PRIVATE KEY'' @ hex_string k),
     certificate_pem := (\<lambda>c. ''BEGIN CERTIFICATE'' @ hex_string c),
     params_new := (\<lambda>_. Inr bench_params),
     end_entity_try_from := (\<lambda>der. case bench_parse der of Inl e \<Rightarrow> Inl e | Inr _ \<Rightarrow> Inr der)\<rparr>"

definition bench_deps :: test_deps where
  "bench_deps = \<lparr>
     sk_from_seed = (\<lambda>b. b), sk_to_bytes = (\<lambda>sk. sk), keypair_generate = Inr,
     generate_simple_self_signed = (\<lambda>r names. Inr (demo_cert bench_params r r)),
     certificate_der = (\<lambda>c. c),
     display_tls_error = (\<lambda>e. case e of General m \<Rightarrow> m | OtherTlsError m \<Rightarrow> m),
     server_name_try_from = Inr,
     tempdir = (\<lambda>w. (Ok [''t''], w\<lparr>wfiles := (\<lambda>_. None), wdirs := [[] \<mapsto> mode_0777, [''t''] \<mapsto> mode_0700]\<rparr>))\<rparr>"

definition bench_draws :: draws where
  "bench_draws = \<lparr>random = (\<lambda>i. [word_of_nat (i + 1)]), clock = (\<lambda>_. 1000000000)\<rparr>"

section \<open>What it computes\<close>

lemma bench_pem_armour [simp]: "bench_pem a (a @ hex_string b) = Some b"
  by (simp add: bench_pem_def unhex_hex_string)

lemma bench_shipped_pem:
  "bench_pem ''BEGIN CERTIFICATE'' DIG_CA_CERT_PEM = Some [99]" "bench_pem ''PRIVATE KEY'' DIG_CA_KEY_PEM = Some [99]"
proof -
  obtain cs ks where "DIG_CA_CERT_PEM = CHR ''-'' # cs" "DIG_CA_KEY_PEM = CHR ''-'' # ks"
    by (simp add: DIG_CA_CERT_PEM_def DIG_CA_KEY_PEM_def pem_text_def)
  moreover have "bench_pem ''BEGIN CERTIFICATE'' (CHR ''-'' # cs) = Some [99]"
    "bench_pem ''PRIVATE KEY'' (CHR ''-'' # ks) = Some [99]"
    by (simp_all add: bench_pem_def)
  ultimately show "bench_pem ''BEGIN CERTIFICATE'' DIG_CA_CERT_PEM = Some [99]"
    "bench_pem ''PRIVATE KEY'' DIG_CA_KEY_PEM = Some [99]"
    by metis+
qed

lemma bench_parse_cert: "bench_parse (demo_cert p k ik) = demo_parse (demo_cert p k ik)"
proof -
  have "\<exists>b r. demo_cert p k ik = b # r \<and> b AND 0xC0 = 0"
    by (cases k) (simp_all add: demo_cert_def)
  then show ?thesis by (auto simp: bench_parse_def)
qed

lemma bench_pemfile [simp]: "pemfile_certs bench (as_bytes (certificate_pem bench c)) = [Inr c]"
  using bench_pem_armour [of "''BEGIN CERTIFICATE''" c]
  by (simp add: bench_def del: as_bytes_simps bench_pem_armour)

lemma bench_simps [simp]:
  "params_self_signed bench p k = Inr (demo_cert p k k)"
  "params_signed_by bench p k ic ik = Inr (demo_cert p k ik)"
  "params_new bench names = Inr bench_params"
  "parse_x509_certificate bench = bench_parse"
  by (simp_all add: bench_def demo_def del: as_bytes_simps)

lemma bench_utf8: "list_all (\<lambda>b. b < 0x80) (as_bytes a) \<Longrightarrow> valid_utf8 (as_bytes (a @ hex_string b))"
proof (rule valid_utf8_ascii)
  assume a: "list_all (\<lambda>b. b < 0x80) (as_bytes a)"
  have "list_all (\<lambda>b. b < 0x80) (as_bytes (hex_string b))"
  proof (induction b)
    case (Cons x xs)
    have "unat x div 16 < 16" using unat_byte_less [of x] by linarith
    with Cons show ?case by (simp add: hex_string_def hex_char_ascii)
  qed (simp add: hex_string_def)
  with a show "list_all (\<lambda>b. b < 0x80) (as_bytes (a @ hex_string b))" by simp
qed

lemma bench_reads_back: "reads_back_as bench (demo_cert p k ik) p k"
proof -
  obtain x where x: "demo_parse (demo_cert p k ik) = Inr x" "subject_pki_raw x = k"
    "\<forall>oid v. custom_extensions p = [OidContent oid v] \<longrightarrow> x509_extensions x = [(dotted oid, v)]"
    using demo_parse_cert [of p k ik] by blast
  have "valid_utf8 (as_bytes (certificate_pem bench (demo_cert p k ik)))"
    using bench_utf8 [of "''BEGIN CERTIFICATE''"] by (simp add: bench_def byte_of_char_def)
  moreover have "keypair_public_key_der bench k = k" by (simp add: bench_def demo_def)
  ultimately show ?thesis using x by (auto simp: reads_back_as_def bench_parse_cert)
qed

section \<open>The laws hold\<close>

lemma bench_bls:
  "bls_correct bench" "bls_lengths bench" "seeds_give_keys bench bench_deps" "infinity_canonical bench"
proof -
  have head: "hd (demo_pad n b) = hd b" if "0 < n" "b \<noteq> []" for n b
    using that hd_demo_pad [of n "hd b" "tl b"] by simp
  have "demo_pad 48 (2 # sk) \<noteq> []" for sk
    using length_demo_pad [of 48 "2 # sk"] by (metis length_0_conv zero_neq_numeral)
  then have "hd (demo_pad 96 (demo_pad 48 (2 # sk) @ m)) = 2" for sk m
    by (simp add: head)
  then show "bls_correct bench"
    by (simp add: bls_correct_def bench_def demo_def hd_demo_pad)
  show "bls_lengths bench" by (simp add: bls_lengths_def bench_def demo_def)
  show "seeds_give_keys bench bench_deps"
    using demo_bls_key_ok by (simp add: seeds_give_keys_def bls_key_ok_def bench_def demo_def)
  have "b AND 0xC0 = 0xC0 \<Longrightarrow> b \<noteq> 2" for b :: byte by auto
  then show "infinity_canonical bench" by (auto simp: infinity_canonical_def bench_def demo_def)
qed

lemma bench_rcgen:
  "certificates_universal bench" "rcgen_signs bench (- 62167219200) 253402300799" "rcgen_reads_back bench" "self_signed_reads_back bench"
  "keypair_round_trip bench" "ca_rereads bench" "named_defaults bench (- 62167219200) 253402300799" "default_validity bench"
  "simple_is_self_signed bench bench_deps" "no_stray_extension bench" "der_of_pem bench bench_deps"
  "pem_armour bench"
proof -
  show "certificates_universal bench" by (simp add: certificates_universal_def bench_parse_def)
  show "rcgen_signs bench (- 62167219200) 253402300799" unfolding rcgen_signs_def by (simp add: bench_def demo_def)
  show "rcgen_reads_back bench" "self_signed_reads_back bench"
    using bench_reads_back by (simp_all add: rcgen_reads_back_def self_signed_reads_back_def)
  show "keypair_round_trip bench"
    using bench_utf8 [of "''PRIVATE KEY''"] bench_pem_armour [of "''PRIVATE KEY''"]
    by (simp add: keypair_round_trip_def bench_def byte_of_char_def del: bench_pem_armour)
  show "ca_rereads bench" by (simp add: ca_rereads_def bench_def demo_def)
  show "named_defaults bench (- 62167219200) 253402300799" "default_validity bench"
    by (auto simp: named_defaults_def default_validity_def encodable_def bench_params_def demo_params_def
        DEFAULT_NOT_BEFORE_def DEFAULT_NOT_AFTER_def)
  show "simple_is_self_signed bench bench_deps" by (auto simp: simple_is_self_signed_def bench_deps_def)
  show "der_of_pem bench bench_deps" by (simp add: der_of_pem_def bench_deps_def)
  show "pem_armour bench" by (auto simp: pem_armour_def bench_def sublist_def)
  show "no_stray_extension bench"
    unfolding no_stray_extension_def bench_pemfile bench_simps
  proof (intro allI impI)
    fix p k ic ik c der rest x oid
    assume "custom_extensions p = []" "Inr (demo_cert p k k) = Inr c \<or> Inr (demo_cert p k ik) = Inr c"
      "[Inr c] = Inr der # rest" "bench_parse der = Inr x"
    then have "x509_extensions x = []"
      using demo_parse_cert [of p k k] demo_parse_cert [of p k ik] by (auto simp: bench_parse_cert)
    then show "first_extension (dotted oid) (x509_extensions x) = None" by simp
  qed
qed

lemma bench_embedded: "\<exists>ca. embedded bench = Ok ca \<and> ca_key ca = [99]"
  using bench_shipped_pem(2) by (simp add: embedded_def ca_from_pem_def bench_def demo_def)

lemma bench_anchor: "anchor bench = [99]"
  using bench_shipped_pem(1) by (simp add: anchor_def first_pem_cert_def bench_def)

lemma bench_webpki: "webpki_accepts_signed bench" "webpki_refuses_foreign bench"
  "shipped_ca_parses bench (- 62167219200) 253402300799"
proof -
  have fields: "demo_fields 2 (demo_cert p k ik) = [k, ik]" for p k ik
    by (simp add: demo_cert_def numeral_eq_Suc)
  have ee: "end_entity_try_from bench (demo_cert p k ik) = Inr (demo_cert p k ik)" for p k ik
    using demo_parse_cert [of p k ik] by (auto simp: bench_def bench_parse_cert [unfolded bench_def])
  have check: "verify_for_usage bench (demo_cert p k ik) algs as ims t u =
      (if ik = [99] then Inr () else Inl ''UnknownIssuer'')" for p k ik algs as ims t u
    by (simp add: bench_def demo_def fields)
  have ids: "anchor_from_trusted_cert bench = Inr" "keypair_public_key_der bench = (\<lambda>k. k)"
    by (simp_all add: bench_def demo_def)
  obtain ca where ca: "embedded bench = Ok ca" "ca_key ca = [99]" using bench_embedded by blast
  show "webpki_accepts_signed bench"
    unfolding webpki_accepts_signed_def bench_pemfile bench_simps bench_anchor using ca by (auto simp: ee check ids)
  show "webpki_refuses_foreign bench"
    unfolding webpki_refuses_foreign_def bench_pemfile bench_simps using ca by (auto simp: ee check ids)
  have "params_from_ca_cert_pem bench = (\<lambda>_. Inr demo_params)" by (simp add: bench_def demo_def)
  moreover have "encodable bench (- 62167219200) 253402300799 demo_params"
    by (simp add: encodable_def demo_params_def)
  ultimately show "shipped_ca_parses bench (- 62167219200) 253402300799"
    using ca(1) by (auto simp: shipped_ca_parses_def embedded_def ca_from_pem_Ok)
qed

lemma bench_behaves: "crates_behave bench bench_deps (- 62167219200) 253402300799"
proof -
  have "time_range bench (- 377705116800) 253402300799" by (simp add: time_range_def bench_def demo_def)
  moreover have "rcgen_defaults bench" by (simp add: rcgen_defaults_def bench_params_def demo_params_def)
  ultimately have "date_laws bench (- 377705116800) (- 62167219200) 253402300799 253402300799"
    using bench_rcgen by (simp add: date_laws_def)
  moreover have "displays_message bench_deps" "\<exists>n. server_name_try_from bench_deps ''peer.dig'' = Inr n"
    by (simp_all add: displays_message_def bench_deps_def)
  ultimately show ?thesis using bench_bls bench_rcgen bench_webpki unfolding crates_behave_def by blast
qed

section \<open>The draws behave\<close>

text \<open>The rival labels and messages, evaluated.\<close>

lemma bench_rivals:
  "distinct (map (\<lambda>l. demo_pad 48 (2 # demo_pad 32 (as_bytes l)))
     [''bls/wrong-msg'', ''bls/signer'', ''bls/other'', ''binding/victim'', ''binding/attacker'', ''binding/replay''])"
  "distinct (map (demo_pad 48) [as_bytes ''the real message'', as_bytes ''a different message'', as_bytes ''payload'',
     binding_message [1], binding_message [2]])"
  by code_simp+

lemma bench_rival_messages:
  "rival_messages bench bench_deps bench_draws =
     set [as_bytes ''the real message'', as_bytes ''a different message'', as_bytes ''payload'',
       binding_message [1], binding_message [2]]"
proof -
  have "{binding_message (keypair_public_key_der bench k) | k i. i < 2 \<and> keypair_generate bench_deps (random bench_draws i) = Inr k} =
      {binding_message [word_of_nat (i + 1)] | i :: nat. i < 2}"
    by (auto simp: bench_def demo_def bench_deps_def bench_draws_def)
  also have "\<dots> = {binding_message [1], binding_message [2]}"
    by (auto simp: less_2_cases_iff intro: exI [of _ 0] exI [of _ 1])
  finally show ?thesis by (auto simp: rival_messages_def simp del: as_bytes_simps)
qed

lemma bench_separates:
  "signatures_separate bench S (rival_messages bench bench_deps bench_draws)"
  unfolding signatures_separate_def
proof (intro ballI impI)
  fix sk m sk' m'
  assume m: "m \<in> rival_messages bench bench_deps bench_draws" "m' \<in> rival_messages bench bench_deps bench_draws"
    and v: "aug_verify bench (aug_sign bench sk m) (sk_public_key bench sk') m'"
  let ?a = "demo_pad 48 (2 # sk)" and ?b = "demo_pad 48 (2 # sk')"
  have halves: "demo_pad 96 (a @ n) = a @ demo_pad 48 n" if "length a = 48" for a n
    using that by (simp add: demo_pad_def replicate_add [of 48 48, simplified])
  have "?a @ demo_pad 48 m = ?b @ demo_pad 48 m'"
    using v halves [of ?a m] halves [of ?b m'] by (simp add: bench_def demo_def)
  then have "?a = ?b" "demo_pad 48 m = demo_pad 48 m'" by simp_all
  moreover have "inj_on (demo_pad 48) (rival_messages bench bench_deps bench_draws)"
    using bench_rivals(2) unfolding bench_rival_messages distinct_map by blast
  ultimately show "sk_public_key bench sk' = sk_public_key bench sk \<and> m' = m"
    using m by (auto simp: bench_def demo_def dest: inj_onD)
qed

lemma bench_draws_behave:
  "draws_behave bench bench_deps (- 62167219200) 253402300799 bench_draws"
proof -
  have drawn: "unat (word_of_nat (i + 1) :: byte) = i + 1" if "i < 8" for i
    using that by (simp only: unat_of_nat) simp
  have small: "i = j" if eq: "(word_of_nat (i + 1) :: byte) = word_of_nat (j + 1)" and "i < 8" "j < 8" for i j
    using arg_cong [OF eq, of unat] drawn [OF that(2)] drawn [OF that(3)] by linarith
  have other: "(word_of_nat (i + 1) :: byte) \<noteq> b" if "i < 8" "16 \<le> unat b" for i b
    using drawn [OF that(1)] that by auto
  have "labels_differ bench bench_deps rival_labels"
  proof -
    have "rival_labels = set [''bls/wrong-msg'', ''bls/signer'', ''bls/other'', ''binding/victim'',
        ''binding/attacker'', ''binding/replay'']"
      by (auto simp: rival_labels_def)
    then have "inj_on (\<lambda>l. demo_pad 48 (2 # demo_pad 32 (as_bytes l))) rival_labels"
      using bench_rivals(1) unfolding distinct_map by simp
    then show ?thesis by (simp add: labels_differ_def bench_def demo_def bench_deps_def)
  qed
  moreover have "clock_steady (- 62167219200) 253402300799 bench_draws"
    by (simp add: clock_steady_def bench_draws_def mintable_def DEFAULT_NOT_BEFORE_def DEFAULT_NOT_AFTER_def)
  moreover have "keys_differ bench Inr bench_draws"
    using small by (auto simp: keys_differ_def bench_def demo_def bench_draws_def)
  moreover have "no_collision bench (drawn_spkis bench Inr bench_draws)"
  proof -
    have "b = c" if "demo_pad 32 [b] = demo_pad 32 [c]" for b c
      using arg_cong [OF that, of hd] by (simp add: hd_demo_pad)
    then show ?thesis
      by (auto simp: no_collision_def inj_on_def drawn_spkis_def bench_def demo_def bench_draws_def)
  qed
  moreover have "not_the_shipped_key bench Inr bench_draws"
  proof -
    have "(word_of_nat (i + 1) :: byte) \<noteq> 99" if "i < 8" for i
      by (rule other [OF that]) simp
    then show ?thesis
      using bench_embedded by (auto simp: not_the_shipped_key_def bench_def demo_def bench_draws_def)
  qed
  moreover have "not_the_wrong_pin bench Inr bench_draws"
  proof -
    have "demo_pad 32 [word_of_nat (i + 1)] \<noteq> replicate 32 0x22" if "i < 8" for i
    proof
      assume "demo_pad 32 [word_of_nat (i + 1)] = replicate 32 0x22"
      then have "hd (demo_pad 32 [word_of_nat (i + 1)]) = hd (replicate 32 (0x22 :: byte))" by (rule arg_cong)
      then have "(word_of_nat (i + 1) :: byte) = 0x22" by (simp add: hd_demo_pad del: of_nat_add)
      moreover have "(word_of_nat (i + 1) :: byte) \<noteq> 0x22" by (rule other [OF that]) simp
      ultimately show False by blast
    qed
    then show ?thesis by (simp add: not_the_wrong_pin_def bench_def demo_def bench_draws_def)
  qed
  moreover have "keypair_generate bench_deps = Inr" "(\<lambda>r. keypair_generate_for bench r PKCS_ECDSA_P256_SHA256) = Inr"
    by (simp_all add: bench_deps_def bench_def demo_def)
  ultimately show ?thesis
    using bench_separates by (simp add: draws_behave_def)
qed

end
