(* ===== verification/Dig_Tests_Leaf.thy ===== *)
theory Dig_Tests_Leaf
  imports Dig_Tests_Bls Dig_Bench
begin

text \<open>
  The unit tests of \<open>identity.rs\<close>, \<open>binding.rs\<close> and \<open>ca.rs\<close>, and that each passes for every instance
  of the other crates that satisfies the laws. The i-th key pair a test generates takes the i-th draw.
\<close>

section \<open>\<open>identity.rs\<close>\<close>

definition hex_round_trips :: test where
  "hex_round_trips =
     (let id = from_bytes (replicate 32 0xAB) in
      bind (to_hex id) (\<lambda>hex.
      bind (assert_that (length hex = 64)) (\<lambda>_.
      bind (from_hex hex) (\<lambda>r. assert_that (r = Some id)))))"

definition from_hex_rejects_bad_input :: test where
  "from_hex_rejects_bad_input =
     bind (from_hex ''tooshort'') (\<lambda>r.
     bind (assert_that (r = None)) (\<lambda>_.
     bind (from_hex (replicate 64 (CHR ''z''))) (\<lambda>r. assert_that (r = None))))"

definition peer_id_is_sha256_of_spki :: "crates \<Rightarrow> test" where
  "peer_id_is_sha256_of_spki X =
     (let spki = as_bytes ''a fake SPKI DER blob'';
          expected = sha256_digest X spki
      in assert_that (peer_id_as_bytes (peer_id_from_tls_spki_der X spki) = expected))"

definition peer_id_from_unparseable_cert_is_none :: "crates \<Rightarrow> test" where
  "peer_id_from_unparseable_cert_is_none X =
     assert_that (peer_id_from_leaf_cert_der X (as_bytes ''not a certificate'') = None)"

definition display_equals_hex :: test where
  "display_equals_hex =
     (let id = from_bytes (replicate 32 0x01) in
      bind (fmt_display id) (\<lambda>shown. bind (to_hex id) (\<lambda>hex. assert_that (shown = hex))))"

definition identity_tests :: "crates \<Rightarrow> test list" where
  "identity_tests X =
     [hex_round_trips, from_hex_rejects_bad_input, peer_id_is_sha256_of_spki X,
      peer_id_from_unparseable_cert_is_none X, display_equals_hex]"

lemma identity_tests_pass:
  assumes "certificates_universal X"
  shows "t \<in> set (identity_tests X) \<Longrightarrow> passes t"
proof -
  obtain r where n: "as_bytes ''not a certificate'' = 0x6E # r" by (simp add: byte_of_char_def)
  have "(0x6E :: byte) AND 0xC0 \<noteq> 0" by simp
  then have "\<exists>e. parse_x509_certificate X (as_bytes ''not a certificate'') = Inl e"
    using assms unfolding n certificates_universal_def by blast
  then have "passes (peer_id_from_unparseable_cert_is_none X)"
    by (auto simp: passes_def peer_id_from_unparseable_cert_is_none_def peer_id_from_leaf_cert_der_def
        simp del: as_bytes_simps)
  moreover have "unhex (replicate 64 (CHR ''z'')) = None"
    unfolding unhex_None_iff by (simp add: is_hex_digit_def)
  ultimately show "t \<in> set (identity_tests X) \<Longrightarrow> passes t"
    by (auto simp: identity_tests_def passes_def hex_round_trips_def from_hex_rejects_bad_input_def
        peer_id_is_sha256_of_spki_def display_equals_hex_def Let_def to_hex_eq from_hex_eq from_bytes_def
        length_hex_string unhex_hex_string peer_id_as_bytes_def peer_id_from_tls_spki_der_def
        simp del: as_bytes_simps)
qed

section \<open>\<open>binding.rs\<close>\<close>

definition node_bls_sk :: "crates \<Rightarrow> test_deps \<Rightarrow> string \<Rightarrow> opaque" where
  "node_bls_sk X T label = sk_from_seed T (sha256_digest X (as_bytes label))"

definition tls_key_pair :: "test_deps \<Rightarrow> bytes \<Rightarrow> (unit, opaque) outcome" where
  "tls_key_pair T rnd = unwrap_sum (keypair_generate T rnd)"

text \<open>The tail the certificates of these tests share: \<open>params.self_signed(kp).unwrap().der()\<close>.\<close>

definition self_sign :: "crates \<Rightarrow> test_deps \<Rightarrow> cert_params \<Rightarrow> opaque \<Rightarrow> (unit, bytes) outcome" where
  "self_sign X T params kp =
     bind (unwrap_sum (params_self_signed X params kp)) (\<lambda>c. Ok (certificate_der T c))"

definition bound_self_signed :: "crates \<Rightarrow> test_deps \<Rightarrow> opaque \<Rightarrow> opaque \<Rightarrow> (unit, bytes) outcome" where
  "bound_self_signed X T kp bls_sk =
     bind (unwrap_sum (params_new X [''peer.dig''])) (\<lambda>params.
     self_sign X T (attach_binding X params kp bls_sk) kp)"

definition oid_arc_and_string_forms_agree :: test where
  "oid_arc_and_string_forms_agree = assert_that (dotted DIG_BLS_BINDING_OID = DIG_BLS_BINDING_OID_STR)"

definition extension_value_round_trips :: test where
  "extension_value_round_trips =
     (let value = encode_binding_extension_value (replicate 48 7) (replicate 96 9) in
      bind (assert_that (length value = BINDING_V1_LEN)) (\<lambda>_.
      bind (or_panic (parse_binding_extension_value value)) (\<lambda>parsed.
      bind (assert_that (bls_pub parsed = replicate 48 7)) (\<lambda>_.
      assert_that (bls_sig parsed = replicate 96 9)))))"

definition parse_rejects_bad_length_and_unknown_version :: test where
  "parse_rejects_bad_length_and_unknown_version =
     bind (assert_that (parse_binding_extension_value [] = None)) (\<lambda>_.
     bind (assert_that (parse_binding_extension_value (replicate 10 BINDING_VERSION_V1) = None)) (\<lambda>_.
     (let wrong = (replicate BINDING_V1_LEN 0)[0 := 0xFE]
      in assert_that (parse_binding_extension_value wrong = None))))"

definition valid_bound_cert_verifies :: "crates \<Rightarrow> test_deps \<Rightarrow> draws \<Rightarrow> test" where
  "valid_bound_cert_verifies X T E =
     bind (tls_key_pair T (random E 0)) (\<lambda>kp.
     (let bls_sk = node_bls_sk X T ''binding/valid'' in
      bind (bound_self_signed X T kp bls_sk) (\<lambda>cert.
      case verify_binding_from_leaf_cert X cert of
        Bound pub \<Rightarrow> assert_that (pub = public_key_bytes X bls_sk)
      | _ \<Rightarrow> Panicked)))"

definition cert_without_extension_is_absent :: "crates \<Rightarrow> test_deps \<Rightarrow> draws \<Rightarrow> test" where
  "cert_without_extension_is_absent X T E =
     bind (unwrap_sum (generate_simple_self_signed T (random E 0) [''peer.dig''])) (\<lambda>c.
     assert_that (verify_binding_from_leaf_cert X (certificate_der T c) = Absent))"

text \<open>\<open>matches!(outcome, BindingOutcome::Invalid(_))\<close>, and a self-signed certificate with one given
  binding extension.\<close>

fun is_invalid :: "binding_outcome \<Rightarrow> bool" where
  "is_invalid (Invalid _) = True"
| "is_invalid _ = False"

definition self_signed_with_extension ::
  "crates \<Rightarrow> test_deps \<Rightarrow> opaque \<Rightarrow> bytes \<Rightarrow> (unit, bytes) outcome" where
  "self_signed_with_extension X T kp ext =
     bind (unwrap_sum (params_new X [''peer.dig''])) (\<lambda>params.
     self_sign X T (params\<lparr>custom_extensions :=
        custom_extensions params @ [OidContent DIG_BLS_BINDING_OID ext]\<rparr>) kp)"

definition anti_substitution_wrong_bls_key_rejected :: "crates \<Rightarrow> test_deps \<Rightarrow> draws \<Rightarrow> test" where
  "anti_substitution_wrong_bls_key_rejected X T E =
     bind (tls_key_pair T (random E 0)) (\<lambda>kp.
     (let victim_sk = node_bls_sk X T ''binding/victim'';
          attacker_pub = public_key_bytes X (node_bls_sk X T ''binding/attacker'');
          spki = keypair_public_key_der X kp;
          sig = sign_message X victim_sk (binding_message spki);
          ext = encode_binding_extension_value attacker_pub sig
      in bind (self_signed_with_extension X T kp ext) (\<lambda>cert.
         assert_that (is_invalid (verify_binding_from_leaf_cert X cert)))))"

definition anti_substitution_binding_replayed_on_other_cert_rejected ::
  "crates \<Rightarrow> test_deps \<Rightarrow> draws \<Rightarrow> test" where
  "anti_substitution_binding_replayed_on_other_cert_rejected X T E =
     bind (tls_key_pair T (random E 0)) (\<lambda>kp_a.
     (let bls_sk = node_bls_sk X T ''binding/replay'';
          sig = sign_message X bls_sk (binding_message (keypair_public_key_der X kp_a));
          ext = encode_binding_extension_value (public_key_bytes X bls_sk) sig
      in bind (tls_key_pair T (random E 1)) (\<lambda>kp_b.
         bind (self_signed_with_extension X T kp_b ext) (\<lambda>cert_b.
         assert_that (is_invalid (verify_binding_from_leaf_cert X cert_b))))))"

definition subgroup_check_rejects_bad_g1_point :: "crates \<Rightarrow> test_deps \<Rightarrow> draws \<Rightarrow> test" where
  "subgroup_check_rejects_bad_g1_point X T E =
     bind (tls_key_pair T (random E 0)) (\<lambda>kp.
     (let bls_sk = node_bls_sk X T ''binding/subgroup'';
          sig = sign_message X bls_sk (binding_message (keypair_public_key_der X kp));
          ext = encode_binding_extension_value (replicate 48 0xFF) sig
      in bind (self_signed_with_extension X T kp ext) (\<lambda>cert.
         assert_that (is_invalid (verify_binding_from_leaf_cert X cert)))))"

definition policy_off_accepts_everything :: test where
  "policy_off_accepts_everything =
     (let pk = replicate 48 1 in
      bind (assert_that (evaluate Absent Off = Ok None)) (\<lambda>_.
      bind (assert_that (evaluate (Invalid ''x'') Off = Ok None)) (\<lambda>_.
      assert_that (evaluate (Bound pk) Off = Ok None))))"

definition policy_opportunistic_accepts_absent_rejects_invalid :: test where
  "policy_opportunistic_accepts_absent_rejects_invalid =
     (let pk = replicate 48 2 in
      bind (assert_that (evaluate Absent Opportunistic = Ok None)) (\<lambda>_.
      bind (is_ok (evaluate (Invalid ''bad'') Opportunistic)) (\<lambda>ok.
      bind (assert_that (\<not> ok)) (\<lambda>_.
      assert_that (evaluate (Bound pk) Opportunistic = Ok (Some pk))))))"

definition policy_required_rejects_absent_and_invalid :: test where
  "policy_required_rejects_absent_and_invalid =
     (let pk = replicate 48 3 in
      bind (is_ok (evaluate Absent Required)) (\<lambda>ok.
      bind (assert_that (\<not> ok)) (\<lambda>_.
      bind (is_ok (evaluate (Invalid ''bad'') Required)) (\<lambda>ok.
      bind (assert_that (\<not> ok)) (\<lambda>_.
      assert_that (evaluate (Bound pk) Required = Ok (Some pk)))))))"

definition default_policy_is_opportunistic :: test where
  "default_policy_is_opportunistic = assert_that (default_policy = Opportunistic)"

definition binding_tests :: "crates \<Rightarrow> test_deps \<Rightarrow> draws \<Rightarrow> test list" where
  "binding_tests X T E =
     [oid_arc_and_string_forms_agree, extension_value_round_trips,
      parse_rejects_bad_length_and_unknown_version, valid_bound_cert_verifies X T E,
      cert_without_extension_is_absent X T E, anti_substitution_wrong_bls_key_rejected X T E,
      anti_substitution_binding_replayed_on_other_cert_rejected X T E,
      subgroup_check_rejects_bad_g1_point X T E, policy_off_accepts_everything,
      policy_opportunistic_accepts_absent_rejects_invalid, policy_required_rejects_absent_and_invalid,
      default_policy_is_opportunistic]"

section \<open>\<open>ca.rs\<close>\<close>

definition generated_ca_round_trips_through_pem :: "crates \<Rightarrow> draws \<Rightarrow> test" where
  "generated_ca_round_trips_through_pem X E =
     bind (unwrap (generate_dig_ca X (random E 0) (clock E 0))) (\<lambda>ca.
     bind (assert_that (str_contains (ca_cert_pem ca) ''BEGIN CERTIFICATE'')) (\<lambda>_.
     bind (assert_that (str_contains (ca_key_pem ca) ''PRIVATE KEY'')) (\<lambda>_.
     bind (unwrap (ca_from_pem X (ca_cert_pem ca) (ca_key_pem ca))) (\<lambda>_. Ok ()))))"

text \<open>The test reads the \<open>OnceLock\<close> of the shipped certificate.\<close>

definition embedded_ca_loads_and_parses_to_der :: "crates \<Rightarrow> bytes option test_on" where
  "embedded_ca_loads_and_parses_to_der X =
     seq (pure_act (unwrap (embedded X))) (\<lambda>_.
     seq (after unwrap (embedded_ca_cert_der X)) (\<lambda>der.
     pure_act (assert_that (der \<noteq> []))))"

definition ca_tests :: "crates \<Rightarrow> draws \<Rightarrow> bytes option \<Rightarrow> test list" where
  "ca_tests X E cell =
     [generated_ca_round_trips_through_pem X E, fst (embedded_ca_loads_and_parses_to_der X cell)]"

lemma ca_tests_pass:
  assumes laws: "crates_behave X T lo hi" and draws: "draws_behave X T lo hi E" and cell: "anchor_cell_ok X cell"
  shows "t \<in> set (ca_tests X E cell) \<Longrightarrow> passes t"
proof -
  note L = crates_behave_laws [OF laws]
  obtain m where m: "generate_dig_ca X (random E 0) (clock E 0) = Ok m"
    using test_mints(3) [OF laws draws, of 0] by auto
  obtain c key ca where c: "ca_cert_pem m = certificate_pem X c" "ca_key_pem m = keypair_serialize_pem X key"
    "ca_from_pem X (ca_cert_pem m) (ca_key_pem m) = Ok ca"
    using minted_ca_loads [OF L(22,9,10) m] by blast
  have "passes (generated_ca_round_trips_through_pem X E)"
    using m c L(15) by (simp add: passes_def generated_ca_round_trips_through_pem_def str_contains_def pem_armour_def)
  moreover obtain ca where "embedded X = Ok ca" using shipped_ca_loads [OF L(6,16)] by blast
  then have "passes (fst (embedded_ca_loads_and_parses_to_der X cell))"
    using L(18) by (simp add: passes_def embedded_ca_loads_and_parses_to_der_def seq_def after_def
        embedded_ca_cert_der_eq [OF cell] webpki_accepts_signed_def)
  ultimately show "t \<in> set (ca_tests X E cell) \<Longrightarrow> passes t" by (auto simp: ca_tests_def)
qed

section \<open>The binding tests pass\<close>

text \<open>A self-signed certificate with one binding extension reads back with it.\<close>

lemma self_sign_reads:
  assumes laws: "crates_behave X T lo hi" and p: "encodable X lo hi p"
  shows "\<exists>c der rest x. params_self_signed X p kp = Inr c \<and> self_sign X T p kp = Ok der \<and>
    pemfile_certs X (as_bytes (certificate_pem X c)) = Inr der # rest \<and>
    parse_x509_certificate X der = Inr x \<and> subject_pki_raw x = keypair_public_key_der X kp \<and>
    (\<forall>oid v. custom_extensions p = [OidContent oid v] \<longrightarrow> private_oid oid \<longrightarrow>
       first_extension (dotted oid) (x509_extensions x) = Some v)"
proof -
  note L = crates_behave_laws [OF laws]
  obtain c where c: "params_self_signed X p kp = Inr c" using L(6) p unfolding rcgen_signs_def by blast
  then have "reads_back_as X c p kp" using L(8) by (simp add: self_signed_reads_back_def)
  then obtain der rest x where r: "pemfile_certs X (as_bytes (certificate_pem X c)) = Inr der # rest"
    "parse_x509_certificate X der = Inr x" "subject_pki_raw x = keypair_public_key_der X kp"
    "\<forall>oid v. custom_extensions p = [OidContent oid v] \<longrightarrow> private_oid oid \<longrightarrow>
       first_extension (dotted oid) (x509_extensions x) = Some v"
    unfolding reads_back_as_def by blast
  moreover have "certificate_der T c = der" using L(14) r(1) unfolding der_of_pem_def by blast
  ultimately show ?thesis using c by (auto simp: self_sign_def)
qed

lemma with_extension_reads:
  assumes laws: "crates_behave X T lo hi"
  shows "\<exists>der x. self_signed_with_extension X T kp v = Ok der \<and> parse_x509_certificate X der = Inr x \<and>
    subject_pki_raw x = keypair_public_key_der X kp \<and>
    first_extension DIG_BLS_BINDING_OID_STR (x509_extensions x) = Some v"
proof -
  obtain p where p: "params_new X [''peer.dig''] = Inr p" "custom_extensions p = []" "encodable X lo hi p"
    using crates_behave_laws(11) [OF laws] unfolding named_defaults_def by blast
  let ?q = "p\<lparr>custom_extensions := [OidContent DIG_BLS_BINDING_OID v]\<rparr>"
  have "encodable X lo hi ?q" using p(3) binding_oid_private by (auto simp: encodable_def)
  from self_sign_reads [OF laws this, of kp] p binding_oid_private
  show ?thesis by (auto simp: self_signed_with_extension_def oid_forms_agree)
qed

lemma bound_is_extension:
  assumes laws: "crates_behave X T lo hi"
  shows "bound_self_signed X T kp sk = self_signed_with_extension X T kp
    (encode_binding_extension_value (public_key_bytes X sk)
       (sign_message X sk (binding_message (keypair_public_key_der X kp))))"
  by (simp add: bound_self_signed_def self_signed_with_extension_def attach_binding_def Let_def)

text \<open>A certificate whose binding value does not verify over its own key is invalid.\<close>

lemma with_extension_invalid:
  assumes laws: "crates_behave X T lo hi"
    and bad: "\<not> (g1_subgroup_check X pub \<and> verify_signature X pub (binding_message (keypair_public_key_der X kp)) sig)"
    and len: "length pub = 48" "length sig = 96"
  shows "bind (self_signed_with_extension X T kp (encode_binding_extension_value pub sig))
    (\<lambda>cert. assert_that (is_invalid (verify_binding_from_leaf_cert X cert))) = Ok ()"
proof -
  obtain der x where d: "self_signed_with_extension X T kp (encode_binding_extension_value pub sig) = Ok der"
    "parse_x509_certificate X der = Inr x" "subject_pki_raw x = keypair_public_key_der X kp"
    "first_extension DIG_BLS_BINDING_OID_STR (x509_extensions x) = Some (encode_binding_extension_value pub sig)"
    using with_extension_reads [OF laws] by blast
  have encoded: "encode_binding \<lparr>bls_pub = pub, bls_sig = sig\<rparr> = encode_binding_extension_value pub sig"
    by (simp add: encode_binding_def)
  have "parse_binding_extension_value (encode_binding_extension_value pub sig) = Some \<lparr>bls_pub = pub, bls_sig = sig\<rparr>"
    using parse_encode_binding [of "\<lparr>bls_pub = pub, bls_sig = sig\<rparr>"] len unfolding encoded
    by (simp add: binding_wf_def)
  then show ?thesis
    using d bad by (auto simp: verify_binding_from_leaf_cert_def find_binding_value_eq Let_def)
qed

text \<open>The signatures of the tests, by the key pairs drawn.\<close>

lemma drawn_key_pairs:
  assumes "draws_behave X T lo hi E"
  shows "\<exists>k l. keypair_generate T (random E 0) = Inr k \<and> keypair_generate T (random E 1) = Inr l \<and>
    keypair_public_key_der X k \<noteq> keypair_public_key_der X l \<and>
    binding_message (keypair_public_key_der X k) \<in> rival_messages X T E \<and>
    binding_message (keypair_public_key_der X l) \<in> rival_messages X T E"
proof -
  have d: "keys_differ X (keypair_generate T) E" using assms by (simp add: draws_behave_def)
  obtain k l where kl: "keypair_generate T (random E 0) = Inr k" "keypair_generate T (random E 1) = Inr l"
    using d unfolding keys_differ_def by (meson one_less_numeral_iff semiring_norm(76) zero_less_numeral)
  moreover have "keypair_public_key_der X k \<noteq> keypair_public_key_der X l"
    using d kl unfolding keys_differ_def by (metis one_less_numeral_iff semiring_norm(76) zero_less_numeral zero_neq_one)
  moreover have "binding_message (keypair_public_key_der X q) \<in> rival_messages X T E"
    if "i < 2" "keypair_generate T (random E i) = Inr q" for i q
    using that by (auto simp: rival_messages_def)
  then have "binding_message (keypair_public_key_der X k) \<in> rival_messages X T E"
    "binding_message (keypair_public_key_der X l) \<in> rival_messages X T E"
    using kl by (metis zero_less_numeral, metis one_less_numeral_iff semiring_norm(76))
  ultimately show ?thesis by metis
qed

lemma certificate_binding_tests_pass:
  assumes laws: "crates_behave X T lo hi" and draws: "draws_behave X T lo hi E"
  shows "passes (valid_bound_cert_verifies X T E)" "passes (cert_without_extension_is_absent X T E)"
    "passes (anti_substitution_wrong_bls_key_rejected X T E)"
    "passes (anti_substitution_binding_replayed_on_other_cert_rejected X T E)"
    "passes (subgroup_check_rejects_bad_g1_point X T E)"
proof -
  note L = crates_behave_laws [OF laws]
  note invalid = with_extension_invalid [OF laws]
  obtain k l where kl: "keypair_generate T (random E 0) = Inr k" "keypair_generate T (random E 1) = Inr l"
    "keypair_public_key_der X k \<noteq> keypair_public_key_der X l"
    and m: "binding_message (keypair_public_key_der X k) \<in> rival_messages X T E"
      "binding_message (keypair_public_key_der X l) \<in> rival_messages X T E"
    using drawn_key_pairs [OF draws] by blast
  have sk: "node_bls_sk X T = identity_sk X T" by (simp add: node_bls_sk_def identity_sk_def fun_eq_iff)
  have lens [simp]: "length (public_key_bytes X s) = 48" "length (sign_message X s t) = 96" for s t
    using L(2) by simp_all
  note rival = rival_signature [OF laws draws]
  show "passes (valid_bound_cert_verifies X T E)"
  proof -
    let ?sk = "identity_sk X T ''binding/valid''"
    obtain der x where d: "bound_self_signed X T k ?sk = Ok der"
      "parse_x509_certificate X der = Inr x" "subject_pki_raw x = keypair_public_key_der X k"
      "first_extension DIG_BLS_BINDING_OID_STR (x509_extensions x) = Some (encode_binding_extension_value
         (public_key_bytes X ?sk) (sign_message X ?sk (binding_message (keypair_public_key_der X k))))"
      using with_extension_reads [OF laws] unfolding bound_is_extension [OF laws] by blast
    moreover have ok: "bls_key_ok X ?sk" using test_key_ok [OF laws] by (simp add: identity_sk_def)
    ultimately have "verify_binding_from_leaf_cert X der = Bound (public_key_bytes X ?sk)"
      unfolding verify_binding_Bound_iff binds_def
      by (auto simp: g1_subgroup_check_public_key [OF ok] verify_sign_message [OF L(1) ok])
    then show ?thesis
      using d(1) kl(1) by (simp add: passes_def valid_bound_cert_verifies_def tls_key_pair_def sk Let_def)
  qed
  show "passes (cert_without_extension_is_absent X T E)"
  proof -
    obtain q p c where c: "generate_simple_self_signed T (random E 0) [''peer.dig''] = Inr c"
      "params_new X [''peer.dig''] = Inr p" "params_self_signed X p q = Inr c"
      using L(12) unfolding simple_is_self_signed_def by blast
    have p: "custom_extensions p = []" "encodable X lo hi p"
      using L(11) c(2) unfolding named_defaults_def by (metis insert_iff sum.inject(2))+
    obtain der rest x where d: "self_sign X T p q = Ok der"
      "pemfile_certs X (as_bytes (certificate_pem X c)) = Inr der # rest" "parse_x509_certificate X der = Inr x"
      using self_sign_reads [OF laws p(2), of q] c(3) by auto
    have "first_extension (dotted DIG_BLS_BINDING_OID) (x509_extensions x) = None"
      using L(13) p(1) binding_oid_private c(3) d(2,3) unfolding no_stray_extension_def by blast
    then have "verify_binding_from_leaf_cert X der = Absent"
      using d(3) by (auto simp: verify_binding_Absent_iff oid_forms_agree)
    then show ?thesis
      using c d(1) by (simp add: passes_def cert_without_extension_is_absent_def self_sign_def)
  qed
  have "\<not> verify_signature X (public_key_bytes X (identity_sk X T ''binding/attacker''))
      (binding_message (keypair_public_key_der X k))
      (sign_message X (identity_sk X T ''binding/victim'') (binding_message (keypair_public_key_der X k)))"
    using rival [of "''binding/victim''" "''binding/attacker''", OF _ _ m(1,1)] by (auto simp: rival_labels_def)
  with invalid kl(1) show "passes (anti_substitution_wrong_bls_key_rejected X T E)"
    by (simp add: passes_def anti_substitution_wrong_bls_key_rejected_def tls_key_pair_def sk Let_def)
  have "\<not> verify_signature X (public_key_bytes X (identity_sk X T ''binding/replay''))
      (binding_message (keypair_public_key_der X l))
      (sign_message X (identity_sk X T ''binding/replay'') (binding_message (keypair_public_key_der X k)))"
    using rival [of "''binding/replay''" "''binding/replay''", OF _ _ m(1,2)] kl(3) by (auto simp: rival_labels_def)
  with invalid kl(1,2) show "passes (anti_substitution_binding_replayed_on_other_cert_rejected X T E)"
    by (simp add: passes_def anti_substitution_binding_replayed_on_other_cert_rejected_def tls_key_pair_def sk Let_def)
  have "\<not> g1_subgroup_check X (replicate 48 0xFF)"
    using all_ones(3) [OF L(4), of 48] by (simp add: g1_subgroup_check_iff)
  with invalid kl(1) show "passes (subgroup_check_rejects_bad_g1_point X T E)"
    by (simp add: passes_def subgroup_check_rejects_bad_g1_point_def tls_key_pair_def sk Let_def)
qed

lemma binding_tests_pass:
  assumes "crates_behave X T lo hi" and "draws_behave X T lo hi E"
  shows "t \<in> set (binding_tests X T E) \<Longrightarrow> passes t"
proof -
  have "passes parse_rejects_bad_length_and_unknown_version"
    by (simp add: passes_def parse_rejects_bad_length_and_unknown_version_def parse_binding_None_iff
        BINDING_V1_LEN_def BINDING_VERSION_V1_def hd_conv_nth)
  moreover have "passes extension_value_round_trips"
    using parse_encode_binding [of "\<lparr>bls_pub = replicate 48 7, bls_sig = replicate 96 9\<rparr>"]
    by (simp add: passes_def extension_value_round_trips_def Let_def encode_binding_def binding_wf_def)
      (simp add: encode_binding_extension_value_def BINDING_V1_LEN_def)
  moreover have "passes oid_arc_and_string_forms_agree" "passes policy_off_accepts_everything"
    "passes policy_opportunistic_accepts_absent_rejects_invalid"
    "passes policy_required_rejects_absent_and_invalid" "passes default_policy_is_opportunistic"
    by (simp_all add: passes_def oid_arc_and_string_forms_agree_def oid_forms_agree
        policy_off_accepts_everything_def policy_opportunistic_accepts_absent_rejects_invalid_def
        policy_required_rejects_absent_and_invalid_def default_policy_is_opportunistic_def default_policy_def)
  ultimately show "t \<in> set (binding_tests X T E) \<Longrightarrow> passes t"
    using certificate_binding_tests_pass [OF assms] by (auto simp: binding_tests_def)
qed

section \<open>The suite\<close>

text \<open>
  The unit tests of \<open>bls.rs\<close>, \<open>identity.rs\<close>, \<open>binding.rs\<close> and \<open>ca.rs\<close> pass. For every instance of
  the other crates that satisfies the laws and all draws that behave, no assertion, \<open>unwrap\<close> or \<open>expect\<close>
  of these tests fails: signatures verify and do not verify as they should, peer ids print and parse,
  bound certificates are bound and substituted, replayed and malformed bindings invalid, the policies
  decide as documented, and a minted CA loads.
\<close>

lemma leaf_unit_tests_pass:
  assumes "crates_behave X T lo hi" and "draws_behave X T lo hi E" and "anchor_cell_ok X cell"
  shows "\<forall>t \<in> set (bls_tests X T @ identity_tests X @ binding_tests X T E @ ca_tests X E cell). passes t"
  using bls_tests_pass [OF assms(1,2)] identity_tests_pass [OF crates_behave_laws(5) [OF assms(1)]]
    binding_tests_pass [OF assms(1,2)] ca_tests_pass [OF assms]
  by auto

lemma leaf_unit_tests_pass_example:
  "passes (anti_substitution_binding_replayed_on_other_cert_rejected bench bench_deps bench_draws) \<and>
   passes (generated_ca_round_trips_through_pem bench bench_draws) \<and>
   passes (fst (embedded_ca_loads_and_parses_to_der bench None))"
proof -
  have "anchor_cell_ok bench None" by (simp add: anchor_cell_ok_def)
  from leaf_unit_tests_pass [OF bench_behaves bench_draws_behave this] show ?thesis
    by (simp add: binding_tests_def ca_tests_def)
qed

end
