(* ===== verification/Dig_Tests_Node.thy ===== *)
theory Dig_Tests_Node
  imports Dig_Bench Dig_Spec
begin

text \<open>
  The unit tests of \<open>node_cert.rs\<close>. Those that use the disk are computations on a world, from the call
  of \<open>tempdir\<close> on; on Windows the two tests of permission bits are not compiled. Each passes when no
  call of the file system fails, for every instance of the other crates that satisfies the laws. The
  proofs go through the machine of \<open>Dig_Spec\<close>: a directory represents a state of it, and each call of a
  test is a step.
\<close>

section \<open>Helpers\<close>

definition test_ca :: "crates \<Rightarrow> draws \<Rightarrow> nat \<Rightarrow> (unit, dig_ca) outcome" where
  "test_ca X E i =
     bind (unwrap (generate_dig_ca X (random E i) (clock E i))) (\<lambda>m.
     unwrap (ca_from_pem X (ca_cert_pem m) (ca_key_pem m)))"

definition bls_sk :: "crates \<Rightarrow> test_deps \<Rightarrow> string \<Rightarrow> opaque" where
  "bls_sk X T label = sk_from_seed T (sha256_digest X (as_bytes label))"

definition bls_pub_in_cert :: "crates \<Rightarrow> bytes \<Rightarrow> (unit, bytes) outcome" where
  "bls_pub_in_cert X der =
     (case verify_binding_from_leaf_cert X der of Bound pub \<Rightarrow> Ok pub | _ \<Rightarrow> Panicked)"

text \<open>\<open>fs::metadata(p)?.permissions().mode()\<close>.\<close>

definition metadata_mode :: "path \<Rightarrow> mode io" where
  "metadata_mode p = syscall no_part (\<lambda>w.
     case wfiles w p of
       Some f \<Rightarrow> (Ok (fmode f), w)
     | None \<Rightarrow> (case wdirs w p of Some m \<Rightarrow> (Ok m, w) | None \<Rightarrow> (Err NotFound, w)))"

abbreviation check :: "bool \<Rightarrow> world test_on" where
  "check b \<equiv> pure_act (assert_that b)"

section \<open>Tests without a disk\<close>

definition generated_cert_binds_peer_id_to_the_bls_key :: "crates \<Rightarrow> test_deps \<Rightarrow> draws \<Rightarrow> test" where
  "generated_cert_binds_peer_id_to_the_bls_key X T E =
     bind (test_ca X E 0) (\<lambda>ca.
     (let sk = bls_sk X T ''node-cert/bind'' in
      bind (unwrap (generate_signed_by X ca sk (random E 1) (clock E 1))) (\<lambda>node.
      (let expected = sha256_digest X (spki_der node) in
       bind (assert_that (peer_id_as_bytes (node_peer_id node) = expected)) (\<lambda>_.
       case verify_binding_from_leaf_cert X (cert_der node) of
         Bound pub \<Rightarrow> assert_that (pub = public_key_bytes X sk)
       | _ \<Rightarrow> Panicked)))))"

definition distinct_peers_get_distinct_ids :: "crates \<Rightarrow> test_deps \<Rightarrow> draws \<Rightarrow> test" where
  "distinct_peers_get_distinct_ids X T E =
     bind (test_ca X E 0) (\<lambda>ca.
     bind (unwrap (generate_signed_by X ca (bls_sk X T ''a'') (random E 1) (clock E 1))) (\<lambda>a.
     bind (unwrap (generate_signed_by X ca (bls_sk X T ''b'') (random E 2) (clock E 2))) (\<lambda>b.
     assert_that (node_peer_id a \<noteq> node_peer_id b))))"

definition pem_round_trips_preserving_peer_id :: "crates \<Rightarrow> test_deps \<Rightarrow> draws \<Rightarrow> test" where
  "pem_round_trips_preserving_peer_id X T E =
     bind (test_ca X E 0) (\<lambda>ca.
     bind (unwrap (generate_signed_by X ca (bls_sk X T ''rt'') (random E 1) (clock E 1))) (\<lambda>node.
     bind (unwrap (from_pem X (cert_pem node) (key_pem node))) (\<lambda>restored.
     assert_that (node_peer_id node = node_peer_id restored))))"

fun is_parse_error :: "dig_tls_error \<Rightarrow> bool" where
  "is_parse_error (Parse _) = True"
| "is_parse_error _ = False"

definition from_pem_rejects_a_mismatched_cert_and_key :: "crates \<Rightarrow> test_deps \<Rightarrow> draws \<Rightarrow> test" where
  "from_pem_rejects_a_mismatched_cert_and_key X T E =
     bind (test_ca X E 0) (\<lambda>ca.
     bind (unwrap (generate_signed_by X ca (bls_sk X T ''mismatch/a'') (random E 1) (clock E 1))) (\<lambda>a.
     bind (unwrap (generate_signed_by X ca (bls_sk X T ''mismatch/b'') (random E 2) (clock E 2))) (\<lambda>b.
     bind (expect_err (from_pem X (cert_pem a) (key_pem b))) (\<lambda>err.
     bind (assert_that (is_parse_error err)) (\<lambda>_.
     bind (is_ok (from_pem X (cert_pem a) (key_pem a))) (\<lambda>ok.
     bind (assert_that ok) (\<lambda>_.
     bind (is_ok (from_pem X (cert_pem b) (key_pem b))) (\<lambda>ok.
     assert_that ok))))))))"

definition debug_never_leaks_the_key :: "crates \<Rightarrow> test_deps \<Rightarrow> draws \<Rightarrow> test" where
  "debug_never_leaks_the_key X T E =
     bind (test_ca X E 0) (\<lambda>ca.
     bind (unwrap (generate_signed_by X ca (bls_sk X T ''dbg'') (random E 1) (clock E 1))) (\<lambda>node.
     bind (fmt_node_cert node) (\<lambda>shown.
     assert_that (str_contains shown ''<redacted>''))))"

section \<open>Tests on a disk\<close>

abbreviation start :: "crates \<Rightarrow> test_deps \<Rightarrow> draws \<Rightarrow> nat \<Rightarrow> path \<Rightarrow> opaque \<Rightarrow> (world, unit, node_cert) action" where
  "start X T E i dir sk \<equiv> after unwrap (load_or_generate X dir sk (random E i) (clock E i))"

abbreviation rotated :: "crates \<Rightarrow> test_deps \<Rightarrow> draws \<Rightarrow> nat \<Rightarrow> path \<Rightarrow> opaque \<Rightarrow> (world, unit, rotated_node_cert) action" where
  "rotated X T E i dir sk \<equiv> after unwrap (rotate_cert X dir sk (random E i) (clock E i))"

definition load_or_generate_is_stable_across_calls :: "crates \<Rightarrow> test_deps \<Rightarrow> draws \<Rightarrow> world test_on" where
  "load_or_generate_is_stable_across_calls X T E =
     seq (after unwrap (tempdir T)) (\<lambda>dir.
     (let sk = bls_sk X T ''persist'' in
      seq (start X T E 0 dir sk) (\<lambda>first.
      seq (start X T E 1 dir sk) (\<lambda>second.
      check (node_peer_id first = node_peer_id second)))))"

definition load_or_generate_persists_the_key_owner_only :: "crates \<Rightarrow> test_deps \<Rightarrow> draws \<Rightarrow> world test_on" where
  "load_or_generate_persists_the_key_owner_only X T E =
     seq (after unwrap (tempdir T)) (\<lambda>dir.
     (let sk = bls_sk X T ''perms'' in
      seq (start X T E 0 dir sk) (\<lambda>_.
      seq (after unwrap (metadata_mode dir)) (\<lambda>dir_mode.
      seq (check (dir_mode AND 0x1FF = mode_0700)) (\<lambda>_.
      seq (after unwrap (metadata_mode (dir @ [KEY_FILE]))) (\<lambda>key_mode.
      check (key_mode AND 0x1FF = mode_0600)))))))"

definition rotate_yields_a_new_peer_id :: "crates \<Rightarrow> test_deps \<Rightarrow> draws \<Rightarrow> world test_on" where
  "rotate_yields_a_new_peer_id X T E =
     seq (after unwrap (tempdir T)) (\<lambda>dir.
     seq (start X T E 0 dir (bls_sk X T ''rotate/before'')) (\<lambda>before.
     (let old_peer_id = node_peer_id before in
      seq (rotated X T E 1 dir (bls_sk X T ''rotate/after'')) (\<lambda>rot.
      seq (check (node_peer_id (previous rot) = old_peer_id)) (\<lambda>_.
      check (node_peer_id (current rot) \<noteq> old_peer_id))))))"

text \<open>The loop over the two nodes, and the two bindings.\<close>

fun spki_loop :: "crates \<Rightarrow> node_cert list \<Rightarrow> world test_on" where
  "spki_loop X [] = ret ()"
| "spki_loop X (node # ns) =
     (let expected = sha256_digest X (spki_der node) in
      seq (check (peer_id_as_bytes (node_peer_id node) = expected)) (\<lambda>_. spki_loop X ns))"

definition rotate_returns_two_valid_spki_bound_certs :: "crates \<Rightarrow> test_deps \<Rightarrow> draws \<Rightarrow> world test_on" where
  "rotate_returns_two_valid_spki_bound_certs X T E =
     seq (after unwrap (tempdir T)) (\<lambda>dir.
     (let old_sk = bls_sk X T ''rotate/valid-old''; new_sk = bls_sk X T ''rotate/valid-new'' in
      seq (start X T E 0 dir old_sk) (\<lambda>_.
      seq (rotated X T E 1 dir new_sk) (\<lambda>rot.
      seq (spki_loop X [previous rot, current rot]) (\<lambda>_.
      seq (pure_act (bls_pub_in_cert X (cert_der (previous rot)))) (\<lambda>pub.
      seq (check (pub = public_key_bytes X old_sk)) (\<lambda>_.
      seq (pure_act (bls_pub_in_cert X (cert_der (current rot)))) (\<lambda>pub.
      check (pub = public_key_bytes X new_sk)))))))))"

definition rotate_persists_current_and_previous_slots :: "crates \<Rightarrow> test_deps \<Rightarrow> draws \<Rightarrow> world test_on" where
  "rotate_persists_current_and_previous_slots X T E =
     seq (after unwrap (tempdir T)) (\<lambda>dir.
     seq (start X T E 0 dir (bls_sk X T ''rotate/persist-old'')) (\<lambda>_.
     seq (rotated X T E 1 dir (bls_sk X T ''rotate/persist-new'')) (\<lambda>rot.
     seq (start X T E 2 dir (bls_sk X T ''unused'')) (\<lambda>reloaded.
     seq (check (node_peer_id reloaded = node_peer_id (current rot))) (\<lambda>_.
     seq (after unwrap (load_previous X dir)) (\<lambda>p.
     seq (pure_act (or_panic p)) (\<lambda>prev.
     check (node_peer_id prev = node_peer_id (previous rot)))))))))"

fun mode_loop :: "path \<Rightarrow> string list \<Rightarrow> world test_on" where
  "mode_loop dir [] = ret ()"
| "mode_loop dir (f # fs) =
     seq (after unwrap (metadata_mode (dir @ [f]))) (\<lambda>m.
     seq (check (m AND 0x1FF = mode_0600)) (\<lambda>_. mode_loop dir fs))"

definition rotate_persists_both_keys_owner_only :: "crates \<Rightarrow> test_deps \<Rightarrow> draws \<Rightarrow> world test_on" where
  "rotate_persists_both_keys_owner_only X T E =
     seq (after unwrap (tempdir T)) (\<lambda>dir.
     seq (start X T E 0 dir (bls_sk X T ''rotate/perm-old'')) (\<lambda>_.
     seq (rotated X T E 1 dir (bls_sk X T ''rotate/perm-new'')) (\<lambda>_.
     mode_loop dir [KEY_FILE, KEY_FILE_PREV])))"

definition retire_previous_deletes_the_prev_slot :: "crates \<Rightarrow> test_deps \<Rightarrow> draws \<Rightarrow> world test_on" where
  "retire_previous_deletes_the_prev_slot X T E =
     seq (after unwrap (tempdir T)) (\<lambda>dir.
     seq (start X T E 0 dir (bls_sk X T ''retire/old'')) (\<lambda>_.
     seq (rotated X T E 1 dir (bls_sk X T ''retire/new'')) (\<lambda>rot.
     (let current_peer_id = node_peer_id (current rot) in
      seq (after unwrap (retire_previous dir)) (\<lambda>_.
      seq (path_exists (dir @ [CERT_FILE_PREV])) (\<lambda>there.
      seq (check (\<not> there)) (\<lambda>_.
      seq (path_exists (dir @ [KEY_FILE_PREV])) (\<lambda>there.
      seq (check (\<not> there)) (\<lambda>_.
      seq (after unwrap (load_previous X dir)) (\<lambda>p.
      seq (check (p = None)) (\<lambda>_.
      seq (start X T E 2 dir (bls_sk X T ''unused'')) (\<lambda>reloaded.
      check (node_peer_id reloaded = current_peer_id)))))))))))))"

definition retire_previous_is_a_noop_without_a_prev_slot :: "crates \<Rightarrow> test_deps \<Rightarrow> draws \<Rightarrow> world test_on" where
  "retire_previous_is_a_noop_without_a_prev_slot X T E =
     seq (after unwrap (tempdir T)) (\<lambda>dir.
     seq (start X T E 0 dir (bls_sk X T ''retire/noop'')) (\<lambda>_.
     seq (after unwrap (retire_previous dir)) (\<lambda>_.
     after unwrap (retire_previous dir))))"

definition rotate_requires_an_existing_current_cert :: "crates \<Rightarrow> test_deps \<Rightarrow> draws \<Rightarrow> world test_on" where
  "rotate_requires_an_existing_current_cert X T E =
     seq (after unwrap (tempdir T)) (\<lambda>dir.
     seq (after is_ok (rotate_cert X dir (bls_sk X T ''rotate/empty'') (random E 0) (clock E 0))) (\<lambda>ok.
     check (\<not> ok)))"

definition load_previous_is_none_for_a_pre_rotate_dir :: "crates \<Rightarrow> test_deps \<Rightarrow> draws \<Rightarrow> world test_on" where
  "load_previous_is_none_for_a_pre_rotate_dir X T E =
     seq (after unwrap (tempdir T)) (\<lambda>dir.
     seq (start X T E 0 dir (bls_sk X T ''prev/none'')) (\<lambda>_.
     seq (after unwrap (load_previous X dir)) (\<lambda>p.
     check (p = None))))"

definition old_single_cert_dir_still_loads :: "crates \<Rightarrow> test_deps \<Rightarrow> draws \<Rightarrow> world test_on" where
  "old_single_cert_dir_still_loads X T E =
     seq (after unwrap (tempdir T)) (\<lambda>dir.
     (let sk = bls_sk X T ''compat/single'' in
      seq (start X T E 0 dir sk) (\<lambda>original.
      (let original_peer_id = node_peer_id original in
       seq (path_exists (dir @ [CERT_FILE_PREV])) (\<lambda>there.
       seq (check (\<not> there)) (\<lambda>_.
       seq (after unwrap (load_previous X dir)) (\<lambda>p.
       seq (check (p = None)) (\<lambda>_.
       seq (start X T E 1 dir sk) (\<lambda>reloaded.
       check (node_peer_id reloaded = original_peer_id))))))))))"

fun is_cert_gen_error :: "dig_tls_error \<Rightarrow> bool" where
  "is_cert_gen_error (CertGen _) = True"
| "is_cert_gen_error _ = False"

definition rotate_twice_without_retiring_is_rejected :: "crates \<Rightarrow> test_deps \<Rightarrow> draws \<Rightarrow> world test_on" where
  "rotate_twice_without_retiring_is_rejected X T E =
     seq (after unwrap (tempdir T)) (\<lambda>dir.
     seq (start X T E 0 dir (bls_sk X T ''double/old'')) (\<lambda>_.
     seq (rotated X T E 1 dir (bls_sk X T ''double/one'')) (\<lambda>first.
     (let first_current = node_peer_id (current first) in
      seq (after expect_err (rotate_cert X dir (bls_sk X T ''double/two'') (random E 2) (clock E 2))) (\<lambda>err.
      seq (check (is_cert_gen_error err)) (\<lambda>_.
      seq (start X T E 3 dir (bls_sk X T ''unused'')) (\<lambda>reloaded.
      seq (check (node_peer_id reloaded = first_current)) (\<lambda>_.
      seq (after unwrap (retire_previous dir)) (\<lambda>_.
      seq (rotated X T E 4 dir (bls_sk X T ''double/three'')) (\<lambda>second.
      seq (check (node_peer_id (previous second) = first_current)) (\<lambda>_.
      check (node_peer_id (current second) \<noteq> first_current))))))))))))"

section \<open>The test suite\<close>

definition node_cert_tests :: "crates \<Rightarrow> test_deps \<Rightarrow> draws \<Rightarrow> platform \<Rightarrow> world test_on list" where
  "node_cert_tests X T E pl =
     [pure_act (generated_cert_binds_peer_id_to_the_bls_key X T E),
      pure_act (distinct_peers_get_distinct_ids X T E),
      pure_act (pem_round_trips_preserving_peer_id X T E),
      load_or_generate_is_stable_across_calls X T E] @
     (if pl = Unix
      then [load_or_generate_persists_the_key_owner_only X T E, rotate_persists_both_keys_owner_only X T E]
      else []) @
     [rotate_yields_a_new_peer_id X T E, rotate_returns_two_valid_spki_bound_certs X T E,
      rotate_persists_current_and_previous_slots X T E, retire_previous_deletes_the_prev_slot X T E,
      retire_previous_is_a_noop_without_a_prev_slot X T E, rotate_requires_an_existing_current_cert X T E,
      load_previous_is_none_for_a_pre_rotate_dir X T E, old_single_cert_dir_still_loads X T E,
      pure_act (from_pem_rejects_a_mismatched_cert_and_key X T E),
      rotate_twice_without_retiring_is_rejected X T E, pure_act (debug_never_leaks_the_key X T E)]"

section \<open>Calls as steps of the machine\<close>

text \<open>What each call of a test returns on a directory that represents a state of the machine.\<close>

lemma seq_ret_Ok: "seq m (\<lambda>a. ret (g a)) s = (Ok b, s') \<longleftrightarrow> (\<exists>a. m s = (Ok a, s') \<and> g a = b)"
  by (auto simp: seq_eq_Ok)

lemma seq_ret_Err: "seq m (\<lambda>a. ret (g a)) s = (Err e, s') \<longleftrightarrow> m s = (Err e, s')"
  by (auto simp: seq_def split: prod.splits outcome.splits)

lemma runs_ret_inv:
  "runs P (seq m (\<lambda>a. ret (g a))) b Q \<Longrightarrow> (\<And>a. g a = b \<Longrightarrow> a = c) \<Longrightarrow> runs P m c Q"
  unfolding runs_def seq_ret_Ok by blast

lemma fails_ret_inv: "fails P (seq m (\<lambda>a. ret (g a))) e Q \<Longrightarrow> fails P m e Q"
  unfolding fails_def seq_ret_Err .

abbreviation holding :: "crates \<Rightarrow> path \<Rightarrow> identity_state \<Rightarrow> world \<Rightarrow> bool" where
  "holding X dir s \<equiv> \<lambda>w. represents X dir w s"

lemma step_runs:
  assumes "rcgen_reads_back X" "keypair_round_trip X"
  shows "spec_step X c s = (Ok r, s') \<Longrightarrow> runs (holding X dir s) (store_step X dir c) r (holding X dir s')"
    and "spec_step X c s = (Err e, s') \<Longrightarrow> fails (holding X dir s) (store_step X dir c) e (holding X dir s')"
  using step_refines [OF assms, of dir c s] by (auto simp: runs_def fails_def refines_def)

lemma calls_run:
  assumes laws: "rcgen_reads_back X" "keypair_round_trip X"
  shows "generate_signed X sk rnd now = Ok n \<Longrightarrow>
      runs (holding X dir NoIdentity) (load_or_generate X dir sk rnd now) n (holding X dir (Live n))"
    and "runs (holding X dir (Live n)) (load_or_generate X dir sk rnd now) n (holding X dir (Live n))"
    and "runs (holding X dir (Overlap p n)) (load_or_generate X dir sk rnd now) n (holding X dir (Overlap p n))"
    and "generate_signed X sk rnd now = Ok m \<Longrightarrow>
      runs (holding X dir (Live n)) (rotate_cert X dir sk rnd now) \<lparr>previous = n, current = m\<rparr> (holding X dir (Overlap n m))"
    and "fails (holding X dir NoIdentity) (rotate_cert X dir sk rnd now) rotate_nothing (holding X dir NoIdentity)"
    and "fails (holding X dir (Overlap p n)) (rotate_cert X dir sk rnd now) rotate_unretired (holding X dir (Overlap p n))"
    and "runs (holding X dir (Live n)) (load_previous X dir) None (holding X dir (Live n))"
    and "runs (holding X dir (Overlap p n)) (load_previous X dir) (Some p) (holding X dir (Overlap p n))"
    and "runs (holding X dir (Live n)) (retire_previous dir) () (holding X dir (Live n))"
    and "runs (holding X dir (Overlap p n)) (retire_previous dir) () (holding X dir (Live n))"
proof -
  note run = step_runs(1) [OF laws, of "Start sk rnd now" _ _ _ dir, simplified, THEN runs_ret_inv]
  show "generate_signed X sk rnd now = Ok n \<Longrightarrow>
      runs (holding X dir NoIdentity) (load_or_generate X dir sk rnd now) n (holding X dir (Live n))"
    by (rule run [of NoIdentity "Identity n"]) simp_all
  show "runs (holding X dir (Live n)) (load_or_generate X dir sk rnd now) n (holding X dir (Live n))"
    by (rule run [of "Live n" "Identity n"]) simp_all
  show "runs (holding X dir (Overlap p n)) (load_or_generate X dir sk rnd now) n (holding X dir (Overlap p n))"
    by (rule run [of "Overlap p n" "Identity n"]) simp_all
  show "generate_signed X sk rnd now = Ok m \<Longrightarrow>
      runs (holding X dir (Live n)) (rotate_cert X dir sk rnd now) \<lparr>previous = n, current = m\<rparr> (holding X dir (Overlap n m))"
    by (rule step_runs(1) [OF laws, of "Rotate sk rnd now" "Live n" "Rotated n m" "Overlap n m" dir, simplified,
          THEN runs_ret_inv]) simp_all
  show "fails (holding X dir NoIdentity) (rotate_cert X dir sk rnd now) rotate_nothing (holding X dir NoIdentity)"
    by (rule step_runs(2) [OF laws, of "Rotate sk rnd now" NoIdentity rotate_nothing NoIdentity dir, simplified,
          THEN fails_ret_inv])
  show "fails (holding X dir (Overlap p n)) (rotate_cert X dir sk rnd now) rotate_unretired (holding X dir (Overlap p n))"
    by (rule step_runs(2) [OF laws, of "Rotate sk rnd now" "Overlap p n" rotate_unretired "Overlap p n" dir,
          simplified, THEN fails_ret_inv])
  note prev = step_runs(1) [OF laws, of LoadPrevious _ _ _ dir, simplified, THEN runs_ret_inv]
  show "runs (holding X dir (Live n)) (load_previous X dir) None (holding X dir (Live n))"
    by (rule prev [of "Live n" "Previous None"]) simp_all
  show "runs (holding X dir (Overlap p n)) (load_previous X dir) (Some p) (holding X dir (Overlap p n))"
    by (rule prev [of "Overlap p n" "Previous (Some p)"]) simp_all
  note retire = step_runs(1) [OF laws, of Retire _ _ _ dir, simplified, THEN runs_ret_inv]
  show "runs (holding X dir (Live n)) (retire_previous dir) () (holding X dir (Live n))"
    by (rule retire [of "Live n" Retired]) simp_all
  show "runs (holding X dir (Overlap p n)) (retire_previous dir) () (holding X dir (Live n))"
    by (rule retire [of "Overlap p n" Retired]) simp_all
qed

lemma no_slot_runs:
  "runs (holding X dir (Live n)) (path_exists (prev_cert_at dir)) False (holding X dir (Live n))"
  "runs (holding X dir (Live n)) (path_exists (prev_key_at dir)) False (holding X dir (Live n))"
  by (auto simp: runs_def represents_simps quiet_def no_previous_def ready_dir_def plain_dir_def content_def)

text \<open>A test in a fresh directory.\<close>

lemma empty_represents: "empty_dir w dir \<Longrightarrow> represents X dir w NoIdentity"
  by (simp add: empty_dir_def represents_simps no_previous_def ready_dir_def content_def)

lemma tempdir_test:
  assumes "tempdir_fresh T w"
    and "\<And>dir. runs (\<lambda>v. empty_dir v dir \<and> wplatform v = wplatform w) (body dir) () (Q dir)"
  shows "passes (fst (seq (after unwrap (tempdir T)) body w))"
proof -
  obtain dir w' where "tempdir T w = (Ok dir, w')" "empty_dir w' dir" "wplatform w' = wplatform w"
    using assms(1) by (auto simp: tempdir_fresh_def)
  with assms(2) [of dir] show ?thesis
    unfolding runs_def passes_def by (metis fst_conv seq_unwrap)
qed

lemma fresh_test:
  assumes "tempdir_fresh T w" and "\<And>dir. runs (holding X dir NoIdentity) (body dir) () (Q dir)"
  shows "passes (fst (seq (after unwrap (tempdir T)) body w))"
  by (rule tempdir_test [OF assms(1) runs_weaken [OF assms(2)]]) (simp add: empty_represents)

section \<open>The tests without a disk pass\<close>

lemma test_ca_loads:
  assumes "crates_behave X T lo hi" and "draws_behave X T lo hi E" and "i < 8"
  shows "\<exists>ca. test_ca X E i = Ok ca \<and>
    keypair_generate_for X (random E i) PKCS_ECDSA_P256_SHA256 = Inr (ca_key ca)"
proof -
  note L = crates_behave_laws [OF assms(1)]
  obtain m where m: "generate_dig_ca X (random E i) (clock E i) = Ok m"
    using test_mints(3) [OF assms] by blast
  obtain ca where ca: "ca_from_pem X (ca_cert_pem m) (ca_key_pem m) = Ok ca"
    using minted_ca_loads [OF L(22,9,10) m] by blast
  obtain k where "keypair_generate_for X (random E i) PKCS_ECDSA_P256_SHA256 = Inr k"
    "ca_key_pem m = keypair_serialize_pem X k"
    using m by (auto simp: generate_dig_ca_Ok)
  with ca L(9) have "keypair_generate_for X (random E i) PKCS_ECDSA_P256_SHA256 = Inr (ca_key ca)"
    by (simp add: ca_from_pem_Ok keypair_round_trip_def)
  with m ca show ?thesis by (simp add: test_ca_def)
qed

lemma redacted_shown: "\<exists>shown. fmt_node_cert n = Ok shown \<and> sublist ''<redacted>'' shown"
proof -
  have "sublist t (a @ t @ b)" for a b t :: string by (auto simp: sublist_def)
  from this [of "''<redacted>''"] show ?thesis
    unfolding fmt_node_cert_def fmt_debug_def to_hex_eq bind.simps
    by (metis append.assoc outcome.inject(1))
qed

lemma diskless_tests_pass:
  assumes laws: "crates_behave X T lo hi" and draws: "draws_behave X T lo hi E"
  shows "passes (generated_cert_binds_peer_id_to_the_bls_key X T E)"
    "passes (distinct_peers_get_distinct_ids X T E)" "passes (pem_round_trips_preserving_peer_id X T E)"
    "passes (from_pem_rejects_a_mismatched_cert_and_key X T E)" "passes (debug_never_leaks_the_key X T E)"
proof -
  note L = crates_behave_laws [OF laws]
  obtain ca where ca: "test_ca X E 0 = Ok ca" using test_ca_loads [OF laws draws, of 0] by auto
  note mint = test_mints(1) [OF laws draws, of _ ca]
  have wf: "node_cert_wf X n" if "generate_signed_by X ca sk rnd now = Ok n" for sk rnd now n
    by (rule generate_signed_by_wf [OF L(9) that])
  then have pem: "from_pem X (cert_pem n) (key_pem n) = Ok n"
    if "generate_signed_by X ca sk rnd now = Ok n" for sk rnd now n
    using that by (auto simp: from_pem_Ok_iff)
  show "passes (generated_cert_binds_peer_id_to_the_bls_key X T E)"
  proof -
    obtain n where n: "generate_signed_by X ca (bls_sk X T ''node-cert/bind'') (random E 1) (clock E 1) = Ok n"
      using mint [of 1] by auto
    have "verify_binding_from_leaf_cert X (cert_der n) = Bound (public_key_bytes X (bls_sk X T ''node-cert/bind''))"
      by (rule generate_signed_by_bound [OF L(7,21,1,2) _ n]) (simp add: bls_sk_def test_key_ok [OF laws])
    with ca n wf [OF n] show ?thesis
      by (simp add: passes_def generated_cert_binds_peer_id_to_the_bls_key_def Let_def node_cert_wf_def
          peer_id_as_bytes_def peer_id_from_tls_spki_der_def)
  qed
  show "passes (distinct_peers_get_distinct_ids X T E)"
  proof -
    obtain a where a: "generate_signed_by X ca (bls_sk X T ''a'') (random E 1) (clock E 1) = Ok a"
      using mint [of 1] by auto
    obtain b where b: "generate_signed_by X ca (bls_sk X T ''b'') (random E 2) (clock E 2) = Ok b"
      using mint [of 2] by auto
    note ab = a b
    with distinct_mints(1) [OF draws, of 1 2, OF _ _ _ ab] ca show ?thesis
      by (simp add: passes_def distinct_peers_get_distinct_ids_def)
  qed
  show "passes (pem_round_trips_preserving_peer_id X T E)"
  proof -
    obtain n where "generate_signed_by X ca (bls_sk X T ''rt'') (random E 1) (clock E 1) = Ok n"
      using mint [of 1] by auto
    with ca pem show ?thesis by (simp add: passes_def pem_round_trips_preserving_peer_id_def)
  qed
  show "passes (from_pem_rejects_a_mismatched_cert_and_key X T E)"
  proof -
    obtain a where a: "generate_signed_by X ca (bls_sk X T ''mismatch/a'') (random E 1) (clock E 1) = Ok a"
      using mint [of 1] by auto
    obtain b where b: "generate_signed_by X ca (bls_sk X T ''mismatch/b'') (random E 2) (clock E 2) = Ok b"
      using mint [of 2] by auto
    note ab = a b
    have "spki_der a \<noteq> spki_der b" using distinct_mints(2) [OF draws, of 1 2, OF _ _ _ ab] by simp
    from mismatched_pair_Err [OF wf [OF ab(1)] wf [OF ab(2)] this] ca ab pem [OF ab(1)] pem [OF ab(2)]
    show ?thesis by (simp add: passes_def from_pem_rejects_a_mismatched_cert_and_key_def)
  qed
  show "passes (debug_never_leaks_the_key X T E)"
  proof -
    obtain n where n: "generate_signed_by X ca (bls_sk X T ''dbg'') (random E 1) (clock E 1) = Ok n"
      using mint [of 1] by auto
    obtain shown where "(fmt_node_cert n :: (unit, string) outcome) = Ok shown" "sublist ''<redacted>'' shown"
      using redacted_shown by blast
    with n ca show ?thesis by (simp add: passes_def debug_never_leaks_the_key_def str_contains_def)
  qed
qed

section \<open>The tests on a disk pass\<close>

text \<open>Every mint of a test succeeds.\<close>

lemma test_identity:
  assumes "crates_behave X T lo hi" and "draws_behave X T lo hi E" and "i < 8"
  shows "\<exists>n ca. generate_signed X sk (random E i) (clock E i) = Ok n \<and>
    generate_signed_by X ca sk (random E i) (clock E i) = Ok n"
  using test_mints(2) [OF assms, of sk "random E i"] by (auto simp: generate_signed_Ok)

lemma identity_tests_on_disk_pass:
  assumes laws: "crates_behave X T lo hi" and draws: "draws_behave X T lo hi E" and tmp: "tempdir_fresh T w"
  shows "passes (fst (load_or_generate_is_stable_across_calls X T E w))"
    "passes (fst (rotate_requires_an_existing_current_cert X T E w))"
    "passes (fst (load_previous_is_none_for_a_pre_rotate_dir X T E w))"
    "passes (fst (old_single_cert_dir_still_loads X T E w))"
    "passes (fst (retire_previous_is_a_noop_without_a_prev_slot X T E w))"
proof -
  note L = crates_behave_laws [OF laws]
  note call = calls_run [OF L(7,9)]
  have mint: "\<exists>n. generate_signed X sk (random E 0) (clock E 0) = Ok n" for sk
    using test_identity [OF laws draws, of 0] by auto
  show "passes (fst (load_or_generate_is_stable_across_calls X T E w))"
  proof -
    obtain n where n: "generate_signed X (bls_sk X T ''persist'') (random E 0) (clock E 0) = Ok n" using mint by blast
    show ?thesis
      unfolding load_or_generate_is_stable_across_calls_def Let_def
      by (rule fresh_test [OF tmp], rule runs_seq [OF runs_unwrap [OF call(1) [OF n]]],
          rule runs_seq [OF runs_unwrap [OF call(2)]], rule runs_check) simp
  qed
  show "passes (fst (rotate_requires_an_existing_current_cert X T E w))"
    unfolding rotate_requires_an_existing_current_cert_def
    by (rule fresh_test [OF tmp], rule runs_seq [OF runs_is_err [OF call(5)]], rule runs_check) simp
  show "passes (fst (load_previous_is_none_for_a_pre_rotate_dir X T E w))"
  proof -
    obtain n where n: "generate_signed X (bls_sk X T ''prev/none'') (random E 0) (clock E 0) = Ok n" using mint by blast
    show ?thesis
      unfolding load_previous_is_none_for_a_pre_rotate_dir_def
      by (rule fresh_test [OF tmp], rule runs_seq [OF runs_unwrap [OF call(1) [OF n]]],
          rule runs_seq [OF runs_unwrap [OF call(7)]], rule runs_check) simp
  qed
  show "passes (fst (old_single_cert_dir_still_loads X T E w))"
  proof -
    obtain n where n: "generate_signed X (bls_sk X T ''compat/single'') (random E 0) (clock E 0) = Ok n" using mint by blast
    show ?thesis
      unfolding old_single_cert_dir_still_loads_def Let_def
      by (rule fresh_test [OF tmp], rule runs_seq [OF runs_unwrap [OF call(1) [OF n]]],
          rule runs_seq [OF no_slot_runs(1)], rule runs_seq [OF runs_check], simp,
          rule runs_seq [OF runs_unwrap [OF call(7)]], rule runs_seq [OF runs_check], simp,
          rule runs_seq [OF runs_unwrap [OF call(2)]], rule runs_check) simp
  qed
  show "passes (fst (retire_previous_is_a_noop_without_a_prev_slot X T E w))"
  proof -
    obtain n where n: "generate_signed X (bls_sk X T ''retire/noop'') (random E 0) (clock E 0) = Ok n" using mint by blast
    show ?thesis
      unfolding retire_previous_is_a_noop_without_a_prev_slot_def
      by (rule fresh_test [OF tmp], rule runs_seq [OF runs_unwrap [OF call(1) [OF n]]],
          rule runs_seq [OF runs_unwrap [OF call(9)]], rule runs_unwrap [OF call(9)])
  qed
qed

text \<open>A minted node has the digest of its key as its peer id and a binding of its BLS key.\<close>

lemma test_node:
  assumes "crates_behave X T lo hi" and "generate_signed X (bls_sk X T label) rnd now = Ok n"
  shows "spki_loop X (n # ns) = spki_loop X ns" and "bls_pub_in_cert X (cert_der n) = Ok (public_key_bytes X (bls_sk X T label))"
proof -
  note L = crates_behave_laws [OF assms(1)]
  obtain ca where g: "generate_signed_by X ca (bls_sk X T label) rnd now = Ok n" using assms(2) by (auto simp: generate_signed_Ok)
  have "bls_key_ok X (bls_sk X T label)" by (simp add: bls_sk_def test_key_ok [OF assms(1)])
  then show "bls_pub_in_cert X (cert_der n) = Ok (public_key_bytes X (bls_sk X T label))"
    using generate_signed_by_bound [OF L(7,21,1,2) _ g] by (simp add: bls_pub_in_cert_def)
  have "peer_id_as_bytes (node_peer_id n) = sha256_digest X (spki_der n)"
    using minted_key [OF g] by (auto simp: peer_id_as_bytes_def)
  then show "spki_loop X (n # ns) = spki_loop X ns"
    by (simp add: Let_def seq_def fun_eq_iff)
qed

lemma rotation_tests_on_disk_pass:
  assumes laws: "crates_behave X T lo hi" and draws: "draws_behave X T lo hi E" and tmp: "tempdir_fresh T w"
  shows "passes (fst (rotate_yields_a_new_peer_id X T E w))"
    "passes (fst (rotate_returns_two_valid_spki_bound_certs X T E w))"
    "passes (fst (rotate_persists_current_and_previous_slots X T E w))"
    "passes (fst (retire_previous_deletes_the_prev_slot X T E w))"
    "passes (fst (rotate_twice_without_retiring_is_rejected X T E w))"
proof -
  note L = crates_behave_laws [OF laws]
  note call = calls_run [OF L(7,9)]
  note started = runs_seq [OF runs_unwrap [OF call(1)]]
  have two: "\<exists>n m. generate_signed X sk (random E 0) (clock E 0) = Ok n \<and>
      generate_signed X sk' (random E 1) (clock E 1) = Ok m \<and> node_peer_id m \<noteq> node_peer_id n" for sk sk'
  proof -
    obtain n ca where n: "generate_signed X sk (random E 0) (clock E 0) = Ok n"
      "generate_signed_by X ca sk (random E 0) (clock E 0) = Ok n"
      using test_identity [OF laws draws, of 0 sk] by auto
    obtain m ca' where m: "generate_signed X sk' (random E 1) (clock E 1) = Ok m"
      "generate_signed_by X ca' sk' (random E 1) (clock E 1) = Ok m"
      using test_identity [OF laws draws, of 1 sk'] by auto
    from distinct_mints(1) [OF draws, of 1 0, OF _ _ _ m(2) n(2)] n(1) m(1) show ?thesis by auto
  qed
  show "passes (fst (rotate_yields_a_new_peer_id X T E w))"
  proof -
    obtain n m where nm: "generate_signed X (bls_sk X T ''rotate/before'') (random E 0) (clock E 0) = Ok n"
      "generate_signed X (bls_sk X T ''rotate/after'') (random E 1) (clock E 1) = Ok m" "node_peer_id m \<noteq> node_peer_id n"
      using two by blast
    show ?thesis
      unfolding rotate_yields_a_new_peer_id_def Let_def
      by (rule fresh_test [OF tmp], rule started [OF nm(1)], rule runs_seq [OF runs_unwrap [OF call(4) [OF nm(2)]]],
          rule runs_seq [OF runs_check], simp, rule runs_check) (simp add: nm(3))
  qed
  show "passes (fst (rotate_returns_two_valid_spki_bound_certs X T E w))"
  proof -
    obtain n m where nm: "generate_signed X (bls_sk X T ''rotate/valid-old'') (random E 0) (clock E 0) = Ok n"
      "generate_signed X (bls_sk X T ''rotate/valid-new'') (random E 1) (clock E 1) = Ok m"
      using two by blast
    note old = test_node [OF laws nm(1)] and new = test_node [OF laws nm(2)]
    show ?thesis
      unfolding rotate_returns_two_valid_spki_bound_certs_def Let_def
      by (rule fresh_test [OF tmp, where Q = "\<lambda>_ _. True"], rule started [OF nm(1)], rule runs_seq [OF runs_unwrap [OF call(4) [OF nm(2)]]])
        (simp add: old new del: spki_loop.simps(2), simp add: seq_def runs_def)
  qed
  show "passes (fst (rotate_persists_current_and_previous_slots X T E w))"
  proof -
    obtain n m where nm: "generate_signed X (bls_sk X T ''rotate/persist-old'') (random E 0) (clock E 0) = Ok n"
      "generate_signed X (bls_sk X T ''rotate/persist-new'') (random E 1) (clock E 1) = Ok m"
      using two by blast
    show ?thesis
      unfolding rotate_persists_current_and_previous_slots_def
      by (rule fresh_test [OF tmp], rule started [OF nm(1)], rule runs_seq [OF runs_unwrap [OF call(4) [OF nm(2)]]],
          rule runs_seq [OF runs_unwrap [OF call(3)]], rule runs_seq [OF runs_check], simp,
          rule runs_seq [OF runs_unwrap [OF call(8)]], rule runs_seq [OF runs_pure], simp, rule runs_check) simp
  qed
  show "passes (fst (retire_previous_deletes_the_prev_slot X T E w))"
  proof -
    obtain n m where nm: "generate_signed X (bls_sk X T ''retire/old'') (random E 0) (clock E 0) = Ok n"
      "generate_signed X (bls_sk X T ''retire/new'') (random E 1) (clock E 1) = Ok m"
      using two by blast
    show ?thesis
      unfolding retire_previous_deletes_the_prev_slot_def Let_def
      by (rule fresh_test [OF tmp], rule started [OF nm(1)], rule runs_seq [OF runs_unwrap [OF call(4) [OF nm(2)]]],
          rule runs_seq [OF runs_unwrap [OF call(10)]], rule runs_seq [OF no_slot_runs(1)],
          rule runs_seq [OF runs_check], simp, rule runs_seq [OF no_slot_runs(2)], rule runs_seq [OF runs_check], simp,
          rule runs_seq [OF runs_unwrap [OF call(7)]], rule runs_seq [OF runs_check], simp,
          rule runs_seq [OF runs_unwrap [OF call(2)]], rule runs_check) simp
  qed
  show "passes (fst (rotate_twice_without_retiring_is_rejected X T E w))"
  proof -
    obtain n where n: "generate_signed X (bls_sk X T ''double/old'') (random E 0) (clock E 0) = Ok n"
      using two by blast
    obtain m ca where m: "generate_signed X (bls_sk X T ''double/one'') (random E 1) (clock E 1) = Ok m"
      "generate_signed_by X ca (bls_sk X T ''double/one'') (random E 1) (clock E 1) = Ok m"
      using test_identity [OF laws draws, of 1 "bls_sk X T ''double/one''"] by auto
    obtain k ca' where k: "generate_signed X (bls_sk X T ''double/three'') (random E 4) (clock E 4) = Ok k"
      "generate_signed_by X ca' (bls_sk X T ''double/three'') (random E 4) (clock E 4) = Ok k"
      using test_identity [OF laws draws, of 4 "bls_sk X T ''double/three''"] by auto
    have d: "node_peer_id k \<noteq> node_peer_id m"
      using distinct_mints(1) [OF draws, of 4 1, OF _ _ _ k(2) m(2)] by simp
    show ?thesis
      unfolding rotate_twice_without_retiring_is_rejected_def Let_def
      by (rule fresh_test [OF tmp], rule started [OF n], rule runs_seq [OF runs_unwrap [OF call(4) [OF m(1)]]],
          rule runs_seq [OF runs_expect_err [OF call(6)]], rule runs_seq [OF runs_check],
          simp add: rotate_unretired_def, rule runs_seq [OF runs_unwrap [OF call(3)]], rule runs_seq [OF runs_check], simp,
          rule runs_seq [OF runs_unwrap [OF call(10)]], rule runs_seq [OF runs_unwrap [OF call(4) [OF k(1)]]],
          rule runs_seq [OF runs_check], simp, rule runs_check) (simp add: d)
  qed
qed

section \<open>Permission bits\<close>

definition file_mode :: "world \<Rightarrow> path \<Rightarrow> mode option" where
  "file_mode w p = map_option fmode (wfiles w p)"

text \<open>A written key has mode 0600, and a write changes the mode of no other file.\<close>

lemma atomic_write_modes:
  assumes "on_unix w" and "quiet w" and "ready_dir w dir" and "is_slot (dir @ [n])"
    and "atomic_write (dir @ [n]) b k w = (Ok (), w')"
  shows "k = Yes \<Longrightarrow> file_mode w' (dir @ [n]) = Some mode_0600"
    and "q \<noteq> dir @ [n] \<Longrightarrow> q \<noteq> dir @ [n @ ''.tmp''] \<Longrightarrow> file_mode w' q = file_mode w q"
proof -
  have free: "wdirs w dir \<noteq> None" "wdirs w (dir @ [n]) = None" "wdirs w (dir @ [n @ ''.tmp'']) = None"
    using assms(3) by (simp_all add: ready_dir_def plain_dir_def)
  note facts = assms(1,2) free parent_slot [OF assms(4)] assms(5)
  have both: "(k = Yes \<longrightarrow> file_mode w' (dir @ [n]) = Some mode_0600) \<and>
      (q \<noteq> dir @ [n] \<longrightarrow> q \<noteq> dir @ [n @ ''.tmp''] \<longrightarrow> file_mode w' q = file_mode w q)" for q
    using facts
    by (cases k; cases "wfiles w (dir @ [n @ ''.tmp''])")
      (auto simp: atomic_write_def Let_def write_key_file_def write_key_file_unix_def
        fs_write_def open_create_def write_all_def set_permissions_def
        open_write_def sync_all_def atomic_rename_def atomic_rename_unix_def
        fs_rename_def fsync_dir_def fsync_dir_unix_def on_unix_def
        open_dir_def sync_dir_def on_platform_def seq_def io_def quiet_def
        world_defs file_mode_def)
  show "k = Yes \<Longrightarrow> file_mode w' (dir @ [n]) = Some mode_0600"
    and "q \<noteq> dir @ [n] \<Longrightarrow> q \<noteq> dir @ [n @ ''.tmp''] \<Longrightarrow> file_mode w' q = file_mode w q"
    using both by blast+
qed

text \<open>A first start on Unix leaves the key with mode 0600 in a directory with mode 0700.\<close>

lemma start_modes:
  assumes "on_unix w" and "quiet w" and "plain_dir w dir" and "generate_signed X sk rnd now = Ok n"
    and "content w (cert_at dir) = None"
  shows "\<exists>w'. load_or_generate X dir sk rnd now w = (Ok n, w') \<and> on_unix w' \<and> quiet w' \<and> ready_dir w' dir \<and>
    wdirs w' dir = Some mode_0700 \<and> file_mode w' (key_at dir) = Some mode_0600"
proof -
  have start: "load_or_generate X dir sk rnd now w = generate_and_persist X dir sk rnd now w"
    using both_exist_absent [OF assms(2,3), of CERT_FILE KEY_FILE] assms(5)
    by (simp add: load_or_generate_def Let_def seq_def)
  obtain w1 where w1: "io (create_dir_all dir) w = (Ok (), w1)" "quiet w1" "wplatform w1 = wplatform w"
    "ready_dir w1 dir"
    using create_dir_all_quiet [OF assms(2,3)] by blast
  have u1: "on_unix w1" using assms(1) w1(3) by (simp add: on_unix_def)
  obtain w2 where w2: "harden_dir_permissions dir w1 = (Ok (), w2)" "quiet w2" "wplatform w2 = wplatform w1"
    "ready_dir w2 dir" "wdirs w2 dir = Some mode_0700"
    using harden_quiet [OF w1(2,4)] u1 by blast
  obtain w3 where w3: "atomic_write (cert_at dir) (as_bytes (cert_pem n)) No w2 = (Ok (), w3)" "quiet w3"
    "wplatform w3 = wplatform w2" "ready_dir w3 dir" "wdirs w3 = wdirs w2"
    using atomic_write_in_dir [OF w2(2,4) slots_ok(1)] by blast
  obtain w4 where w4: "atomic_write (key_at dir) (as_bytes (key_pem n)) Yes w3 = (Ok (), w4)" "quiet w4"
    "wplatform w4 = wplatform w3" "ready_dir w4 dir" "wdirs w4 = wdirs w3"
    using atomic_write_in_dir [OF w3(2,4) slots_ok(2)] by blast
  have u: "on_unix w2" "on_unix w3" "on_unix w4" using u1 w2(3) w3(3) w4(3) by (simp_all add: on_unix_def)
  have "generate_and_persist X dir sk rnd now w = (Ok n, w4)"
    using assms(4) w1(1) w2(1) w3(1) w4(1) by (simp add: generate_and_persist_def seq_def)
  moreover have "file_mode w4 (key_at dir) = Some mode_0600"
    by (rule atomic_write_modes(1) [OF u(2) w3(2,4) slots_ok(2) w4(1)]) simp
  ultimately show ?thesis using start u w2 w3 w4 by auto
qed

text \<open>A rotation on Unix leaves both keys with mode 0600.\<close>

lemma rotate_modes:
  assumes "on_unix w" and "quiet w" and "ready_dir w dir" and "stored X w (cert_at dir) (key_at dir) old"
    and "content w (prev_cert_at dir) = None" "content w (prev_key_at dir) = None"
    and "generate_signed X sk rnd now = Ok new"
  shows "\<exists>w'. rotate_cert X dir sk rnd now w = (Ok \<lparr>previous = old, current = new\<rparr>, w') \<and> quiet w' \<and>
    file_mode w' (key_at dir) = Some mode_0600 \<and> file_mode w' (prev_key_at dir) = Some mode_0600"
proof -
  have "plain_dir w dir" using assms(3) by (simp add: ready_dir_def)
  from rotate_until_writes [OF assms(2) this assms(4-7)]
  have start: "rotate_cert X dir sk rnd now w = persist_rotation dir old new w" .
  obtain w1 where w1: "harden_dir_permissions dir w = (Ok (), w1)" "quiet w1" "wplatform w1 = wplatform w"
    "ready_dir w1 dir"
    using harden_quiet [OF assms(2,3)] by blast
  note put = atomic_write_in_dir
  obtain w2 where w2: "atomic_write (prev_cert_at dir) (as_bytes (cert_pem old)) No w1 = (Ok (), w2)"
    "quiet w2" "wplatform w2 = wplatform w1" "ready_dir w2 dir"
    using put [OF w1(2,4) slots_ok(3)] by blast
  obtain w3 where w3: "atomic_write (prev_key_at dir) (as_bytes (key_pem old)) Yes w2 = (Ok (), w3)"
    "quiet w3" "wplatform w3 = wplatform w2" "ready_dir w3 dir"
    using put [OF w2(2,4) slots_ok(4)] by blast
  obtain w4 where w4: "atomic_write (cert_at dir) (as_bytes (cert_pem new)) No w3 = (Ok (), w4)"
    "quiet w4" "wplatform w4 = wplatform w3" "ready_dir w4 dir"
    using put [OF w3(2,4) slots_ok(1)] by blast
  obtain w5 where w5: "atomic_write (key_at dir) (as_bytes (key_pem new)) Yes w4 = (Ok (), w5)" "quiet w5"
    using put [OF w4(2,4) slots_ok(2)] by blast
  have u: "on_unix w1" "on_unix w2" "on_unix w3" "on_unix w4"
    using assms(1) w1(3) w2(3) w3(3) w4(3) by (simp_all add: on_unix_def)
  have "persist_rotation dir old new w = (Ok \<lparr>previous = old, current = new\<rparr>, w5)"
    using w1(1) w2(1) w3(1) w4(1) w5(1) by (simp add: persist_rotation_def seq_def)
  moreover have "file_mode w5 (key_at dir) = Some mode_0600"
    by (rule atomic_write_modes(1) [OF u(4) w4(2,4) slots_ok(2) w5(1)]) simp
  moreover have "file_mode w3 (prev_key_at dir) = Some mode_0600"
    by (rule atomic_write_modes(1) [OF u(2) w2(2,4) slots_ok(4) w3(1)]) simp
  then have "file_mode w5 (prev_key_at dir) = Some mode_0600"
    using atomic_write_modes(2) [OF u(3) w3(2,4) slots_ok(1) w4(1), of "prev_key_at dir"]
      atomic_write_modes(2) [OF u(4) w4(2,4) slots_ok(2) w5(1), of "prev_key_at dir"] by simp
  ultimately show ?thesis using start w5(2) by auto
qed

lemma metadata_runs:
  "runs (\<lambda>w. quiet w \<and> ready_dir w dir \<and> wdirs w dir = Some m \<and> P w) (metadata_mode dir) m
     (\<lambda>w. quiet w \<and> ready_dir w dir \<and> wdirs w dir = Some m \<and> P w)"
  "runs (\<lambda>w. quiet w \<and> file_mode w p = Some m \<and> P w) (metadata_mode p) m
     (\<lambda>w. quiet w \<and> file_mode w p = Some m \<and> P w)"
  by (auto simp: runs_def metadata_mode_def quiet_def ready_dir_def plain_dir_def file_mode_def)

lemma masked_modes: "mode_0700 AND 0x1FF = mode_0700" "mode_0600 AND 0x1FF = mode_0600"
  by (simp_all add: mode_defs)

lemma permission_tests_pass:
  assumes laws: "crates_behave X T lo hi" and draws: "draws_behave X T lo hi E" and tmp: "tempdir_fresh T w"
    and unix: "wplatform w = Unix"
  shows "passes (fst (load_or_generate_persists_the_key_owner_only X T E w))"
    "passes (fst (rotate_persists_both_keys_owner_only X T E w))"
proof -
  note L = crates_behave_laws [OF laws]
  let ?fresh = "\<lambda>dir v. empty_dir v dir \<and> wplatform v = wplatform w"
  have mint: "\<exists>n. generate_signed X sk (random E i) (clock E i) = Ok n" if "i < 8" for sk i
    using test_identity [OF laws draws that] by blast
  have started: "runs (?fresh dir) (load_or_generate X dir sk (random E 0) (clock E 0)) n
      (\<lambda>v. quiet v \<and> ready_dir v dir \<and> wdirs v dir = Some mode_0700 \<and> file_mode v (key_at dir) = Some mode_0600)"
    if n: "generate_signed X sk (random E 0) (clock E 0) = Ok n" for sk n dir
    unfolding runs_def
    using start_modes [OF _ _ _ n, of _ dir] unix
    by (fastforce simp: empty_dir_def ready_dir_def on_unix_def content_def)
  show "passes (fst (load_or_generate_persists_the_key_owner_only X T E w))"
  proof -
    obtain n where n: "generate_signed X (bls_sk X T ''perms'') (random E 0) (clock E 0) = Ok n" using mint by fastforce
    show ?thesis
      unfolding load_or_generate_persists_the_key_owner_only_def Let_def
      by (rule tempdir_test [OF tmp], rule runs_seq [OF runs_unwrap [OF started [OF n]]],
          rule runs_seq [OF runs_unwrap [OF metadata_runs(1)]], rule runs_seq [OF runs_check], simp add: masked_modes,
          rule runs_weaken [OF runs_seq [OF runs_unwrap [OF metadata_runs(2)
            [where P = "\<lambda>_. True" and m = mode_0600]] runs_check]])
        (simp_all add: masked_modes)
  qed
  show "passes (fst (rotate_persists_both_keys_owner_only X T E w))"
  proof -
    obtain n where n: "generate_signed X (bls_sk X T ''rotate/perm-old'') (random E 0) (clock E 0) = Ok n"
      using mint by fastforce
    obtain m where m: "generate_signed X (bls_sk X T ''rotate/perm-new'') (random E 1) (clock E 1) = Ok m"
      using mint [of 1] by auto
    have first: "runs (?fresh dir) (load_or_generate X dir (bls_sk X T ''rotate/perm-old'') (random E 0) (clock E 0)) n
        (\<lambda>v. on_unix v \<and> represents X dir v (Live n))" for dir
      unfolding runs_def
    proof (intro allI impI)
      fix v assume v: "?fresh dir v"
      obtain v' where a: "load_or_generate X dir (bls_sk X T ''rotate/perm-old'') (random E 0) (clock E 0) v = (Ok n, v')"
        "on_unix v'"
        using start_modes [OF _ _ _ n, of v dir] v unix
        by (auto simp: empty_dir_def ready_dir_def on_unix_def content_def)
      with calls_run(1) [OF L(7,9) n, of dir] empty_represents [of v dir X] v
      show "\<exists>v'. load_or_generate X dir (bls_sk X T ''rotate/perm-old'') (random E 0) (clock E 0) v = (Ok n, v') \<and>
          on_unix v' \<and> represents X dir v' (Live n)"
        unfolding runs_def by fastforce
    qed
    have rot: "runs (\<lambda>v. on_unix v \<and> represents X dir v (Live n))
        (rotate_cert X dir (bls_sk X T ''rotate/perm-new'') (random E 1) (clock E 1)) \<lparr>previous = n, current = m\<rparr>
        (\<lambda>v. quiet v \<and> file_mode v (key_at dir) = Some mode_0600 \<and> file_mode v (prev_key_at dir) = Some mode_0600)" for dir
      unfolding runs_def
      using rotate_modes [OF _ _ _ _ _ _ m] by (fastforce simp: represents_simps no_previous_def)
    show ?thesis
      unfolding rotate_persists_both_keys_owner_only_def mode_loop.simps
      by (rule tempdir_test [OF tmp], rule runs_seq [OF runs_unwrap [OF first]], rule runs_seq [OF runs_unwrap [OF rot]],
          rule runs_seq [OF runs_unwrap [OF metadata_runs(2)]], rule runs_seq [OF runs_check], simp add: masked_modes,
          rule runs_weaken [OF runs_seq [OF runs_unwrap [OF metadata_runs(2)
            [where P = "\<lambda>_. True" and m = mode_0600]] runs_seq [OF runs_check runs_ret]]])
        (simp_all add: masked_modes)
  qed
qed

section \<open>Property\<close>

text \<open>
  C13. The unit tests of \<open>node_cert.rs\<close> pass. For all randomness that gives different key pairs, every
  steady clock at which certificates can be minted, every disk on which \<open>tempdir\<close> makes an empty
  directory and no call fails, on Unix and on Windows, and every instance of the other crates that
  satisfies the laws, no assertion, \<open>unwrap\<close> or \<open>expect\<close> of these tests fails: identities are stable
  across starts, rotations give new ones and keep the old, refusals come where they are expected, and
  the keys have mode 0600 in a directory with mode 0700.
\<close>

theorem node_cert_unit_tests_pass:
  assumes "crates_behave X T lo hi" and "draws_behave X T lo hi E" and "tempdir_fresh T w"
  shows "\<forall>t \<in> set (node_cert_tests X T E (wplatform w)). passes (fst (t w))"
  using diskless_tests_pass [OF assms(1,2)] identity_tests_on_disk_pass [OF assms]
    rotation_tests_on_disk_pass [OF assms] permission_tests_pass [OF assms]
  by (auto simp: node_cert_tests_def)

theorem node_cert_unit_tests_pass_witness:
  "passes (fst (rotate_twice_without_retiring_is_rejected bench bench_deps bench_draws (demo_world Unix []))) \<and>
   passes (fst (rotate_persists_both_keys_owner_only bench bench_deps bench_draws (demo_world Unix [])))"
proof -
  have "tempdir_fresh bench_deps (demo_world Unix [])"
    by (auto simp: tempdir_fresh_def bench_deps_def empty_dir_def demo_world_def quiet_def ready_dir_def plain_dir_def)
  from node_cert_unit_tests_pass [OF bench_behaves bench_draws_behave this] show ?thesis
    by (simp add: node_cert_tests_def demo_world_def)
qed

end
