(* ===== verification/Dig_Tests_Verify.thy ===== *)
theory Dig_Tests_Verify
  imports Dig_Tests_Leaf
begin

text \<open>
  The unit tests of \<open>verify.rs\<close>, as computations on the memory that holds the capture handles and the
  \<open>OnceLock\<close> of the CA certificate. Each passes for every memory whose \<open>OnceLock\<close> is empty or holds
  the shipped certificate and every instance of the other crates that satisfies the laws: the texts the
  tests look for in the errors are found in those the verifiers return.
\<close>

section \<open>Helpers\<close>

definition verify_bls_sk :: "crates \<Rightarrow> test_deps \<Rightarrow> string \<Rightarrow> opaque" where
  "verify_bls_sk X T label = sk_from_seed T (sha256_digest X (as_bytes label))"

text \<open>The parameters the three leaves of these tests share.\<close>

definition test_leaf_params :: "cert_params \<Rightarrow> string \<Rightarrow> cert_params" where
  "test_leaf_params params san = params\<lparr>
     distinguished_name := [(CommonName, ''peer.dig'')],
     subject_alt_names := [DnsName san],
     key_usages := [DigitalSignature],
     extended_key_usages := [ServerAuth, ClientAuth]\<rparr>"

definition unbound_dig_ca_leaf :: "crates \<Rightarrow> test_deps \<Rightarrow> bytes \<Rightarrow> (unit, bytes) outcome" where
  "unbound_dig_ca_leaf X T rnd =
     bind (unwrap (embedded X)) (\<lambda>ca.
     bind (unwrap_sum (keypair_generate_for X rnd PKCS_ECDSA_P256_SHA256)) (\<lambda>leaf_key.
     bind (unwrap_sum (params_new X [])) (\<lambda>params.
     bind (unwrap_sum (ia5string_try_from X ''peer.dig'')) (\<lambda>san.
     bind (unwrap_sum (params_signed_by X (test_leaf_params params san) leaf_key (ca_cert ca) (ca_key ca))) (\<lambda>cert.
     Ok (certificate_der T cert))))))"

definition self_signed_bound_leaf ::
  "crates \<Rightarrow> test_deps \<Rightarrow> bytes \<Rightarrow> string \<Rightarrow> (unit, bytes \<times> peer_id \<times> bytes) outcome" where
  "self_signed_bound_leaf X T rnd label =
     (let sk = verify_bls_sk X T label in
      bind (unwrap_sum (keypair_generate_for X rnd PKCS_ECDSA_P256_SHA256)) (\<lambda>leaf_key.
      bind (unwrap_sum (params_new X [])) (\<lambda>params.
      bind (unwrap_sum (ia5string_try_from X ''peer.dig'')) (\<lambda>san.
      bind (unwrap_sum (params_self_signed X (attach_binding X (test_leaf_params params san) leaf_key sk) leaf_key)) (\<lambda>cert.
      (let der = certificate_der T cert in
       bind (or_panic (peer_id_from_leaf_cert_der X der)) (\<lambda>peer_id.
       Ok (der, peer_id, public_key_bytes X sk))))))))"

definition self_signed_unbound_leaf :: "crates \<Rightarrow> test_deps \<Rightarrow> bytes \<Rightarrow> (unit, bytes \<times> peer_id) outcome" where
  "self_signed_unbound_leaf X T rnd =
     bind (unwrap_sum (keypair_generate_for X rnd PKCS_ECDSA_P256_SHA256)) (\<lambda>leaf_key.
     bind (unwrap_sum (params_new X [])) (\<lambda>params.
     bind (unwrap_sum (ia5string_try_from X ''peer.dig'')) (\<lambda>san.
     bind (unwrap_sum (params_self_signed X (test_leaf_params params san) leaf_key)) (\<lambda>cert.
     (let der = certificate_der T cert in
      bind (or_panic (peer_id_from_leaf_cert_der X der)) (\<lambda>peer_id.
      Ok (der, peer_id)))))))"

abbreviation mcheck :: "bool \<Rightarrow> memory test_on" where
  "mcheck b \<equiv> pure_act (assert_that b)"

text \<open>\<open>format!("{err}").contains(..)\<close>.\<close>

definition displays :: "test_deps \<Rightarrow> tls_error \<Rightarrow> string \<Rightarrow> bool" where
  "displays T err text = str_contains (display_tls_error T err) text"

text \<open>\<open>get\<close> panics or returns; \<open>after unwrap\<close> only gives it the error type of a test.\<close>

abbreviation get_peer :: "captured_peer_id \<Rightarrow> (memory, unit, peer_id option) action" where
  "get_peer p \<equiv> after unwrap (captured_peer_id_get p)"

abbreviation get_bls :: "captured_bls_pub \<Rightarrow> (memory, unit, bytes option) action" where
  "get_bls b \<equiv> after unwrap (captured_bls_pub_get b)"

section \<open>The tests\<close>

definition required_rejects_ca_signed_unbound_leaf :: "crates \<Rightarrow> test_deps \<Rightarrow> draws \<Rightarrow> memory test_on" where
  "required_rejects_ca_signed_unbound_leaf X T E =
     seq (pure_act (unbound_dig_ca_leaf X T (random E 0))) (\<lambda>leaf.
     seq captured_peer_id_default (\<lambda>p.
     seq captured_bls_pub_default (\<lambda>b.
     (let v = client_verifier_new X None p Required b in
      seq (after expect_err (verify_client_cert X v leaf [] (clock E 1))) (\<lambda>err.
      mcheck (displays T err ''BLS binding''))))))"

definition required_accepts_bound_leaf_and_captures_identity :: "crates \<Rightarrow> test_deps \<Rightarrow> draws \<Rightarrow> memory test_on" where
  "required_accepts_bound_leaf_and_captures_identity X T E =
     (let sk = verify_bls_sk X T ''verify/bound'' in
      seq (pure_act (unwrap (generate_signed X sk (random E 0) (clock E 0)))) (\<lambda>node.
      (let leaf = cert_der node in
       seq captured_peer_id_default (\<lambda>captured.
       seq captured_bls_pub_default (\<lambda>captured_bls.
       (let v = client_verifier_new X None captured Required captured_bls in
        seq (after unwrap (verify_client_cert X v leaf [] (clock E 1))) (\<lambda>_.
        seq (get_peer captured) (\<lambda>got.
        seq (mcheck (got = Some (node_peer_id node))) (\<lambda>_.
        seq (get_bls captured_bls) (\<lambda>got.
        mcheck (got = Some (public_key_bytes X sk))))))))))))"

definition spki_pinned_accepts_self_signed_leaf :: "crates \<Rightarrow> test_deps \<Rightarrow> draws \<Rightarrow> memory test_on" where
  "spki_pinned_accepts_self_signed_leaf X T E =
     seq (pure_act (self_signed_bound_leaf X T (random E 0) ''verify/spki-self-signed'')) (\<lambda>(leaf, peer_id, _).
     seq captured_peer_id_default (\<lambda>captured.
     seq captured_bls_pub_default (\<lambda>b.
     (let v = server_verifier_new_spki_pinned X None captured Opportunistic b in
      seq (pure_act (unwrap_sum (server_name_try_from T ''peer.dig''))) (\<lambda>name.
      seq (after unwrap (verify_server_cert X v leaf [] name [] (clock E 0))) (\<lambda>_.
      seq (get_peer captured) (\<lambda>got.
      seq (mcheck (got = Some peer_id)) (\<lambda>_.
      seq captured_peer_id_default (\<lambda>p.
      seq captured_bls_pub_default (\<lambda>b.
      (let ca_v = server_verifier_new X None p Opportunistic b in
       seq (after expect_err (verify_server_cert X ca_v leaf [] name [] (clock E 1))) (\<lambda>err.
       mcheck (displays T err ''DigNetwork CA'')))))))))))))"

definition spki_pinned_rejects_wrong_peer_id :: "crates \<Rightarrow> test_deps \<Rightarrow> draws \<Rightarrow> memory test_on" where
  "spki_pinned_rejects_wrong_peer_id X T E =
     seq (pure_act (self_signed_bound_leaf X T (random E 0) ''verify/spki-wrong-pin'')) (\<lambda>(leaf, _, _).
     (let wrong = from_bytes (replicate 32 0x22) in
      seq captured_peer_id_default (\<lambda>p.
      seq captured_bls_pub_default (\<lambda>b.
      (let v = server_verifier_new_spki_pinned X (Some wrong) p Opportunistic b in
       seq (pure_act (unwrap_sum (server_name_try_from T ''peer.dig''))) (\<lambda>name.
       seq (after expect_err (verify_server_cert X v leaf [] name [] (clock E 0))) (\<lambda>err.
       mcheck (displays T err ''peer_id mismatch''))))))))"

definition spki_pinned_live_case_unbound_self_signed_under_opportunistic ::
  "crates \<Rightarrow> test_deps \<Rightarrow> draws \<Rightarrow> memory test_on" where
  "spki_pinned_live_case_unbound_self_signed_under_opportunistic X T E =
     seq (pure_act (self_signed_unbound_leaf X T (random E 0))) (\<lambda>(leaf, peer_id).
     seq captured_peer_id_default (\<lambda>captured.
     seq captured_bls_pub_default (\<lambda>captured_bls.
     (let opp = client_verifier_new_spki_pinned X None captured Opportunistic captured_bls in
      seq (after unwrap (verify_client_cert X opp leaf [] (clock E 0))) (\<lambda>_.
      seq (get_peer captured) (\<lambda>got.
      seq (mcheck (got = Some peer_id)) (\<lambda>_.
      seq (get_bls captured_bls) (\<lambda>got.
      seq (mcheck (got = None)) (\<lambda>_.
      seq captured_peer_id_default (\<lambda>p.
      seq captured_bls_pub_default (\<lambda>b.
      (let req = client_verifier_new_spki_pinned X None p Required b in
       seq (after expect_err (verify_client_cert X req leaf [] (clock E 1))) (\<lambda>err.
       mcheck (displays T err ''BLS binding''))))))))))))))"

definition foreign_ca_leaf_fails_chain :: "crates \<Rightarrow> test_deps \<Rightarrow> draws \<Rightarrow> memory test_on" where
  "foreign_ca_leaf_fails_chain X T E =
     seq (pure_act (unwrap (generate_dig_ca X (random E 0) (clock E 0)))) (\<lambda>foreign.
     seq (pure_act (unwrap (ca_from_pem X (ca_cert_pem foreign) (ca_key_pem foreign)))) (\<lambda>foreign_ca.
     seq (pure_act (unwrap (generate_signed_by X foreign_ca (verify_bls_sk X T ''verify/foreign'') (random E 1) (clock E 1)))) (\<lambda>node.
     (let leaf = cert_der node in
      seq captured_peer_id_default (\<lambda>p.
      seq captured_bls_pub_default (\<lambda>b.
      (let v = server_verifier_new X None p Off b in
       seq (pure_act (unwrap_sum (server_name_try_from T ''peer.dig''))) (\<lambda>name.
       seq (after expect_err (verify_server_cert X v leaf [] name [] (clock E 2))) (\<lambda>err.
       mcheck (displays T err ''DigNetwork CA''))))))))))"

definition verify_tests :: "crates \<Rightarrow> test_deps \<Rightarrow> draws \<Rightarrow> memory test_on list" where
  "verify_tests X T E =
     [required_rejects_ca_signed_unbound_leaf X T E, required_accepts_bound_leaf_and_captures_identity X T E,
      spki_pinned_accepts_self_signed_leaf X T E, spki_pinned_rejects_wrong_peer_id X T E,
      spki_pinned_live_case_unbound_self_signed_under_opportunistic X T E, foreign_ca_leaf_fails_chain X T E]"

section \<open>The leaves of the tests\<close>

text \<open>What rcgen is given in these tests it takes.\<close>

lemma leaf_inputs:
  assumes "crates_behave X T lo hi" and "draws_behave X T lo hi E"
  shows "\<exists>k p san. keypair_generate_for X (random E 0) PKCS_ECDSA_P256_SHA256 = Inr k \<and> params_new X [] = Inr p \<and>
    ia5string_try_from X ''peer.dig'' = Inr san \<and> custom_extensions p = [] \<and> params_is_ca p = NoCa \<and> encodable X lo hi p \<and>
    not_before p = DEFAULT_NOT_BEFORE \<and> not_after p = DEFAULT_NOT_AFTER \<and>
    sha256_digest X (keypair_public_key_der X k) \<noteq> replicate 32 0x22 \<and>
    (\<forall>ca. embedded X = Ok ca \<longrightarrow> keypair_public_key_der X k \<noteq> keypair_public_key_der X (ca_key ca))"
proof -
  note L = crates_behave_laws [OF assms(1)]
  obtain k where k: "keypair_generate_for X (random E 0) PKCS_ECDSA_P256_SHA256 = Inr k"
    using L(6) unfolding rcgen_signs_def by blast
  obtain p where p: "params_new X [] = Inr p" "custom_extensions p = []" "params_is_ca p = NoCa" "encodable X lo hi p"
    using L(11) unfolding named_defaults_def by blast
  obtain san where "ia5string_try_from X ''peer.dig'' = Inr san"
    using L(6) unfolding rcgen_signs_def LEAF_SAN_def by blast
  moreover have "(0::nat) < 8" by simp
  then have "sha256_digest X (keypair_public_key_der X k) \<noteq> replicate 32 0x22"
    "\<forall>ca. embedded X = Ok ca \<longrightarrow> keypair_public_key_der X k \<noteq> keypair_public_key_der X (ca_key ca)"
    using assms(2) k unfolding draws_behave_def not_the_wrong_pin_def not_the_shipped_key_def by blast+
  moreover have "not_before p = DEFAULT_NOT_BEFORE \<and> not_after p = DEFAULT_NOT_AFTER"
    using L(24) p(1) unfolding default_validity_def by blast
  ultimately show ?thesis using k p by blast
qed

lemma default_clock:
  assumes "draws_behave X T lo hi E" and "i < 8"
  shows "DEFAULT_NOT_BEFORE \<le> clock E i" "clock E i \<le> DEFAULT_NOT_AFTER"
    "clock E 0 \<le> clock E i" "clock E i \<le> clock E 0 + 3600"
  using assms by (auto simp: draws_behave_def clock_steady_def)

lemma test_leaf_params_simps [simp]:
  "custom_extensions (test_leaf_params p san) = custom_extensions p"
  "not_before (test_leaf_params p san) = not_before p" "not_after (test_leaf_params p san) = not_after p"
  "extended_key_usages (test_leaf_params p san) = [ServerAuth, ClientAuth]"
  by (simp_all add: test_leaf_params_def)

text \<open>The test leaves are those of an end entity, and rcgen can encode them.\<close>

lemma test_leaf_ok:
  assumes "custom_extensions p = []" "params_is_ca p = NoCa" "encodable X lo hi p" "ia5string_try_from X ''peer.dig'' = Inr san"
  shows "leaf_profile (test_leaf_params p san)" "encodable X lo hi (test_leaf_params p san)"
    "leaf_profile (attach_binding X (test_leaf_params p san) k sk)"
    "encodable X lo hi (attach_binding X (test_leaf_params p san) k sk)"
  using assms binding_oid_private
  by (auto simp: leaf_profile_def encodable_def test_leaf_params_def attach_binding_def Let_def)

text \<open>A certificate without custom extension is not bound.\<close>

lemma unbound_absent:
  assumes "no_stray_extension X" and "custom_extensions p = []"
    and "params_self_signed X p k = Inr c \<or> params_signed_by X p k ic ik = Inr c"
    and "pemfile_certs X (as_bytes (certificate_pem X c)) = Inr der # rest" "parse_x509_certificate X der = Inr x"
  shows "verify_binding_from_leaf_cert X der = Absent"
proof -
  have "first_extension (dotted DIG_BLS_BINDING_OID) (x509_extensions x) = None"
    using assms binding_oid_private unfolding no_stray_extension_def by blast
  then show ?thesis using assms(5) by (auto simp: verify_binding_Absent_iff oid_forms_agree)
qed

lemma unbound_ca_leaf:
  assumes laws: "crates_behave X T lo hi" and draws: "draws_behave X T lo hi E" and "i < 8"
  shows "\<exists>der d. unbound_dig_ca_leaf X T (random E 0) = Ok der \<and> peer_id_from_leaf_cert_der X der = Some d \<and>
    verify_binding_from_leaf_cert X der = Absent \<and> chains X der [] (clock E i) u"
proof -
  note L = crates_behave_laws [OF laws]
  obtain k p san where kp: "keypair_generate_for X (random E 0) PKCS_ECDSA_P256_SHA256 = Inr k"
    "params_new X [] = Inr p" "ia5string_try_from X ''peer.dig'' = Inr san" "custom_extensions p = []"
    and prof: "params_is_ca p = NoCa" "encodable X lo hi p"
    and dates: "not_before p = DEFAULT_NOT_BEFORE" "not_after p = DEFAULT_NOT_AFTER"
    using leaf_inputs [OF laws draws] by blast
  obtain ca where ca: "embedded X = Ok ca" using shipped_ca_loads [OF L(6,16)] by blast
  let ?q = "test_leaf_params p san"
  note ok = test_leaf_ok [OF kp(4) prof kp(3)]
  obtain c where c: "params_signed_by X ?q k (ca_cert ca) (ca_key ca) = Inr c"
    using L(6) ok(2) unfolding rcgen_signs_def by blast
  then obtain der rest x where r: "pemfile_certs X (as_bytes (certificate_pem X c)) = Inr der # rest"
    "parse_x509_certificate X der = Inr x"
    using L(7) unfolding rcgen_reads_back_def reads_back_as_def by blast
  have "certificate_der T c = der" using L(14) r(1) unfolding der_of_pem_def by blast
  then have "unbound_dig_ca_leaf X T (random E 0) = Ok der"
    using kp ca c by (simp add: unbound_dig_ca_leaf_def)
  moreover have "verify_binding_from_leaf_cert X der = Absent"
    by (rule unbound_absent [OF L(13), of ?q]) (use kp c r in auto)
  moreover have "eku_of u \<in> set (extended_key_usages ?q)" by (cases u) (simp_all add: eku_of_def)
  then have "chains X der [] (clock E i) u"
    using L(18) ok(1) ca c r(1) kp dates default_clock(1,2) [OF draws assms(3)]
    unfolding webpki_accepts_signed_def chains_def by simp
  moreover have "peer_id_from_leaf_cert_der X der = Some (PeerId (sha256_digest X (subject_pki_raw x)))"
    using r(2) by (simp add: leaf_id_iff)
  ultimately show ?thesis by blast
qed

text \<open>A leaf the shipped CA has not signed: webpki says so, whatever the time and the usage.\<close>

definition foreign_leaf :: "crates \<Rightarrow> bytes \<Rightarrow> bool" where
  "foreign_leaf X der \<longleftrightarrow>
     (\<exists>ee. end_entity_try_from X der = Inr ee \<and>
        (\<forall>a t u. anchor_from_trusted_cert X (anchor X) = Inr a \<longrightarrow>
           (\<exists>e. verify_for_usage X ee CHAIN_SIG_ALGS [a] [] t u = Inl e)))"

lemma webpki_refuses:
  assumes "webpki_refuses_foreign X" and "leaf_profile p"
    and "params_signed_by X p k ic ik = Inr c \<or> ik = k \<and> params_self_signed X p k = Inr c"
    and "pemfile_certs X (as_bytes (certificate_pem X c)) = Inr der # rest"
  shows "\<exists>ee. end_entity_try_from X der = Inr ee \<and>
    (\<forall>ca a t u. embedded X = Ok ca \<longrightarrow> keypair_public_key_der X ik \<noteq> keypair_public_key_der X (ca_key ca) \<longrightarrow>
       anchor_from_trusted_cert X (anchor X) = Inr a \<longrightarrow>
       (\<exists>e. verify_for_usage X ee CHAIN_SIG_ALGS [a] [] t u = Inl e))"
  using assms(1) [unfolded webpki_refuses_foreign_def, rule_format, OF assms(2-4)] by blast

lemma self_signed_leaves:
  assumes laws: "crates_behave X T lo hi" and draws: "draws_behave X T lo hi E"
  shows "\<exists>der d. self_signed_bound_leaf X T (random E 0) l = Ok (der, d, public_key_bytes X (verify_bls_sk X T l)) \<and>
      peer_id_from_leaf_cert_der X der = Some d \<and> d \<noteq> from_bytes (replicate 32 0x22) \<and>
      verify_binding_from_leaf_cert X der = Bound (public_key_bytes X (verify_bls_sk X T l)) \<and> foreign_leaf X der"
    and "\<exists>der d. self_signed_unbound_leaf X T (random E 0) = Ok (der, d) \<and>
      peer_id_from_leaf_cert_der X der = Some d \<and> verify_binding_from_leaf_cert X der = Absent"
proof -
  note L = crates_behave_laws [OF laws]
  obtain k p san where kp: "keypair_generate_for X (random E 0) PKCS_ECDSA_P256_SHA256 = Inr k"
    "params_new X [] = Inr p" "ia5string_try_from X ''peer.dig'' = Inr san" "custom_extensions p = []"
    and prof: "params_is_ca p = NoCa" "encodable X lo hi p"
    and pin: "sha256_digest X (keypair_public_key_der X k) \<noteq> replicate 32 0x22"
    and own: "\<forall>ca. embedded X = Ok ca \<longrightarrow> keypair_public_key_der X k \<noteq> keypair_public_key_der X (ca_key ca)"
    using leaf_inputs [OF laws draws] by blast
  note ok = test_leaf_ok [OF kp(4) prof kp(3)]
  obtain ca where ca: "embedded X = Ok ca" using shipped_ca_loads [OF L(6,16)] by blast
  have id: "peer_id_from_leaf_cert_der X der = Some (PeerId (sha256_digest X (keypair_public_key_der X k)))"
    if "parse_x509_certificate X der = Inr x" "subject_pki_raw x = keypair_public_key_der X k" for der x
    using that by (simp add: leaf_id_iff)
  show "\<exists>der d. self_signed_bound_leaf X T (random E 0) l = Ok (der, d, public_key_bytes X (verify_bls_sk X T l)) \<and>
      peer_id_from_leaf_cert_der X der = Some d \<and> d \<noteq> from_bytes (replicate 32 0x22) \<and>
      verify_binding_from_leaf_cert X der = Bound (public_key_bytes X (verify_bls_sk X T l)) \<and> foreign_leaf X der"
  proof -
    let ?q = "attach_binding X (test_leaf_params p san) k (verify_bls_sk X T l)"
    obtain c der rest x where r: "params_self_signed X ?q k = Inr c" "self_sign X T ?q k = Ok der"
      "pemfile_certs X (as_bytes (certificate_pem X c)) = Inr der # rest" "parse_x509_certificate X der = Inr x"
      "subject_pki_raw x = keypair_public_key_der X k"
      using self_sign_reads [OF laws ok(4)] by blast
    have der: "certificate_der T c = der" using r(1,2) by (simp add: self_sign_def)
    have b: "reads_back_as X c ?q k" using L(8) r(1) by (simp add: self_signed_reads_back_def)
    have bound: "verify_binding_from_leaf_cert X der = Bound (public_key_bytes X (verify_bls_sk X T l))"
      by (rule attached_binding_bound [OF L(1,2) _ b _ r(3)])
        (simp_all add: kp(4) verify_bls_sk_def test_key_ok [OF laws])
    obtain ee where ee: "end_entity_try_from X der = Inr ee"
      and refused: "\<forall>ca a t u. embedded X = Ok ca \<longrightarrow> keypair_public_key_der X k \<noteq> keypair_public_key_der X (ca_key ca) \<longrightarrow>
              anchor_from_trusted_cert X (anchor X) = Inr a \<longrightarrow>
              (\<exists>e. verify_for_usage X ee CHAIN_SIG_ALGS [a] [] t u = Inl e)"
      using webpki_refuses [OF L(19) ok(3) disjI2 [OF conjI [OF refl r(1)]] r(3)] by blast
    have "foreign_leaf X der" unfolding foreign_leaf_def using ee refused ca own by blast
    with bound id [OF r(4,5)] pin kp r(1) der show ?thesis
      by (simp add: self_signed_bound_leaf_def Let_def from_bytes_def)
  qed
  show "\<exists>der d. self_signed_unbound_leaf X T (random E 0) = Ok (der, d) \<and>
      peer_id_from_leaf_cert_der X der = Some d \<and> verify_binding_from_leaf_cert X der = Absent"
  proof -
    let ?q = "test_leaf_params p san"
    obtain c der rest x where r: "params_self_signed X ?q k = Inr c" "self_sign X T ?q k = Ok der"
      "pemfile_certs X (as_bytes (certificate_pem X c)) = Inr der # rest" "parse_x509_certificate X der = Inr x"
      "subject_pki_raw x = keypair_public_key_der X k"
      using self_sign_reads [OF laws ok(2)] by blast
    have der: "certificate_der T c = der" using r(1,2) by (simp add: self_sign_def)
    have "verify_binding_from_leaf_cert X der = Absent"
      by (rule unbound_absent [OF L(13), of ?q]) (use kp(4) r in auto)
    with id [OF r(4,5)] kp r(1) der show ?thesis
      by (simp add: self_signed_unbound_leaf_def Let_def)
  qed
qed

section \<open>Decisions and their texts\<close>

declare captured_peer_id_get.simps [simp del] captured_bls_pub_get.simps [simp del]

text \<open>Two new handles.\<close>

lemma default_handles:
  "seq captured_peer_id_default (\<lambda>p. seq captured_bls_pub_default (\<lambda>b. f p b)) m =
     f (CapturedPeerId (pnext m)) (CapturedBlsPub (bnext m)) (with_new_handles m)"
  by (simp add: seq_def captured_peer_id_default_def captured_bls_pub_default_def with_new_handles_def)

text \<open>A trusted leaf is accepted and the handles tell its peer id and its bound key.\<close>

lemma accepts:
  assumes "healthy X p b m" and "chain_needed X usage der ims t" and "peer_id_from_leaf_cert_der X der = Some d"
    and "expected \<in> {None, Some d}" and "evaluate (verify_binding_from_leaf_cert X der) policy = Ok r" and "policy \<noteq> Off"
  shows "\<exists>m'. verify_peer X usage expected p policy b der ims t m = (Ok (), m') \<and> healthy X p b m' \<and>
    captured_peer_id_get p m' = (Ok (Some d), m') \<and>
    captured_bls_pub_get b m' =
      (Ok (case verify_binding_from_leaf_cert X der of Bound k \<Rightarrow> Some k | _ \<Rightarrow> None), m')"
proof -
  have "trusted X usage expected policy der ims t" using assms by (auto simp: trusted_iff)
  then obtain m' where run: "verify_peer X usage expected p policy b der ims t m = (Ok (), m')"
    using trusted_is_accepted [OF assms(1)] by blast
  have h: "healthy X p b m'" using peer.answers [OF assms(1) run] by simp
  then show ?thesis
    using run peer.accepted_is_seen [OF assms(1) run] peer.captures [OF assms(1) run] read_peer [OF h] read_bls [OF h]
      assms(3,6)
    by (intro exI [of _ m']) simp
qed

lemma refuses_binding:
  assumes "healthy X p b m" and "chain_needed X usage der ims t" and "peer_id_from_leaf_cert_der X der = Some d"
    and "evaluate (verify_binding_from_leaf_cert X der) policy = Err reason" and "policy \<noteq> Off"
  shows "\<exists>m'. verify_peer X usage None p policy b der ims t m =
    (Err (General (''peer '' @ hex_string (peer_bytes d) @ '' rejected by cert BLS binding policy: '' @ reason)), m')"
proof -
  obtain m1 where m1: "healthy X p b m1"
    "verify_peer X usage None p policy b der ims t m = seq (pin_and_bind X der None p policy b) (\<lambda>_. ret ()) m1"
    using verify_peer_cases [OF assms(1), of usage der ims t None policy] assms(2) by blast
  then have "\<not> mpoisoned (peer_cell p m1)" "\<not> mpoisoned (bls_cell b m1)" by (simp_all add: healthy_def)
  from pin_and_bind_eq [OF this, of X der None policy] assms(3-5) show ?thesis
    unfolding m1(2) by (simp add: seq_def)
qed

lemma refuses_pin:
  assumes "healthy X p b m" and "peer_id_from_leaf_cert_der X der = Some d" and "e \<noteq> d"
  shows "\<exists>m'. verify_peer X None (Some e) p policy b der ims t m =
    (Err (General (''peer_id mismatch: expected '' @ hex_string (peer_bytes e) @ '', got '' @
       hex_string (peer_bytes d))), m')"
proof -
  have "\<not> mpoisoned (peer_cell p m)" "\<not> mpoisoned (bls_cell b m)" using assms(1) by (simp_all add: healthy_def)
  from pin_and_bind_eq [OF this, of X der "Some e" policy] assms(2,3) show ?thesis
    by (simp add: verify_peer_def seq_def)
qed

lemma refuses_chain:
  assumes "healthy X p b m" and "foreign_leaf X der" and "anchor X \<noteq> []"
    and "anchor_from_trusted_cert X (anchor X) = Inr a"
  shows "\<exists>e m'. verify_peer X (Some u) expected p policy b der [] t m =
    (Err (General (''peer leaf does not chain to the DigNetwork CA: '' @ e)), m')"
proof -
  obtain ee e where "end_entity_try_from X der = Inr ee" "verify_for_usage X ee CHAIN_SIG_ALGS [a] [] t u = Inl e"
    using assms(2,4) unfolding foreign_leaf_def by blast
  moreover have "embedded_anchor X m = (Ok (anchor X), m\<lparr>ca_cell := Some (anchor X)\<rparr>)"
    using assms(1,3) by (simp add: embedded_anchor_def embedded_ca_cert_der_eq healthy_def)
  ultimately show ?thesis
    using assms(4) by (simp add: verify_peer_def verify_chain_to_dig_ca_def seq_def)
qed

lemma anchor_is_trusted:
  assumes "crates_behave X T lo hi" and "draws_behave X T lo hi E"
  shows "anchor X \<noteq> []" and "\<exists>a. anchor_from_trusted_cert X (anchor X) = Inr a"
  using crates_behave_laws(18) [OF assms(1)] unbound_ca_leaf [OF assms, of 0 UsageServerAuth]
  by (auto simp: webpki_accepts_signed_def chains_def)

text \<open>The texts the tests look for.\<close>

lemma shown_texts:
  assumes "displays_message T"
  shows "displays T (General (''peer '' @ h @ '' rejected by cert BLS binding policy: '' @ r)) ''BLS binding''"
    and "displays T (General (''peer_id mismatch: expected '' @ h @ g)) ''peer_id mismatch''"
    and "displays T (General (''peer leaf does not chain to the DigNetwork CA: '' @ e)) ''DigNetwork CA''"
proof -
  have mid: "displays T (General (a @ t @ b)) t" for a t b
  proof -
    have "sublist t (a @ t @ b)" by (auto simp: sublist_def)
    with assms show ?thesis
      unfolding displays_def str_contains_def displays_message_def by (meson sublist_order.order_trans)
  qed
  show "displays T (General (''peer '' @ h @ '' rejected by cert BLS binding policy: '' @ r)) ''BLS binding''"
    using mid [of "''peer '' @ h @ '' rejected by cert ''" "''BLS binding''" "'' policy: '' @ r"] by simp
  show "displays T (General (''peer_id mismatch: expected '' @ h @ g)) ''peer_id mismatch''"
    using mid [of "[]" "''peer_id mismatch''" "'': expected '' @ h @ g"] by simp
  show "displays T (General (''peer leaf does not chain to the DigNetwork CA: '' @ e)) ''DigNetwork CA''"
    using mid [of "''peer leaf does not chain to the ''" "''DigNetwork CA''" "'': '' @ e"] by simp
qed

lemmas verifier_defs =
  verify_server_cert_eq verify_client_cert_eq server_verifier_new_def server_verifier_new_spki_pinned_def
  client_verifier_new_def client_verifier_new_spki_pinned_def ca_usage_def

section \<open>The tests pass\<close>

lemma client_verifier_tests_pass:
  assumes laws: "crates_behave X T lo hi" and draws: "draws_behave X T lo hi E" and cell: "anchor_cell_ok X (ca_cell m)"
  shows "passes (fst (required_rejects_ca_signed_unbound_leaf X T E m))"
    "passes (fst (required_accepts_bound_leaf_and_captures_identity X T E m))"
    "passes (fst (spki_pinned_live_case_unbound_self_signed_under_opportunistic X T E m))"
proof -
  note L = crates_behave_laws [OF laws]
  note new = new_handles_healthy(1) [OF cell]
  show "passes (fst (required_rejects_ca_signed_unbound_leaf X T E m))"
  proof -
    obtain der d where l: "unbound_dig_ca_leaf X T (random E 0) = Ok der" "peer_id_from_leaf_cert_der X der = Some d"
      "verify_binding_from_leaf_cert X der = Absent" "chains X der [] (clock E 1) UsageClientAuth"
      using unbound_ca_leaf [OF laws draws, of 1 UsageClientAuth] by auto
    have c: "chain_needed X (Some UsageClientAuth) der [] (clock E 1)" using l(4) by (simp add: chain_needed_def)
    obtain m' where "verify_peer X (Some UsageClientAuth) None (CapturedPeerId (pnext m)) Required (CapturedBlsPub (bnext m))
        der [] (clock E 1) (with_new_handles m) = (Err (General (''peer '' @ hex_string (peer_bytes d) @
          '' rejected by cert BLS binding policy: '' @ ''cert BLS binding required but absent (possible downgrade)'')), m')"
      using refuses_binding [OF new c l(2), of Required] l(3) by auto
    then show ?thesis
      using l(1) shown_texts(1) [OF L(20)]
      by (simp add: required_rejects_ca_signed_unbound_leaf_def seq_pure default_handles verifier_defs seq_after passes_def)
  qed
  show "passes (fst (required_accepts_bound_leaf_and_captures_identity X T E m))"
  proof -
    let ?sk = "verify_bls_sk X T ''verify/bound''"
    obtain n where n: "generate_signed X ?sk (random E 0) (clock E 0) = Ok n"
      using test_mints(2) [OF laws draws, of 0] by auto
    have t: "clock E 0 - 3600 \<le> clock E 1" "clock E 1 \<le> clock E 0 + 3650 * 86400"
      using default_clock(3,4) [OF draws, of 1] by simp_all
    obtain m' where "verify_peer X (Some UsageClientAuth) None (CapturedPeerId (pnext m)) Required (CapturedBlsPub (bnext m))
        (cert_der n) [] (clock E 1) (with_new_handles m) = (Ok (), m')"
      "captured_peer_id_get (CapturedPeerId (pnext m)) m' = (Ok (Some (node_peer_id n)), m')"
      "captured_bls_pub_get (CapturedBlsPub (bnext m)) m' = (Ok (Some (public_key_bytes X ?sk)), m')"
      using minted_accepted [OF L(23) _ n t _ new, where expected = None and policy = Required and usage = "Some UsageClientAuth"]
        test_key_ok [OF laws]
      by (auto simp: verify_bls_sk_def)
    then show ?thesis
      using n
      by (simp add: required_accepts_bound_leaf_and_captures_identity_def Let_def seq_pure default_handles verifier_defs
          seq_after passes_def)
  qed
  show "passes (fst (spki_pinned_live_case_unbound_self_signed_under_opportunistic X T E m))"
  proof -
    obtain der d where l: "self_signed_unbound_leaf X T (random E 0) = Ok (der, d)"
      "peer_id_from_leaf_cert_der X der = Some d" "verify_binding_from_leaf_cert X der = Absent"
      using self_signed_leaves(2) [OF laws draws] by blast
    have c: "chain_needed X None der [] t" for t by (simp add: chain_needed_def)
    obtain m1 where m1: "verify_peer X None None (CapturedPeerId (pnext m)) Opportunistic (CapturedBlsPub (bnext m))
        der [] (clock E 0) (with_new_handles m) = (Ok (), m1)"
      "healthy X (CapturedPeerId (pnext m)) (CapturedBlsPub (bnext m)) m1"
      "captured_peer_id_get (CapturedPeerId (pnext m)) m1 = (Ok (Some d), m1)"
      "captured_bls_pub_get (CapturedBlsPub (bnext m)) m1 = (Ok None, m1)"
      using accepts [OF new c l(2), of None Opportunistic] l(3) by auto
    have "anchor_cell_ok X (ca_cell m1)" using m1(2) by (simp add: healthy_def)
    note new1 = new_handles_healthy(1) [OF this]
    obtain m2 where "verify_peer X None None (CapturedPeerId (pnext m1)) Required (CapturedBlsPub (bnext m1))
        der [] (clock E 1) (with_new_handles m1) = (Err (General (''peer '' @ hex_string (peer_bytes d) @
          '' rejected by cert BLS binding policy: '' @ ''cert BLS binding required but absent (possible downgrade)'')), m2)"
      using refuses_binding [OF new1 c l(2), of Required] l(3) by auto
    then show ?thesis
      using l(1) m1 shown_texts(1) [OF L(20)]
      by (simp add: spki_pinned_live_case_unbound_self_signed_under_opportunistic_def Let_def seq_pure default_handles
          verifier_defs seq_after passes_def)
  qed
qed

lemma server_name_ok:
  "crates_behave X T lo hi \<Longrightarrow> \<exists>n. (unwrap_sum (server_name_try_from T ''peer.dig'') :: (unit, string) outcome) = Ok n"
  unfolding crates_behave_def by (metis unwrap_sum_simps(1))

lemma server_verifier_tests_pass:
  assumes laws: "crates_behave X T lo hi" and draws: "draws_behave X T lo hi E" and cell: "anchor_cell_ok X (ca_cell m)"
  shows "passes (fst (spki_pinned_accepts_self_signed_leaf X T E m))"
    "passes (fst (spki_pinned_rejects_wrong_peer_id X T E m))"
    "passes (fst (foreign_ca_leaf_fails_chain X T E m))"
proof -
  note L = crates_behave_laws [OF laws]
  note new = new_handles_healthy(1) [OF cell]
  obtain name where name: "(unwrap_sum (server_name_try_from T ''peer.dig'') :: (unit, string) outcome) = Ok name"
    using server_name_ok [OF laws] by blast
  note an = anchor_is_trusted(1) [OF laws draws]
  obtain a where a: "anchor_from_trusted_cert X (anchor X) = Inr a" using anchor_is_trusted(2) [OF laws draws] by blast
  show "passes (fst (spki_pinned_accepts_self_signed_leaf X T E m))"
  proof -
    let ?sk = "verify_bls_sk X T ''verify/spki-self-signed''"
    obtain der d where l: "self_signed_bound_leaf X T (random E 0) ''verify/spki-self-signed'' = Ok (der, d, public_key_bytes X ?sk)"
      "peer_id_from_leaf_cert_der X der = Some d" "verify_binding_from_leaf_cert X der = Bound (public_key_bytes X ?sk)"
      "foreign_leaf X der"
      using self_signed_leaves(1) [OF laws draws] by blast
    have c: "chain_needed X None der [] t" for t by (simp add: chain_needed_def)
    obtain m1 where m1: "verify_peer X None None (CapturedPeerId (pnext m)) Opportunistic (CapturedBlsPub (bnext m))
        der [] (clock E 0) (with_new_handles m) = (Ok (), m1)"
      "healthy X (CapturedPeerId (pnext m)) (CapturedBlsPub (bnext m)) m1"
      "captured_peer_id_get (CapturedPeerId (pnext m)) m1 = (Ok (Some d), m1)"
      using accepts [OF new c l(2), of None Opportunistic] l(3) by auto
    have "anchor_cell_ok X (ca_cell m1)" using m1(2) by (simp add: healthy_def)
    note new1 = new_handles_healthy(1) [OF this]
    obtain e m2 where "verify_peer X (Some UsageServerAuth) None (CapturedPeerId (pnext m1)) Opportunistic
        (CapturedBlsPub (bnext m1)) der [] (clock E 1) (with_new_handles m1) =
        (Err (General (''peer leaf does not chain to the DigNetwork CA: '' @ e)), m2)"
      using refuses_chain [OF new1 l(4) an a] by metis
    then show ?thesis
      using l(1) m1 name shown_texts(3) [OF L(20)]
      by (simp add: spki_pinned_accepts_self_signed_leaf_def Let_def seq_pure default_handles
          verifier_defs seq_after passes_def)
  qed
  show "passes (fst (spki_pinned_rejects_wrong_peer_id X T E m))"
  proof -
    let ?wrong = "from_bytes (replicate 32 0x22)"
    obtain der d pub where l: "self_signed_bound_leaf X T (random E 0) ''verify/spki-wrong-pin'' = Ok (der, d, pub)"
      "peer_id_from_leaf_cert_der X der = Some d" "d \<noteq> ?wrong"
      using self_signed_leaves(1) [OF laws draws] by blast
    obtain m1 where "verify_peer X None (Some ?wrong) (CapturedPeerId (pnext m)) Opportunistic (CapturedBlsPub (bnext m))
        der [] (clock E 0) (with_new_handles m) =
        (Err (General (''peer_id mismatch: expected '' @ hex_string (peer_bytes ?wrong) @ '', got '' @
          hex_string (peer_bytes d))), m1)"
      using refuses_pin [OF new l(2)] l(3) by metis
    then show ?thesis
      using l(1) name shown_texts(2) [OF L(20)]
      by (simp add: spki_pinned_rejects_wrong_peer_id_def Let_def seq_pure default_handles verifier_defs
          seq_after passes_def)
  qed
  show "passes (fst (foreign_ca_leaf_fails_chain X T E m))"
  proof -
    obtain f where f: "generate_dig_ca X (random E 0) (clock E 0) = Ok f"
      using test_mints(3) [OF laws draws, of 0] by auto
    obtain ca where c1: "ca_from_pem X (ca_cert_pem f) (ca_key_pem f) = Ok ca"
      using minted_ca_loads [OF L(22,9,10) f] by blast
    obtain k where k: "keypair_generate_for X (random E 0) PKCS_ECDSA_P256_SHA256 = Inr k"
      "ca_key_pem f = keypair_serialize_pem X k"
      using f by (auto simp: generate_dig_ca_Ok)
    have "ca_key ca = k" using c1 k(2) L(9) by (simp add: ca_from_pem_Ok keypair_round_trip_def)
    note ca = c1 k(1) this
    obtain n where n: "generate_signed_by X ca (verify_bls_sk X T ''verify/foreign'') (random E 1) (clock E 1) = Ok n"
      using test_mints(1) [OF laws draws, of 1 ca "verify_bls_sk X T ''verify/foreign''" "random E 1"] by auto
    obtain params nb na san key c where p: "params_new X [] = Inr params"
      and q: "params_signed_by X (attach_binding X (leaf_params params nb na san) key
          (verify_bls_sk X T ''verify/foreign'')) key (ca_cert ca) (ca_key ca) = Inr c"
      "from_parts X (certificate_pem X c) (keypair_serialize_pem X key) key = Ok n"
      using n by (auto simp: generate_signed_by_Ok)
    have prof: "leaf_profile (attach_binding X (leaf_params params nb na san) key (verify_bls_sk X T ''verify/foreign''))"
      using L(21) p by (rule minted_profile)
    have "first_pem_cert X (certificate_pem X c) = Some (cert_der n)" using q(2) by (auto simp: from_parts_Ok)
    then obtain rest where r: "pemfile_certs X (as_bytes (certificate_pem X c)) = Inr (cert_der n) # rest"
      by (auto simp: first_pem_cert_def split: list.splits sum.splits)
    obtain own where own: "embedded X = Ok own" using shipped_ca_loads [OF L(6,16)] by blast
    have "not_the_shipped_key X (\<lambda>r. keypair_generate_for X r PKCS_ECDSA_P256_SHA256) E"
      using draws by (simp add: draws_behave_def)
    from this [unfolded not_the_shipped_key_def, rule_format, OF _ ca(2) own]
    have other: "keypair_public_key_der X (ca_key ca) \<noteq> keypair_public_key_der X (ca_key own)" by (simp add: ca(3))
    obtain ee where "end_entity_try_from X (cert_der n) = Inr ee"
      "\<forall>ca' a t u. embedded X = Ok ca' \<longrightarrow> keypair_public_key_der X (ca_key ca) \<noteq> keypair_public_key_der X (ca_key ca') \<longrightarrow>
              anchor_from_trusted_cert X (anchor X) = Inr a \<longrightarrow>
              (\<exists>e. verify_for_usage X ee CHAIN_SIG_ALGS [a] [] t u = Inl e)"
      using webpki_refuses [OF L(19) prof disjI1 [OF q(1)] r] by blast
    with own other have foreign: "foreign_leaf X (cert_der n)" unfolding foreign_leaf_def by blast
    obtain e m1 where "verify_peer X (Some UsageServerAuth) None (CapturedPeerId (pnext m)) Off
        (CapturedBlsPub (bnext m)) (cert_der n) [] (clock E 2) (with_new_handles m) =
        (Err (General (''peer leaf does not chain to the DigNetwork CA: '' @ e)), m1)"
      using refuses_chain [OF new foreign an a] by metis
    then show ?thesis
      using f ca(1) n name shown_texts(3) [OF L(20)]
      by (simp add: foreign_ca_leaf_fails_chain_def Let_def seq_pure default_handles verifier_defs seq_after passes_def)
  qed
qed

section \<open>Property\<close>

text \<open>
  C14. The unit tests of \<open>verify.rs\<close> pass, from every memory whose \<open>OnceLock\<close> is empty or holds the
  shipped certificate: a bound leaf of the shipped CA is accepted under \<open>Required\<close> with its peer id and
  BLS key in the handles, an unbound one is refused for the binding; a self-signed leaf is accepted by the
  SPKI-pinned verifiers, refused by the CA ones and, under a wrong pin, by the pinned ones; a leaf of
  another CA is refused under every policy; and each refusal carries the text the test looks for.
\<close>

theorem verify_unit_tests_pass:
  assumes "crates_behave X T lo hi" and "draws_behave X T lo hi E" and "anchor_cell_ok X (ca_cell m)"
  shows "\<forall>t \<in> set (verify_tests X T E). passes (fst (t m))"
  using client_verifier_tests_pass [OF assms] server_verifier_tests_pass [OF assms]
  by (simp add: verify_tests_def)

theorem verify_unit_tests_pass_witness:
  "passes (fst (spki_pinned_accepts_self_signed_leaf bench bench_deps bench_draws demo_memory)) \<and>
   passes (fst (foreign_ca_leaf_fails_chain bench bench_deps bench_draws demo_memory))"
proof -
  have "anchor_cell_ok bench (ca_cell demo_memory)" by (simp add: anchor_cell_ok_def demo_memory_def)
  from verify_unit_tests_pass [OF bench_behaves bench_draws_behave this] show ?thesis
    by (simp add: verify_tests_def)
qed

end
