(* ===== verification/Spec2Isabelle.thy ===== *)
theory Spec2Isabelle
  imports Dig_Lifecycle Dig_History Dig_Spec Dig_Dates Dig_Generate Dig_Race Dig_Config Dig_Network
    Dig_Tests_Bls Dig_Tests_Leaf Dig_Tests_Node Dig_Tests_Verify
begin

text \<open>
  dig-tls, the mutual-TLS identity of DIG peers, as HOL definitions translated from its Rust source,
  with the theorems that make it correct.

  The program. A peer's identity is a leaf certificate signed by a public CA that ships with the
  crate; its peer id is the digest of the leaf's public key, and an extension of the leaf binds the
  peer's BLS key to that public key. \<open>node_cert.rs\<close> mints the leaf, keeps it in a directory and
  rotates it; \<open>config.rs\<close> turns it into rustls configurations whose verifiers (\<open>verify.rs\<close>) check
  the other side's leaf (chain to the CA, pinned peer id, binding) and record who it is in shared
  handles.

  The theories, in the order of their imports, and the files they model:
    \<^item> \<open>Dig_Prelude\<close>: bytes, UTF-8, outcomes (\<open>Ok\<close>, \<open>Err\<close>, \<open>Panicked\<close>, \<open>Crashed\<close>), actions on a
      state with \<open>seq\<close>, and \<open>triple\<close>, the rule for what an action leaves when it returns and when it
      does not; the locales \<open>codec\<close> and \<open>strict_codec\<close>.
    \<^item> \<open>Dig_Crates\<close>: the record \<open>crates\<close> of the functions of rcgen, rustls, webpki, x509-parser, blst,
      chia-bls, sha2 and time that the source calls. They are arguments of everything that uses
      them; the laws the theorems assume of them are named definitions (\<open>bls_correct\<close>,
      \<open>keypair_round_trip\<close>, \<open>rcgen_reads_back\<close> and others), restricted to the inputs for which the
      crates document them: BLS keys that are not zero (\<open>bls_key_ok\<close>), end-entity leaves with
      private extensions (\<open>leaf_profile\<close>), dates a certificate can encode (\<open>encodable\<close>). \<open>Dig_Demo\<close>
      is one concrete instance that satisfies the laws; the witnesses run on it.
    \<^item> \<open>Dig_Error\<close> (\<open>error.rs\<close>), \<open>Dig_Bls\<close> (\<open>bls.rs\<close>), \<open>Dig_Identity\<close> (\<open>identity.rs\<close>),
      \<open>Dig_Binding\<close> (\<open>binding.rs\<close>), \<open>Dig_Ca\<close> (\<open>ca.rs\<close>): one definition per function, type and constant.
    \<^item> \<open>Dig_NodeCert\<close>: the functions of \<open>node_cert.rs\<close> that touch no disk; \<open>Dig_Fs\<close>: an explicit file
      system with permission bits, failures, crashes and recovery; \<open>Dig_Persist\<close>: the file primitives
      of \<open>node_cert.rs\<close> in their Unix and Windows variants, and the locale \<open>slot_store\<close> they provide;
      \<open>Dig_Store\<close>: \<open>load_or_generate\<close>, \<open>rotate\<close> (\<open>rotate_cert\<close> here), \<open>load_previous\<close>,
      \<open>retire_previous\<close>; \<open>Dig_Lifecycle\<close>: the properties of sequences of them, with failures and
      crashes; \<open>Dig_History\<close>: any number of process runs with crashes between and in the calls;
      \<open>Dig_Spec\<close>: the abstract machine of three states they refine; \<open>Dig_Dates\<close>: the times at which
      certificates can be minted, with the two ranges, of \<open>OffsetDateTime\<close> and of encodable dates.
    \<^item> \<open>Dig_Generate\<close>: \<open>examples/generate_ca.rs\<close>.
    \<^item> \<open>Dig_Verify\<close> (\<open>verify.rs\<close>): the handles as addresses of shared cells with their poison flags, the
      chain check, pin and bind, both verifiers; the locale \<open>peer_verifier\<close> is their contract.
      \<open>Dig_Race\<close>: concurrent connections of one configuration, interleaved at their accesses to the
      handles. \<open>Dig_Config\<close> (\<open>config.rs\<close>): the four configurations; the locale \<open>handle_heap\<close> is the
      contract of the allocation of handles. \<open>Dig_Network\<close>: what a minted leaf is to the verifiers.
    \<^item> The unit tests of the crate, one definition per test, in which an assertion that fails, an
      \<open>unwrap\<close> and an \<open>expect\<close> panic: \<open>Dig_Tests_Bls\<close> (\<open>bls.rs\<close>, with the golden vectors),
      \<open>Dig_Tests_Leaf\<close> (\<open>identity.rs\<close>, \<open>binding.rs\<close>, \<open>ca.rs\<close>), \<open>Dig_Tests_Node\<close> (\<open>node_cert.rs\<close>) and
      \<open>Dig_Tests_Verify\<close> (\<open>verify.rs\<close>). \<open>Dig_Testing\<close> has the vocabulary of tests, the functions only they
      call (record \<open>test_deps\<close>), the randomness and clock readings of a run (record \<open>draws\<close>) and the
      laws assumed of them (\<open>crates_behave\<close>, \<open>draws_behave\<close>); \<open>Dig_Bench\<close> is one concrete instance
      that satisfies them.
    \<^item> This theory: what spans components, a handshake of two minted nodes and one after a rotation.

  The state. Functions without state return an \<open>outcome\<close>. Those on disk are actions on \<open>world\<close>, those
  on handles actions on \<open>memory\<close>, which also holds the \<open>OnceLock\<close> of the CA certificate. Randomness,
  the time and the manifest directory are arguments. A NodeCert is the record \<open>node_cert\<close> of its
  six fields; the accessors of the source are the record's selectors.

  Failures and crashes. Each call of the file system consults the plan of the world: it proceeds,
  fails with an error, or is where the machine stops, and a failing or stopped write may have
  transferred part of its bytes. A theorem for every plan covers every failure and every crash point
  of every call. \<open>recover\<close> gives, for any choice of the environment, what is found after a crash: of
  each path the last or the flushed entry, with arbitrary bytes where they were not flushed. There is
  no fuel: every loop of the source is structural recursion.

  What is shown.
    \<^item> Identity and binding: hex printing and parsing, the extension value as an exact codec, the exact
      condition under which a leaf is bound, the policies and their order, anti-substitution as long as
      no signature in circulation is a forgery for the key.
    \<^item> Certificates: what minting signs and that its result is well formed; \<open>from_pem\<close> accepts exactly
      the well-formed certificates with the given texts; mismatched pairs are refused; the times at
      which minting returns, and those at which it panics.
    \<^item> Disk, without faults: the store refines the three-state machine for every sequence of calls;
      the life of a rotation. With faults: atomicity of a write, an interrupted first start is
      recoverable, a rotation never loses the old identity, nor does any history of runs, rotations,
      retirements and crashes, the keys stay owner-only at every moment. Limits of the code: an interrupted rotation leaves a pair that does
      not load, and retiring as its error says then destroys the last copy; a failed existence check
      replaces the identity; a retired key may return; a left-over wide staging file exposes the key.
      On Windows, with faults: a write never tears its target, but a stop in the middle of the
      remove-then-rename fallback leaves it absent, and the next start mints another identity.
      The other properties with crashes are of Unix.
    \<^item> Handshakes: the exact acceptance condition of both verifiers and of the four configurations,
      authentication by a pin, no downgrade from \<open>Required\<close>, what the handles hold after acceptance and
      refusal, that two configurations do not interfere; for concurrent connections, that no
      interleaving accepts an untrusted peer or panics, that in every run, however long and with however
      many others, a connection that keeps getting turns reaches the right verdict, and that the two
      handles can describe two different peers. After a rotation, who accepts which leaf.
    \<^item> Unit tests: every test passes, for every instance of the other crates that satisfies the laws on
      the inputs the tests use, all randomness that gives different keys and every steady clock; those
      on disk on a disk without faults, on Unix and Windows. Those of \<open>node_cert.rs\<close> and \<open>verify.rs\<close>
      are properties, the others lemmas. Of the golden vectors it is shown that they decode and how
      the two tests on them hang together; whether chia-bls produces these bytes is not decidable
      from the repository.

  Not modelled: \<open>lib.rs\<close> (module list and re-exports); the integration tests, which
  run handshakes of rustls over tokio sockets; the \<open>icacls\<close>
  call of the Windows \<open>write_key_file\<close>, whose result the code ignores; zeroization, which no value
  depends on; the internals of the crates, which are not in the repository: rustls' handshake, its
  check of the handshake signature (the methods hand it to \<open>rustls_verify_tls12\<close> and
  \<open>rustls_verify_tls13\<close>), path building in webpki. Links, other processes working in the directory,
  and the durability of a newly created directory are outside the file system model. Waiting for a
  mutex is not modelled: a lock is held for one statement with no other lock under it, so an access is
  atomic, and that a waiting thread gets its turn is the scheduler's part. Strings are the
  sequences of their UTF-8 bytes; the texts of errors of other crates are arguments.
\<close>

section \<open>Minted nodes in a handshake\<close>



section \<open>A rotation in a handshake\<close>





end
